(* ===== verification/Prelude.thy ===== *)
theory Prelude
  imports Main "HOL-Library.Word" "HOL-Library.State_Monad"
begin

text \<open>
  Shared vocabulary of the development: bytes and C buffers, the integer limits the code tests
  against, programs that run against an unknown environment, and the two modalities in which the
  properties of such programs are stated.

  A program of type \<open>('w, 'a) prog\<close> reads and changes a state of the unknown type \<open>'w\<close> (the
  entropy pool, the allocator, the error queue, the clock: everything a library call may depend
  on) and returns a value. Nothing is assumed of \<open>'w\<close>, so a theorem about a program holds
  whatever the libraries do between two calls.
\<close>

unbundle bit_operations_syntax

section \<open>Bytes, buffers and integer limits\<close>

type_synonym byte = "8 word"
type_synonym bytes = "byte list"
type_synonym ('w, 'a) prog = "('w, 'a) state"

text \<open>The bytes of a C string literal, without its terminating zero.\<close>

definition ascii :: "string \<Rightarrow> bytes" where
  "ascii s = map of_char s"

text \<open>
  A pair of a C pointer and a length: either the null pointer with a claimed length, or a pointer
  to exactly the bytes listed.
\<close>

datatype buf = Null nat | Buf bytes

fun buf_len :: "buf \<Rightarrow> nat" where
  "buf_len (Null n) = n"
| "buf_len (Buf bs) = length bs"

fun buf_null :: "buf \<Rightarrow> bool" where
  "buf_null (Null n) = True"
| "buf_null (Buf bs) = False"

fun buf_bytes :: "buf \<Rightarrow> bytes" where
  "buf_bytes (Null n) = []"
| "buf_bytes (Buf bs) = bs"

text \<open>The guard \<open>p == NULL && len != 0\<close> of the wrappers.\<close>

definition dangling :: "buf \<Rightarrow> bool" where
  "dangling b \<longleftrightarrow> buf_null b \<and> buf_len b \<noteq> 0"

text \<open>Writing \<open>bs\<close> at the start of an array, and zeroing its first \<open>n\<close> bytes.\<close>

definition overwrite :: "bytes \<Rightarrow> bytes \<Rightarrow> bytes" where
  "overwrite arr bs = bs @ drop (length bs) arr"

definition cleanse :: "nat \<Rightarrow> bytes \<Rightarrow> bytes" where
  "cleanse n arr = overwrite arr (replicate n 0)"

text \<open>An array of \<open>n\<close> bytes, zero at first, into which a callee wrote \<open>bs\<close>.\<close>

definition filled :: "nat \<Rightarrow> bytes \<Rightarrow> bytes" where
  "filled n bs = take n (overwrite (replicate n 0) bs)"

definition SIZE_MAX :: nat where "SIZE_MAX = 18446744073709551615"
definition LONG_MAX :: nat where "LONG_MAX = 9223372036854775807"
definition INT_MAX :: nat where "INT_MAX = 2147483647"

lemma length_ascii [simp]: "length (ascii s) = length s"
  by (simp add: ascii_def)

lemma length_filled [simp]: "length (filled n bs) = n"
  by (simp add: filled_def overwrite_def)

lemma filled_exact [simp]: "length bs = n \<Longrightarrow> filled n bs = bs"
  by (simp add: filled_def overwrite_def)

lemma take_overwrite [simp]: "take (length bs) (overwrite arr bs) = bs"
  by (simp add: overwrite_def)

lemma take_cleanse [simp]: "take n (cleanse n arr) = replicate n 0"
  by (simp add: cleanse_def overwrite_def)

lemma dangling_simps [simp]:
  "dangling (Buf bs) = False"
  "dangling (Null n) = (n \<noteq> 0)"
  by (simp_all add: dangling_def)

lemma buf_len_bytes: "\<not> dangling b \<Longrightarrow> buf_len b = length (buf_bytes b)"
  by (cases b) auto

section \<open>Control flow of the C code\<close>

text \<open>
  \<open>attempt m f\<close> is \<open>if (!m(&x)) goto error; f(x)\<close>; \<open>ensure m k\<close> is \<open>if (!m()) goto error; k\<close>;
  \<open>both m k\<close> is the short-circuit conjunction \<open>m() && k()\<close>, and \<open>yes\<close>, \<open>no\<close>, \<open>fail\<close> and \<open>done_with\<close>
  are the returns.
\<close>

abbreviation give :: "'a \<Rightarrow> ('w, 'a) prog" where
  "give \<equiv> State_Monad.return"

abbreviation fail :: "('w, 'a option) prog" where
  "fail \<equiv> give None"

abbreviation done_with :: "'a \<Rightarrow> ('w, 'a option) prog" where
  "done_with x \<equiv> give (Some x)"

definition attempt :: "('w, 'a option) prog \<Rightarrow> ('a \<Rightarrow> ('w, 'b option) prog) \<Rightarrow> ('w, 'b option) prog" where
  "attempt m f = do { r \<leftarrow> m; case r of None \<Rightarrow> fail | Some x \<Rightarrow> f x }"

definition ensure :: "('w, bool) prog \<Rightarrow> ('w, 'b option) prog \<Rightarrow> ('w, 'b option) prog" where
  "ensure m k = do { b \<leftarrow> m; if b then k else fail }"

definition both :: "('w, bool) prog \<Rightarrow> ('w, bool) prog \<Rightarrow> ('w, bool) prog" where
  "both m k = do { b \<leftarrow> m; if b then k else give False }"

text \<open>Library calls that report success by a positive return code.\<close>

definition positive :: "('w, int) prog \<Rightarrow> ('w, bool) prog" where
  "positive m = do { r \<leftarrow> m; give (0 < r) }"

definition run :: "('w, 'a) prog \<Rightarrow> 'w \<Rightarrow> 'a" where
  "run m w = fst (run_state m w)"

section \<open>What a program may and must return\<close>

definition outcome :: "('w, 'a) prog \<Rightarrow> 'a \<Rightarrow> bool" where
  "outcome m a \<longleftrightarrow> (\<exists>w. run m w = a)"

definition always :: "('w, 'a) prog \<Rightarrow> 'a \<Rightarrow> bool" where
  "always m a \<longleftrightarrow> (\<forall>w. run m w = a)"

definition steady :: "('w, 'a) prog \<Rightarrow> bool" where
  "steady m \<longleftrightarrow> (\<exists>a. always m a)"

named_theorems outcome_elims "which results a program may return, as elimination rules"
named_theorems always_intros "programs whose result does not depend on the environment"

lemma run_outcome: "run m w = a \<Longrightarrow> outcome m a"
  by (auto simp: outcome_def)

lemma outcome_run [intro, simp]: "outcome m (run m w)"
  by (auto simp: outcome_def)

lemma always_run: "always m a \<Longrightarrow> run m w = a"
  by (auto simp: always_def)

lemma always_outcome: "always m a \<Longrightarrow> outcome m b \<Longrightarrow> b = a"
  by (auto simp: always_def outcome_def)

lemma outcome_of_always: "always m a \<Longrightarrow> outcome m a"
  by (auto simp: always_def outcome_def)

lemma steady_outcome: "steady m \<Longrightarrow> outcome m a \<Longrightarrow> always m a"
  by (auto simp: steady_def always_def outcome_def)

lemma steady_unique: "steady m \<Longrightarrow> outcome m a \<Longrightarrow> outcome m b \<Longrightarrow> a = b"
  by (auto simp: steady_def dest: always_outcome)

lemma run_give [simp]: "run (give a) w = a"
  by (simp add: run_def)

lemma outcome_give [simp]: "outcome (give a) b \<longleftrightarrow> b = a"
  by (auto simp: outcome_def)

lemma always_give [simp]: "always (give a) b \<longleftrightarrow> b = a"
  by (auto simp: always_def)

lemma outcome_bind [outcome_elims]:
  assumes "outcome (State_Monad.bind m f) b"
  obtains a where "outcome m a" and "outcome (f a) b"
proof -
  from assms obtain w where w: "run (State_Monad.bind m f) w = b"
    by (auto simp: outcome_def)
  obtain a w' where "run_state m w = (a, w')" by (cases "run_state m w")
  with w have "run m w = a" and "run (f a) w' = b" by (simp_all add: run_def)
  then show thesis by (intro that) (auto simp: outcome_def)
qed

lemma always_bind:
  assumes "always m a" and "always (f a) b"
  shows "always (State_Monad.bind m f) b"
  using assms by (auto simp: always_def run_def split: prod.splits) (metis fst_conv)

lemma always_bind_any:
  assumes "\<And>a. outcome m a \<Longrightarrow> always (f a) b"
  shows "always (State_Monad.bind m f) b"
  unfolding always_def
proof
  fix w
  obtain a w' where m: "run_state m w = (a, w')" by (cases "run_state m w")
  then have "outcome m a" by (auto simp: outcome_def run_def intro: exI[of _ w])
  from assms[OF this] have "run (f a) w' = b" by (simp add: always_def)
  with m show "run (State_Monad.bind m f) w = b" by (simp add: run_def)
qed

text \<open>A fallible program that returns a value whatever the environment does.\<close>

definition succeeds :: "('w, 'a option) prog \<Rightarrow> bool" where
  "succeeds m \<longleftrightarrow> \<not> outcome m None"

named_theorems succeeds_intros "programs that cannot fail"

lemma succeedsD: "succeeds m \<Longrightarrow> outcome m r \<Longrightarrow> \<exists>a. r = Some a"
  by (cases r) (auto simp: succeeds_def)

lemma succeeds_give [succeeds_intros]: "succeeds (done_with a)"
  by (simp add: succeeds_def)

lemma succeeds_bind: "(\<And>a. outcome m a \<Longrightarrow> succeeds (f a)) \<Longrightarrow> succeeds (State_Monad.bind m f)"
  by (auto simp: succeeds_def elim!: outcome_bind)

lemma outcome_attempt:
  assumes "outcome (attempt m f) r"
  obtains "outcome m None" and "r = None" | x where "outcome m (Some x)" and "outcome (f x) r"
  using assms unfolding attempt_def
  by (auto elim!: outcome_bind split: option.splits)

lemma outcome_attempt_Some [outcome_elims]:
  assumes "outcome (attempt m f) (Some y)"
  obtains x where "outcome m (Some x)" and "outcome (f x) (Some y)"
  using assms by (auto elim: outcome_attempt)

lemma outcome_ensure_Some [outcome_elims]:
  assumes "outcome (ensure m k) (Some y)"
  obtains "outcome m True" and "outcome k (Some y)"
  using assms unfolding ensure_def
  by (auto elim!: outcome_bind split: if_splits)

lemma outcome_both_True [outcome_elims]:
  assumes "outcome (both m k) True"
  obtains "outcome m True" and "outcome k True"
  using assms unfolding both_def
  by (auto elim!: outcome_bind split: if_splits)

lemma outcome_positive_True [outcome_elims]:
  assumes "outcome (positive m) True"
  obtains r where "outcome m r" and "0 < r"
  using assms unfolding positive_def by (auto elim!: outcome_bind)

lemma succeeds_attempt [succeeds_intros]:
  "succeeds m \<Longrightarrow> (\<And>x. outcome m (Some x) \<Longrightarrow> succeeds (f x)) \<Longrightarrow> succeeds (attempt m f)"
  by (auto simp: succeeds_def elim!: outcome_attempt)

lemma succeeds_ensure [succeeds_intros]: "always m True \<Longrightarrow> succeeds k \<Longrightarrow> succeeds (ensure m k)"
  by (auto simp: succeeds_def ensure_def elim!: outcome_bind dest!: always_outcome)

lemma always_attempt [always_intros]:
  "always m (Some x) \<Longrightarrow> always (f x) b \<Longrightarrow> always (attempt m f) b"
  unfolding attempt_def by (rule always_bind) auto

lemma always_ensure [always_intros]:
  "always m True \<Longrightarrow> always k b \<Longrightarrow> always (ensure m k) b"
  unfolding ensure_def by (rule always_bind) auto

lemma always_both [always_intros]:
  "always m True \<Longrightarrow> always k b \<Longrightarrow> always (both m k) b"
  unfolding both_def by (rule always_bind) auto

lemma always_positive [always_intros]:
  "always m r \<Longrightarrow> 0 < r \<Longrightarrow> always (positive m) True"
  unfolding positive_def by (rule always_bind) auto

lemma succeeds_ensure_one [succeeds_intros]:
  "always m 1 \<Longrightarrow> succeeds k \<Longrightarrow> succeeds (ensure (positive m) k)"
  by (rule succeeds_ensure[OF always_positive[of _ 1]]) simp_all

lemma always_ensure_one:
  "always m 1 \<Longrightarrow> always k b \<Longrightarrow> always (ensure (positive m) k) b"
  by (rule always_ensure[OF always_positive[of _ 1]]) simp_all

section \<open>Programs that do not depend on the environment\<close>

named_theorems steady_intros "programs with one result only"

lemma steady_give [simp, steady_intros]: "steady (give a)"
  by (auto simp: steady_def)

lemma steady_bind [steady_intros]:
  "steady m \<Longrightarrow> (\<And>a. steady (f a)) \<Longrightarrow> steady (State_Monad.bind m f)"
  by (metis steady_def always_bind)

lemma steady_attempt [steady_intros]: "steady m \<Longrightarrow> (\<And>a. steady (f a)) \<Longrightarrow> steady (attempt m f)"
  unfolding attempt_def by (auto intro!: steady_bind split: option.split)

lemma steady_ensure [steady_intros]: "steady m \<Longrightarrow> steady k \<Longrightarrow> steady (ensure m k)"
  unfolding ensure_def by (auto intro!: steady_bind)

lemma steady_both [steady_intros]: "steady m \<Longrightarrow> steady k \<Longrightarrow> steady (both m k)"
  unfolding both_def by (auto intro!: steady_bind)

lemma steady_positive [steady_intros]: "steady m \<Longrightarrow> steady (positive m)"
  unfolding positive_def by (auto intro!: steady_bind)

lemma steady_if [steady_intros]: "steady m \<Longrightarrow> steady k \<Longrightarrow> steady (if b then m else k)"
  by simp

lemma steady_option [steady_intros]:
  "steady m \<Longrightarrow> (\<And>x. steady (f x)) \<Longrightarrow> steady (case r of None \<Rightarrow> m | Some x \<Rightarrow> f x)"
  by (cases r) auto

lemma steady_prod [steady_intros]: "(\<And>a b. steady (f a b)) \<Longrightarrow> steady (case r of (a, b) \<Rightarrow> f a b)"
  by (cases r) auto

lemma steady_unit: "steady (m :: (unit, 'a) prog)"
  by (auto simp: steady_def always_def)

end
