(* ===== verification/Crypto_Lib.thy ===== *)
theory Crypto_Lib
  imports Prelude
begin

text \<open>
  The third-party code the wrappers call, as parameters: the C allocator and the pq-crystals
  Dilithium2 reference implementation (record \<open>dil_lib\<close>), and OpenSSL's EVP and ECDSA-signature
  functions (record \<open>crypto_lib\<close>, which extends it). A call that may allocate, draw entropy or fail
  for reasons outside the program is a \<open>prog\<close>; a read-only accessor of an immutable object is a
  plain function. The type \<open>'k\<close> stands for OpenSSL's opaque \<open>EVP_PKEY\<close>: key objects are never
  modified after their creation, so sharing one through \<open>EVP_PKEY_up_ref\<close> is sharing a value.
\<close>

record 'w dil_lib =
  libc_malloc :: "nat \<Rightarrow> ('w, bool) prog"
  ref_keypair :: "('w, int \<times> bytes \<times> bytes) prog"
    \<comment> \<open>\<open>pqcrystals_dilithium2_ref_keypair\<close>: return code, public key, secret key\<close>
  ref_signature :: "bytes \<Rightarrow> bytes \<Rightarrow> bytes \<Rightarrow> ('w, int \<times> bytes) prog"
    \<comment> \<open>\<open>pqcrystals_dilithium2_ref_signature\<close> of message, context, secret key: return code and
        the bytes written, as many as the reported length\<close>
  ref_verify :: "bytes \<Rightarrow> bytes \<Rightarrow> bytes \<Rightarrow> bytes \<Rightarrow> int"
    \<comment> \<open>\<open>pqcrystals_dilithium2_ref_verify\<close> of signature, message, context, public key\<close>

text \<open>An \<open>ECDSA_SIG\<close>: the two big numbers, either of which a caller may find null.\<close>

record ecdsa_sig =
  sig_r :: "int option"
  sig_s :: "int option"

record ('w, 'k) crypto_lib = "'w dil_lib" +
  OPENSSL_malloc :: "nat \<Rightarrow> ('w, bool) prog"
  EVP_PKEY_CTX_new_from_name :: "string \<Rightarrow> ('w, bool) prog"
  EVP_PKEY_keygen_init :: "string \<Rightarrow> ('w, int) prog"
  EVP_PKEY_generate :: "string \<Rightarrow> ('w, int \<times> 'k option) prog"
  EVP_MD_CTX_new :: "('w, bool) prog"
  EVP_DigestSignInit_ex :: "string \<Rightarrow> 'k \<Rightarrow> ('w, int) prog"
  EVP_PKEY_CTX_set1_id :: "bytes \<Rightarrow> ('w, int) prog"
  EVP_DigestSign_length :: "string \<Rightarrow> 'k \<Rightarrow> bytes \<Rightarrow> bytes \<Rightarrow> ('w, int \<times> nat) prog"
    \<comment> \<open>\<open>EVP_DigestSign\<close> with a null output: digest name, key, user id, message; the return code
        and the room the signature needs\<close>
  EVP_DigestSign :: "string \<Rightarrow> 'k \<Rightarrow> bytes \<Rightarrow> nat \<Rightarrow> bytes \<Rightarrow> ('w, int \<times> bytes) prog"
    \<comment> \<open>\<open>EVP_DigestSign\<close>: digest name, key, user id, room, message; the bytes written\<close>
  EVP_DigestVerifyInit_ex :: "string \<Rightarrow> 'k \<Rightarrow> ('w, int) prog"
  EVP_DigestVerify :: "string \<Rightarrow> 'k \<Rightarrow> bytes \<Rightarrow> bytes \<Rightarrow> bytes \<Rightarrow> ('w, int) prog"
    \<comment> \<open>digest name, key, user id, signature, message\<close>
  EVP_PKEY_up_ref :: "'k \<Rightarrow> ('w, bool) prog"
  EVP_PKEY_is_a :: "'k \<Rightarrow> string \<Rightarrow> bool"
  EVP_PKEY_get_pub_key :: "'k \<Rightarrow> nat \<Rightarrow> int \<times> bytes"
    \<comment> \<open>\<open>EVP_PKEY_get_octet_string_param\<close> for \<open>OSSL_PKEY_PARAM_PUB_KEY\<close>: key, room; return code
        and the bytes written, as many as the reported length\<close>
  EVP_PKEY_fromdata_init :: "('w, int) prog"
  EVP_PKEY_fromdata :: "string \<Rightarrow> bytes \<Rightarrow> ('w, int \<times> 'k option) prog"
    \<comment> \<open>group name and encoded point, with selection \<open>EVP_PKEY_PUBLIC_KEY\<close>\<close>
  EVP_PKEY_CTX_new_from_pkey :: "'k \<Rightarrow> ('w, bool) prog"
  EVP_PKEY_public_check :: "'k \<Rightarrow> ('w, int) prog"
  EVP_Digest :: "string \<Rightarrow> bytes \<Rightarrow> ('w, bool \<times> bytes) prog"
    \<comment> \<open>digest name and data; the digest's bytes, as many as the reported length\<close>
  d2i_ECDSA_SIG :: "bytes \<Rightarrow> ('w, (ecdsa_sig \<times> nat) option) prog"
    \<comment> \<open>the parsed value and how far the cursor moved\<close>
  i2d_ECDSA_SIG :: "ecdsa_sig \<Rightarrow> ('w, int \<times> bytes) prog"

named_theorems sizes "the numeric constants of the headers"

lemmas limit_defs = SIZE_MAX_def LONG_MAX_def INT_MAX_def

end
