(* ===== verification/Dilithium_Wrapper.thy ===== *)
theory Dilithium_Wrapper
  imports Crypto_Lib
begin

text \<open>
  \<open>src/dilithium_wrapper.c\<close>: length-checked access to the Dilithium2 reference implementation.
\<close>

definition DILITHIUM_PUBLIC_KEY_BYTES :: nat where "DILITHIUM_PUBLIC_KEY_BYTES = 1312"
definition DILITHIUM_SECRET_KEY_BYTES :: nat where "DILITHIUM_SECRET_KEY_BYTES = 2560"
definition DILITHIUM_SIGNATURE_BYTES :: nat where "DILITHIUM_SIGNATURE_BYTES = 2420"

lemmas dilithium_sizes [sizes] =
  DILITHIUM_PUBLIC_KEY_BYTES_def DILITHIUM_SECRET_KEY_BYTES_def DILITHIUM_SIGNATURE_BYTES_def

definition dilithium_algorithm_name :: string where
  "dilithium_algorithm_name = ''CRYSTALS-Dilithium2''"

text \<open>
  A capacity is None when the corresponding pointer is null. The result holds the bytes written
  to the two arrays when the call reports success.
\<close>

definition dilithium_generate_keypair ::
  "('w, 'e) dil_lib_scheme \<Rightarrow> nat option \<Rightarrow> nat option \<Rightarrow> ('w, (bytes \<times> bytes) option) prog" where
  "dilithium_generate_keypair L public_key_capacity secret_key_capacity =
     (case (public_key_capacity, secret_key_capacity) of
        (Some pc, Some sc) \<Rightarrow>
          if pc < DILITHIUM_PUBLIC_KEY_BYTES \<or> sc < DILITHIUM_SECRET_KEY_BYTES then fail
          else do {
            (ret, pk, sk) \<leftarrow> ref_keypair L;
            if ret = 0 then done_with (pk, sk) else fail
          }
      | _ \<Rightarrow> fail)"

text \<open>\<open>outs\<close> tells whether the two output pointers are non-null.\<close>

definition dilithium_sign ::
  "('w, 'e) dil_lib_scheme \<Rightarrow> buf \<Rightarrow> buf \<Rightarrow> bool \<Rightarrow> ('w, bytes option) prog" where
  "dilithium_sign L secret_key message outs =
     (if \<not> outs then fail
      else if buf_null secret_key \<or> buf_len secret_key \<noteq> DILITHIUM_SECRET_KEY_BYTES \<or>
              dangling message then fail
      else ensure (libc_malloc L DILITHIUM_SIGNATURE_BYTES) (do {
        (ret, output) \<leftarrow> ref_signature L (buf_bytes message) [] (buf_bytes secret_key);
        if ret \<noteq> 0 \<or> length output \<noteq> DILITHIUM_SIGNATURE_BYTES then fail
        else done_with output
      }))"

definition dilithium_verify :: "('w, 'e) dil_lib_scheme \<Rightarrow> buf \<Rightarrow> buf \<Rightarrow> buf \<Rightarrow> bool" where
  "dilithium_verify L public_key message signature =
     (if buf_null public_key \<or> buf_len public_key \<noteq> DILITHIUM_PUBLIC_KEY_BYTES \<or>
         buf_null signature \<or> buf_len signature \<noteq> DILITHIUM_SIGNATURE_BYTES \<or>
         dangling message then False
      else ref_verify L (buf_bytes signature) (buf_bytes message) [] (buf_bytes public_key) = 0)"

text \<open>\<open>OPENSSL_cleanse\<close> overwrites the array with zeros; a null pointer is left alone.\<close>

definition dilithium_clear_secret_key :: "buf \<Rightarrow> buf" where
  "dilithium_clear_secret_key secret_key =
     (case secret_key of Null n \<Rightarrow> Null n | Buf bs \<Rightarrow> Buf (replicate (length bs) 0))"

lemma outcome_dilithium_generate_keypair [outcome_elims]:
  assumes "outcome (dilithium_generate_keypair L pc sc) (Some r)"
  obtains "outcome (ref_keypair L) (0, r)"
  using assms unfolding dilithium_generate_keypair_def
  by (auto elim!: outcome_bind split: option.splits if_splits)

lemma outcome_dilithium_sign [outcome_elims]:
  assumes "outcome (dilithium_sign L sk m outs) (Some s)"
  obtains "length s = DILITHIUM_SIGNATURE_BYTES" and "\<not> dangling m" and "\<not> buf_null sk"
    and "buf_len sk = DILITHIUM_SECRET_KEY_BYTES"
    and "outcome (ref_signature L (buf_bytes m) [] (buf_bytes sk)) (0, s)"
  using assms unfolding dilithium_sign_def
  by (auto elim!: outcome_elims split: if_splits)

lemma dilithium_verify_iff:
  "dilithium_verify L (Buf pk) (Buf m) (Buf s) \<longleftrightarrow>
     length pk = DILITHIUM_PUBLIC_KEY_BYTES \<and> length s = DILITHIUM_SIGNATURE_BYTES \<and>
     ref_verify L s m [] pk = 0"
  by (auto simp: dilithium_verify_def)

end
