(* ===== verification/Sm2_Wrapper.thy ===== *)
theory Sm2_Wrapper
  imports Crypto_Lib
begin

text \<open>
  \<open>src/sm2_wrapper.c\<close>: SM2-with-SM3 through OpenSSL's EVP interface, with the fixed user id.
\<close>

definition SM2_DEFAULT_USER_ID :: bytes where
  "SM2_DEFAULT_USER_ID = ascii ''1234567812345678''"

definition hybrid_sm2_generate_keypair ::
  "('w, 'k, 'e) crypto_lib_scheme \<Rightarrow> ('w, 'k option) prog" where
  "hybrid_sm2_generate_keypair L =
     ensure (EVP_PKEY_CTX_new_from_name L ''SM2'')
       (ensure (positive (EVP_PKEY_keygen_init L ''SM2'')) (do {
          (ret, key) \<leftarrow> EVP_PKEY_generate L ''SM2'';
          if ret \<le> 0 then fail else give key
        }))"

text \<open>A null \<open>private_key\<close> is None; \<open>outs\<close> tells whether the output pointers are non-null.\<close>

definition hybrid_sm2_sign ::
  "('w, 'k, 'e) crypto_lib_scheme \<Rightarrow> 'k option \<Rightarrow> buf \<Rightarrow> bool \<Rightarrow> ('w, bytes option) prog" where
  "hybrid_sm2_sign L private_key message outs =
     (if \<not> outs then fail
      else case private_key of
        None \<Rightarrow> fail
      | Some key \<Rightarrow>
          if dangling message then fail
          else
            ensure (EVP_MD_CTX_new L)
              (ensure (positive (EVP_DigestSignInit_ex L ''SM3'' key))
                (ensure (positive (EVP_PKEY_CTX_set1_id L SM2_DEFAULT_USER_ID)) (do {
                  (ret, room) \<leftarrow> EVP_DigestSign_length L ''SM3'' key SM2_DEFAULT_USER_ID (buf_bytes message);
                  if ret \<le> 0 then fail
                  else ensure (OPENSSL_malloc L room) (do {
                    (ret, output) \<leftarrow> EVP_DigestSign L ''SM3'' key SM2_DEFAULT_USER_ID room (buf_bytes message);
                    if ret \<le> 0 then fail else done_with output
                  })
                }))))"

definition hybrid_sm2_verify ::
  "('w, 'k, 'e) crypto_lib_scheme \<Rightarrow> 'k option \<Rightarrow> buf \<Rightarrow> buf \<Rightarrow> ('w, bool) prog" where
  "hybrid_sm2_verify L public_key message signature =
     (case public_key of
        None \<Rightarrow> give False
      | Some key \<Rightarrow>
          if buf_null signature \<or> dangling message then give False
          else
            both (EVP_MD_CTX_new L)
              (both (positive (EVP_DigestVerifyInit_ex L ''SM3'' key))
                (both (positive (EVP_PKEY_CTX_set1_id L SM2_DEFAULT_USER_ID)) (do {
                  ret \<leftarrow> EVP_DigestVerify L ''SM3'' key SM2_DEFAULT_USER_ID
                           (buf_bytes signature) (buf_bytes message);
                  give (ret = 1)
                }))))"

text \<open>OpenSSL reports SM2 signature \<open>s\<close> of \<open>m\<close> valid under \<open>key\<close>, in some call.\<close>

definition sm2_accepts :: "('w, 'k, 'e) crypto_lib_scheme \<Rightarrow> 'k \<Rightarrow> bytes \<Rightarrow> bytes \<Rightarrow> bool" where
  "sm2_accepts L key m s \<longleftrightarrow>
     outcome (EVP_DigestVerify L ''SM3'' key SM2_DEFAULT_USER_ID s m) 1"

text \<open>The verifier's setup calls succeed whatever happened before.\<close>

definition sm2_verify_ready :: "('w, 'k, 'e) crypto_lib_scheme \<Rightarrow> 'k \<Rightarrow> bool" where
  "sm2_verify_ready L key \<longleftrightarrow>
     always (EVP_MD_CTX_new L) True \<and> always (EVP_DigestVerifyInit_ex L ''SM3'' key) 1 \<and>
     always (EVP_PKEY_CTX_set1_id L SM2_DEFAULT_USER_ID) 1"

lemma outcome_hybrid_sm2_sign [outcome_elims]:
  assumes "outcome (hybrid_sm2_sign L sk m outs) (Some s)"
  obtains key room ret where "sk = Some key" and "\<not> dangling m" and "0 < ret"
    and "outcome (EVP_DigestSign L ''SM3'' key SM2_DEFAULT_USER_ID room (buf_bytes m)) (ret, s)"
  using assms unfolding hybrid_sm2_sign_def
  by (auto elim!: outcome_elims simp: not_le split: if_splits option.splits)

lemma outcome_hybrid_sm2_verify [outcome_elims]:
  assumes "outcome (hybrid_sm2_verify L pk m s) True"
  obtains key where "pk = Some key" and "\<not> dangling m" and "\<not> buf_null s"
    and "sm2_accepts L key (buf_bytes m) (buf_bytes s)"
  using assms unfolding hybrid_sm2_verify_def sm2_accepts_def
  by (auto elim!: outcome_elims split: if_splits option.splits)

lemma always_hybrid_sm2_verify:
  assumes "sm2_verify_ready L key"
    and "always (EVP_DigestVerify L ''SM3'' key SM2_DEFAULT_USER_ID s m) 1"
  shows "always (hybrid_sm2_verify L (Some key) (Buf m) (Buf s)) True"
  using assms unfolding hybrid_sm2_verify_def sm2_verify_ready_def
  by (auto intro!: always_intros always_bind)

end
