(* ===== verification/Framing.thy ===== *)
theory Framing
  imports Prelude
begin

text \<open>
  The contract of a byte format: an operation that packs a value into bytes, one that unpacks
  bytes, and the layout both of them promise. \<open>trusted\<close> is whatever the provider needs from the
  libraries for its parser to be exact (True when it needs nothing). The clients' facts, proved
  once here: what was packed unpacks to a value of the same layout whatever happens in between,
  repacking reproduces the bytes, and an exact format never gives two values one encoding.
\<close>

locale framing =
  fixes pack :: "'a \<Rightarrow> ('w, bytes option) prog"
    and unpack :: "bytes \<Rightarrow> ('w, 'a option) prog"
    and layout :: "'a \<Rightarrow> bytes"
    and wf :: "'a \<Rightarrow> bool"
    and trusted :: bool
  assumes pack_layout: "outcome (pack a) (Some b) \<Longrightarrow> b = layout a"
    and unpack_wf: "trusted \<Longrightarrow> outcome (unpack b) (Some a) \<Longrightarrow> wf a"
    and unpack_layout: "trusted \<Longrightarrow> outcome (unpack b) (Some a) \<Longrightarrow> layout a = b"
begin

lemma unpack_pack:
  "trusted \<Longrightarrow> outcome (pack a) (Some b) \<Longrightarrow> outcome (unpack b) (Some a') \<Longrightarrow> layout a' = layout a"
  by (simp add: pack_layout unpack_layout)

lemma repack:
  "trusted \<Longrightarrow> outcome (unpack b) (Some a) \<Longrightarrow> outcome (pack a) (Some b') \<Longrightarrow> b' = b"
  by (auto dest: pack_layout unpack_layout)

lemma pack_deterministic:
  "outcome (pack a) (Some b) \<Longrightarrow> outcome (pack a) (Some b') \<Longrightarrow> b' = b"
  by (auto dest: pack_layout)

end

locale exact_framing = framing +
  assumes layout_inj: "wf a \<Longrightarrow> wf a' \<Longrightarrow> layout a = layout a' \<Longrightarrow> a = a'"
    and pack_wf: "outcome (pack a) (Some b) \<Longrightarrow> wf a"
begin

lemma unpack_pack_eq:
  "trusted \<Longrightarrow> outcome (pack a) (Some b) \<Longrightarrow> outcome (unpack b) (Some a') \<Longrightarrow> a' = a"
  by (blast intro: layout_inj pack_wf unpack_wf unpack_pack)

lemma pack_inj:
  "outcome (pack a) (Some b) \<Longrightarrow> outcome (pack a') (Some b) \<Longrightarrow> a = a'"
  by (metis layout_inj pack_layout pack_wf)

lemma unpack_unique:
  "trusted \<Longrightarrow> outcome (unpack b) (Some a) \<Longrightarrow> outcome (unpack b) (Some a') \<Longrightarrow> a = a'"
  by (metis layout_inj unpack_layout unpack_wf)

end

end
