(* ===== verification/Composite_Key.thy ===== *)
theory Composite_Key
  imports Dilithium_Wrapper Sm2_Wrapper Framing
begin

text \<open>
  \<open>include/composite_key.h\<close> and \<open>src/composite_key.c\<close>: the two-component private and public keys,
  their generation, and the encoding \<open>Dilithium2PublicKey || SM2PublicKey\<close>.
\<close>

definition SM2_UNCOMPRESSED_PUBLIC_KEY_BYTES :: nat where
  "SM2_UNCOMPRESSED_PUBLIC_KEY_BYTES = 65"

definition COMPOSITE_PUBLIC_KEY_BYTES :: nat where
  "COMPOSITE_PUBLIC_KEY_BYTES = DILITHIUM_PUBLIC_KEY_BYTES + SM2_UNCOMPRESSED_PUBLIC_KEY_BYTES"

lemmas composite_sizes [sizes] =
  SM2_UNCOMPRESSED_PUBLIC_KEY_BYTES_def COMPOSITE_PUBLIC_KEY_BYTES_def

record 'k hybrid_private_key =
  sm2_private_key :: "'k option"
  dilithium_secret_key :: bytes

record 'k hybrid_public_key =
  sm2_public_key :: "'k option"
  dilithium_public_key :: bytes

text \<open>The array fields have the sizes of the struct declarations.\<close>

definition wf_private_key :: "'k hybrid_private_key \<Rightarrow> bool" where
  "wf_private_key key \<longleftrightarrow> length (dilithium_secret_key key) = DILITHIUM_SECRET_KEY_BYTES"

definition wf_public_key :: "'k hybrid_public_key \<Rightarrow> bool" where
  "wf_public_key key \<longleftrightarrow> length (dilithium_public_key key) = DILITHIUM_PUBLIC_KEY_BYTES"

text \<open>
  \<open>memset\<close> to zero. The cleanup functions free the key object, wipe the arrays and end in the
  same state, whatever the key held before.
\<close>

definition hybrid_private_key_init :: "'k hybrid_private_key \<Rightarrow> 'k hybrid_private_key" where
  "hybrid_private_key_init key =
     key\<lparr>sm2_private_key := None,
         dilithium_secret_key := replicate DILITHIUM_SECRET_KEY_BYTES 0\<rparr>"

definition hybrid_private_key_cleanup :: "'k hybrid_private_key \<Rightarrow> 'k hybrid_private_key" where
  "hybrid_private_key_cleanup key =
     hybrid_private_key_init
       (key\<lparr>dilithium_secret_key :=
              buf_bytes (dilithium_clear_secret_key (Buf (dilithium_secret_key key)))\<rparr>)"

definition hybrid_public_key_init :: "'k hybrid_public_key \<Rightarrow> 'k hybrid_public_key" where
  "hybrid_public_key_init key =
     key\<lparr>sm2_public_key := None,
         dilithium_public_key := replicate DILITHIUM_PUBLIC_KEY_BYTES 0\<rparr>"

definition hybrid_public_key_cleanup :: "'k hybrid_public_key \<Rightarrow> 'k hybrid_public_key" where
  "hybrid_public_key_cleanup key = hybrid_public_key_init key"

text \<open>
  The arguments are the structs behind the two pointers (None for a null pointer); the result is
  the return code and those structs after the call. Both are written only on success.
\<close>

definition composite_key_generate ::
  "('w, 'k, 'e) crypto_lib_scheme \<Rightarrow> 'k hybrid_private_key option \<Rightarrow> 'k hybrid_public_key option \<Rightarrow>
   ('w, bool \<times> 'k hybrid_private_key option \<times> 'k hybrid_public_key option) prog" where
  "composite_key_generate L private_key public_key =
     (if private_key = None \<or> public_key = None then give (False, private_key, public_key)
      else do {
        generated \<leftarrow>
          attempt (hybrid_sm2_generate_keypair L) (\<lambda>sm2.
            ensure (EVP_PKEY_up_ref L sm2)
              (attempt (dilithium_generate_keypair L (Some DILITHIUM_PUBLIC_KEY_BYTES)
                                                     (Some DILITHIUM_SECRET_KEY_BYTES)) (\<lambda>(pk, sk).
                 done_with
                   (\<lparr>sm2_private_key = Some sm2, dilithium_secret_key = sk\<rparr>,
                    \<lparr>sm2_public_key = Some sm2, dilithium_public_key = pk\<rparr>))));
        case generated of
          None \<Rightarrow> give (False, private_key, public_key)
        | Some (priv, pub) \<Rightarrow> give (True, Some priv, Some pub)
      })"

text \<open>
  \<open>serialize_sm2_public_key\<close> returns its code and the output array, which the getter may have
  written even when a later check fails.
\<close>

definition serialize_sm2_public_key ::
  "('w, 'k, 'e) crypto_lib_scheme \<Rightarrow> 'k option \<Rightarrow> bytes \<Rightarrow> bool \<times> bytes" where
  "serialize_sm2_public_key L key output =
     (case key of
        None \<Rightarrow> (False, output)
      | Some k \<Rightarrow>
          if \<not> EVP_PKEY_is_a L k ''SM2'' then (False, output)
          else case EVP_PKEY_get_pub_key L k SM2_UNCOMPRESSED_PUBLIC_KEY_BYTES of
            (ret, written) \<Rightarrow>
              let output' = overwrite output written
              in (0 < ret \<and> length written = SM2_UNCOMPRESSED_PUBLIC_KEY_BYTES \<and> output' ! 0 = 4,
                  output'))"

text \<open>The allocated array's initial contents do not matter: a successful call fills all of it.\<close>

definition composite_serialize_public_key ::
  "('w, 'k, 'e) crypto_lib_scheme \<Rightarrow> 'k hybrid_public_key option \<Rightarrow> bool \<Rightarrow> ('w, bytes option) prog" where
  "composite_serialize_public_key L key outs =
     (if \<not> outs then fail
      else case key of
        None \<Rightarrow> fail
      | Some k \<Rightarrow>
          if sm2_public_key k = None then fail
          else ensure (OPENSSL_malloc L COMPOSITE_PUBLIC_KEY_BYTES)
            (case serialize_sm2_public_key L (sm2_public_key k)
                    (replicate SM2_UNCOMPRESSED_PUBLIC_KEY_BYTES 0) of
               (ok, tail) \<Rightarrow> if ok then done_with (dilithium_public_key k @ tail) else fail))"

definition parse_sm2_public_key ::
  "('w, 'k, 'e) crypto_lib_scheme \<Rightarrow> buf \<Rightarrow> ('w, 'k option) prog" where
  "parse_sm2_public_key L encoded =
     (if buf_null encoded \<or> buf_len encoded \<noteq> SM2_UNCOMPRESSED_PUBLIC_KEY_BYTES \<or>
         buf_bytes encoded ! 0 \<noteq> 4 then fail
      else
        ensure (EVP_PKEY_CTX_new_from_name L ''SM2'')
          (ensure (positive (EVP_PKEY_fromdata_init L)) (do {
            (ret, key) \<leftarrow> EVP_PKEY_fromdata L ''SM2'' (buf_bytes encoded);
            if ret \<le> 0 then fail
            else attempt (give key) (\<lambda>k.
              ensure (EVP_PKEY_CTX_new_from_pkey L k)
                (ensure (positive (EVP_PKEY_public_check L k)) (done_with k)))
          })))"

definition composite_parse_public_key ::
  "('w, 'k, 'e) crypto_lib_scheme \<Rightarrow> buf \<Rightarrow> 'k hybrid_public_key option \<Rightarrow>
   ('w, bool \<times> 'k hybrid_public_key option) prog" where
  "composite_parse_public_key L serialized key =
     (if buf_null serialized \<or> key = None \<or> buf_len serialized \<noteq> COMPOSITE_PUBLIC_KEY_BYTES
      then give (False, key)
      else do {
        parsed \<leftarrow> parse_sm2_public_key L (Buf (drop DILITHIUM_PUBLIC_KEY_BYTES (buf_bytes serialized)));
        case parsed of
          None \<Rightarrow> give (False, key)
        | Some sm2 \<Rightarrow>
            give (True, Some \<lparr>sm2_public_key = Some sm2,
                              dilithium_public_key = take DILITHIUM_PUBLIC_KEY_BYTES (buf_bytes serialized)\<rparr>)
      })"

definition composite_get_sm2_public_key_octets ::
  "('w, 'k, 'e) crypto_lib_scheme \<Rightarrow> 'k hybrid_public_key option \<Rightarrow> bytes option \<Rightarrow> bool \<times> bytes option" where
  "composite_get_sm2_public_key_octets L key output =
     (case (key, output) of
        (Some k, Some out) \<Rightarrow>
          (case serialize_sm2_public_key L (sm2_public_key k) out of (ok, out') \<Rightarrow> (ok, Some out'))
      | _ \<Rightarrow> (False, output))"


section \<open>Facts about the operations\<close>

lemma wf_private_key_init [simp]: "wf_private_key (hybrid_private_key_init key)"
  by (simp add: wf_private_key_def hybrid_private_key_init_def)

lemma wf_public_key_init [simp]: "wf_public_key (hybrid_public_key_init key)"
  by (simp add: wf_public_key_def hybrid_public_key_init_def)

text \<open>The SM2 key object is an SM2 key whose public point is exported as the 65 octets \<open>p\<close>.\<close>

definition sm2_octets :: "('w, 'k, 'e) crypto_lib_scheme \<Rightarrow> 'k \<Rightarrow> bytes \<Rightarrow> bool" where
  "sm2_octets L k p \<longleftrightarrow>
     EVP_PKEY_is_a L k ''SM2'' \<and> length p = SM2_UNCOMPRESSED_PUBLIC_KEY_BYTES \<and> p ! 0 = 4 \<and>
     0 < fst (EVP_PKEY_get_pub_key L k SM2_UNCOMPRESSED_PUBLIC_KEY_BYTES) \<and>
     snd (EVP_PKEY_get_pub_key L k SM2_UNCOMPRESSED_PUBLIC_KEY_BYTES) = p"

lemma sm2_octets_unique: "sm2_octets L k p \<Longrightarrow> sm2_octets L k q \<Longrightarrow> p = q"
  by (simp add: sm2_octets_def)

text \<open>The bytes a composite public key stands for.\<close>

definition public_key_octets :: "('w, 'k, 'e) crypto_lib_scheme \<Rightarrow> 'k hybrid_public_key \<Rightarrow> bytes" where
  "public_key_octets L key =
     dilithium_public_key key @
     (case sm2_public_key key of
        None \<Rightarrow> []
      | Some k \<Rightarrow> snd (EVP_PKEY_get_pub_key L k SM2_UNCOMPRESSED_PUBLIC_KEY_BYTES))"

definition exportable :: "('w, 'k, 'e) crypto_lib_scheme \<Rightarrow> 'k hybrid_public_key \<Rightarrow> bool" where
  "exportable L key \<longleftrightarrow> (\<exists>k p. sm2_public_key key = Some k \<and> sm2_octets L k p)"

text \<open>
  Documented behaviour of OpenSSL: a public key imported for the group SM2 from an uncompressed
  point is an SM2 key and exports the same octets.
\<close>

definition sm2_import_law :: "('w, 'k, 'e) crypto_lib_scheme \<Rightarrow> bool" where
  "sm2_import_law L \<longleftrightarrow>
     (\<forall>p ret k. length p = SM2_UNCOMPRESSED_PUBLIC_KEY_BYTES \<longrightarrow> p ! 0 = 4 \<longrightarrow> 0 < ret \<longrightarrow>
        outcome (EVP_PKEY_fromdata L ''SM2'' p) (ret, Some k) \<longrightarrow> sm2_octets L k p)"

lemma serialize_sm2_public_key_fst:
  assumes "length output = SM2_UNCOMPRESSED_PUBLIC_KEY_BYTES"
  shows "serialize_sm2_public_key L (Some k) output = (True, p) \<longleftrightarrow> sm2_octets L k p"
  using assms
  by (auto simp: serialize_sm2_public_key_def sm2_octets_def overwrite_def Let_def sizes
      nth_append split: prod.splits)

lemma serialize_sm2_public_key_True:
  assumes "serialize_sm2_public_key L key output = (True, p)"
    and "length output = SM2_UNCOMPRESSED_PUBLIC_KEY_BYTES"
  obtains k where "key = Some k" and "sm2_octets L k p"
  using assms
  by (cases key) (auto simp: serialize_sm2_public_key_fst, simp add: serialize_sm2_public_key_def)

lemma outcome_composite_serialize_public_key [outcome_elims]:
  assumes "outcome (composite_serialize_public_key L key outs) (Some b)"
  obtains k sm2 p where "key = Some k" and "sm2_public_key k = Some sm2" and "sm2_octets L sm2 p"
    and "b = dilithium_public_key k @ p"
  using assms unfolding composite_serialize_public_key_def
  by (auto elim!: outcome_elims serialize_sm2_public_key_True split: if_splits option.splits prod.splits)

lemma always_composite_serialize_public_key:
  assumes "sm2_public_key k = Some sm2" and "sm2_octets L sm2 p"
    and "always (OPENSSL_malloc L COMPOSITE_PUBLIC_KEY_BYTES) True"
  shows "always (composite_serialize_public_key L (Some k) True) (Some (dilithium_public_key k @ p))"
proof -
  have "serialize_sm2_public_key L (Some sm2) (replicate SM2_UNCOMPRESSED_PUBLIC_KEY_BYTES 0) = (True, p)"
    using assms(2) by (simp add: serialize_sm2_public_key_fst)
  with assms show ?thesis
    unfolding composite_serialize_public_key_def by (auto intro!: always_intros)
qed

lemma outcome_parse_sm2_public_key [outcome_elims]:
  assumes "outcome (parse_sm2_public_key L encoded) (Some k)"
  obtains p ret where "encoded = Buf p" and "length p = SM2_UNCOMPRESSED_PUBLIC_KEY_BYTES"
    and "p ! 0 = 4" and "0 < ret" and "outcome (EVP_PKEY_fromdata L ''SM2'' p) (ret, Some k)"
  using assms unfolding parse_sm2_public_key_def
  by (cases encoded) (auto elim!: outcome_elims simp: not_le split: if_splits)

lemma outcome_composite_parse_public_key:
  assumes "outcome (composite_parse_public_key L serialized key) (True, r)"
  obtains b sm2 ret where "serialized = Buf b" and "length b = COMPOSITE_PUBLIC_KEY_BYTES"
    and "key \<noteq> None"
    and "r = Some \<lparr>sm2_public_key = Some sm2,
                   dilithium_public_key = take DILITHIUM_PUBLIC_KEY_BYTES b\<rparr>"
    and "drop DILITHIUM_PUBLIC_KEY_BYTES b ! 0 = 4" and "0 < ret"
    and "outcome (EVP_PKEY_fromdata L ''SM2'' (drop DILITHIUM_PUBLIC_KEY_BYTES b)) (ret, Some sm2)"
  using assms unfolding composite_parse_public_key_def
  by (cases serialized) (auto elim!: outcome_elims split: if_splits option.splits)

lemma composite_parse_public_key_octets:
  assumes law: "sm2_import_law L"
    and parsed: "outcome (composite_parse_public_key L (Buf b) key) (True, r)"
  obtains k where "r = Some k" and "wf_public_key k" and "exportable L k"
    and "public_key_octets L k = b"
proof -
  from parsed obtain sm2 ret where len: "length b = COMPOSITE_PUBLIC_KEY_BYTES"
    and r: "r = Some \<lparr>sm2_public_key = Some sm2,
                      dilithium_public_key = take DILITHIUM_PUBLIC_KEY_BYTES b\<rparr>"
    and p0: "drop DILITHIUM_PUBLIC_KEY_BYTES b ! 0 = 4" and ret: "0 < ret"
    and imp: "outcome (EVP_PKEY_fromdata L ''SM2'' (drop DILITHIUM_PUBLIC_KEY_BYTES b)) (ret, Some sm2)"
    by (elim outcome_composite_parse_public_key) auto
  from len have "length (drop DILITHIUM_PUBLIC_KEY_BYTES b) = SM2_UNCOMPRESSED_PUBLIC_KEY_BYTES"
    by (simp add: sizes)
  with law p0 ret imp have oct: "sm2_octets L sm2 (drop DILITHIUM_PUBLIC_KEY_BYTES b)"
    unfolding sm2_import_law_def by blast
  show thesis
  proof (rule that[OF r])
    show "public_key_octets L \<lparr>sm2_public_key = Some sm2,
            dilithium_public_key = take DILITHIUM_PUBLIC_KEY_BYTES b\<rparr> = b"
      using oct by (simp add: public_key_octets_def sm2_octets_def)
  qed (use len oct in \<open>auto simp: wf_public_key_def exportable_def sizes\<close>)
qed

text \<open>The calls that import the point \<open>p\<close> succeed and yield the key object \<open>k\<close>.\<close>

definition sm2_import_ready :: "('w, 'k, 'e) crypto_lib_scheme \<Rightarrow> bytes \<Rightarrow> 'k \<Rightarrow> bool" where
  "sm2_import_ready L p k \<longleftrightarrow>
     always (EVP_PKEY_CTX_new_from_name L ''SM2'') True \<and> always (EVP_PKEY_fromdata_init L) 1 \<and>
     always (EVP_PKEY_fromdata L ''SM2'' p) (1, Some k) \<and>
     always (EVP_PKEY_CTX_new_from_pkey L k) True \<and> always (EVP_PKEY_public_check L k) 1"

lemma always_composite_parse_public_key:
  assumes "length b = COMPOSITE_PUBLIC_KEY_BYTES" and "drop DILITHIUM_PUBLIC_KEY_BYTES b ! 0 = 4"
    and ready: "sm2_import_ready L (drop DILITHIUM_PUBLIC_KEY_BYTES b) k"
  shows "always (composite_parse_public_key L (Buf b) (Some old))
           (True, Some \<lparr>sm2_public_key = Some k,
                         dilithium_public_key = take DILITHIUM_PUBLIC_KEY_BYTES b\<rparr>)"
proof -
  let ?p = "drop DILITHIUM_PUBLIC_KEY_BYTES b"
  have imp: "always (EVP_PKEY_fromdata L ''SM2'' ?p) (1, Some k)"
    using ready by (simp add: sm2_import_ready_def)
  have "always (parse_sm2_public_key L (Buf ?p)) (Some k)"
    using assms unfolding parse_sm2_public_key_def sm2_import_ready_def
    by (auto simp: sizes intro!: always_bind[OF imp[unfolded sizes]] always_intros)
  then show ?thesis
    unfolding composite_parse_public_key_def using assms(1) by (auto intro!: always_bind)
qed

text \<open>A successful generation fills both structs from one fresh SM2 key and one Dilithium2 pair.\<close>

lemma outcome_composite_key_generate:
  assumes "outcome (composite_key_generate L priv pub) (True, priv', pub')"
  obtains sm2 pk sk ret where "0 < ret" and "outcome (EVP_PKEY_generate L ''SM2'') (ret, Some sm2)"
    and "outcome (ref_keypair L) (0, pk, sk)"
    and "priv' = Some \<lparr>sm2_private_key = Some sm2, dilithium_secret_key = sk\<rparr>"
    and "pub' = Some \<lparr>sm2_public_key = Some sm2, dilithium_public_key = pk\<rparr>"
  using assms unfolding composite_key_generate_def hybrid_sm2_generate_keypair_def
  by (auto elim!: outcome_elims simp: not_le split: if_splits option.splits)

section \<open>The encoding as a byte format\<close>

text \<open>Parsing into a zeroed local key, as the callers do.\<close>

definition parse_public_key_into_blank ::
  "('w, 'k, 'e) crypto_lib_scheme \<Rightarrow> bytes \<Rightarrow> ('w, 'k hybrid_public_key option) prog" where
  "parse_public_key_into_blank L b = do {
     (ok, key) \<leftarrow> composite_parse_public_key L (Buf b)
                    (Some \<lparr>sm2_public_key = None,
                           dilithium_public_key = replicate DILITHIUM_PUBLIC_KEY_BYTES 0\<rparr>);
     if ok then give key else fail }"

interpretation public_key_format: framing
  "\<lambda>k. composite_serialize_public_key L (Some k) True" "parse_public_key_into_blank L"
  "public_key_octets L" "\<lambda>k. wf_public_key k \<and> exportable L k" "sm2_import_law L"
  for L :: "('w, 'k, 'e) crypto_lib_scheme"
proof unfold_locales
  fix a :: "'k hybrid_public_key" and b
  assume "outcome (composite_serialize_public_key L (Some a) True) (Some b)"
  then show "b = public_key_octets L a"
    by (auto elim!: outcome_elims simp: public_key_octets_def sm2_octets_def)
next
  fix a :: "'k hybrid_public_key" and b
  assume "sm2_import_law L" and "outcome (parse_public_key_into_blank L b) (Some a)"
  then show "wf_public_key a \<and> exportable L a" and "public_key_octets L a = b"
    unfolding parse_public_key_into_blank_def
    by (auto elim!: outcome_bind split: if_splits elim: composite_parse_public_key_octets)
qed

end
