(* ===== verification/Reference_Lib.thy ===== *)
theory Reference_Lib
  imports Crypto_Lib
begin

text \<open>
  A concrete set of library functions that satisfies the laws the properties assume, used only in
  witnesses. It has no cryptographic strength: a Dilithium signature repeats the message behind
  the first byte of the key, an SM2 signature is the DER encoding of two numbers derived from the
  key and the message, a digest keeps the first 32 bytes. No call ever fails.
\<close>

definition pad :: "nat \<Rightarrow> bytes \<Rightarrow> bytes" where
  "pad n b = take n (b @ replicate n 0)"

definition toy_der :: "byte \<Rightarrow> byte \<Rightarrow> bytes" where
  "toy_der r s = [48, 6, 2, 1, r, 2, 1, s]"

fun toy_d2i :: "bytes \<Rightarrow> (ecdsa_sig \<times> nat) option" where
  "toy_d2i (x0 # x1 # x2 # x3 # r # x4 # x5 # s # rest) =
     (if [x0, x1, x2, x3, x4, x5] = [48, 6, 2, 1, 2, 1]
      then Some (\<lparr>sig_r = Some (uint r), sig_s = Some (uint s)\<rparr>, 8) else None)"
| "toy_d2i _ = None"

definition toy_i2d :: "ecdsa_sig \<Rightarrow> int \<times> bytes" where
  "toy_i2d sig = (case (sig_r sig, sig_s sig) of
     (Some r, Some s) \<Rightarrow> (8, toy_der (word_of_int r) (word_of_int s)) | _ \<Rightarrow> (0, []))"

definition toy_dilithium_signature :: "byte \<Rightarrow> bytes \<Rightarrow> bytes" where
  "toy_dilithium_signature k m = pad 2420 (k # m)"

definition toy_sm2_signature :: "bytes \<Rightarrow> bytes \<Rightarrow> bytes" where
  "toy_sm2_signature k m =
     toy_der (1 + (k ! 1 AND 63)) (1 + (word_of_nat (length m) AND 63))"

text \<open>
  The environment state is \<open>unit\<close> and a key object is its encoded public point; \<open>e\<close> holds the
  functions of a larger library.
\<close>

definition toy_with :: "'e \<Rightarrow> (unit, bytes, 'e) crypto_lib_scheme" where
  "toy_with e = \<lparr>
     libc_malloc = \<lambda>n. give True,
     ref_keypair = give (0, replicate 1312 7, replicate 2560 7),
     ref_signature = \<lambda>m c sk. give (0, toy_dilithium_signature (hd sk) m),
     ref_verify = \<lambda>sig m c pk. if sig = toy_dilithium_signature (hd pk) m then 0 else -1,
     OPENSSL_malloc = \<lambda>n. give True,
     EVP_PKEY_CTX_new_from_name = \<lambda>nm. give True,
     EVP_PKEY_keygen_init = \<lambda>nm. give 1,
     EVP_PKEY_generate = \<lambda>nm. give (1, Some (4 # replicate 64 9)),
     EVP_MD_CTX_new = give True,
     EVP_DigestSignInit_ex = \<lambda>nm k. give 1,
     EVP_PKEY_CTX_set1_id = \<lambda>i. give 1,
     EVP_DigestSign_length = \<lambda>nm k i m. give (1, 8),
     EVP_DigestSign = \<lambda>nm k i room m. give (1, toy_sm2_signature k m),
     EVP_DigestVerifyInit_ex = \<lambda>nm k. give 1,
     EVP_DigestVerify = \<lambda>nm k i s m. give (if s = toy_sm2_signature k m then 1 else 0),
     EVP_PKEY_up_ref = \<lambda>k. give True,
     EVP_PKEY_is_a = \<lambda>k nm. nm = ''SM2'',
     EVP_PKEY_get_pub_key = \<lambda>k n. (1, k),
     EVP_PKEY_fromdata_init = give 1,
     EVP_PKEY_fromdata = \<lambda>nm p. give (1, Some p),
     EVP_PKEY_CTX_new_from_pkey = \<lambda>k. give True,
     EVP_PKEY_public_check = \<lambda>k. give 1,
     EVP_Digest = \<lambda>nm m. give (True, pad 32 m),
     d2i_ECDSA_SIG = \<lambda>d. give (toy_d2i d),
     i2d_ECDSA_SIG = \<lambda>sig. give (toy_i2d sig), \<dots> = e\<rparr>"

abbreviation toy_lib :: "(unit, bytes) crypto_lib" where
  "toy_lib \<equiv> toy_with ()"

lemma length_pad [simp]: "length (pad n b) = n"
  by (simp add: pad_def)

lemma toy_sm2_parts:
  "toy_sm2_signature k m = toy_der r s \<Longrightarrow> r = 1 + (k ! 1 AND 63) \<and> s = 1 + (word_of_nat (length m) AND 63)"
  by (simp add: toy_sm2_signature_def toy_der_def)

lemma toy_number_positive: "0 < uint (1 + (x AND 63) :: byte)"
proof -
  have "unat (x AND 63) \<le> unat (63 :: byte)"
    by (rule word_and_le1 [THEN word_le_nat_alt [THEN iffD1]])
  then have "unat (1 + (x AND 63)) = 1 + unat (x AND 63)"
    by (simp add: unat_word_ariths)
  then have "1 + (x AND 63) \<noteq> 0"
    by (metis Suc_eq_plus1_left nat.distinct(1) unat_0)
  then show ?thesis
    by (metis order_le_less uint_0_iff uint_ge_0)
qed

end
