(* ===== verification/Composite_Sig.thy ===== *)
theory Composite_Sig
  imports Composite_Key Reference_Lib
begin

text \<open>
  \<open>include/composite_sig.h\<close> and \<open>src/composite_sig.c\<close>: the message representative
  \<open>M' = Prefix || Label || len(ctx) || ctx || SM3(M)\<close>, the signature encoding
  \<open>Dilithium2Signature || DER(SM2Signature)\<close>, and signing and verification with both components.
\<close>

definition COMPOSITE_SIGNATURE_PREFIX :: bytes where
  "COMPOSITE_SIGNATURE_PREFIX = ascii ''CompositeAlgorithmSignatures2025''"

definition COMPOSITE_SIGNATURE_LABEL :: bytes where
  "COMPOSITE_SIGNATURE_LABEL = ascii ''COMPSIG-DILITHIUM2-SM2-SM3''"

definition COMPOSITE_MAX_CONTEXT_BYTES :: nat where
  "COMPOSITE_MAX_CONTEXT_BYTES = 255"

record composite_verify_result =
  format_valid :: bool
  dilithium_valid :: bool
  sm2_valid :: bool
  composite_valid :: bool

definition sm2_signature_der_is_valid ::
  "('w, 'k, 'e) crypto_lib_scheme \<Rightarrow> buf \<Rightarrow> ('w, bool) prog" where
  "sm2_signature_der_is_valid L der =
     (if buf_null der \<or> buf_len der = 0 \<or> buf_len der > LONG_MAX then give False
      else do {
        parsed \<leftarrow> d2i_ECDSA_SIG L (buf_bytes der);
        case parsed of
          None \<Rightarrow> give False
        | Some (sig, consumed) \<Rightarrow>
            if consumed \<noteq> buf_len der then give False
            else case (sig_r sig, sig_s sig) of
              (Some r, Some s) \<Rightarrow>
                if r < 0 \<or> r = 0 \<or> s < 0 \<or> s = 0 then give False
                else do {
                  (canonical_len, canonical) \<leftarrow> i2d_ECDSA_SIG L sig;
                  if canonical_len \<le> 0 \<or> nat canonical_len \<noteq> buf_len der \<or>
                     take (buf_len der) canonical \<noteq> buf_bytes der
                  then give False else give True
                }
            | _ \<Rightarrow> give False
      })"

text \<open>\<open>outs\<close>: the output pointers are non-null.\<close>

definition composite_build_message ::
  "('w, 'k, 'e) crypto_lib_scheme \<Rightarrow> buf \<Rightarrow> buf \<Rightarrow> bool \<Rightarrow> ('w, bytes option) prog" where
  "composite_build_message L message ctx outs =
     (if \<not> outs then fail
      else if dangling message \<or> dangling ctx \<or> buf_len ctx > COMPOSITE_MAX_CONTEXT_BYTES then fail
      else do {
        (ok, digest) \<leftarrow> EVP_Digest L ''SM3'' (buf_bytes message);
        if \<not> ok \<or> length digest \<noteq> 32 then fail
        else if buf_len ctx > SIZE_MAX - length COMPOSITE_SIGNATURE_PREFIX
                                - length COMPOSITE_SIGNATURE_LABEL - 1 - length digest then fail
        else
          let output_len = length COMPOSITE_SIGNATURE_PREFIX + length COMPOSITE_SIGNATURE_LABEL + 1
                           + buf_len ctx + length digest;
              output = COMPOSITE_SIGNATURE_PREFIX @ COMPOSITE_SIGNATURE_LABEL
                       @ [word_of_nat (buf_len ctx)] @ buf_bytes ctx @ digest
          in ensure (OPENSSL_malloc L output_len)
               (if length output \<noteq> output_len then fail else done_with output)
      })"

definition composite_serialize_signature ::
  "('w, 'k, 'e) crypto_lib_scheme \<Rightarrow> buf \<Rightarrow> buf \<Rightarrow> bool \<Rightarrow> ('w, bytes option) prog" where
  "composite_serialize_signature L dilithium_signature sm2_signature_der outs =
     (if \<not> outs then fail
      else if buf_null dilithium_signature \<or> buf_len dilithium_signature \<noteq> DILITHIUM_SIGNATURE_BYTES
      then fail
      else ensure (sm2_signature_der_is_valid L sm2_signature_der)
        (if buf_len sm2_signature_der > SIZE_MAX - DILITHIUM_SIGNATURE_BYTES then fail
         else ensure (OPENSSL_malloc L (DILITHIUM_SIGNATURE_BYTES + buf_len sm2_signature_der))
           (done_with (buf_bytes dilithium_signature @ buf_bytes sm2_signature_der))))"

text \<open>
  The C function returns pointers into its input; the model returns the two byte strings they
  delimit.
\<close>

definition composite_parse_signature ::
  "('w, 'k, 'e) crypto_lib_scheme \<Rightarrow> buf \<Rightarrow> bool \<Rightarrow> ('w, (bytes \<times> bytes) option) prog" where
  "composite_parse_signature L signature outs =
     (if \<not> outs then fail
      else if buf_null signature \<or> buf_len signature \<le> DILITHIUM_SIGNATURE_BYTES then fail
      else
        let dilithium_part = take DILITHIUM_SIGNATURE_BYTES (buf_bytes signature);
            sm2_part = drop DILITHIUM_SIGNATURE_BYTES (buf_bytes signature)
        in ensure (sm2_signature_der_is_valid L (Buf sm2_part))
             (done_with (dilithium_part, sm2_part)))"

definition composite_sign ::
  "('w, 'k, 'e) crypto_lib_scheme \<Rightarrow> 'k hybrid_private_key option \<Rightarrow> buf \<Rightarrow> buf \<Rightarrow> bool \<Rightarrow>
   ('w, bytes option) prog" where
  "composite_sign L key message ctx outs =
     (if \<not> outs then fail
      else case key of
        None \<Rightarrow> fail
      | Some k \<Rightarrow>
          if sm2_private_key k = None then fail
          else
            attempt (composite_build_message L message ctx True) (\<lambda>m_prime.
            attempt (dilithium_sign L (Buf (dilithium_secret_key k)) (Buf m_prime) True) (\<lambda>dilithium_signature.
            attempt (hybrid_sm2_sign L (sm2_private_key k) (Buf m_prime) True) (\<lambda>sm2_signature.
              composite_serialize_signature L (Buf dilithium_signature) (Buf sm2_signature) True))))"

text \<open>
  The result is the return code together with the \<open>local\<close> report, which the code stores through
  \<open>result\<close> when that pointer is non-null. Both component verifications always run once the message
  has been built.
\<close>

definition composite_verify_detailed ::
  "('w, 'k, 'e) crypto_lib_scheme \<Rightarrow> 'k hybrid_public_key option \<Rightarrow> buf \<Rightarrow> buf \<Rightarrow> buf \<Rightarrow>
   ('w, bool \<times> composite_verify_result) prog" where
  "composite_verify_detailed L key message ctx signature =
     (let local = \<lparr>format_valid = False, dilithium_valid = False, sm2_valid = False,
                   composite_valid = False\<rparr>
      in case key of
        None \<Rightarrow> give (False, local)
      | Some k \<Rightarrow>
          if sm2_public_key k = None then give (False, local)
          else do {
            parts \<leftarrow> composite_parse_signature L signature True;
            case parts of
              None \<Rightarrow> give (False, local)
            | Some (dilithium_signature, sm2_signature) \<Rightarrow> do {
                let local = local\<lparr>format_valid := True\<rparr>;
                built \<leftarrow> composite_build_message L message ctx True;
                case built of
                  None \<Rightarrow> give (False, local)
                | Some m_prime \<Rightarrow> do {
                    let local = local\<lparr>dilithium_valid :=
                          dilithium_verify L (Buf (dilithium_public_key k)) (Buf m_prime)
                                           (Buf dilithium_signature)\<rparr>;
                    sm2 \<leftarrow> hybrid_sm2_verify L (sm2_public_key k) (Buf m_prime) (Buf sm2_signature);
                    let local = local\<lparr>sm2_valid := sm2\<rparr>;
                    let local = local\<lparr>composite_valid := dilithium_valid local \<and> sm2_valid local\<rparr>;
                    give (composite_valid local, local)
                  }
              }
          })"

definition composite_verify ::
  "('w, 'k, 'e) crypto_lib_scheme \<Rightarrow> 'k hybrid_public_key option \<Rightarrow> buf \<Rightarrow> buf \<Rightarrow> buf \<Rightarrow>
   ('w, bool) prog" where
  "composite_verify L key message ctx signature =
     do { (valid, _) \<leftarrow> composite_verify_detailed L key message ctx signature; give valid }"


section \<open>The message representative\<close>

definition composite_message :: "bytes \<Rightarrow> bytes \<Rightarrow> bytes" where
  "composite_message ctx digest =
     COMPOSITE_SIGNATURE_PREFIX @ COMPOSITE_SIGNATURE_LABEL
     @ [word_of_nat (length ctx)] @ ctx @ digest"

lemma composite_message_length:
  "length (composite_message ctx digest) = 59 + length ctx + length digest"
  by (simp add: composite_message_def COMPOSITE_SIGNATURE_PREFIX_def COMPOSITE_SIGNATURE_LABEL_def)

lemma composite_message_inj:
  assumes "composite_message ctx digest = composite_message ctx' digest'"
    and "length ctx \<le> COMPOSITE_MAX_CONTEXT_BYTES" and "length ctx' \<le> COMPOSITE_MAX_CONTEXT_BYTES"
  shows "ctx = ctx' \<and> digest = digest'"
proof -
  from assms(1) have l: "(word_of_nat (length ctx) :: byte) = word_of_nat (length ctx')"
    and r: "ctx @ digest = ctx' @ digest'"
    by (simp_all add: composite_message_def)
  from l have "unat (word_of_nat (length ctx) :: byte) = unat (word_of_nat (length ctx') :: byte)"
    by simp
  with assms(2,3) have "length ctx = length ctx'"
    by (simp add: COMPOSITE_MAX_CONTEXT_BYTES_def unat_of_nat)
  with r show ?thesis by simp
qed

lemma outcome_composite_build_message [outcome_elims]:
  assumes "outcome (composite_build_message L m c outs) (Some m')"
  obtains digest where "\<not> dangling m" and "\<not> dangling c"
    and "length (buf_bytes c) \<le> COMPOSITE_MAX_CONTEXT_BYTES"
    and "outcome (EVP_Digest L ''SM3'' (buf_bytes m)) (True, digest)" and "length digest = 32"
    and "m' = composite_message (buf_bytes c) digest"
  using assms unfolding composite_build_message_def
  by (auto elim!: outcome_elims simp: Let_def composite_message_def buf_len_bytes not_less
      split: if_splits)

lemma always_composite_build_message:
  assumes "\<not> dangling m" and "\<not> dangling c" and "length (buf_bytes c) \<le> COMPOSITE_MAX_CONTEXT_BYTES"
    and "always (EVP_Digest L ''SM3'' (buf_bytes m)) (True, digest)" and "length digest = 32"
    and "\<And>n. always (OPENSSL_malloc L n) True"
  shows "always (composite_build_message L m c True) (Some (composite_message (buf_bytes c) digest))"
  using assms unfolding composite_build_message_def
  by (auto intro!: always_intros always_bind
      simp: Let_def composite_message_def buf_len_bytes COMPOSITE_MAX_CONTEXT_BYTES_def
            COMPOSITE_SIGNATURE_PREFIX_def COMPOSITE_SIGNATURE_LABEL_def SIZE_MAX_def)

section \<open>The signature encoding\<close>

text \<open>
  What the strict DER check establishes: the whole input is one encoding of two positive numbers,
  and it is the canonical one.
\<close>

definition canonical_sm2_der :: "('w, 'k, 'e) crypto_lib_scheme \<Rightarrow> bytes \<Rightarrow> bool" where
  "canonical_sm2_der L d \<longleftrightarrow>
     d \<noteq> [] \<and> length d \<le> LONG_MAX \<and>
     (\<exists>sig r s n canonical.
        outcome (d2i_ECDSA_SIG L d) (Some (sig, length d)) \<and>
        sig_r sig = Some r \<and> 0 < r \<and> sig_s sig = Some s \<and> 0 < s \<and>
        outcome (i2d_ECDSA_SIG L sig) (n, canonical) \<and> n = int (length d) \<and>
        take (length d) canonical = d)"

lemma outcome_sm2_signature_der_is_valid [outcome_elims]:
  assumes "outcome (sm2_signature_der_is_valid L der) True"
  obtains d where "der = Buf d" and "canonical_sm2_der L d"
proof (cases der)
  case (Null n)
  with assms show thesis by (simp add: sm2_signature_der_is_valid_def)
next
  case (Buf d)
  with assms obtain sig r s n canonical where "d \<noteq> []" and "length d \<le> LONG_MAX"
      and "outcome (d2i_ECDSA_SIG L d) (Some (sig, length d))"
      and "sig_r sig = Some r" and "0 \<le> r" and "r \<noteq> 0"
      and "sig_s sig = Some s" and "0 \<le> s" and "s \<noteq> 0"
      and "outcome (i2d_ECDSA_SIG L sig) (n, canonical)" and "0 < n" and "nat n = length d"
      and "take (length d) canonical = d"
    unfolding sm2_signature_der_is_valid_def
    by (auto elim!: outcome_bind simp: not_less not_le split: if_splits option.splits)
  then have "canonical_sm2_der L d"
    unfolding canonical_sm2_der_def by (metis order_le_less int_nat_eq order_less_imp_le)
  with Buf show thesis by (rule that)
qed

lemma outcome_composite_serialize_signature [outcome_elims]:
  assumes "outcome (composite_serialize_signature L ds ss outs) (Some b)"
  obtains d s where "ds = Buf d" and "ss = Buf s" and "length d = DILITHIUM_SIGNATURE_BYTES"
    and "canonical_sm2_der L s" and "b = d @ s"
  using assms unfolding composite_serialize_signature_def
  by (cases ds) (auto elim!: outcome_elims split: if_splits)

lemma outcome_composite_parse_signature [outcome_elims]:
  assumes "outcome (composite_parse_signature L signature outs) (Some p)"
  obtains d s where "p = (d, s)" and "signature = Buf (d @ s)"
    and "length d = DILITHIUM_SIGNATURE_BYTES" and "canonical_sm2_der L s"
proof (cases signature)
  case (Null n)
  with assms show thesis by (simp add: composite_parse_signature_def split: if_splits)
next
  case (Buf b)
  let ?d = "take DILITHIUM_SIGNATURE_BYTES b" and ?s = "drop DILITHIUM_SIGNATURE_BYTES b"
  from assms Buf have "p = (?d, ?s)" and "canonical_sm2_der L ?s"
      and "length b > DILITHIUM_SIGNATURE_BYTES"
    unfolding composite_parse_signature_def
    by (auto elim!: outcome_elims simp: Let_def not_le split: if_splits)
  with Buf show thesis by (intro that[of ?d ?s]) auto
qed

lemma canonical_sm2_der_nonempty: "canonical_sm2_der L d \<Longrightarrow> d \<noteq> []"
  by (simp add: canonical_sm2_der_def)

interpretation signature_format: exact_framing
  "\<lambda>(d, s). composite_serialize_signature L (Buf d) (Buf s) True"
  "\<lambda>b. composite_parse_signature L (Buf b) True"
  "\<lambda>(d, s). d @ s" "\<lambda>(d, s). length d = DILITHIUM_SIGNATURE_BYTES \<and> canonical_sm2_der L s" True
  for L :: "('w, 'k, 'e) crypto_lib_scheme"
  by unfold_locales (auto elim!: outcome_elims)

text \<open>
  OpenSSL's DER routines are functions of their input: two calls on the same bytes or the same
  value agree.
\<close>

definition der_law :: "('w, 'k, 'e) crypto_lib_scheme \<Rightarrow> bool" where
  "der_law L \<longleftrightarrow> (\<forall>d. steady (d2i_ECDSA_SIG L d)) \<and> (\<forall>sig. steady (i2d_ECDSA_SIG L sig))"

lemma always_sm2_signature_der_is_valid:
  assumes "der_law L" and "canonical_sm2_der L d"
  shows "always (sm2_signature_der_is_valid L (Buf d)) True"
proof -
  from assms(2) obtain sig r s n canonical where
      "outcome (d2i_ECDSA_SIG L d) (Some (sig, length d))"
      and i2d: "outcome (i2d_ECDSA_SIG L sig) (n, canonical)"
      and facts: "sig_r sig = Some r" "0 < r" "sig_s sig = Some s" "0 < s"
        "n = int (length d)" "take (length d) canonical = d" "d \<noteq> []" "length d \<le> LONG_MAX"
    by (auto simp: canonical_sm2_der_def)
  with assms(1) have "always (d2i_ECDSA_SIG L d) (Some (sig, length d))"
      and "always (i2d_ECDSA_SIG L sig) (n, canonical)"
    by (auto simp: der_law_def intro: steady_outcome)
  with facts show ?thesis
    unfolding sm2_signature_der_is_valid_def by (auto intro!: always_bind)
qed

lemma always_composite_parse_signature:
  assumes "der_law L" and "canonical_sm2_der L s" and "length d = DILITHIUM_SIGNATURE_BYTES"
  shows "always (composite_parse_signature L (Buf (d @ s)) True) (Some (d, s))"
  using assms canonical_sm2_der_nonempty[OF assms(2)]
  unfolding composite_parse_signature_def
  by (auto simp: Let_def intro!: always_ensure always_sm2_signature_der_is_valid)

lemma canonical_sm2_der_length: "canonical_sm2_der L d \<Longrightarrow> length d \<le> LONG_MAX"
  by (simp add: canonical_sm2_der_def)

lemma always_composite_serialize_signature:
  assumes "der_law L" and "\<And>n. always (OPENSSL_malloc L n) True"
    and "canonical_sm2_der L s" and "length d = DILITHIUM_SIGNATURE_BYTES"
  shows "always (composite_serialize_signature L (Buf d) (Buf s) True) (Some (d @ s))"
  using assms canonical_sm2_der_length[OF assms(3)]
  unfolding composite_serialize_signature_def
  by (auto simp: limit_defs sizes intro!: always_ensure always_sm2_signature_der_is_valid)

section \<open>Verification\<close>

text \<open>
  What acceptance of a composite signature means: the key is complete, the signature is the raw
  concatenation of a Dilithium2 signature and a canonical SM2 signature, and both components are
  valid under their own public keys for the same message representative.
\<close>

definition composite_accepts ::
  "('w, 'k, 'e) crypto_lib_scheme \<Rightarrow> 'k hybrid_public_key \<Rightarrow> bytes \<Rightarrow> bytes \<Rightarrow> bytes \<Rightarrow> bool" where
  "composite_accepts L key m c b \<longleftrightarrow>
     (\<exists>sm2 d s digest.
        sm2_public_key key = Some sm2 \<and> b = d @ s \<and>
        length d = DILITHIUM_SIGNATURE_BYTES \<and> canonical_sm2_der L s \<and>
        length c \<le> COMPOSITE_MAX_CONTEXT_BYTES \<and>
        outcome (EVP_Digest L ''SM3'' m) (True, digest) \<and> length digest = 32 \<and>
        length (dilithium_public_key key) = DILITHIUM_PUBLIC_KEY_BYTES \<and>
        ref_verify L d (composite_message c digest) [] (dilithium_public_key key) = 0 \<and>
        sm2_accepts L sm2 (composite_message c digest) s)"

lemma outcome_composite_verify_detailed:
  assumes "outcome (composite_verify_detailed L key m c s) (v, r)"
  shows "v = composite_valid r" and "composite_valid r \<longleftrightarrow> dilithium_valid r \<and> sm2_valid r"
    and "dilithium_valid r \<or> sm2_valid r \<Longrightarrow> format_valid r"
  using assms unfolding composite_verify_detailed_def
  by (auto elim!: outcome_bind simp: Let_def split: option.splits if_splits)

lemma outcome_composite_verify_detailed_valid:
  assumes "outcome (composite_verify_detailed L key m c s) (v, r)" and "composite_valid r"
  obtains k b where "key = Some k" and "s = Buf b" and "\<not> dangling m" and "\<not> dangling c"
    and "composite_accepts L k (buf_bytes m) (buf_bytes c) b"
  using assms unfolding composite_verify_detailed_def composite_accepts_def
  by (fastforce elim!: outcome_elims simp: Let_def dilithium_verify_iff split: option.splits if_splits)

lemma outcome_composite_verify [outcome_elims]:
  assumes "outcome (composite_verify L key m c s) True"
  obtains k b where "key = Some k" and "s = Buf b" and "\<not> dangling m" and "\<not> dangling c"
    and "composite_accepts L k (buf_bytes m) (buf_bytes c) b"
proof -
  from assms obtain r where r: "outcome (composite_verify_detailed L key m c s) (True, r)"
    unfolding composite_verify_def by (auto elim!: outcome_bind)
  moreover from r have "composite_valid r" by (auto dest: outcome_composite_verify_detailed(1))
  ultimately show thesis by (rule outcome_composite_verify_detailed_valid) (rule that)
qed


section \<open>Signing\<close>

lemma outcome_composite_sign [outcome_elims]:
  assumes "outcome (composite_sign L key m c outs) (Some b)"
  obtains k sk digest d s room ret where "key = Some k" and "sm2_private_key k = Some sk"
    and "\<not> dangling m" and "\<not> dangling c"
    and "length (buf_bytes c) \<le> COMPOSITE_MAX_CONTEXT_BYTES"
    and "outcome (EVP_Digest L ''SM3'' (buf_bytes m)) (True, digest)" and "length digest = 32"
    and "outcome (ref_signature L (composite_message (buf_bytes c) digest) []
                   (dilithium_secret_key k)) (0, d)"
    and "0 < ret"
    and "outcome (EVP_DigestSign L ''SM3'' sk SM2_DEFAULT_USER_ID room
                   (composite_message (buf_bytes c) digest)) (ret, s)"
    and "length d = DILITHIUM_SIGNATURE_BYTES" and "canonical_sm2_der L s" and "b = d @ s"
  using assms unfolding composite_sign_def
  by (auto elim!: outcome_elims split: if_splits option.splits)

text \<open>
  Documented behaviour of the two primitives, for a key pair: what signs under the private half
  verifies under the public half. And of the verifying side: its setup calls succeed, and the
  digest and DER routines are functions of their input.
\<close>

definition dilithium_pair :: "('w, 'e) dil_lib_scheme \<Rightarrow> bytes \<Rightarrow> bytes \<Rightarrow> bool" where
  "dilithium_pair L sk pk \<longleftrightarrow>
     length pk = DILITHIUM_PUBLIC_KEY_BYTES \<and>
     (\<forall>m s. outcome (ref_signature L m [] sk) (0, s) \<longrightarrow> ref_verify L s m [] pk = 0)"

definition sm2_pair :: "('w, 'k, 'e) crypto_lib_scheme \<Rightarrow> 'k \<Rightarrow> 'k \<Rightarrow> bool" where
  "sm2_pair L sk pk \<longleftrightarrow>
     (\<forall>m room ret s. 0 < ret \<longrightarrow>
        outcome (EVP_DigestSign L ''SM3'' sk SM2_DEFAULT_USER_ID room m) (ret, s) \<longrightarrow>
        always (EVP_DigestVerify L ''SM3'' pk SM2_DEFAULT_USER_ID s m) 1)"

definition verifier_ready :: "('w, 'k, 'e) crypto_lib_scheme \<Rightarrow> 'k \<Rightarrow> bool" where
  "verifier_ready L key \<longleftrightarrow>
     der_law L \<and> sm2_verify_ready L key \<and> (\<forall>n. always (OPENSSL_malloc L n) True) \<and>
     (\<forall>m. steady (EVP_Digest L ''SM3'' m))"

lemma always_composite_verify_detailed:
  assumes ready: "verifier_ready L sm2" and key: "sm2_public_key k = Some sm2"
    and parts: "canonical_sm2_der L s" "length d = DILITHIUM_SIGNATURE_BYTES"
    and ctx: "\<not> dangling m" "\<not> dangling c" "length (buf_bytes c) \<le> COMPOSITE_MAX_CONTEXT_BYTES"
    and dig: "outcome (EVP_Digest L ''SM3'' (buf_bytes m)) (True, digest)" "length digest = 32"
    and pk: "length (dilithium_public_key k) = DILITHIUM_PUBLIC_KEY_BYTES"
    and dil: "ref_verify L d (composite_message (buf_bytes c) digest) [] (dilithium_public_key k) = 0"
    and sm2: "always (EVP_DigestVerify L ''SM3'' sm2 SM2_DEFAULT_USER_ID s
                 (composite_message (buf_bytes c) digest)) 1"
  shows "always (composite_verify_detailed L (Some k) m c (Buf (d @ s)))
           (True, \<lparr>format_valid = True, dilithium_valid = True, sm2_valid = True,
                   composite_valid = True\<rparr>)"
proof -
  let ?m = "composite_message (buf_bytes c) digest"
  have "always (EVP_Digest L ''SM3'' (buf_bytes m)) (True, digest)"
    using ready dig by (auto simp: verifier_ready_def intro: steady_outcome)
  then have build: "always (composite_build_message L m c True) (Some ?m)"
    using ready ctx dig by (auto simp: verifier_ready_def intro: always_composite_build_message)
  have parse: "always (composite_parse_signature L (Buf (d @ s)) True) (Some (d, s))"
    using ready parts by (auto simp: verifier_ready_def intro: always_composite_parse_signature)
  have sm2_ok: "always (hybrid_sm2_verify L (Some sm2) (Buf ?m) (Buf s)) True"
    using ready sm2 by (auto simp: verifier_ready_def intro: always_hybrid_sm2_verify)
  have "dilithium_verify L (Buf (dilithium_public_key k)) (Buf ?m) (Buf d)"
    using dil pk parts by (simp add: dilithium_verify_iff)
  then show ?thesis
    unfolding composite_verify_detailed_def Let_def using key
    by (auto intro!: always_bind[OF parse] always_bind[OF build] always_bind[OF sm2_ok])
qed

lemma always_composite_verify:
  assumes "always (composite_verify_detailed L key m c s) (v, r)"
  shows "always (composite_verify L key m c s) v"
  unfolding composite_verify_def by (rule always_bind[OF assms]) simp

lemma always_verify_detailed_after_sign:
  assumes sign: "outcome (composite_sign L (Some sk) m c True) (Some b)"
    and keys: "sm2_private_key sk = Some s2k" "sm2_public_key pk = Some p2k"
    and pairs: "dilithium_pair L (dilithium_secret_key sk) (dilithium_public_key pk)"
      "sm2_pair L s2k p2k"
    and ready: "verifier_ready L p2k"
  shows "always (composite_verify_detailed L (Some pk) m c (Buf b))
           (True, \<lparr>format_valid = True, dilithium_valid = True, sm2_valid = True,
                   composite_valid = True\<rparr>)"
proof -
  from sign keys(1) obtain digest d s room ret where "\<not> dangling m" "\<not> dangling c"
      and "length (buf_bytes c) \<le> COMPOSITE_MAX_CONTEXT_BYTES"
      and "outcome (EVP_Digest L ''SM3'' (buf_bytes m)) (True, digest)" "length digest = 32"
      and sig: "outcome (ref_signature L (composite_message (buf_bytes c) digest) []
                     (dilithium_secret_key sk)) (0, d)" "0 < ret"
        "outcome (EVP_DigestSign L ''SM3'' s2k SM2_DEFAULT_USER_ID room
                     (composite_message (buf_bytes c) digest)) (ret, s)"
      and "length d = DILITHIUM_SIGNATURE_BYTES" "canonical_sm2_der L s" and b: "b = d @ s"
    by (elim outcome_composite_sign) auto
  moreover have "always (EVP_DigestVerify L ''SM3'' p2k SM2_DEFAULT_USER_ID s
      (composite_message (buf_bytes c) digest)) 1"
    using pairs(2) sig(2,3) by (auto simp: sm2_pair_def)
  ultimately show ?thesis
    unfolding b using pairs(1) sig(1) ready keys(2)
    by (intro always_composite_verify_detailed) (auto simp: dilithium_pair_def)
qed

lemmas always_verify_after_sign = always_composite_verify[OF always_verify_detailed_after_sign]

text \<open>
  Documented behaviour of the signing side when no call fails for want of resources: SM3 digests
  have 32 bytes and depend on the message only, Dilithium2 signatures fill their fixed length, and
  \<open>EVP_DigestSign\<close>, given the room it asked for, writes a canonical DER signature.
\<close>

definition signer_ready :: "('w, 'k, 'e) crypto_lib_scheme \<Rightarrow> bytes \<Rightarrow> 'k \<Rightarrow> bool" where
  "signer_ready L sk key \<longleftrightarrow>
     (\<forall>n. always (libc_malloc L n) True) \<and> (\<forall>n. always (OPENSSL_malloc L n) True) \<and>
     (\<forall>m. \<exists>d. length d = 32 \<and> always (EVP_Digest L ''SM3'' m) (True, d)) \<and>
     (\<forall>m ret s. outcome (ref_signature L m [] sk) (ret, s) \<longrightarrow>
        ret = 0 \<and> length s = DILITHIUM_SIGNATURE_BYTES) \<and>
     always (EVP_MD_CTX_new L) True \<and> always (EVP_DigestSignInit_ex L ''SM3'' key) 1 \<and>
     always (EVP_PKEY_CTX_set1_id L SM2_DEFAULT_USER_ID) 1 \<and>
     (\<forall>m ret room. outcome (EVP_DigestSign_length L ''SM3'' key SM2_DEFAULT_USER_ID m) (ret, room) \<longrightarrow>
        0 < ret \<and>
        (\<forall>ret' s. outcome (EVP_DigestSign L ''SM3'' key SM2_DEFAULT_USER_ID room m) (ret', s) \<longrightarrow>
           0 < ret' \<and> canonical_sm2_der L s))"

lemma succeeds_dilithium_sign:
  assumes "signer_ready L sk key" and "length sk = DILITHIUM_SECRET_KEY_BYTES"
  shows "succeeds (dilithium_sign L (Buf sk) (Buf m) True)"
  using assms unfolding dilithium_sign_def signer_ready_def
  by (fastforce intro!: succeeds_intros succeeds_bind)

lemma hybrid_sm2_sign_ready:
  assumes "signer_ready L sk key"
  shows "succeeds (hybrid_sm2_sign L (Some key) (Buf m) True)"
    and "outcome (hybrid_sm2_sign L (Some key) (Buf m) True) (Some s) \<Longrightarrow> canonical_sm2_der L s"
proof -
  have "succeeds (do { (ret, room) \<leftarrow> EVP_DigestSign_length L ''SM3'' key SM2_DEFAULT_USER_ID m;
      if ret \<le> 0 then fail
      else ensure (OPENSSL_malloc L room) (do {
        (ret, output) \<leftarrow> EVP_DigestSign L ''SM3'' key SM2_DEFAULT_USER_ID room m;
        if ret \<le> 0 then fail else done_with output }) })"
  proof (rule succeeds_bind)
    fix a
    assume "outcome (EVP_DigestSign_length L ''SM3'' key SM2_DEFAULT_USER_ID m) a"
    with assms obtain ret room where "a = (ret, room)" "0 < ret"
        "\<And>ret' s. outcome (EVP_DigestSign L ''SM3'' key SM2_DEFAULT_USER_ID room m) (ret', s) \<Longrightarrow> 0 < ret'"
      by (cases a) (auto simp: signer_ready_def)
    moreover from assms have "\<And>n. always (OPENSSL_malloc L n) True" by (simp add: signer_ready_def)
    ultimately show "succeeds (case a of (ret, room) \<Rightarrow> if ret \<le> 0 then fail
        else ensure (OPENSSL_malloc L room) (do {
          (ret, output) \<leftarrow> EVP_DigestSign L ''SM3'' key SM2_DEFAULT_USER_ID room m;
          if ret \<le> 0 then fail else done_with output }))"
      by (auto intro!: succeeds_ensure succeeds_bind simp: succeeds_give)
        (metis linorder_not_less succeeds_give)
  qed
  with assms show "succeeds (hybrid_sm2_sign L (Some key) (Buf m) True)"
    unfolding hybrid_sm2_sign_def signer_ready_def buf_bytes.simps
    by (simp add: succeeds_ensure succeeds_ensure_one)
  show "canonical_sm2_der L s" if "outcome (hybrid_sm2_sign L (Some key) (Buf m) True) (Some s)"
    using that assms unfolding hybrid_sm2_sign_def signer_ready_def
    by (fastforce elim!: outcome_elims split: if_splits)
qed

lemma succeeds_composite_sign:
  assumes ready: "signer_ready L (dilithium_secret_key sk) key" and der: "der_law L"
    and key: "sm2_private_key sk = Some key"
    and len: "length (dilithium_secret_key sk) = DILITHIUM_SECRET_KEY_BYTES"
    and m: "\<not> dangling m" and c: "\<not> dangling c" "length (buf_bytes c) \<le> COMPOSITE_MAX_CONTEXT_BYTES"
  shows "succeeds (composite_sign L (Some sk) m c True)"
proof -
  from ready have room: "\<And>n. always (OPENSSL_malloc L n) True" by (simp add: signer_ready_def)
  from ready obtain d where "length d = 32" "always (EVP_Digest L ''SM3'' (buf_bytes m)) (True, d)"
    unfolding signer_ready_def by blast
  with always_composite_build_message[OF m c, of L d] room have "succeeds (composite_build_message L m c True)"
    by (auto simp: succeeds_def dest: always_outcome)
  moreover have "succeeds (composite_serialize_signature L (Buf ds) (Buf ss) True)"
    if "outcome (dilithium_sign L (Buf (dilithium_secret_key sk)) (Buf m') True) (Some ds)"
      and "outcome (hybrid_sm2_sign L (Some key) (Buf m') True) (Some ss)" for m' ds ss
  proof -
    from that(1) have "length ds = DILITHIUM_SIGNATURE_BYTES" by (rule outcome_dilithium_sign)
    then have "always (composite_serialize_signature L (Buf ds) (Buf ss) True) (Some (ds @ ss))"
      by (rule always_composite_serialize_signature[OF der room hybrid_sm2_sign_ready(2)[OF ready that(2)]])
    then show ?thesis by (auto simp: succeeds_def dest: always_outcome)
  qed
  ultimately show ?thesis
    unfolding composite_sign_def using key
    by (auto intro!: succeeds_attempt succeeds_dilithium_sign[OF ready len] hybrid_sm2_sign_ready(1)[OF ready])
qed

end
