(* ===== verification/Hybrid_Sign.thy ===== *)
theory Hybrid_Sign
  imports Composite_Sig
begin

text \<open>
  \<open>include/hybrid_sign.h\<close> and \<open>src/hybrid_sign.c\<close>: the older two-buffer interface, which only
  delegates to the composite core with an empty context.
\<close>

text \<open>Each pointer with its length is one buffer; a zeroed struct holds null pointers of length 0.\<close>

record hybrid_signature =
  sm2_signature :: buf
  dilithium_signature :: buf

definition hybrid_signature_init :: "hybrid_signature \<Rightarrow> hybrid_signature" where
  "hybrid_signature_init signature = \<lparr>sm2_signature = Null 0, dilithium_signature = Null 0\<rparr>"

definition hybrid_signature_cleanup :: "hybrid_signature \<Rightarrow> hybrid_signature" where
  "hybrid_signature_cleanup signature = hybrid_signature_init signature"

text \<open>The result is the return code and the struct behind \<open>signature\<close> after the call.\<close>

definition hybrid_sign ::
  "('w, 'k, 'e) crypto_lib_scheme \<Rightarrow> 'k option \<Rightarrow> buf \<Rightarrow> buf \<Rightarrow> hybrid_signature option \<Rightarrow>
   ('w, bool \<times> hybrid_signature option) prog" where
  "hybrid_sign L sm2_key dilithium_key message signature =
     (case signature of
        None \<Rightarrow> give (False, None)
      | Some sig0 \<Rightarrow>
          let cleaned = hybrid_signature_cleanup sig0 in
          if sm2_key = None \<or> buf_null dilithium_key \<or>
             buf_len dilithium_key \<noteq> DILITHIUM_SECRET_KEY_BYTES
          then give (False, Some cleaned)
          else do {
            let key = \<lparr>sm2_private_key = sm2_key, dilithium_secret_key = buf_bytes dilithium_key\<rparr>;
            filled \<leftarrow>
              attempt (composite_sign L (Some key) message (Null 0) True) (\<lambda>serialized.
              attempt (composite_parse_signature L (Buf serialized) True)
                (\<lambda>(dilithium_component, sm2_component). do {
                   dilithium_ok \<leftarrow> libc_malloc L (length dilithium_component);
                   sm2_ok \<leftarrow> OPENSSL_malloc L (length sm2_component);
                   if \<not> dilithium_ok \<or> \<not> sm2_ok then fail
                   else done_with \<lparr>sm2_signature = Buf sm2_component,
                                   dilithium_signature = Buf dilithium_component\<rparr>
                }));
            case filled of
              None \<Rightarrow> give (False, Some (hybrid_signature_cleanup cleaned))
            | Some sig \<Rightarrow> give (True, Some sig)
          })"

definition hybrid_verify ::
  "('w, 'k, 'e) crypto_lib_scheme \<Rightarrow> 'k option \<Rightarrow> buf \<Rightarrow> buf \<Rightarrow> hybrid_signature option \<Rightarrow>
   ('w, bool) prog" where
  "hybrid_verify L sm2_key dilithium_key message signature =
     (case signature of
        None \<Rightarrow> give False
      | Some sig \<Rightarrow>
          if sm2_key = None \<or> buf_null dilithium_key \<or>
             buf_len dilithium_key \<noteq> DILITHIUM_PUBLIC_KEY_BYTES
          then give False
          else do {
            let key = \<lparr>sm2_public_key = sm2_key, dilithium_public_key = buf_bytes dilithium_key\<rparr>;
            serialized \<leftarrow> composite_serialize_signature L (dilithium_signature sig)
                             (sm2_signature sig) True;
            case serialized of
              None \<Rightarrow> give False
            | Some b \<Rightarrow> composite_verify L (Some key) message (Null 0) (Buf b)
          })"

lemma outcome_hybrid_sign:
  assumes "outcome (hybrid_sign L sk dk m sig) (v, sig')"
  obtains "\<not> v" and "sig = None" and "sig' = None"
  | "\<not> v" and "sig' = Some \<lparr>sm2_signature = Null 0, dilithium_signature = Null 0\<rparr>"
  | d s where "v" and "dk = Buf (buf_bytes dk)" and "sk \<noteq> None"
      and "length (buf_bytes dk) = DILITHIUM_SECRET_KEY_BYTES"
      and "sig' = Some \<lparr>sm2_signature = Buf s, dilithium_signature = Buf d\<rparr>"
      and "length d = DILITHIUM_SIGNATURE_BYTES" and "canonical_sm2_der L s"
      and "outcome (composite_sign L
             (Some \<lparr>sm2_private_key = sk, dilithium_secret_key = buf_bytes dk\<rparr>)
             m (Null 0) True) (Some (d @ s))"
proof (cases sig)
  case None
  with assms that(1) show thesis by (simp add: hybrid_sign_def)
next
  case (Some sig0)
  show thesis
  proof (cases v)
    case False
    with assms Some that(2) show thesis
      unfolding hybrid_sign_def hybrid_signature_cleanup_def hybrid_signature_init_def Let_def
      by (auto elim!: outcome_bind split: if_splits option.splits)
  next
    case True
    with assms Some that(3) show thesis
      unfolding hybrid_sign_def Let_def
      by (cases dk) (auto elim!: outcome_bind outcome_attempt_Some outcome_composite_parse_signature
          split: if_splits option.splits)
  qed
qed

lemma outcome_hybrid_verify [outcome_elims]:
  assumes "outcome (hybrid_verify L pk dk m sig) True"
  obtains d s where "\<not> dangling m"
    and "sig = Some \<lparr>sm2_signature = Buf s, dilithium_signature = Buf d\<rparr>"
    and "composite_accepts L \<lparr>sm2_public_key = pk, dilithium_public_key = buf_bytes dk\<rparr>
           (buf_bytes m) [] (d @ s)"
proof -
  from assms obtain sg b where sg: "sig = Some sg"
      and ser: "outcome (composite_serialize_signature L (dilithium_signature sg)
                  (sm2_signature sg) True) (Some b)"
      and ver: "outcome (composite_verify L
                  (Some \<lparr>sm2_public_key = pk, dilithium_public_key = buf_bytes dk\<rparr>)
                  m (Null 0) (Buf b)) True"
    unfolding hybrid_verify_def Let_def
    by (auto elim!: outcome_bind split: if_splits option.splits)
  from ser obtain d s where "dilithium_signature sg = Buf d" "sm2_signature sg = Buf s" "b = d @ s"
    by (elim outcome_composite_serialize_signature) auto
  moreover from ver have "\<not> dangling m" and
      "composite_accepts L \<lparr>sm2_public_key = pk, dilithium_public_key = buf_bytes dk\<rparr>
         (buf_bytes m) [] b"
    by (auto elim!: outcome_composite_verify)
  ultimately show thesis using sg that by (cases sg) auto
qed

text \<open>
  The other way round: on a well-formed signature, whatever \<open>hybrid_verify\<close> answers, \<open>composite_verify\<close>
  answers on the concatenation.
\<close>

lemma outcome_hybrid_verify_core:
  assumes "outcome (hybrid_verify L (Some k) (Buf b) m (Some \<lparr>sm2_signature = Buf s, dilithium_signature = Buf d\<rparr>)) v"
    and "length b = DILITHIUM_PUBLIC_KEY_BYTES" and "length d = DILITHIUM_SIGNATURE_BYTES"
    and "canonical_sm2_der L s" and "der_law L" and "\<forall>n. always (OPENSSL_malloc L n) True"
  shows "outcome (composite_verify L (Some \<lparr>sm2_public_key = Some k, dilithium_public_key = b\<rparr>)
           m (Null 0) (Buf (d @ s))) v"
proof -
  have ser: "always (composite_serialize_signature L (Buf d) (Buf s) True) (Some (d @ s))"
    using assms(3-6) by (auto intro: always_composite_serialize_signature)
  from assms(1,2) obtain r where "outcome (composite_serialize_signature L (Buf d) (Buf s) True) r"
      and "outcome (case r of None \<Rightarrow> give False
          | Some c \<Rightarrow> composite_verify L (Some \<lparr>sm2_public_key = Some k, dilithium_public_key = b\<rparr>)
              m (Null 0) (Buf c)) v"
    unfolding hybrid_verify_def Let_def by (auto elim!: outcome_bind)
  moreover from this(1) ser have "r = Some (d @ s)" by (simp add: always_outcome)
  ultimately show ?thesis by simp
qed

lemma outcome_hybrid_verify_True:
  assumes "outcome (hybrid_verify L pk dk m sig) True"
  shows "\<exists>k b d s. pk = Some k \<and> dk = Buf b \<and> length b = DILITHIUM_PUBLIC_KEY_BYTES \<and>
    sig = Some \<lparr>sm2_signature = Buf s, dilithium_signature = Buf d\<rparr> \<and>
    outcome (composite_verify L (Some \<lparr>sm2_public_key = Some k, dilithium_public_key = b\<rparr>)
      m (Null 0) (Buf (d @ s))) True"
proof -
  from assms obtain sg b k c where sg: "sig = Some sg" "pk = Some k" "dk = Buf b" "length b = DILITHIUM_PUBLIC_KEY_BYTES"
      and ser: "outcome (composite_serialize_signature L (dilithium_signature sg)
                  (sm2_signature sg) True) (Some c)"
      and ver: "outcome (composite_verify L
                  (Some \<lparr>sm2_public_key = Some k, dilithium_public_key = b\<rparr>)
                  m (Null 0) (Buf c)) True"
    unfolding hybrid_verify_def Let_def
    by (cases dk) (auto elim!: outcome_bind split: if_splits option.splits)
  from ser obtain d s where "dilithium_signature sg = Buf d" "sm2_signature sg = Buf s" "c = d @ s"
    by (elim outcome_composite_serialize_signature) auto
  with sg ver show ?thesis by (cases sg) auto
qed

lemma always_hybrid_verify_after_sign:
  assumes sign: "outcome (hybrid_sign L sk dk m sig) (True, Some sig')"
    and keys: "sk = Some s2k" "pk = Some p2k"
    and pairs: "dilithium_pair L (buf_bytes dk) dpk" "sm2_pair L s2k p2k"
    and ready: "verifier_ready L p2k"
  shows "always (hybrid_verify L pk (Buf dpk) m (Some sig')) True"
proof -
  from sign obtain d s where sg: "sig' = \<lparr>sm2_signature = Buf s, dilithium_signature = Buf d\<rparr>"
      and parts: "length d = DILITHIUM_SIGNATURE_BYTES" "canonical_sm2_der L s"
      and core: "outcome (composite_sign L
             (Some \<lparr>sm2_private_key = sk, dilithium_secret_key = buf_bytes dk\<rparr>)
             m (Null 0) True) (Some (d @ s))"
    by (elim outcome_hybrid_sign) auto
  have "always (composite_verify L
      (Some \<lparr>sm2_public_key = pk, dilithium_public_key = dpk\<rparr>) m (Null 0) (Buf (d @ s))) True"
    using keys pairs ready by (auto intro: always_verify_after_sign[OF core])
  moreover have "always (composite_serialize_signature L (Buf d) (Buf s) True) (Some (d @ s))"
    using parts ready by (auto simp: verifier_ready_def intro: always_composite_serialize_signature)
  ultimately show ?thesis
    unfolding hybrid_verify_def sg Let_def using keys pairs(1)
    by (auto simp: dilithium_pair_def intro!: always_bind)
qed

end
