(* ===== verification/Reference_Facts.thy ===== *)
theory Reference_Facts
  imports Hybrid_Sign
begin

text \<open>The concrete library of \<open>Reference_Lib\<close> satisfies the laws; used only in witnesses.\<close>

definition toy_point :: bytes where
  "toy_point = 4 # replicate 64 9"

lemma toy_point_shape [simp]: "length toy_point = 65" "toy_point ! 0 = 4" "toy_point ! Suc 0 = 9"
  by (simp_all add: toy_point_def)

definition toy_private :: "bytes hybrid_private_key" where
  "toy_private = \<lparr>sm2_private_key = Some toy_point, dilithium_secret_key = replicate 2560 7\<rparr>"

definition toy_public :: "bytes hybrid_public_key" where
  "toy_public = \<lparr>sm2_public_key = Some toy_point, dilithium_public_key = replicate 1312 7\<rparr>"

lemma toy_key_fields [simp]:
  "sm2_private_key toy_private = Some toy_point" "sm2_public_key toy_public = Some toy_point"
  "dilithium_secret_key toy_private = replicate 2560 7"
  "dilithium_public_key toy_public = replicate 1312 7"
  by (simp_all add: toy_private_def toy_public_def)

lemma toy_public_update [simp]: "toy_public\<lparr>sm2_public_key := Some toy_point\<rparr> = toy_public"
  by (simp add: toy_public_def)

lemma toy_wf [simp]: "wf_private_key toy_private" "wf_public_key toy_public"
  by (simp_all add: wf_private_key_def wf_public_key_def sizes)

lemma toy_sm2_import_law [simp]: "sm2_import_law (toy_with e)"
  by (auto simp: sm2_import_law_def sm2_octets_def toy_with_def)

lemma toy_sm2_octets [simp]: "length p = 65 \<Longrightarrow> p ! 0 = 4 \<Longrightarrow> sm2_octets (toy_with e) p p"
  by (auto simp: sm2_octets_def toy_with_def sizes)

lemma toy_der_law [simp]: "der_law (toy_with e)"
  by (simp add: der_law_def toy_with_def)

lemma toy_malloc [simp]: "always (OPENSSL_malloc (toy_with e) n) True"
  by (simp add: toy_with_def)

lemma toy_verifier_ready [simp]: "verifier_ready (toy_with e) k"
  by (auto simp: verifier_ready_def sm2_verify_ready_def) (simp_all add: toy_with_def)

lemma toy_sm2_import_ready [simp]: "sm2_import_ready (toy_with e) p p"
  by (simp add: sm2_import_ready_def toy_with_def)

lemma toy_dilithium_pair [simp]:
  "length pk = 1312 \<Longrightarrow> hd pk = hd sk \<Longrightarrow> dilithium_pair (toy_with e) sk pk"
  by (auto simp: dilithium_pair_def toy_with_def sizes)

lemma toy_sm2_pair [simp]: "sm2_pair (toy_with e) k k"
  by (auto simp: sm2_pair_def toy_with_def)

lemma toy_canonical [simp]: "canonical_sm2_der (toy_with e) (toy_sm2_signature k m)"
proof -
  have "\<exists>r s. toy_sm2_signature k m = toy_der r s \<and> 0 < uint r \<and> 0 < uint s"
    using toy_number_positive unfolding toy_sm2_signature_def by blast
  then obtain r s where rs: "toy_sm2_signature k m = toy_der r s" "0 < uint r" "0 < uint s"
    by blast
  then show ?thesis
    unfolding canonical_sm2_der_def rs(1) toy_with_def
    by (auto simp: toy_der_def toy_i2d_def LONG_MAX_def)
qed

text \<open>What signing the message \<open>m\<close> with the context \<open>c\<close> produces.\<close>

definition toy_composite_signature :: "bytes \<Rightarrow> bytes \<Rightarrow> bytes" where
  "toy_composite_signature m c =
     toy_dilithium_signature 7 (composite_message c (pad 32 m))
     @ toy_sm2_signature toy_point (composite_message c (pad 32 m))"

lemma toy_build [simp]:
  "length c \<le> 255 \<Longrightarrow>
     always (composite_build_message (toy_with e) (Buf m) (Buf c) True) (Some (composite_message c (pad 32 m)))"
  using always_composite_build_message[of "Buf m" "Buf c" "toy_with e" "pad 32 m"]
  by (simp add: COMPOSITE_MAX_CONTEXT_BYTES_def) (simp add: toy_with_def)

lemma toy_sign:
  assumes "length c \<le> 255"
  shows "always (composite_sign (toy_with e) (Some toy_private) (Buf m) (Buf c) True)
           (Some (toy_composite_signature m c))"
proof -
  let ?m = "composite_message c (pad 32 m)"
  have d: "always (dilithium_sign (toy_with e) (Buf (replicate 2560 7)) (Buf ?m) True)
             (Some (toy_dilithium_signature 7 ?m))"
    by (simp add: dilithium_sign_def toy_with_def sizes toy_dilithium_signature_def ensure_def)
  have s: "always (hybrid_sm2_sign (toy_with e) (Some toy_point) (Buf ?m) True)
             (Some (toy_sm2_signature toy_point ?m))"
    by (simp add: hybrid_sm2_sign_def toy_with_def ensure_def positive_def)
  have "always (composite_serialize_signature (toy_with e) (Buf (toy_dilithium_signature 7 ?m))
          (Buf (toy_sm2_signature toy_point ?m)) True) (Some (toy_composite_signature m c))"
    unfolding toy_composite_signature_def
    by (rule always_composite_serialize_signature)
      (simp_all add: toy_dilithium_signature_def sizes)
  then show ?thesis
    unfolding composite_sign_def using d s toy_build[OF assms]
    by (auto intro!: always_attempt)
qed

lemma toy_sign_run: "length c \<le> 255 \<Longrightarrow>
    run (composite_sign (toy_with e) (Some toy_private) (Buf m) (Buf c) True) w
      = Some (toy_composite_signature m c)"
  by (rule always_run[OF toy_sign])

lemma toy_serialize_key_run:
  "run (composite_serialize_public_key (toy_with e) (Some toy_public) True) w
     = Some (replicate 1312 7 @ toy_point)"
  using always_composite_serialize_public_key[of toy_public toy_point "toy_with e" toy_point]
  by (intro always_run) simp

lemma toy_build_run:
  "length c \<le> 255 \<Longrightarrow>
     run (composite_build_message (toy_with e) (Buf m) (Buf c) True) w = Some (composite_message c (pad 32 m))"
  by (rule always_run[OF toy_build])

lemma toy_verify_run:
  assumes "length c \<le> 255"
  shows "run (composite_verify (toy_with e) (Some toy_public) (Buf m) (Buf c)
    (Buf (toy_composite_signature m c))) w"
  using always_run[OF always_verify_after_sign[OF run_outcome[OF toy_sign_run[OF assms, where e = e]],
        where pk = toy_public and s2k = toy_point and p2k = toy_point]] by simp

lemma toy_serialize:
  "always (composite_serialize_signature (toy_with e)
     (Buf (toy_dilithium_signature 7 (composite_message c (pad 32 m))))
     (Buf (toy_sm2_signature toy_point (composite_message c (pad 32 m)))) True)
     (Some (toy_composite_signature m c))"
  unfolding toy_composite_signature_def
  by (rule always_composite_serialize_signature) (simp_all add: toy_dilithium_signature_def sizes)

lemmas toy_serialize_run = always_run[OF toy_serialize]

lemma toy_parse:
  "always (composite_parse_signature (toy_with e) (Buf (toy_composite_signature m c)) True)
     (Some (toy_dilithium_signature 7 (composite_message c (pad 32 m)),
            toy_sm2_signature toy_point (composite_message c (pad 32 m))))"
  unfolding toy_composite_signature_def
  by (rule always_composite_parse_signature) (simp_all add: toy_dilithium_signature_def sizes)

lemmas toy_parse_run = always_run[OF toy_parse]

lemma toy_sign_null:
  "run_state (composite_sign (toy_with e) (Some toy_private) (Buf m) (Null 0) True) ()
     = (Some (toy_composite_signature m []), ())"
proof -
  have "composite_sign (toy_with e) (Some toy_private) (Buf m) (Null 0) True
      = composite_sign (toy_with e) (Some toy_private) (Buf m) (Buf []) True"
    by (simp add: composite_sign_def composite_build_message_def Let_def cong: if_cong)
  then show ?thesis
    using toy_sign_run[where c = "[]" and m = m and w = "()" and e = e] by (simp add: run_def prod_eq_iff)
qed

lemma toy_hybrid_sign_run:
  "run (hybrid_sign (toy_with e) (Some toy_point) (Buf (replicate 2560 7)) (Buf m)
      (Some \<lparr>sm2_signature = Null 0, dilithium_signature = Null 0\<rparr>)) w
     = (True, Some \<lparr>sm2_signature = Buf (toy_sm2_signature toy_point (composite_message [] (pad 32 m))),
          dilithium_signature = Buf (toy_dilithium_signature 7 (composite_message [] (pad 32 m)))\<rparr>)"
proof -
  have sign: "always (composite_sign (toy_with e) (Some \<lparr>sm2_private_key = Some toy_point,
      dilithium_secret_key = replicate 2560 7\<rparr>) (Buf m) (Null 0) True) (Some (toy_composite_signature m []))"
    using toy_sign_null[of e m] by (simp add: always_def run_def toy_private_def)
  show ?thesis
    unfolding hybrid_sign_def
    by (rule always_run)
      (auto simp: sizes toy_with_def[THEN arg_cong, of libc_malloc] toy_with_def[THEN arg_cong, of OPENSSL_malloc]
         intro!: always_bind always_attempt[OF sign] always_attempt[OF toy_parse])
qed

text \<open>With the one-state environment, a program that always returns \<open>a\<close> is \<open>give a\<close>.\<close>

lemma always_unit: "always (m :: (unit, 'a) prog) a \<Longrightarrow> m = give a"
proof -
  assume "always m a"
  then have "\<And>w. run_state m w = (a, w)" by (simp add: always_def run_def prod_eq_iff)
  then show "m = give a" by (cases m) (auto simp: State_Monad.return_def)
qed

end
