(* ===== verification/Composite_Theorems.thy ===== *)
theory Composite_Theorems
  imports Reference_Facts
begin

text \<open>
  The properties of the composite core: what signing, verification, the two byte encodings and key
  generation promise, each with an application to the concrete library of \<open>Reference_Lib\<close>.
\<close>

section \<open>Verification and signing\<close>

text \<open>
  C1: A composite signature that \<open>composite_verify\<close> accepts really is the concatenation of a
  2420-byte Dilithium2 signature and a canonical DER SM2 signature, and both of them are valid,
  each under its own component key, for the same message representative built from the message's
  SM3 digest and the context.
\<close>

theorem composite_verify_sound:
  assumes "run (composite_verify L key m c s) w"
  shows "\<exists>k b. key = Some k \<and> s = Buf b \<and> \<not> dangling m \<and> \<not> dangling c \<and>
           composite_accepts L k (buf_bytes m) (buf_bytes c) b"
proof -
  from assms have "outcome (composite_verify L key m c s) True" by (intro run_outcome) simp
  then show ?thesis by (elim outcome_composite_verify) blast
qed

theorem composite_verify_sound_witness:
  "\<exists>k b. Some toy_public = Some k \<and> Buf (toy_composite_signature [1, 2] [3]) = Buf b \<and>
     \<not> dangling (Buf [1, 2]) \<and> \<not> dangling (Buf [3]) \<and>
     composite_accepts toy_lib k (buf_bytes (Buf [1, 2])) (buf_bytes (Buf [3])) b"
  by (rule composite_verify_sound[OF toy_verify_run[where c = "[3]" and m = "[1, 2]", simplified]])

text \<open>
  The verification report is strict-AND whatever the inputs are and whatever the libraries do:
  the return value is the report's composite flag, and that flag is set exactly when the format is
  valid, the Dilithium2 component is valid and the SM2 component is valid.
\<close>

theorem composite_report_strict_and:
  "case run (composite_verify_detailed L key m c s) w of (v, r) \<Rightarrow>
     v = composite_valid r \<and>
     (composite_valid r \<longleftrightarrow> format_valid r \<and> dilithium_valid r \<and> sm2_valid r)"
proof (cases "run (composite_verify_detailed L key m c s) w")
  case (Pair v r)
  then have "outcome (composite_verify_detailed L key m c s) (v, r)" by (rule run_outcome)
  from outcome_composite_verify_detailed[OF this] show ?thesis by (auto simp: Pair)
qed

text \<open>
  C2: A signature made by \<open>composite_sign\<close> verifies, with the matching public key and the same
  message and context, in every later state of the libraries, if the two primitives verify what
  they sign and the verifier's own setup calls succeed.
\<close>

theorem composite_sign_then_verify:
  assumes "run (composite_sign L (Some sk) m c True) w = Some b"
    and "sm2_private_key sk = Some s2k" and "sm2_public_key pk = Some p2k"
    and "dilithium_pair L (dilithium_secret_key sk) (dilithium_public_key pk)"
    and "sm2_pair L s2k p2k" and "verifier_ready L p2k"
  shows "run (composite_verify L (Some pk) m c (Buf b)) w'"
  using always_run[OF always_verify_after_sign[OF run_outcome[OF assms(1)] assms(2-6)]] by simp

theorem composite_sign_then_verify_witness:
  "run (composite_verify toy_lib (Some toy_public) (Buf [1, 2]) (Buf [3])
     (Buf (toy_composite_signature [1, 2] [3]))) ()"
  by (rule composite_sign_then_verify[OF toy_sign_run[where c = "[3]" and m = "[1, 2]"],
        where s2k = toy_point and p2k = toy_point]) simp_all

text \<open>
  C3: The message representative binds the context and the digest: when building it for two inputs
  gives the same bytes, the two contexts are equal and SM3 reported the same 32-byte digest for the
  two messages, so no choice of context can be traded against message bytes.
\<close>

theorem composite_message_binding:
  assumes "run (composite_build_message L m c outs) w = Some b"
    and "run (composite_build_message L m' c' outs') w' = Some b"
  shows "buf_bytes c = buf_bytes c' \<and>
    (\<exists>digest. length digest = 32 \<and> outcome (EVP_Digest L ''SM3'' (buf_bytes m)) (True, digest) \<and>
              outcome (EVP_Digest L ''SM3'' (buf_bytes m')) (True, digest))"
proof -
  from run_outcome[OF assms(1)] obtain d where d: "length (buf_bytes c) \<le> COMPOSITE_MAX_CONTEXT_BYTES"
      "outcome (EVP_Digest L ''SM3'' (buf_bytes m)) (True, d)" "length d = 32"
      "b = composite_message (buf_bytes c) d"
    by (elim outcome_composite_build_message)
  from run_outcome[OF assms(2)] obtain d' where d': "length (buf_bytes c') \<le> COMPOSITE_MAX_CONTEXT_BYTES"
      "outcome (EVP_Digest L ''SM3'' (buf_bytes m')) (True, d')"
      "b = composite_message (buf_bytes c') d'"
    by (elim outcome_composite_build_message)
  from composite_message_inj[of "buf_bytes c" d "buf_bytes c'" d'] d d' show ?thesis by auto
qed

theorem composite_message_binding_witness:
  "buf_bytes (Buf [7]) = buf_bytes (Buf [7]) \<and>
    (\<exists>digest. length digest = 32 \<and>
       outcome (EVP_Digest toy_lib ''SM3'' (buf_bytes (Buf [1]))) (True, digest) \<and>
       outcome (EVP_Digest toy_lib ''SM3'' (buf_bytes (Buf [1, 0]))) (True, digest))"
proof (rule composite_message_binding)
  show "run (composite_build_message toy_lib (Buf [1]) (Buf [7]) True) () = Some (composite_message [7] (pad 32 [1]))"
    by (simp add: toy_build_run)
  have "pad 32 [1] = pad 32 [1, 0]" by (simp add: pad_def numeral_eq_Suc)
  then show "run (composite_build_message toy_lib (Buf [1, 0]) (Buf [7]) True) () = Some (composite_message [7] (pad 32 [1]))"
    by (simp add: toy_build_run)
qed

section \<open>Encodings\<close>

text \<open>
  Signature round trip: what \<open>composite_serialize_signature\<close> produced is parsed back, at any
  later time, into exactly the two components that went in.
\<close>

theorem composite_signature_roundtrip:
  assumes "run (composite_serialize_signature L ds ss outs) w = Some b" and "der_law L"
  shows "run (composite_parse_signature L (Buf b) True) w' = Some (buf_bytes ds, buf_bytes ss)"
proof -
  from run_outcome[OF assms(1)] obtain d s where "ds = Buf d" "ss = Buf s" "b = d @ s"
      "length d = DILITHIUM_SIGNATURE_BYTES" "canonical_sm2_der L s"
    by (elim outcome_composite_serialize_signature)
  with always_composite_parse_signature[OF assms(2)] show ?thesis by (auto intro: always_run)
qed

theorem composite_signature_roundtrip_witness:
  "run (composite_parse_signature toy_lib (Buf (toy_composite_signature [1] [])) True) ()
     = Some (buf_bytes (Buf (toy_dilithium_signature 7 (composite_message [] (pad 32 [1])))),
             buf_bytes (Buf (toy_sm2_signature toy_point (composite_message [] (pad 32 [1])))))"
  by (rule composite_signature_roundtrip[OF toy_serialize_run]) simp

text \<open>
  C4: The parser is exact, so a composite signature is not malleable by re-encoding: it accepts
  only a Dilithium2 signature followed by one canonical DER pair of positive numbers that fills
  the rest of the input, and serializing the parsed components can only give the input back.
\<close>

theorem composite_parse_signature_exact:
  assumes "run (composite_parse_signature L signature outs) w = Some (d, s)"
  shows "signature = Buf (d @ s) \<and> length d = DILITHIUM_SIGNATURE_BYTES \<and> canonical_sm2_der L s \<and>
    run (composite_serialize_signature L (Buf d) (Buf s) True) w' \<in> {None, Some (d @ s)}"
proof -
  from run_outcome[OF assms] have sig: "signature = Buf (d @ s)"
      and "length d = DILITHIUM_SIGNATURE_BYTES" "canonical_sm2_der L s"
    by (auto elim: outcome_composite_parse_signature)
  moreover have "outs" using assms by (simp add: composite_parse_signature_def split: if_splits)
  then have parsed: "outcome (composite_parse_signature L (Buf (d @ s)) True) (Some (d, s))"
    using run_outcome[OF assms] sig by simp
  have "run (composite_serialize_signature L (Buf d) (Buf s) True) w' \<in> {None, Some (d @ s)}"
  proof (cases "run (composite_serialize_signature L (Buf d) (Buf s) True) w'")
    case (Some b)
    then show ?thesis using signature_format.repack[OF TrueI parsed] by (auto dest: run_outcome)
  qed simp
  ultimately show ?thesis by blast
qed

theorem composite_parse_signature_exact_witness:
  "\<exists>d s. Buf (toy_composite_signature [1] []) = Buf (d @ s) \<and>
     length d = DILITHIUM_SIGNATURE_BYTES \<and> canonical_sm2_der toy_lib s \<and>
     run (composite_serialize_signature toy_lib (Buf d) (Buf s) True) () \<in> {None, Some (d @ s)}"
  by (rule exI, rule exI, rule composite_parse_signature_exact[OF toy_parse_run])

text \<open>
  C5: Public-key round trip: a serialized composite public key is 1377 bytes, the Dilithium2 key
  followed by the uncompressed SM2 point, and parsing it later succeeds with a key that exports
  the same bytes, when OpenSSL can import the point and exports what it imported.
\<close>

theorem composite_public_key_roundtrip:
  assumes "run (composite_serialize_public_key L (Some pk) True) w = Some b"
    and "wf_public_key pk" and "sm2_import_law L"
    and "sm2_import_ready L (drop DILITHIUM_PUBLIC_KEY_BYTES b) k"
  shows "length b = 1377 \<and> take DILITHIUM_PUBLIC_KEY_BYTES b = dilithium_public_key pk \<and>
    (\<exists>pk'. run (composite_parse_public_key L (Buf b) (Some old)) w' = (True, Some pk') \<and>
           dilithium_public_key pk' = dilithium_public_key pk \<and>
           public_key_octets L pk' = public_key_octets L pk)"
proof -
  from run_outcome[OF assms(1)] obtain sm2 p where "sm2_octets L sm2 p"
      and "sm2_public_key pk = Some sm2" and b: "b = dilithium_public_key pk @ p"
    by (elim outcome_composite_serialize_public_key) auto
  moreover from this assms(2) have len: "length b = COMPOSITE_PUBLIC_KEY_BYTES"
      and d: "drop DILITHIUM_PUBLIC_KEY_BYTES b = p" "take DILITHIUM_PUBLIC_KEY_BYTES b = dilithium_public_key pk"
    by (auto simp: wf_public_key_def sm2_octets_def sizes)
  ultimately have parse: "always (composite_parse_public_key L (Buf b) (Some old))
      (True, Some \<lparr>sm2_public_key = Some k, dilithium_public_key = dilithium_public_key pk\<rparr>)"
    using always_composite_parse_public_key[OF len _ assms(4), of old] by (simp add: sm2_octets_def)
  moreover have "public_key_octets L pk = b"
    using public_key_format.pack_layout[OF run_outcome[OF assms(1)]] by simp
  ultimately show ?thesis
    using len d composite_parse_public_key_octets[OF assms(3) run_outcome[OF always_run[OF parse]]]
    by (auto simp: sizes always_run[OF parse])
qed

theorem composite_public_key_roundtrip_witness:
  "length (replicate 1312 7 @ toy_point) = 1377 \<and>
    take DILITHIUM_PUBLIC_KEY_BYTES (replicate 1312 7 @ toy_point) = dilithium_public_key toy_public \<and>
    (\<exists>pk'. run (composite_parse_public_key toy_lib (Buf (replicate 1312 7 @ toy_point)) (Some toy_public)) ()
             = (True, Some pk') \<and>
           dilithium_public_key pk' = dilithium_public_key toy_public \<and>
           public_key_octets toy_lib pk' = public_key_octets toy_lib toy_public)"
  by (rule composite_public_key_roundtrip[OF toy_serialize_key_run, where k = toy_point])
    (simp_all add: sizes)

text \<open>
  C6: The public-key parser rejects every input that is not exactly 1377 bytes with the octet
  \<open>0x04\<close> at the start of the SM2 point, and whenever it rejects, it leaves the caller's key
  exactly as it was.
\<close>

theorem composite_parse_public_key_strict:
  "case run (composite_parse_public_key L serialized key) w of (ok, key') \<Rightarrow>
     if ok then (\<exists>b sm2. serialized = Buf b \<and> length b = 1377 \<and> b ! 1312 = 4 \<and>
                   key' = Some \<lparr>sm2_public_key = Some sm2, dilithium_public_key = take 1312 b\<rparr>)
     else key' = key"
proof (cases "run (composite_parse_public_key L serialized key) w")
  case (Pair ok key')
  then have out: "outcome (composite_parse_public_key L serialized key) (ok, key')"
    by (rule run_outcome)
  show ?thesis
  proof (cases ok)
    case True
    with out obtain b sm2 where "serialized = Buf b" "length b = COMPOSITE_PUBLIC_KEY_BYTES"
        "drop DILITHIUM_PUBLIC_KEY_BYTES b ! 0 = 4"
        "key' = Some \<lparr>sm2_public_key = Some sm2, dilithium_public_key = take DILITHIUM_PUBLIC_KEY_BYTES b\<rparr>"
      by (auto elim: outcome_composite_parse_public_key)
    with True Pair show ?thesis by (auto simp: sizes)
  next
    case False
    with out have "key' = key"
      unfolding composite_parse_public_key_def
      by (auto elim!: outcome_bind split: if_splits option.splits)
    with False Pair show ?thesis by simp
  qed
qed

section \<open>Key generation and the two-buffer interface\<close>

text \<open>
  Key generation is atomic: it either fails and leaves both structs untouched, or it fills both
  with the same fresh SM2 key object and one Dilithium2 key pair from a successful generator call.
\<close>

theorem composite_key_generate_atomic:
  "case run (composite_key_generate L priv pub) w of (ok, priv', pub') \<Rightarrow>
     if ok then (\<exists>sm2 pk sk ret. 0 < ret \<and> outcome (EVP_PKEY_generate L ''SM2'') (ret, Some sm2) \<and>
                   outcome (ref_keypair L) (0, pk, sk) \<and>
                   priv' = Some \<lparr>sm2_private_key = Some sm2, dilithium_secret_key = sk\<rparr> \<and>
                   pub' = Some \<lparr>sm2_public_key = Some sm2, dilithium_public_key = pk\<rparr>)
     else priv' = priv \<and> pub' = pub"
proof (cases "run (composite_key_generate L priv pub) w")
  case (fields ok priv' pub')
  then have "outcome (composite_key_generate L priv pub) (ok, priv', pub')" by (rule run_outcome)
  then have "if ok then (\<exists>sm2 pk sk ret. 0 < ret \<and> outcome (EVP_PKEY_generate L ''SM2'') (ret, Some sm2) \<and>
                   outcome (ref_keypair L) (0, pk, sk) \<and>
                   priv' = Some \<lparr>sm2_private_key = Some sm2, dilithium_secret_key = sk\<rparr> \<and>
                   pub' = Some \<lparr>sm2_public_key = Some sm2, dilithium_public_key = pk\<rparr>)
     else priv' = priv \<and> pub' = pub"
    unfolding composite_key_generate_def hybrid_sm2_generate_keypair_def
    by (auto elim!: outcome_elims simp: not_le split: if_splits option.splits) blast?
  with fields show ?thesis by simp
qed

text \<open>
  C7: The older two-buffer interface is the composite core with an empty context. When \<open>hybrid_sign\<close>
  succeeds, its two buffers concatenate to a signature of \<open>composite_sign\<close>, and \<open>hybrid_verify\<close>
  accepts them later under the matching public keys. \<open>hybrid_verify\<close> accepts nothing else than
  \<open>composite_verify\<close> does: an accepted signature has both buffers, and their concatenation is accepted
  by \<open>composite_verify\<close> under the composite of the two keys; and on two buffers of the right form its
  answer, yes or no, is an answer of \<open>composite_verify\<close> on the concatenation.
\<close>

theorem hybrid_sign_then_verify:
  assumes "run (hybrid_sign L (Some s2k) dk m (Some old)) w = (True, Some sg)"
    and "dilithium_pair L (buf_bytes dk) dpk" and "sm2_pair L s2k p2k" and "verifier_ready L p2k"
  shows "(\<exists>d s. sg = \<lparr>sm2_signature = Buf s, dilithium_signature = Buf d\<rparr> \<and>
            outcome (composite_sign L
              (Some \<lparr>sm2_private_key = Some s2k, dilithium_secret_key = buf_bytes dk\<rparr>)
              m (Null 0) True) (Some (d @ s))) \<and>
         run (hybrid_verify L (Some p2k) (Buf dpk) m (Some sg)) w' \<and>
         (\<forall>pk k msg sig. run (hybrid_verify L pk k msg sig) w' \<longrightarrow>
            (\<exists>p b d s. pk = Some p \<and> k = Buf b \<and> length b = DILITHIUM_PUBLIC_KEY_BYTES \<and>
               sig = Some \<lparr>sm2_signature = Buf s, dilithium_signature = Buf d\<rparr> \<and>
               outcome (composite_verify L (Some \<lparr>sm2_public_key = Some p, dilithium_public_key = b\<rparr>)
                 msg (Null 0) (Buf (d @ s))) True)) \<and>
         (\<forall>p b msg d s. length b = DILITHIUM_PUBLIC_KEY_BYTES \<longrightarrow> length d = DILITHIUM_SIGNATURE_BYTES \<longrightarrow>
            canonical_sm2_der L s \<longrightarrow>
            outcome (composite_verify L (Some \<lparr>sm2_public_key = Some p, dilithium_public_key = b\<rparr>)
              msg (Null 0) (Buf (d @ s)))
              (run (hybrid_verify L (Some p) (Buf b) msg
                 (Some \<lparr>sm2_signature = Buf s, dilithium_signature = Buf d\<rparr>)) w'))"
proof -
  note out = run_outcome[OF assms(1)]
  from out have "\<exists>d s. sg = \<lparr>sm2_signature = Buf s, dilithium_signature = Buf d\<rparr> \<and>
            outcome (composite_sign L
              (Some \<lparr>sm2_private_key = Some s2k, dilithium_secret_key = buf_bytes dk\<rparr>)
              m (Null 0) True) (Some (d @ s))"
    by (elim outcome_hybrid_sign) auto
  moreover have "run (hybrid_verify L (Some p2k) (Buf dpk) m (Some sg)) w' = True"
    by (rule always_run[OF always_hybrid_verify_after_sign[OF out refl refl assms(2-4)]])
  moreover have "der_law L" "\<forall>n. always (OPENSSL_malloc L n) True"
    using assms(4) by (simp_all add: verifier_ready_def)
  ultimately show ?thesis
    by (intro conjI allI impI outcome_hybrid_verify_True outcome_hybrid_verify_core[OF outcome_run])
      (auto intro: run_outcome)
qed

theorem hybrid_sign_then_verify_witness:
  "run (hybrid_verify toy_lib (Some toy_point) (Buf (replicate 1312 7)) (Buf [5])
     (Some \<lparr>sm2_signature = Buf (toy_sm2_signature toy_point (composite_message [] (pad 32 [5]))),
            dilithium_signature = Buf (toy_dilithium_signature 7 (composite_message [] (pad 32 [5])))\<rparr>)) ()"
  using hybrid_sign_then_verify[OF toy_hybrid_sign_run[where e = "()" and m = "[5]"],
      where p2k = toy_point and dpk = "replicate 1312 7", THEN conjunct2, THEN conjunct1]
  by simp

end
