(* ===== verification/Mlkem.thy ===== *)
theory Mlkem
  imports Prelude
begin

text \<open>
  \<open>include/mlkem.h\<close> and \<open>src/mlkem.c\<close>: ML-KEM-768 through liboqs. The provider is the parameter
  \<open>oqs_lib\<close>; an \<open>OQS_KEM\<close> object is a record of the fields the code reads. Array arguments are
  distinct objects, as the C prototypes intend.
\<close>

definition MLKEM768_ENCAPSULATION_KEY_BYTES :: nat where "MLKEM768_ENCAPSULATION_KEY_BYTES = 1184"
definition MLKEM768_DECAPSULATION_KEY_BYTES :: nat where "MLKEM768_DECAPSULATION_KEY_BYTES = 2400"
definition MLKEM768_CIPHERTEXT_BYTES :: nat where "MLKEM768_CIPHERTEXT_BYTES = 1088"
definition MLKEM768_SHARED_SECRET_BYTES :: nat where "MLKEM768_SHARED_SECRET_BYTES = 32"

lemmas mlkem_sizes =
  MLKEM768_ENCAPSULATION_KEY_BYTES_def MLKEM768_DECAPSULATION_KEY_BYTES_def
  MLKEM768_CIPHERTEXT_BYTES_def MLKEM768_SHARED_SECRET_BYTES_def

record oqs_kem =
  method_name :: "string option"
  alg_version :: "string option"
  length_public_key :: nat
  length_secret_key :: nat
  length_ciphertext :: nat
  length_shared_secret :: nat

record 'w oqs_lib =
  OQS_SUCCESS :: int
  OQS_KEM_alg_ml_kem_768 :: string
  OQS_version :: string
  OQS_KEM_alg_is_enabled :: "string \<Rightarrow> ('w, bool) prog"
  OQS_KEM_new :: "string \<Rightarrow> ('w, oqs_kem option) prog"
  OQS_MEM_malloc :: "nat \<Rightarrow> ('w, bool) prog"
  OQS_KEM_keypair :: "oqs_kem \<Rightarrow> ('w, int \<times> bytes \<times> bytes) prog"
    \<comment> \<open>return code and what was written to the public and the secret key array\<close>
  OQS_KEM_encaps :: "oqs_kem \<Rightarrow> bytes \<Rightarrow> ('w, int \<times> bytes \<times> bytes) prog"
    \<comment> \<open>of the public key: return code, ciphertext and shared secret written\<close>
  OQS_KEM_decaps :: "oqs_kem \<Rightarrow> bytes \<Rightarrow> bytes \<Rightarrow> ('w, int \<times> bytes) prog"
    \<comment> \<open>of the ciphertext and the secret key: return code and shared secret written\<close>

text \<open>Each pointer with its length is one buffer; an empty key pair holds null pointers of length 0.\<close>

record mlkem_keypair =
  encapsulation_key :: buf
  decapsulation_key :: buf

definition mlkem768_fips203 :: "'w oqs_lib \<Rightarrow> oqs_kem \<Rightarrow> bool" where
  "mlkem768_fips203 Q kem \<longleftrightarrow>
     \<not> (method_name kem = None \<or> alg_version kem = None \<or>
        method_name kem \<noteq> Some (OQS_KEM_alg_ml_kem_768 Q) \<or>
        alg_version kem \<noteq> Some ''FIPS203'' \<or>
        length_public_key kem \<noteq> MLKEM768_ENCAPSULATION_KEY_BYTES \<or>
        length_secret_key kem \<noteq> MLKEM768_DECAPSULATION_KEY_BYTES \<or>
        length_ciphertext kem \<noteq> MLKEM768_CIPHERTEXT_BYTES \<or>
        length_shared_secret kem \<noteq> MLKEM768_SHARED_SECRET_BYTES)"

definition mlkem768_new_checked :: "'w oqs_lib \<Rightarrow> ('w, oqs_kem option) prog" where
  "mlkem768_new_checked Q =
     ensure (OQS_KEM_alg_is_enabled Q (OQS_KEM_alg_ml_kem_768 Q))
       (attempt (OQS_KEM_new Q (OQS_KEM_alg_ml_kem_768 Q)) (\<lambda>kem.
          if mlkem768_fips203 Q kem then done_with kem else fail))"

definition mlkem768_algorithm_name :: string where
  "mlkem768_algorithm_name = ''ML-KEM-768''"

definition mlkem_provider_name :: string where
  "mlkem_provider_name = ''liboqs''"

definition mlkem_provider_version :: "'w oqs_lib \<Rightarrow> string" where
  "mlkem_provider_version Q = OQS_version Q"

definition mlkem768_provider_check :: "'w oqs_lib \<Rightarrow> ('w, bool) prog" where
  "mlkem768_provider_check Q = do {
     kem \<leftarrow> mlkem768_new_checked Q;
     give (kem \<noteq> None) }"

text \<open>The result is the return code and the struct behind \<open>keypair\<close> after the call.\<close>

definition mlkem768_keygen ::
  "'w oqs_lib \<Rightarrow> mlkem_keypair option \<Rightarrow> ('w, bool \<times> mlkem_keypair option) prog" where
  "mlkem768_keygen Q keypair =
     (case keypair of
        None \<Rightarrow> give (False, None)
      | Some kp \<Rightarrow>
          if \<not> buf_null (encapsulation_key kp) \<or> \<not> buf_null (decapsulation_key kp) \<or>
             buf_len (encapsulation_key kp) \<noteq> 0 \<or> buf_len (decapsulation_key kp) \<noteq> 0
          then give (False, keypair)
          else do {
            checked \<leftarrow> mlkem768_new_checked Q;
            case checked of
              None \<Rightarrow> give (False, keypair)
            | Some kem \<Rightarrow> do {
                ek_ok \<leftarrow> OQS_MEM_malloc Q MLKEM768_ENCAPSULATION_KEY_BYTES;
                dk_ok \<leftarrow> OQS_MEM_malloc Q MLKEM768_DECAPSULATION_KEY_BYTES;
                if \<not> ek_ok \<or> \<not> dk_ok then give (False, keypair)
                else do {
                  (ret, ek, dk) \<leftarrow> OQS_KEM_keypair Q kem;
                  if ret \<noteq> OQS_SUCCESS Q then give (False, keypair)
                  else give (True, Some (kp\<lparr>encapsulation_key := Buf ek, decapsulation_key := Buf dk\<rparr>))
                }
              }
          })"

text \<open>
  \<open>ciphertext\<close> is the array of the claimed capacity, \<open>ciphertext_len\<close> and \<open>shared_secret\<close> what the
  two pointers point to. The result is the return code and all three after the call.
\<close>

definition mlkem768_encaps ::
  "'w oqs_lib \<Rightarrow> buf \<Rightarrow> buf \<Rightarrow> nat option \<Rightarrow> bytes option \<Rightarrow>
   ('w, bool \<times> buf \<times> nat option \<times> bytes option) prog" where
  "mlkem768_encaps Q ek ciphertext ciphertext_len shared_secret =
     (let ciphertext_len = map_option (\<lambda>_. 0) ciphertext_len;
          shared_secret = map_option (cleanse MLKEM768_SHARED_SECRET_BYTES) shared_secret
      in case (ek, ciphertext, ciphertext_len, shared_secret) of
        (Buf ek, Buf ct, Some clen, Some ss) \<Rightarrow>
          if length ek \<noteq> MLKEM768_ENCAPSULATION_KEY_BYTES \<or> length ct < MLKEM768_CIPHERTEXT_BYTES
          then give (False, ciphertext, ciphertext_len, shared_secret)
          else do {
            checked \<leftarrow> mlkem768_new_checked Q;
            case checked of
              None \<Rightarrow> give (False, ciphertext, ciphertext_len,
                            Some (cleanse MLKEM768_SHARED_SECRET_BYTES ss))
            | Some kem \<Rightarrow> do {
                (ret, c, s) \<leftarrow> OQS_KEM_encaps Q kem ek;
                let ct = overwrite ct c; let ss = overwrite ss s;
                if ret \<noteq> OQS_SUCCESS Q
                then give (False, Buf (cleanse MLKEM768_CIPHERTEXT_BYTES ct), Some clen,
                           Some (cleanse MLKEM768_SHARED_SECRET_BYTES ss))
                else give (True, Buf ct, Some MLKEM768_CIPHERTEXT_BYTES, Some ss)
              }
          }
      | _ \<Rightarrow> give (False, ciphertext, ciphertext_len, shared_secret))"

definition mlkem768_decaps ::
  "'w oqs_lib \<Rightarrow> buf \<Rightarrow> buf \<Rightarrow> bytes option \<Rightarrow> ('w, bool \<times> bytes option) prog" where
  "mlkem768_decaps Q dk ciphertext shared_secret =
     (let shared_secret = map_option (cleanse MLKEM768_SHARED_SECRET_BYTES) shared_secret
      in case (dk, ciphertext, shared_secret) of
        (Buf dk, Buf ct, Some ss) \<Rightarrow>
          if length dk \<noteq> MLKEM768_DECAPSULATION_KEY_BYTES \<or> length ct \<noteq> MLKEM768_CIPHERTEXT_BYTES
          then give (False, shared_secret)
          else do {
            checked \<leftarrow> mlkem768_new_checked Q;
            case checked of
              None \<Rightarrow> give (False, Some (cleanse MLKEM768_SHARED_SECRET_BYTES ss))
            | Some kem \<Rightarrow> do {
                (ret, s) \<leftarrow> OQS_KEM_decaps Q kem ct dk;
                let ss = overwrite ss s;
                if ret \<noteq> OQS_SUCCESS Q then give (False, Some (cleanse MLKEM768_SHARED_SECRET_BYTES ss))
                else give (True, Some ss)
              }
          }
      | _ \<Rightarrow> give (False, shared_secret))"

definition mlkem_keypair_cleanup :: "mlkem_keypair option \<Rightarrow> mlkem_keypair option" where
  "mlkem_keypair_cleanup keypair =
     map_option (\<lambda>kp. kp\<lparr>encapsulation_key := Null 0, decapsulation_key := Null 0\<rparr>) keypair"

definition mlkem_shared_secret_cleanup :: "bytes option \<Rightarrow> bytes option" where
  "mlkem_shared_secret_cleanup shared_secret =
     map_option (cleanse MLKEM768_SHARED_SECRET_BYTES) shared_secret"

section \<open>Facts about the operations\<close>

lemma outcome_mlkem768_new_checked [outcome_elims]:
  assumes "outcome (mlkem768_new_checked Q) (Some kem)"
  obtains "mlkem768_fips203 Q kem"
  using assms unfolding mlkem768_new_checked_def by (auto elim!: outcome_elims split: if_splits)

lemma outcome_mlkem768_keygen:
  assumes "outcome (mlkem768_keygen Q keypair) (ok, keypair')"
  obtains "\<not> ok" and "keypair' = keypair"
  | kem ek dk where "ok" and "keypair = Some \<lparr>encapsulation_key = Null 0, decapsulation_key = Null 0\<rparr>"
      and "keypair' = Some \<lparr>encapsulation_key = Buf ek, decapsulation_key = Buf dk\<rparr>"
      and "mlkem768_fips203 Q kem" and "outcome (OQS_KEM_keypair Q kem) (OQS_SUCCESS Q, ek, dk)"
proof (cases ok)
  case False
  with assms have "keypair' = keypair"
    unfolding mlkem768_keygen_def by (auto elim!: outcome_bind split: option.splits if_splits)
  with False that(1) show thesis by blast
next
  case True
  with assms obtain kp where kp: "keypair = Some kp" by (cases keypair) (auto simp: mlkem768_keygen_def)
  with assms True obtain kem ek dk where "buf_null (encapsulation_key kp)" "buf_null (decapsulation_key kp)"
      "buf_len (encapsulation_key kp) = 0" "buf_len (decapsulation_key kp) = 0"
      and chk: "outcome (mlkem768_new_checked Q) (Some kem)"
      and "outcome (OQS_KEM_keypair Q kem) (OQS_SUCCESS Q, ek, dk)"
      and "keypair' = Some (kp\<lparr>encapsulation_key := Buf ek, decapsulation_key := Buf dk\<rparr>)"
    unfolding mlkem768_keygen_def by (auto elim!: outcome_bind split: option.splits if_splits)
  moreover from chk have "mlkem768_fips203 Q kem" by (rule outcome_mlkem768_new_checked)
  ultimately show thesis using that(2) True kp
    by (cases kp; cases "encapsulation_key kp"; cases "decapsulation_key kp") auto
qed

lemma outcome_mlkem768_encaps_True:
  assumes "outcome (mlkem768_encaps Q ek ct cl ss) (True, ct', cl', ss')"
  obtains kem e arr s0 c s where "ek = Buf e" and "ct = Buf arr" and "cl \<noteq> None" and "ss = Some s0"
    and "length e = MLKEM768_ENCAPSULATION_KEY_BYTES" and "MLKEM768_CIPHERTEXT_BYTES \<le> length arr"
    and "mlkem768_fips203 Q kem" and "outcome (OQS_KEM_encaps Q kem e) (OQS_SUCCESS Q, c, s)"
    and "ct' = Buf (overwrite arr c)" and "cl' = Some MLKEM768_CIPHERTEXT_BYTES"
    and "ss' = Some (overwrite (cleanse MLKEM768_SHARED_SECRET_BYTES s0) s)"
  using assms unfolding mlkem768_encaps_def
  by (auto elim!: outcome_bind outcome_mlkem768_new_checked simp: Let_def not_less
      split: buf.splits option.splits if_splits prod.splits)

lemma outcome_mlkem768_encaps_False:
  assumes "outcome (mlkem768_encaps Q ek ct cl ss) (False, ct', cl', ss')"
  shows "map_option (take MLKEM768_SHARED_SECRET_BYTES) ss'
           = map_option (\<lambda>_. replicate MLKEM768_SHARED_SECRET_BYTES 0) ss"
    and "cl' = map_option (\<lambda>_. 0) cl"
  using assms unfolding mlkem768_encaps_def
  by (auto elim!: outcome_bind simp: Let_def option.map_comp comp_def
      split: buf.splits option.splits if_splits prod.splits)

lemma outcome_mlkem768_decaps_True:
  assumes "outcome (mlkem768_decaps Q dk ct ss) (True, ss')"
  obtains kem d c s0 s where "dk = Buf d" and "ct = Buf c" and "ss = Some s0"
    and "length d = MLKEM768_DECAPSULATION_KEY_BYTES" and "length c = MLKEM768_CIPHERTEXT_BYTES"
    and "mlkem768_fips203 Q kem" and "outcome (OQS_KEM_decaps Q kem c d) (OQS_SUCCESS Q, s)"
    and "ss' = Some (overwrite (cleanse MLKEM768_SHARED_SECRET_BYTES s0) s)"
  using assms unfolding mlkem768_decaps_def
  by (auto elim!: outcome_bind outcome_mlkem768_new_checked simp: Let_def
      split: buf.splits option.splits if_splits prod.splits)

lemma outcome_mlkem768_decaps_False:
  assumes "outcome (mlkem768_decaps Q dk ct ss) (False, ss')"
  shows "map_option (take MLKEM768_SHARED_SECRET_BYTES) ss'
           = map_option (\<lambda>_. replicate MLKEM768_SHARED_SECRET_BYTES 0) ss"
  using assms unfolding mlkem768_decaps_def
  by (auto elim!: outcome_bind simp: Let_def option.map_comp comp_def
      split: buf.splits option.splits if_splits prod.splits)

text \<open>
  Documented behaviour of the KEM: the lengths of what it writes, and decapsulation with the secret
  half of a generated pair recovers the secret encapsulated to the public half, whichever checked
  object performs each call.
\<close>

definition kem_law :: "'w oqs_lib \<Rightarrow> bool" where
  "kem_law Q \<longleftrightarrow>
     (\<forall>kem kem' kem'' ek dk ct ss.
        mlkem768_fips203 Q kem \<longrightarrow> mlkem768_fips203 Q kem' \<longrightarrow> mlkem768_fips203 Q kem'' \<longrightarrow>
        outcome (OQS_KEM_keypair Q kem) (OQS_SUCCESS Q, ek, dk) \<longrightarrow>
        outcome (OQS_KEM_encaps Q kem' ek) (OQS_SUCCESS Q, ct, ss) \<longrightarrow>
        length dk = MLKEM768_DECAPSULATION_KEY_BYTES \<and> length ct = MLKEM768_CIPHERTEXT_BYTES \<and>
        length ss = MLKEM768_SHARED_SECRET_BYTES \<and>
        always (OQS_KEM_decaps Q kem'' ct dk) (OQS_SUCCESS Q, ss))"

text \<open>A checked KEM object is always available.\<close>

definition kem_ready :: "'w oqs_lib \<Rightarrow> bool" where
  "kem_ready Q \<longleftrightarrow> (\<exists>kem. always (mlkem768_new_checked Q) (Some kem))"

lemma always_mlkem768_decaps:
  assumes "kem_ready Q" and "length dk = MLKEM768_DECAPSULATION_KEY_BYTES"
    and "length ct = MLKEM768_CIPHERTEXT_BYTES"
    and dec: "\<And>kem. mlkem768_fips203 Q kem \<Longrightarrow> always (OQS_KEM_decaps Q kem ct dk) (OQS_SUCCESS Q, s)"
  shows "always (mlkem768_decaps Q (Buf dk) (Buf ct) (Some s0))
           (True, Some (overwrite (cleanse MLKEM768_SHARED_SECRET_BYTES s0) s))"
proof -
  from assms(1) obtain kem where kem: "always (mlkem768_new_checked Q) (Some kem)"
    by (auto simp: kem_ready_def)
  then have "outcome (mlkem768_new_checked Q) (Some kem)" by (auto simp: always_def outcome_def)
  then have "mlkem768_fips203 Q kem" by (rule outcome_mlkem768_new_checked)
  from dec[OF this] show ?thesis
    unfolding mlkem768_decaps_def using assms(2,3)
    by (auto simp: Let_def intro!: always_bind[OF kem] always_bind)
qed

end
