(* ===== verification/Mlkem_Theorems.thy ===== *)
theory Mlkem_Theorems
  imports Mlkem
begin

text \<open>
  The properties of the ML-KEM-768 wrapper, with a concrete provider for the witnesses: its keys
  are constant, and the ciphertext and the shared secret are cut from the encapsulation key.
\<close>

definition toy_kem :: oqs_kem where
  "toy_kem = \<lparr>method_name = Some ''ML-KEM-768'', alg_version = Some ''FIPS203'',
     length_public_key = 1184, length_secret_key = 2400, length_ciphertext = 1088,
     length_shared_secret = 32\<rparr>"

definition toy_oqs :: "unit oqs_lib" where
  "toy_oqs = \<lparr>OQS_SUCCESS = 0, OQS_KEM_alg_ml_kem_768 = ''ML-KEM-768'', OQS_version = ''0.16.0'',
     OQS_KEM_alg_is_enabled = \<lambda>nm. give True, OQS_KEM_new = \<lambda>nm. give (Some toy_kem),
     OQS_MEM_malloc = \<lambda>n. give True,
     OQS_KEM_keypair = \<lambda>kem. give (0, replicate 1184 3, replicate 2400 3),
     OQS_KEM_encaps = \<lambda>kem ek. give (0, replicate 1088 (hd ek), replicate 32 (hd ek + 1)),
     OQS_KEM_decaps = \<lambda>kem ct dk. give (0, replicate 32 (hd ct + 1))\<rparr>"

lemma toy_kem_law [simp]: "kem_law toy_oqs"
  by (auto simp: kem_law_def toy_oqs_def mlkem_sizes)

lemma toy_new_checked [simp]: "always (mlkem768_new_checked toy_oqs) (Some toy_kem)"
  by (simp add: mlkem768_new_checked_def toy_oqs_def ensure_def attempt_def mlkem768_fips203_def
      toy_kem_def mlkem_sizes)

lemma toy_kem_ready [simp]: "kem_ready toy_oqs"
  unfolding kem_ready_def using toy_new_checked by blast

lemma toy_keygen_run:
  "run (mlkem768_keygen toy_oqs (Some \<lparr>encapsulation_key = Null 0, decapsulation_key = Null 0\<rparr>)) w
     = (True, Some \<lparr>encapsulation_key = Buf (replicate 1184 3), decapsulation_key = Buf (replicate 2400 3)\<rparr>)"
  unfolding mlkem768_keygen_def
  by (rule always_run) (auto intro!: always_bind[OF toy_new_checked] always_bind, simp_all add: toy_oqs_def)

lemma toy_encaps_run:
  "run (mlkem768_encaps toy_oqs (Buf (replicate 1184 3)) (Buf (replicate 1088 0)) (Some 0)
          (Some (replicate 32 0))) w
     = (True, Buf (replicate 1088 3), Some 1088, Some (replicate 32 4))"
  unfolding mlkem768_encaps_def
  by (rule always_run)
    (auto simp: Let_def mlkem_sizes toy_oqs_def[THEN arg_cong, of OQS_KEM_encaps]
       toy_oqs_def[THEN arg_cong, of OQS_SUCCESS] overwrite_def cleanse_def
       intro!: always_bind[OF toy_new_checked] always_bind)

section \<open>Properties\<close>

text \<open>
  C9: Both ends of an ML-KEM-768 session agree: a ciphertext and secret produced by
  \<open>mlkem768_encaps\<close> for a generated key pair decapsulate, with that pair's decapsulation key and at
  any later time, to the same 32-byte secret, whatever the receiving array held before.
\<close>

theorem mlkem768_session_agreement:
  assumes "run (mlkem768_keygen Q kp) w1
             = (True, Some \<lparr>encapsulation_key = ek, decapsulation_key = Buf dk\<rparr>)"
    and "run (mlkem768_encaps Q ek (Buf ct) cl ss) w2 = (True, ct', Some n, Some secret)"
    and "length ct = MLKEM768_CIPHERTEXT_BYTES" and "kem_law Q" and "kem_ready Q"
  shows "n = MLKEM768_CIPHERTEXT_BYTES \<and>
    (\<exists>s. length s = 32 \<and> take 32 secret = s \<and>
         (\<exists>r. run (mlkem768_decaps Q (Buf dk) ct' (Some old)) w3 = (True, Some r) \<and> take 32 r = s))"
proof -
  from run_outcome[OF assms(1)] obtain kem where kem: "mlkem768_fips203 Q kem"
      and gen: "outcome (OQS_KEM_keypair Q kem) (OQS_SUCCESS Q, buf_bytes ek, dk)"
    by (elim outcome_mlkem768_keygen) auto
  from run_outcome[OF assms(2)] obtain kem' c s s0 where kem': "mlkem768_fips203 Q kem'"
      and enc: "outcome (OQS_KEM_encaps Q kem' (buf_bytes ek)) (OQS_SUCCESS Q, c, s)"
      and ct': "ct' = Buf (overwrite ct c)" and n: "n = MLKEM768_CIPHERTEXT_BYTES"
      and sec: "secret = overwrite (cleanse MLKEM768_SHARED_SECRET_BYTES s0) s"
    by (elim outcome_mlkem768_encaps_True) auto
  note law = assms(4)[unfolded kem_law_def, rule_format, OF kem kem' _ gen enc]
  from law[OF kem] have len: "length dk = MLKEM768_DECAPSULATION_KEY_BYTES"
      "length c = MLKEM768_CIPHERTEXT_BYTES" "length s = MLKEM768_SHARED_SECRET_BYTES" by simp_all
  with assms(3) ct' have "ct' = Buf c" by (simp add: overwrite_def)
  moreover have "always (mlkem768_decaps Q (Buf dk) (Buf c) (Some old))
      (True, Some (overwrite (cleanse MLKEM768_SHARED_SECRET_BYTES old) s))"
    using law by (intro always_mlkem768_decaps[OF assms(5) len(1,2)]) simp
  ultimately show ?thesis
    using n sec len(3) always_run by (fastforce simp: overwrite_def mlkem_sizes)
qed

theorem mlkem768_session_agreement_witness:
  "1088 = MLKEM768_CIPHERTEXT_BYTES \<and>
    (\<exists>s. length s = 32 \<and> take 32 (replicate 32 4) = s \<and>
         (\<exists>r. run (mlkem768_decaps toy_oqs (Buf (replicate 2400 3)) (Buf (replicate 1088 3))
                 (Some (replicate 32 9))) () = (True, Some r) \<and> take 32 r = s))"
  by (rule mlkem768_session_agreement[OF toy_keygen_run toy_encaps_run]) (simp_all add: mlkem_sizes)

text \<open>
  C10: A failed encapsulation or decapsulation never leaves secret bytes behind: when either call
  returns 0, on whichever path, the caller's 32-byte secret array is all zero (if there is one), and
  a failed encapsulation also reports ciphertext length 0.
\<close>

theorem mlkem768_failure_wipes:
  "(case run (mlkem768_encaps Q ek ct cl ss) w of (ok, ct', cl', ss') \<Rightarrow>
      ok \<or> (map_option (take 32) ss' = map_option (\<lambda>_. replicate 32 0) ss \<and>
            cl' = map_option (\<lambda>_. 0) cl)) \<and>
   (case run (mlkem768_decaps Q dk ct ss) w of (ok, ss') \<Rightarrow>
      ok \<or> map_option (take 32) ss' = map_option (\<lambda>_. replicate 32 0) ss)"
proof (intro conjI)
  show "case run (mlkem768_encaps Q ek ct cl ss) w of (ok, ct', cl', ss') \<Rightarrow>
      ok \<or> (map_option (take 32) ss' = map_option (\<lambda>_. replicate 32 0) ss \<and>
            cl' = map_option (\<lambda>_. 0) cl)"
  proof (cases "run (mlkem768_encaps Q ek ct cl ss) w")
    case (fields ok ct' cl' ss')
    then show ?thesis
      using run_outcome[OF fields] by (cases ok) (auto simp: mlkem_sizes dest: outcome_mlkem768_encaps_False)
  qed
  show "case run (mlkem768_decaps Q dk ct ss) w of (ok, ss') \<Rightarrow>
      ok \<or> map_option (take 32) ss' = map_option (\<lambda>_. replicate 32 0) ss"
  proof (cases "run (mlkem768_decaps Q dk ct ss) w")
    case (Pair ok ss')
    then show ?thesis
      using run_outcome[OF Pair] by (cases ok) (auto simp: mlkem_sizes dest: outcome_mlkem768_decaps_False)
  qed
qed

text \<open>
  Key generation never overwrites or leaks a live key pair: it succeeds only into an empty
  struct, then with the pair a FIPS 203 provider object generated, and otherwise leaves the struct
  exactly as it was.
\<close>

theorem mlkem768_keygen_guard:
  "case run (mlkem768_keygen Q keypair) w of (ok, keypair') \<Rightarrow>
     if ok then keypair = Some \<lparr>encapsulation_key = Null 0, decapsulation_key = Null 0\<rparr> \<and>
       (\<exists>kem ek dk. mlkem768_fips203 Q kem \<and> outcome (OQS_KEM_keypair Q kem) (OQS_SUCCESS Q, ek, dk) \<and>
          keypair' = Some \<lparr>encapsulation_key = Buf ek, decapsulation_key = Buf dk\<rparr>)
     else keypair' = keypair"
proof (cases "run (mlkem768_keygen Q keypair) w")
  case (Pair ok keypair')
  then have "outcome (mlkem768_keygen Q keypair) (ok, keypair')" by (rule run_outcome)
  then show ?thesis unfolding Pair prod.case by (rule outcome_mlkem768_keygen) auto
qed

end
