(* ===== verification/Posix_FS.thy ===== *)
theory Posix_FS
  imports Prelude
begin

text \<open>
  The part of the POSIX interface the key store uses: a file system as a finite-domain map from
  path names to nodes, and the system calls as programs that read and change it.

  A path name names one directory entry: two different strings never alias (no repeated slashes,
  no dot-dot components). Every call may also fail for a reason outside the model (permissions,
  quota, a missing parent directory, an I/O error): it asks the parameter \<open>os_fault\<close> first, and a
  failing call has no effect. How much a read or a write transfers is the choice of \<open>os_transfer\<close>,
  never more than was asked for. Nothing else changes the file system between two calls.
\<close>

datatype errno = ENOENT | EEXIST | ELOOP | EISDIR | EOTHER

type_synonym mode = "16 word"

datatype node = Reg mode bytes | Dir mode | Symlink string | Special mode

text \<open>The fields of \<open>struct stat\<close> the code looks at: the kind, the permission bits, the size.\<close>

fun S_ISREG :: "node \<Rightarrow> bool" where
  "S_ISREG (Reg m d) = True" | "S_ISREG _ = False"

fun S_ISDIR :: "node \<Rightarrow> bool" where
  "S_ISDIR (Dir m) = True" | "S_ISDIR _ = False"

fun S_ISLNK :: "node \<Rightarrow> bool" where
  "S_ISLNK (Symlink t) = True" | "S_ISLNK _ = False"

fun st_mode :: "node \<Rightarrow> mode" where
  "st_mode (Reg m d) = m" | "st_mode (Dir m) = m" | "st_mode (Symlink t) = 511" | "st_mode (Special m) = m"

fun st_size :: "node \<Rightarrow> nat" where
  "st_size (Reg m d) = length d" | "st_size (Symlink t) = length t" | "st_size _ = 0"

text \<open>The contents of a regular file.\<close>

fun node_data :: "node \<Rightarrow> bytes" where
  "node_data (Reg m d) = d" | "node_data _ = []"

type_synonym filesystem = "string \<Rightarrow> node option"

record 'w world =
  files :: filesystem
  ext :: 'w

datatype syscall = Lstat | Mkdir | Access | Open | Fdopen | Fopen | Write | Read | Fsync | Fflush
  | Close | Fclose | Unlink

record 'w os_lib =
  os_umask :: mode
  os_fault :: "syscall \<Rightarrow> string \<Rightarrow> ('w, errno option) prog"
  os_transfer :: "syscall \<Rightarrow> nat \<Rightarrow> ('w, nat) prog"

type_synonym ('w, 'a) io = "('w world, 'a) prog"

section \<open>Programs on the world\<close>

definition lift :: "('w, 'a) prog \<Rightarrow> ('w, 'a) io" where
  "lift m = State (\<lambda>s. case run_state m (ext s) of (a, w) \<Rightarrow> (a, s\<lparr>ext := w\<rparr>))"

definition get_files :: "('w, filesystem) io" where
  "get_files = State (\<lambda>s. (files s, s))"

definition put_node :: "string \<Rightarrow> node option \<Rightarrow> ('w, unit) io" where
  "put_node p n = State (\<lambda>s. ((), s\<lparr>files := (files s)(p := n)\<rparr>))"

text \<open>A system call: it fails with the injected error, or does its work on the file system.\<close>

definition syscall ::
  "('w, 'e) os_lib_scheme \<Rightarrow> syscall \<Rightarrow> string \<Rightarrow> ('w, errno + 'a) io \<Rightarrow> ('w, errno + 'a) io" where
  "syscall OS c path body = do {
     injected \<leftarrow> lift (os_fault OS c path);
     case injected of Some e \<Rightarrow> give (Inl e) | None \<Rightarrow> body }"

section \<open>The calls\<close>

definition lstat :: "('w, 'e) os_lib_scheme \<Rightarrow> string \<Rightarrow> ('w, errno + node) io" where
  "lstat OS path = syscall OS Lstat path (do {
     fs \<leftarrow> get_files;
     give (case fs path of None \<Rightarrow> Inl ENOENT | Some n \<Rightarrow> Inr n) })"

definition mkdir :: "('w, 'e) os_lib_scheme \<Rightarrow> string \<Rightarrow> mode \<Rightarrow> ('w, errno + unit) io" where
  "mkdir OS path mode = syscall OS Mkdir path (do {
     fs \<leftarrow> get_files;
     case fs path of
       Some n \<Rightarrow> give (Inl EEXIST)
     | None \<Rightarrow> do { put_node path (Some (Dir (mode AND NOT (os_umask OS)))); give (Inr ()) } })"

text \<open>Following symbolic links, at most \<open>n\<close> of them (Linux allows 40).\<close>

fun follow :: "nat \<Rightarrow> filesystem \<Rightarrow> string \<Rightarrow> errno + string" where
  "follow n fs path =
     (case fs path of
        None \<Rightarrow> Inl ENOENT
      | Some (Symlink target) \<Rightarrow> (case n of 0 \<Rightarrow> Inl ELOOP | Suc m \<Rightarrow> follow m fs target)
      | Some _ \<Rightarrow> Inr path)"

declare follow.simps [simp del]

text \<open>\<open>access(path, F_OK)\<close>.\<close>

definition access :: "('w, 'e) os_lib_scheme \<Rightarrow> string \<Rightarrow> ('w, errno + unit) io" where
  "access OS path = syscall OS Access path (do {
     fs \<leftarrow> get_files;
     give (case follow 40 fs path of Inl e \<Rightarrow> Inl e | Inr p \<Rightarrow> Inr ()) })"

text \<open>\<open>open(path, O_WRONLY | O_CREAT | O_EXCL | O_NOFOLLOW, mode)\<close>: the descriptor is the path.\<close>

definition open_excl :: "('w, 'e) os_lib_scheme \<Rightarrow> string \<Rightarrow> mode \<Rightarrow> ('w, errno + string) io" where
  "open_excl OS path mode = syscall OS Open path (do {
     fs \<leftarrow> get_files;
     case fs path of
       Some n \<Rightarrow> give (Inl EEXIST)
     | None \<Rightarrow> do { put_node path (Some (Reg (mode AND NOT (os_umask OS)) [])); give (Inr path) } })"

text \<open>\<open>open(path, O_RDONLY | O_NOFOLLOW)\<close>.\<close>

definition open_rdonly :: "('w, 'e) os_lib_scheme \<Rightarrow> string \<Rightarrow> ('w, errno + string) io" where
  "open_rdonly OS path = syscall OS Open path (do {
     fs \<leftarrow> get_files;
     give (case fs path of None \<Rightarrow> Inl ENOENT | Some (Symlink t) \<Rightarrow> Inl ELOOP | Some _ \<Rightarrow> Inr path) })"

text \<open>\<open>fopen(path, mode)\<close> for reading; it follows symbolic links.\<close>

definition fopen_read :: "('w, 'e) os_lib_scheme \<Rightarrow> string \<Rightarrow> ('w, errno + string) io" where
  "fopen_read OS path = syscall OS Fopen path (do {
     fs \<leftarrow> get_files;
     give (follow 40 fs path) })"

text \<open>
  \<open>write\<close> at an offset: the number of bytes transferred, None for a failure. The transfer never
  exceeds the request. A node that is not a regular file cannot be written or read here; the
  callers hold descriptors of regular files only.
\<close>

definition write_at ::
  "('w, 'e) os_lib_scheme \<Rightarrow> string \<Rightarrow> nat \<Rightarrow> bytes \<Rightarrow> ('w, nat option) io" where
  "write_at OS path offset data = do {
     r \<leftarrow> syscall OS Write path (do {
       fs \<leftarrow> get_files;
       case fs path of
         Some (Reg mode old) \<Rightarrow> do {
           n \<leftarrow> lift (os_transfer OS Write (length data));
           let part = take n data;
           put_node path (Some (Reg mode (take offset old @ part @ drop (offset + length part) old)));
           give (Inr (length part)) }
       | _ \<Rightarrow> give (Inl EISDIR) });
     give (case r of Inl e \<Rightarrow> None | Inr n \<Rightarrow> Some n) }"

definition read_at ::
  "('w, 'e) os_lib_scheme \<Rightarrow> string \<Rightarrow> nat \<Rightarrow> nat \<Rightarrow> ('w, bytes option) io" where
  "read_at OS path offset room = do {
     r \<leftarrow> syscall OS Read path (do {
       fs \<leftarrow> get_files;
       case fs path of
         Some (Reg mode data) \<Rightarrow> do {
           n \<leftarrow> lift (os_transfer OS Read room);
           give (Inr (take (min n room) (drop offset data))) }
       | _ \<Rightarrow> give (Inl EISDIR) });
     give (case r of Inl e \<Rightarrow> None | Inr bs \<Rightarrow> Some bs) }"

text \<open>Calls that only report success: \<open>fsync\<close>, \<open>close\<close>, \<open>fdopen\<close>.\<close>

definition plain_call :: "('w, 'e) os_lib_scheme \<Rightarrow> syscall \<Rightarrow> string \<Rightarrow> ('w, bool) io" where
  "plain_call OS c path = do {
     r \<leftarrow> syscall OS c path (give (Inr ()));
     give (case r of Inl e \<Rightarrow> False | Inr u \<Rightarrow> True) }"

definition unlink :: "('w, 'e) os_lib_scheme \<Rightarrow> string \<Rightarrow> ('w, errno + unit) io" where
  "unlink OS path = syscall OS Unlink path (do {
     fs \<leftarrow> get_files;
     case fs path of
       None \<Rightarrow> give (Inl ENOENT)
     | Some (Dir m) \<Rightarrow> give (Inl EISDIR)
     | Some _ \<Rightarrow> do { put_node path None; give (Inr ()) } })"

text \<open>
  A buffered output stream on a freshly created file: \<open>spill\<close> is what stdio may have written
  before it is asked to (any prefix), \<open>flush\<close> writes all of it or fails after a prefix.
\<close>

definition spill :: "('w, 'e) os_lib_scheme \<Rightarrow> string \<Rightarrow> bytes \<Rightarrow> ('w, unit) io" where
  "spill OS path buffered = do {
     n \<leftarrow> lift (os_transfer OS Fflush (length buffered));
     fs \<leftarrow> get_files;
     case fs path of
       Some (Reg mode old) \<Rightarrow> put_node path (Some (Reg mode (take n buffered)))
     | _ \<Rightarrow> give () }"

definition flush :: "('w, 'e) os_lib_scheme \<Rightarrow> syscall \<Rightarrow> string \<Rightarrow> bytes \<Rightarrow> ('w, bool) io" where
  "flush OS c path buffered = do {
     spill OS path buffered;
     r \<leftarrow> syscall OS c path (do {
       fs \<leftarrow> get_files;
       case fs path of
         Some (Reg mode old) \<Rightarrow> do { put_node path (Some (Reg mode buffered)); give (Inr ()) }
       | _ \<Rightarrow> give (Inl EOTHER) });
     give (case r of Inl e \<Rightarrow> False | Inr u \<Rightarrow> True) }"

section \<open>Runs\<close>

text \<open>\<open>ends m s a s'\<close>: the program started in the world \<open>s\<close> returns \<open>a\<close> and leaves the world \<open>s'\<close>.\<close>

definition ends :: "('s, 'a) prog \<Rightarrow> 's \<Rightarrow> 'a \<Rightarrow> 's \<Rightarrow> bool" where
  "ends m s a s' \<longleftrightarrow> run_state m s = (a, s')"

named_theorems ends_elims "inversion of a run"

lemma ends_fun: "ends m s a s' \<Longrightarrow> ends m s b t \<Longrightarrow> b = a \<and> t = s'"
  by (simp add: ends_def)

lemma ends_total: "\<exists>a s'. ends m s a s'"
  by (simp add: ends_def)

lemma ends_outcome: "ends m s a s' \<Longrightarrow> outcome m a"
  by (auto simp: ends_def outcome_def run_def intro!: exI[of _ s])

lemma ends_run: "ends m s a s' \<Longrightarrow> run m s = a"
  by (simp add: ends_def run_def)

lemma ends_give [simp]: "ends (give a) s b s' \<longleftrightarrow> b = a \<and> s' = s"
  by (auto simp: ends_def)

lemma ends_bind: "ends (State_Monad.bind m f) s b s' \<longleftrightarrow> (\<exists>a t. ends m s a t \<and> ends (f a) t b s')"
  by (auto simp: ends_def split: prod.splits)

lemma ends_bindE [ends_elims]:
  assumes "ends (State_Monad.bind m f) s b s'"
  obtains a t where "ends m s a t" and "ends (f a) t b s'"
  using assms by (auto simp: ends_bind)

lemma ends_get_files [simp]: "ends get_files s fs s' \<longleftrightarrow> fs = files s \<and> s' = s"
  by (auto simp: ends_def get_files_def)

lemma ends_put_node [simp]: "ends (put_node p n) s u s' \<longleftrightarrow> s' = s\<lparr>files := (files s)(p := n)\<rparr>"
  by (auto simp: ends_def put_node_def)

lemma ends_lift: "ends (lift m) s a s' \<longleftrightarrow> (\<exists>w. ends m (ext s) a w \<and> s' = s\<lparr>ext := w\<rparr>)"
  by (auto simp: ends_def lift_def split: prod.splits)

lemma ends_liftE [ends_elims]:
  assumes "ends (lift m) s a s'"
  obtains w where "ends m (ext s) a w" and "s' = s\<lparr>ext := w\<rparr>"
  using assms by (auto simp: ends_lift)

lemma ends_attemptE:
  assumes "ends (attempt m f) s r s'"
  obtains "ends m s None s'" and "r = None"
  | x t where "ends m s (Some x) t" and "ends (f x) t r s'"
proof -
  from assms obtain a t where m: "ends m s a t"
      and r: "ends (case a of None \<Rightarrow> fail | Some x \<Rightarrow> f x) t r s'"
    unfolding attempt_def by (auto simp: ends_bind)
  then show thesis by (cases a) (auto intro: that)
qed

lemma ends_ensureE:
  assumes "ends (ensure m k) s r s'"
  obtains "ends m s False s'" and "r = None" | t where "ends m s True t" and "ends k t r s'"
proof -
  from assms obtain b t where "ends m s b t" and "ends (if b then k else fail) t r s'"
    unfolding ensure_def by (auto simp: ends_bind)
  then show thesis by (cases b) (auto intro: that)
qed

lemma ends_bothE:
  assumes "ends (both m k) s r s'"
  obtains "ends m s False s'" and "\<not> r" | t where "ends m s True t" and "ends k t r s'"
proof -
  from assms obtain b t where "ends m s b t" and "ends (if b then k else give False) t r s'"
    unfolding both_def by (auto simp: ends_bind)
  then show thesis by (cases b) (auto intro: that)
qed

lemma lift_outcome: "ends (lift m) s a s' \<Longrightarrow> outcome m a"
  by (auto simp: ends_lift intro: ends_outcome)

lemma lift_files: "ends (lift m) s a s' \<Longrightarrow> files s' = files s"
  by (auto simp: ends_lift)

lemma ends_liftD: "ends (lift m) s a s' \<Longrightarrow> files s' = files s \<and> outcome m a"
  by (simp add: lift_files lift_outcome)

section \<open>Relations every run keeps\<close>

text \<open>
  A reflexive and transitive relation between the world before and after, that does not look at
  the libraries' own state, is kept by a whole program once its system calls keep it: the
  composition rules are proved here once and used for each relation of interest.
\<close>

definition keeps :: "('w world \<Rightarrow> 'w world \<Rightarrow> bool) \<Rightarrow> ('w, 'a) io \<Rightarrow> bool" where
  "keeps R m \<longleftrightarrow> (\<forall>s a s'. ends m s a s' \<longrightarrow> R s s')"

named_theorems keeps_intros "programs that keep a relation"

lemma keepsD: "keeps R m \<Longrightarrow> ends m s a s' \<Longrightarrow> R s s'"
  by (auto simp: keeps_def)

lemma keeps_snd: "keeps R m \<Longrightarrow> R s (snd (run_state m s))"
  by (rule keepsD[where a = "fst (run_state m s)"]) (simp_all add: ends_def)

locale world_relation =
  fixes R :: "'w world \<Rightarrow> 'w world \<Rightarrow> bool"
  assumes R_ext: "R s (s\<lparr>ext := w\<rparr>)"
    and R_trans: "R s t \<Longrightarrow> R t u \<Longrightarrow> R s u"
begin

lemma R_refl: "R s s"
  using R_ext[of s "ext s"] by simp

lemma keeps_give [keeps_intros]: "keeps R (give a)"
  by (simp add: keeps_def R_refl)

lemma keeps_get_files [keeps_intros]: "keeps R get_files"
  by (simp add: keeps_def R_refl)

lemma keeps_lift [keeps_intros]: "keeps R (lift m)"
  by (auto simp: keeps_def ends_lift R_ext)

lemma keeps_bind [keeps_intros]:
  "keeps R m \<Longrightarrow> (\<And>a. keeps R (f a)) \<Longrightarrow> keeps R (State_Monad.bind m f)"
  unfolding keeps_def by (auto simp: ends_bind) (blast intro: R_trans)

lemma keeps_bind_ends:
  "keeps R m \<Longrightarrow> (\<And>s a t. ends m s a t \<Longrightarrow> keeps R (f a)) \<Longrightarrow> keeps R (State_Monad.bind m f)"
  unfolding keeps_def by (auto simp: ends_bind) (blast intro: R_trans)

lemma keeps_attempt [keeps_intros]:
  "keeps R m \<Longrightarrow> (\<And>a. keeps R (f a)) \<Longrightarrow> keeps R (attempt m f)"
  unfolding attempt_def by (auto intro!: keeps_bind keeps_give split: option.split)

lemma keeps_ensure [keeps_intros]: "keeps R m \<Longrightarrow> keeps R k \<Longrightarrow> keeps R (ensure m k)"
  unfolding ensure_def by (auto intro!: keeps_bind keeps_give)

lemma keeps_both [keeps_intros]: "keeps R m \<Longrightarrow> keeps R k \<Longrightarrow> keeps R (both m k)"
  unfolding both_def by (auto intro!: keeps_bind keeps_give)

lemma keeps_if [keeps_intros]: "keeps R m \<Longrightarrow> keeps R k \<Longrightarrow> keeps R (if b then m else k)"
  by simp

lemma keeps_option [keeps_intros]:
  "keeps R m \<Longrightarrow> (\<And>x. keeps R (f x)) \<Longrightarrow> keeps R (case r of None \<Rightarrow> m | Some x \<Rightarrow> f x)"
  by (cases r) auto

lemma keeps_sum [keeps_intros]:
  "(\<And>e. keeps R (g e)) \<Longrightarrow> (\<And>x. keeps R (f x)) \<Longrightarrow> keeps R (case r of Inl e \<Rightarrow> g e | Inr x \<Rightarrow> f x)"
  by (cases r) auto

lemma keeps_prod [keeps_intros]:
  "(\<And>a b. keeps R (f a b)) \<Longrightarrow> keeps R (case r of (a, b) \<Rightarrow> f a b)"
  by (cases r) auto

lemma keeps_node [keeps_intros]:
  "(\<And>m d. keeps R (f m d)) \<Longrightarrow> (\<And>m. keeps R (g m)) \<Longrightarrow> (\<And>t. keeps R (h t)) \<Longrightarrow> (\<And>m. keeps R (k m)) \<Longrightarrow>
   keeps R (case n of Reg m d \<Rightarrow> f m d | Dir m \<Rightarrow> g m | Symlink t \<Rightarrow> h t | Special m \<Rightarrow> k m)"
  by (cases n) auto

lemma keeps_syscall [keeps_intros]: "keeps R body \<Longrightarrow> keeps R (syscall OS c p body)"
  unfolding syscall_def by (intro keeps_intros)

lemma keeps_lstat [keeps_intros]: "keeps R (lstat OS p)"
  unfolding lstat_def by (intro keeps_intros)

lemma keeps_access [keeps_intros]: "keeps R (access OS p)"
  unfolding access_def by (intro keeps_intros)

lemma keeps_open_rdonly [keeps_intros]: "keeps R (open_rdonly OS p)"
  unfolding open_rdonly_def by (intro keeps_intros)

lemma keeps_fopen_read [keeps_intros]: "keeps R (fopen_read OS p)"
  unfolding fopen_read_def by (intro keeps_intros)

lemma keeps_read_at [keeps_intros]: "keeps R (read_at OS p i n)"
  unfolding read_at_def by (intro keeps_intros)

lemma keeps_plain_call [keeps_intros]: "keeps R (plain_call OS c p)"
  unfolding plain_call_def by (intro keeps_intros)

end

text \<open>Only the paths in \<open>P\<close> are touched.\<close>

definition touches_only :: "string set \<Rightarrow> 'w world \<Rightarrow> 'w world \<Rightarrow> bool" where
  "touches_only P s s' \<longleftrightarrow> (\<forall>p. p \<notin> P \<longrightarrow> files s' p = files s p)"

text \<open>
  No node becomes accessible to group or others: every node found afterwards was there before with
  the same permissions, or has no group or other permission bit.
\<close>

definition private_node :: "node \<Rightarrow> bool" where
  "private_node n \<longleftrightarrow> st_mode n AND 63 = 0"

definition stays_private :: "'w world \<Rightarrow> 'w world \<Rightarrow> bool" where
  "stays_private s s' \<longleftrightarrow>
     (\<forall>p n. files s' p = Some n \<longrightarrow>
        private_node n \<or> (\<exists>n0. files s p = Some n0 \<and> st_mode n = st_mode n0))"

interpretation touches: world_relation "touches_only P" for P
  by unfold_locales (auto simp: touches_only_def)

interpretation privacy: world_relation stays_private
  by unfold_locales (fastforce simp: stays_private_def private_node_def)+

lemma private_masked [simp]: "(384 AND NOT u) AND 63 = (0 :: mode)" "(448 AND NOT u) AND 63 = (0 :: mode)"
proof -
  have "(384 AND NOT u) AND 63 = NOT u AND (384 AND 63 :: mode)" by (simp only: ac_simps)
  then show "(384 AND NOT u) AND 63 = (0 :: mode)" by simp
  have "(448 AND NOT u) AND 63 = NOT u AND (448 AND 63 :: mode)" by (simp only: ac_simps)
  then show "(448 AND NOT u) AND 63 = (0 :: mode)" by simp
qed

lemma keeps_put_node:
  assumes "\<And>s. R s (s\<lparr>files := (files s)(p := n)\<rparr>)"
  shows "keeps R (put_node p n)"
  using assms by (simp add: keeps_def)

lemma touches_put_node [keeps_intros]: "p \<in> P \<Longrightarrow> keeps (touches_only P) (put_node p n)"
  by (rule keeps_put_node) (simp add: touches_only_def)

lemma touches_writers [keeps_intros]:
  assumes "p \<in> P"
  shows "keeps (touches_only P) (mkdir OS p m)" "keeps (touches_only P) (open_excl OS p m)"
    "keeps (touches_only P) (unlink OS p)" "keeps (touches_only P) (write_at OS p i bs)"
    "keeps (touches_only P) (flush OS c p bs)"
  unfolding mkdir_def open_excl_def unlink_def write_at_def flush_def spill_def Let_def
  by (intro keeps_intros assms)+

text \<open>Rewriting a regular file keeps its permissions; new nodes are masked.\<close>

lemma privacy_put_node: "private_node n \<Longrightarrow> keeps stays_private (put_node p (Some n))"
  by (rule keeps_put_node) (auto simp: stays_private_def)

lemma privacy_remove [keeps_intros]: "keeps stays_private (put_node p None)"
  by (rule keeps_put_node) (auto simp: stays_private_def)

lemma stays_private_rewrite:
  "files s p = Some (Reg m d) \<Longrightarrow> files s' = (files s)(p \<mapsto> Reg m d') \<Longrightarrow> stays_private s s'"
  by (auto simp: stays_private_def)

lemma privacy_mkdir [keeps_intros]: "keeps stays_private (mkdir OS p 448)"
  unfolding mkdir_def
  by (intro keeps_intros privacy_put_node) (simp add: private_node_def)

lemma privacy_open_excl [keeps_intros]: "keeps stays_private (open_excl OS p 384)"
  unfolding open_excl_def
  by (intro keeps_intros privacy_put_node) (simp add: private_node_def)

lemma privacy_unlink [keeps_intros]: "keeps stays_private (unlink OS p)"
  unfolding unlink_def by (intro keeps_intros)

lemma privacy_file_body:
  assumes "\<And>mode old s r s'. ends (f mode old) s r s' \<Longrightarrow> files s p = Some (Reg mode old) \<Longrightarrow>
             \<exists>d. files s' = (files s)(p \<mapsto> Reg mode d)"
  shows "keeps stays_private (do { fs \<leftarrow> get_files;
           case fs p of Some (Reg mode old) \<Rightarrow> f mode old | _ \<Rightarrow> give c })"
  unfolding keeps_def
  by (auto simp: ends_bind privacy.R_refl dest!: assms intro: stays_private_rewrite
      split: option.splits node.splits)

lemma privacy_write_at [keeps_intros]: "keeps stays_private (write_at OS p i bs)"
  unfolding write_at_def
  by (rule privacy.keeps_bind, rule privacy.keeps_syscall, rule privacy_file_body)
    (auto simp: ends_bind ends_lift Let_def intro: keeps_intros)

lemma privacy_spill [keeps_intros]: "keeps stays_private (spill OS p bs)"
  unfolding spill_def
  by (rule privacy.keeps_bind, rule privacy.keeps_lift, rule privacy_file_body)
    auto

lemma privacy_flush [keeps_intros]: "keeps stays_private (flush OS c p bs)"
  unfolding flush_def
  by (rule privacy.keeps_bind, rule keeps_intros, rule privacy.keeps_bind, rule privacy.keeps_syscall,
      rule privacy_file_body)
    (auto simp: ends_bind intro: keeps_intros)

section \<open>What each call does to the files\<close>

definition faulted :: "('w, 'e) os_lib_scheme \<Rightarrow> syscall \<Rightarrow> string \<Rightarrow> bool" where
  "faulted OS c p \<longleftrightarrow> (\<exists>e. outcome (os_fault OS c p) (Some e))"

lemma ends_syscall:
  assumes "ends (syscall OS c p body) s r s'"
  obtains e where "faulted OS c p" and "r = Inl e" and "files s' = files s"
  | t where "files t = files s" and "ends body t r s'"
proof -
  from assms obtain inj t where inj: "ends (lift (os_fault OS c p)) s inj t"
      and rest: "ends (case inj of None \<Rightarrow> body | Some e \<Rightarrow> give (Inl e)) t r s'"
    unfolding syscall_def by (auto simp: ends_bind)
  show thesis
  proof (cases inj)
    case None
    with inj rest that(2) show thesis by (auto dest: lift_files)
  next
    case (Some e)
    with inj rest that(1) show thesis by (auto dest: lift_files lift_outcome simp: faulted_def)
  qed
qed

lemma ends_lstat:
  assumes "ends (lstat OS p) s r s'"
  shows "files s' = files s \<and>
    (case r of Inr n \<Rightarrow> files s p = Some n
             | Inl e \<Rightarrow> faulted OS Lstat p \<or> files s p = None \<and> e = ENOENT)"
  using assms unfolding lstat_def by (auto elim!: ends_syscall simp: ends_bind split: option.splits)

lemma ends_mkdir:
  assumes "ends (mkdir OS p m) s r s'"
  shows "case r of Inr u \<Rightarrow> files s p = None \<and> files s' = (files s)(p \<mapsto> Dir (m AND NOT (os_umask OS)))
             | Inl e \<Rightarrow> files s' = files s \<and> (faulted OS Mkdir p \<or> files s p \<noteq> None)"
  using assms unfolding mkdir_def
  by (auto elim!: ends_syscall simp: ends_bind split: option.splits)

lemma ends_access:
  assumes "ends (access OS p) s r s'"
  shows "files s' = files s \<and>
    (case r of Inr u \<Rightarrow> files s p \<noteq> None | Inl e \<Rightarrow> faulted OS Access p \<or> follow 40 (files s) p = Inl e)"
proof -
  have "follow 40 fs p = Inr q \<Longrightarrow> fs p \<noteq> None" for fs q
    by (cases "fs p") (auto simp: follow.simps[of _ _ p])
  with assms show ?thesis
    unfolding access_def by (auto elim!: ends_syscall simp: ends_bind split: sum.splits)
qed

lemma ends_open_excl:
  assumes "ends (open_excl OS p m) s r s'"
  shows "case r of Inr fd \<Rightarrow> fd = p \<and> files s p = None \<and>
                     files s' = (files s)(p \<mapsto> Reg (m AND NOT (os_umask OS)) [])
             | Inl e \<Rightarrow> files s' = files s \<and> (faulted OS Open p \<or> files s p \<noteq> None)"
  using assms unfolding open_excl_def
  by (auto elim!: ends_syscall simp: ends_bind split: option.splits)

lemma ends_open_rdonly:
  assumes "ends (open_rdonly OS p) s r s'"
  shows "files s' = files s \<and>
    (case r of Inr fd \<Rightarrow> fd = p \<and> files s p \<noteq> None
             | Inl e \<Rightarrow> faulted OS Open p \<or> (\<forall>n. files s p = Some n \<longrightarrow> S_ISLNK n))"
  using assms unfolding open_rdonly_def
  by (auto elim!: ends_syscall simp: ends_bind split: option.splits node.splits)

lemma ends_fopen_read:
  assumes "ends (fopen_read OS p) s r s'"
  shows "files s' = files s \<and>
    (case r of Inr q \<Rightarrow> follow 40 (files s) p = Inr q
             | Inl e \<Rightarrow> faulted OS Fopen p \<or> follow 40 (files s) p = Inl e)"
  using assms unfolding fopen_read_def by (auto elim!: ends_syscall simp: ends_bind split: sum.splits)

lemma follow_regular: "fs p = Some (Reg m d) \<Longrightarrow> follow n fs p = Inr p"
  by (simp add: follow.simps)

lemma ends_write_at:
  assumes "ends (write_at OS p i bs) s r s'"
  shows "case r of
      Some n \<Rightarrow> \<exists>m old. files s p = Some (Reg m old) \<and> n \<le> length bs \<and>
        files s' = (files s)(p \<mapsto> Reg m (take i old @ take n bs @ drop (i + n) old)) \<and>
        (\<exists>k. outcome (os_transfer OS Write (length bs)) k \<and> n = min (length bs) k)
    | None \<Rightarrow> files s' = files s \<and> (faulted OS Write p \<or> (\<forall>n. files s p = Some n \<longrightarrow> \<not> S_ISREG n))"
proof -
  from assms obtain a where call: "ends (syscall OS Write p (do {
       fs \<leftarrow> get_files;
       case fs p of
         Some (Reg mode old) \<Rightarrow> do {
           n \<leftarrow> lift (os_transfer OS Write (length bs));
           let part = take n bs;
           put_node p (Some (Reg mode (take i old @ part @ drop (i + length part) old)));
           give (Inr (length part)) }
       | _ \<Rightarrow> give (Inl EISDIR) })) s a s'" and r: "r = (case a of Inl e \<Rightarrow> None | Inr n \<Rightarrow> Some n)"
    unfolding write_at_def by (auto simp: ends_bind)
  show ?thesis
  proof (cases a)
    case (Inl e)
    with call r show ?thesis
      by (auto elim!: ends_syscall simp: Let_def ends_bind split: option.splits node.splits)
  next
    case (Inr n)
    with call have "\<exists>m old k. outcome (os_transfer OS Write (length bs)) k \<and>
        files s p = Some (Reg m old) \<and> n = length (take k bs) \<and>
        files s' = (files s)(p \<mapsto> Reg m (take i old @ take k bs @ drop (i + length (take k bs)) old))"
      by (auto elim!: ends_syscall simp: Let_def ends_bind dest!: ends_liftD
          split: option.splits node.splits) (rule exI, rule conjI, assumption, simp)
    then obtain m old k where "files s p = Some (Reg m old)"
        and n: "n = length (take k bs)"
        and "files s' = (files s)(p \<mapsto> Reg m (take i old @ take k bs @ drop (i + length (take k bs)) old))"
        and k: "outcome (os_transfer OS Write (length bs)) k"
      by blast
    moreover have "take n bs = take k bs" using n by (simp add: min_def)
    ultimately show ?thesis using Inr r k by auto
  qed
qed

lemma ends_read_at:
  assumes "ends (read_at OS p i room) s r s'"
  shows "files s' = files s \<and>
    (case r of
      Some bs \<Rightarrow> \<exists>m d k. files s p = Some (Reg m d) \<and> bs = take (min k room) (drop i d) \<and>
        outcome (os_transfer OS Read room) k
    | None \<Rightarrow> faulted OS Read p \<or> (\<forall>n. files s p = Some n \<longrightarrow> \<not> S_ISREG n))"
proof -
  from assms obtain a where call: "ends (syscall OS Read p (do {
       fs \<leftarrow> get_files;
       case fs p of
         Some (Reg mode data) \<Rightarrow> do {
           n \<leftarrow> lift (os_transfer OS Read room);
           give (Inr (take (min n room) (drop i data))) }
       | _ \<Rightarrow> give (Inl EISDIR) })) s a s'" and r: "r = (case a of Inl e \<Rightarrow> None | Inr bs \<Rightarrow> Some bs)"
    unfolding read_at_def by (auto simp: ends_bind)
  show ?thesis
    by (cases a) (use call r in \<open>auto elim!: ends_syscall simp: ends_bind dest!: ends_liftD
        split: option.splits node.splits\<close>)
qed

lemma ends_plain_call:
  assumes "ends (plain_call OS c p) s r s'"
  shows "files s' = files s \<and> (r \<or> faulted OS c p)"
proof -
  from assms obtain a where "ends (syscall OS c p (give (Inr ()))) s a s'"
      and r: "r = (case a of Inl e \<Rightarrow> False | Inr u \<Rightarrow> True)"
    unfolding plain_call_def by (auto simp: ends_bind)
  then show ?thesis by (cases a) (auto elim!: ends_syscall)
qed

lemma ends_unlink:
  assumes "ends (unlink OS p) s r s'"
  shows "case r of Inr u \<Rightarrow> files s' = (files s)(p := None)
             | Inl e \<Rightarrow> files s' = files s \<and>
                 (faulted OS Unlink p \<or> (\<forall>n. files s p = Some n \<longrightarrow> S_ISDIR n))"
  using assms unfolding unlink_def
  by (auto elim!: ends_syscall simp: ends_bind split: option.splits node.splits)

lemma ends_spill:
  assumes "ends (spill OS p bs) s r s'" and "files s p = Some (Reg m d)"
  shows "\<exists>d'. files s' = (files s)(p \<mapsto> Reg m d')"
  using assms unfolding spill_def by (auto elim!: ends_bindE dest!: lift_files)

lemma ends_flush:
  assumes "ends (flush OS c p bs) s r s'" and "files s p = Some (Reg m d)"
  shows "if r then files s' = (files s)(p \<mapsto> Reg m bs)
         else faulted OS c p \<and> (\<exists>d'. files s' = (files s)(p \<mapsto> Reg m d'))"
proof -
  from assms obtain a u t where spl: "ends (spill OS p bs) s u t"
      and call: "ends (syscall OS c p (do {
       fs \<leftarrow> get_files;
       case fs p of
         Some (Reg mode old) \<Rightarrow> do { put_node p (Some (Reg mode bs)); give (Inr ()) }
       | _ \<Rightarrow> give (Inl EOTHER) })) t a s'"
      and r: "r = (case a of Inl e \<Rightarrow> False | Inr u \<Rightarrow> True)"
    unfolding flush_def by (auto simp: ends_bind)
  from ends_spill[OF spl assms(2)] obtain d' where "files t = (files s)(p \<mapsto> Reg m d')" by blast
  with call r show ?thesis
    by (cases a) (auto elim!: ends_syscall simp: ends_bind)
qed

end
