(* ===== verification/Key_Store.thy ===== *)
theory Key_Store
  imports Posix_FS Composite_Sig
begin

text \<open>
  \<open>include/hybrid_key_store.h\<close> and \<open>src/hybrid_key_store.c\<close>: the encrypted private-key store, an
  SM2 key in a PKCS#8 PEM file and a Dilithium2 key pair in an AES-256-GCM container, in a directory
  that only its owner may enter. The operations run on the file system of \<open>Posix_FS\<close>; calls to the
  cryptographic libraries are lifted and cannot touch files. Paths are C strings; a null directory
  or passphrase is None.
\<close>

record ('w, 'k) store_lib = "('w, 'k) crypto_lib" +
  PKCS5_PBKDF2_HMAC :: "string \<Rightarrow> bytes \<Rightarrow> nat \<Rightarrow> string \<Rightarrow> nat \<Rightarrow> ('w, int \<times> bytes) prog"
    \<comment> \<open>passphrase, salt, iterations, digest name, key length: return code and key\<close>
  RAND_bytes :: "nat \<Rightarrow> ('w, int \<times> bytes) prog"
  EVP_CIPHER_CTX_new :: "('w, bool) prog"
  EVP_CryptInit_cipher :: "string \<Rightarrow> ('w, int) prog"
  EVP_CTRL_GCM_SET_IVLEN :: "nat \<Rightarrow> ('w, int) prog"
  EVP_CryptInit_key :: "bytes \<Rightarrow> bytes \<Rightarrow> ('w, int) prog"
    \<comment> \<open>\<open>EVP_EncryptInit_ex\<close> or \<open>EVP_DecryptInit_ex\<close> with the key and the initialization vector\<close>
  EVP_CryptUpdate_aad :: "bytes \<Rightarrow> ('w, int) prog"
  EVP_EncryptUpdate :: "bytes \<Rightarrow> bytes \<Rightarrow> bytes \<Rightarrow> bytes \<Rightarrow> ('w, int \<times> int \<times> bytes) prog"
    \<comment> \<open>key, vector, associated data, plaintext: return code, count produced, ciphertext\<close>
  EVP_EncryptFinal_ex :: "bytes \<Rightarrow> bytes \<Rightarrow> bytes \<Rightarrow> bytes \<Rightarrow> ('w, int \<times> int) prog"
  EVP_CTRL_GCM_GET_TAG :: "bytes \<Rightarrow> bytes \<Rightarrow> bytes \<Rightarrow> bytes \<Rightarrow> nat \<Rightarrow> ('w, int \<times> bytes) prog"
  EVP_DecryptUpdate :: "bytes \<Rightarrow> bytes \<Rightarrow> bytes \<Rightarrow> bytes \<Rightarrow> ('w, int \<times> int \<times> bytes) prog"
  EVP_CTRL_GCM_SET_TAG :: "bytes \<Rightarrow> ('w, int) prog"
  EVP_DecryptFinal_ex :: "bytes \<Rightarrow> bytes \<Rightarrow> bytes \<Rightarrow> bytes \<Rightarrow> bytes \<Rightarrow> ('w, int \<times> int) prog"
    \<comment> \<open>key, vector, associated data, ciphertext, expected tag\<close>
  PEM_write_PKCS8PrivateKey :: "'k \<Rightarrow> string \<Rightarrow> string \<Rightarrow> ('w, bool \<times> bytes) prog"
    \<comment> \<open>key, cipher name, passphrase: success and what was put on the stream\<close>
  PEM_read_PrivateKey :: "bytes \<Rightarrow> (int \<Rightarrow> int \<times> string) \<Rightarrow> ('w, 'k option) prog"
    \<comment> \<open>file contents, and the passphrase callback: from the buffer's size to the return value and
        the characters written\<close>
  EVP_PKEY_private_check :: "'k \<Rightarrow> ('w, int) prog"

section \<open>Constants\<close>

definition HYBRID_SM2_PRIVATE_KEY_FILE :: string where
  "HYBRID_SM2_PRIVATE_KEY_FILE = ''sm2_private.pem''"
definition HYBRID_DILITHIUM_PRIVATE_KEY_FILE :: string where
  "HYBRID_DILITHIUM_PRIVATE_KEY_FILE = ''dilithium2_private.enc''"

datatype HYBRID_KEY_STORE_STATUS =
  HYBRID_KEY_STORE_INCOMPLETE | HYBRID_KEY_STORE_MISSING | HYBRID_KEY_STORE_COMPLETE

definition DILITHIUM_STORE_MAGIC :: bytes where "DILITHIUM_STORE_MAGIC = ascii ''HPQCDK01''"
definition DILITHIUM_PLAINTEXT_MAGIC :: bytes where "DILITHIUM_PLAINTEXT_MAGIC = ascii ''DIL2K001''"
definition DILITHIUM_STORE_SALT_BYTES :: nat where "DILITHIUM_STORE_SALT_BYTES = 16"
definition DILITHIUM_STORE_IV_BYTES :: nat where "DILITHIUM_STORE_IV_BYTES = 12"
definition DILITHIUM_STORE_TAG_BYTES :: nat where "DILITHIUM_STORE_TAG_BYTES = 16"
definition DILITHIUM_STORE_KEY_BYTES :: nat where "DILITHIUM_STORE_KEY_BYTES = 32"
definition DILITHIUM_STORE_ITERATIONS :: nat where "DILITHIUM_STORE_ITERATIONS = 200000"
definition DILITHIUM_STORE_HEADER_BYTES :: nat where
  "DILITHIUM_STORE_HEADER_BYTES = 8 + 4 + DILITHIUM_STORE_SALT_BYTES + DILITHIUM_STORE_IV_BYTES + 4"
definition DILITHIUM_STORE_PLAINTEXT_BYTES :: nat where
  "DILITHIUM_STORE_PLAINTEXT_BYTES = 8 + DILITHIUM_PUBLIC_KEY_BYTES + DILITHIUM_SECRET_KEY_BYTES"
definition DILITHIUM_STORE_FILE_BYTES :: nat where
  "DILITHIUM_STORE_FILE_BYTES =
     DILITHIUM_STORE_HEADER_BYTES + DILITHIUM_STORE_PLAINTEXT_BYTES + DILITHIUM_STORE_TAG_BYTES"

lemmas store_sizes [sizes] =
  DILITHIUM_STORE_SALT_BYTES_def DILITHIUM_STORE_IV_BYTES_def DILITHIUM_STORE_TAG_BYTES_def
  DILITHIUM_STORE_KEY_BYTES_def DILITHIUM_STORE_HEADER_BYTES_def
  DILITHIUM_STORE_PLAINTEXT_BYTES_def DILITHIUM_STORE_FILE_BYTES_def

section \<open>Paths, permissions and status\<close>

text \<open>The file names are constants, never null.\<close>

definition join_path ::
  "('w, 'k, 'e) store_lib_scheme \<Rightarrow> string option \<Rightarrow> string \<Rightarrow> ('w, string option) io" where
  "join_path L directory name =
     (case directory of
        None \<Rightarrow> fail
      | Some d \<Rightarrow>
          if length d = 0 \<or> length name = 0 \<or> length d > SIZE_MAX - length name - 2 then fail
          else ensure (lift (OPENSSL_malloc L (length d + length name + 2)))
                 (done_with (d @ ''/'' @ name)))"

definition passphrase_valid :: "string option \<Rightarrow> bool" where
  "passphrase_valid passphrase =
     (case passphrase of
        None \<Rightarrow> False
      | Some p \<Rightarrow> length p \<ge> 12 \<and> length p \<le> INT_MAX)"

definition ensure_private_directory ::
  "('w, 'o) os_lib_scheme \<Rightarrow> string option \<Rightarrow> ('w, bool) io" where
  "ensure_private_directory OS directory =
     (case directory of
        None \<Rightarrow> give False
      | Some d \<Rightarrow>
          if d = [] then give False
          else do {
            found \<leftarrow> lstat OS d;
            status \<leftarrow>
              (case found of
                 Inr node \<Rightarrow> done_with node
               | Inl e \<Rightarrow>
                   if e \<noteq> ENOENT then fail
                   else do {
                     made \<leftarrow> mkdir OS d 448;
                     case made of
                       Inl e \<Rightarrow> fail
                     | Inr _ \<Rightarrow> do {
                         found \<leftarrow> lstat OS d;
                         give (case found of Inl e \<Rightarrow> None | Inr node \<Rightarrow> Some node) } });
            give (case status of
                    None \<Rightarrow> False
                  | Some node \<Rightarrow> S_ISDIR node \<and> \<not> S_ISLNK node \<and> st_mode node AND 63 = 0)
          })"

text \<open>A negative expected size accepts any. The path is never null here.\<close>

definition secure_regular_file ::
  "('w, 'o) os_lib_scheme \<Rightarrow> string \<Rightarrow> int \<Rightarrow> ('w, bool) io" where
  "secure_regular_file OS path expected_size = do {
     found \<leftarrow> lstat OS path;
     give (case found of
             Inl e \<Rightarrow> False
           | Inr node \<Rightarrow> S_ISREG node \<and> \<not> S_ISLNK node \<and> st_mode node AND 63 = 0 \<and>
               (expected_size < 0 \<or> int (st_size node) = expected_size)) }"

definition hybrid_key_store_status ::
  "('w, 'k, 'e) store_lib_scheme \<Rightarrow> ('w, 'o) os_lib_scheme \<Rightarrow> string option \<Rightarrow>
   ('w, HYBRID_KEY_STORE_STATUS) io" where
  "hybrid_key_store_status L OS directory = do {
     sm2_path \<leftarrow> join_path L directory HYBRID_SM2_PRIVATE_KEY_FILE;
     dilithium_path \<leftarrow> join_path L directory HYBRID_DILITHIUM_PRIVATE_KEY_FILE;
     case (sm2_path, dilithium_path) of
       (Some sm2, Some dil) \<Rightarrow> do {
         sm2_access \<leftarrow> access OS sm2;
         dilithium_access \<leftarrow> access OS dil;
         let sm2_exists = (sm2_access = Inr ());
         let dilithium_exists = (dilithium_access = Inr ());
         give (if \<not> sm2_exists \<and> \<not> dilithium_exists then HYBRID_KEY_STORE_MISSING
               else if sm2_exists \<and> dilithium_exists then HYBRID_KEY_STORE_COMPLETE
               else HYBRID_KEY_STORE_INCOMPLETE) }
     | _ \<Rightarrow> give HYBRID_KEY_STORE_INCOMPLETE }"

definition hybrid_sm2_key_store_status ::
  "('w, 'k, 'e) store_lib_scheme \<Rightarrow> ('w, 'o) os_lib_scheme \<Rightarrow> string option \<Rightarrow>
   ('w, HYBRID_KEY_STORE_STATUS) io" where
  "hybrid_sm2_key_store_status L OS directory = do {
     sm2_path \<leftarrow> join_path L directory HYBRID_SM2_PRIVATE_KEY_FILE;
     case sm2_path of
       None \<Rightarrow> give HYBRID_KEY_STORE_INCOMPLETE
     | Some sm2 \<Rightarrow> do {
         accessed \<leftarrow> access OS sm2;
         case accessed of
           Inl e \<Rightarrow> give (if e = ENOENT then HYBRID_KEY_STORE_MISSING else HYBRID_KEY_STORE_INCOMPLETE)
         | Inr _ \<Rightarrow> do {
             secure \<leftarrow> both (ensure_private_directory OS directory) (secure_regular_file OS sm2 (-1));
             give (if secure then HYBRID_KEY_STORE_COMPLETE else HYBRID_KEY_STORE_INCOMPLETE) } } }"

section \<open>Bytes and descriptors\<close>

definition put_u32_be :: "32 word \<Rightarrow> bytes" where
  "put_u32_be value =
     [ucast (drop_bit 24 value), ucast (drop_bit 16 value), ucast (drop_bit 8 value), ucast value]"

definition get_u32_be :: "bytes \<Rightarrow> 32 word" where
  "get_u32_be input =
     push_bit 24 (ucast (input ! 0)) OR push_bit 16 (ucast (input ! 1)) OR
     push_bit 8 (ucast (input ! 2)) OR ucast (input ! 3)"

definition derive_encryption_key ::
  "('w, 'k, 'e) store_lib_scheme \<Rightarrow> string option \<Rightarrow> bytes \<Rightarrow> ('w, bytes option) prog" where
  "derive_encryption_key L passphrase salt =
     (case passphrase of
        None \<Rightarrow> fail
      | Some p \<Rightarrow>
          if \<not> passphrase_valid passphrase then fail
          else do {
            (ret, key) \<leftarrow> PKCS5_PBKDF2_HMAC L p salt DILITHIUM_STORE_ITERATIONS ''SHA256''
                            DILITHIUM_STORE_KEY_BYTES;
            if ret = 1 then done_with (filled DILITHIUM_STORE_KEY_BYTES key) else fail
          })"

function write_all ::
  "('w, 'o) os_lib_scheme \<Rightarrow> string \<Rightarrow> bytes \<Rightarrow> nat \<Rightarrow> ('w, bool) io" where
  "write_all OS descriptor data offset =
     (if offset < length data then do {
        written \<leftarrow> write_at OS descriptor offset (drop offset data);
        case written of
          None \<Rightarrow> give False
        | Some n \<Rightarrow> if n = 0 then give False else write_all OS descriptor data (offset + n)
      }
      else give True)"
  by pat_completeness auto
termination by (relation "measure (\<lambda>(OS, fd, data, offset). length data - offset)") auto

text \<open>\<open>received\<close> is the part of the array filled so far.\<close>

function read_all ::
  "('w, 'o) os_lib_scheme \<Rightarrow> string \<Rightarrow> nat \<Rightarrow> bytes \<Rightarrow> ('w, bytes option) io" where
  "read_all OS descriptor length' received =
     (if length received < length' then do {
        count \<leftarrow> read_at OS descriptor (length received) (length' - length received);
        case count of
          None \<Rightarrow> fail
        | Some bs \<Rightarrow> if bs = [] then fail else read_all OS descriptor length' (received @ bs)
      }
      else done_with received)"
  by pat_completeness auto
termination by (relation "measure (\<lambda>(OS, fd, n, received). n - length received)")
  (auto simp: neq_Nil_conv)

declare write_all.simps [simp del] read_all.simps [simp del]

text \<open>The return value, and the characters copied into the buffer.\<close>

definition password_callback :: "string option \<Rightarrow> bool \<Rightarrow> int \<Rightarrow> int \<times> string" where
  "password_callback userdata buffer_null room =
     (case userdata of
        None \<Rightarrow> (0, [])
      | Some bytes \<Rightarrow>
          if buffer_null \<or> room \<le> 0 \<or> length bytes > nat room then (0, [])
          else (int (length bytes), bytes))"

section \<open>The SM2 file\<close>

text \<open>The part of \<open>save_sm2_private_key\<close> between its \<open>open\<close> and the label \<open>done\<close>.\<close>

definition write_sm2_stream ::
  "('w, 'k, 'e) store_lib_scheme \<Rightarrow> ('w, 'o) os_lib_scheme \<Rightarrow> string \<Rightarrow> 'k \<Rightarrow> string \<Rightarrow> ('w, bool) io" where
  "write_sm2_stream L OS fd key pass = do {
     output \<leftarrow> plain_call OS Fdopen fd;
     if \<not> output then do { _ \<leftarrow> plain_call OS Close fd; give False }
     else do {
       (written, pem) \<leftarrow> lift (PEM_write_PKCS8PrivateKey L key ''AES-256-CBC'' pass);
       flushed \<leftarrow> both (give written) (flush OS Fflush fd pem);
       synced \<leftarrow> both (give flushed) (plain_call OS Fsync fd);
       closed \<leftarrow> (if flushed then plain_call OS Fclose fd else flush OS Fclose fd pem);
       give (synced \<and> closed) } }"

definition save_sm2_private_key ::
  "('w, 'k, 'e) store_lib_scheme \<Rightarrow> ('w, 'o) os_lib_scheme \<Rightarrow> string \<Rightarrow> 'k option \<Rightarrow> string option \<Rightarrow>
   ('w, bool) io" where
  "save_sm2_private_key L OS path private_key passphrase =
     (case (private_key, passphrase) of
        (Some key, Some pass) \<Rightarrow>
          if \<not> passphrase_valid passphrase then give False
          else do {
            descriptor \<leftarrow> open_excl OS path 384;
            case descriptor of
              Inl e \<Rightarrow> give False
            | Inr fd \<Rightarrow> do {
                ok \<leftarrow> write_sm2_stream L OS fd key pass;
                if ok then give True
                else do { _ \<leftarrow> unlink OS path; give False } } }
      | _ \<Rightarrow> give False)"

definition load_sm2_private_key ::
  "('w, 'k, 'e) store_lib_scheme \<Rightarrow> ('w, 'o) os_lib_scheme \<Rightarrow> string \<Rightarrow> string option \<Rightarrow>
   ('w, 'k option) io" where
  "load_sm2_private_key L OS path passphrase = do {
     secure \<leftarrow> secure_regular_file OS path (-1);
     if \<not> secure \<or> \<not> passphrase_valid passphrase then fail
     else do {
       input \<leftarrow> fopen_read OS path;
       case input of
         Inl e \<Rightarrow> fail
       | Inr file \<Rightarrow> do {
           fs \<leftarrow> get_files;
           let contents = (case fs file of None \<Rightarrow> [] | Some node \<Rightarrow> node_data node);
           delivered \<leftarrow> lift (os_transfer OS Fopen (length contents));
           private_key \<leftarrow> lift (PEM_read_PrivateKey L (take delivered contents)
                                  (password_callback passphrase False));
           _ \<leftarrow> plain_call OS Fclose file;
           case private_key of
             None \<Rightarrow> fail
           | Some key \<Rightarrow>
               if \<not> EVP_PKEY_is_a L key ''SM2'' then fail
               else
                 ensure (lift (EVP_PKEY_CTX_new_from_pkey L key))
                   (ensure (lift (positive (EVP_PKEY_private_check L key))) (done_with key))
         }
     } }"

definition hybrid_sm2_key_store_save ::
  "('w, 'k, 'e) store_lib_scheme \<Rightarrow> ('w, 'o) os_lib_scheme \<Rightarrow> string option \<Rightarrow> 'k option \<Rightarrow>
   string option \<Rightarrow> ('w, bool) io" where
  "hybrid_sm2_key_store_save L OS directory private_key passphrase =
     (case (directory, private_key) of
        (Some d, Some key) \<Rightarrow>
          if \<not> EVP_PKEY_is_a L key ''SM2'' \<or> \<not> passphrase_valid passphrase then give False
          else do {
            status \<leftarrow> hybrid_sm2_key_store_status L OS directory;
            if status \<noteq> HYBRID_KEY_STORE_MISSING then give False
            else both (ensure_private_directory OS directory) (do {
              path \<leftarrow> join_path L directory HYBRID_SM2_PRIVATE_KEY_FILE;
              case path of
                None \<Rightarrow> give False
              | Some p \<Rightarrow> save_sm2_private_key L OS p private_key passphrase })
          }
      | _ \<Rightarrow> give False)"

definition hybrid_sm2_key_store_load ::
  "('w, 'k, 'e) store_lib_scheme \<Rightarrow> ('w, 'o) os_lib_scheme \<Rightarrow> string option \<Rightarrow> string option \<Rightarrow>
   ('w, 'k option) io" where
  "hybrid_sm2_key_store_load L OS directory passphrase = do {
     status \<leftarrow> hybrid_sm2_key_store_status L OS directory;
     if status \<noteq> HYBRID_KEY_STORE_COMPLETE \<or> \<not> passphrase_valid passphrase then fail
     else attempt (join_path L directory HYBRID_SM2_PRIVATE_KEY_FILE)
            (\<lambda>path. load_sm2_private_key L OS path passphrase) }"

section \<open>The Dilithium2 container\<close>

definition store_header :: "bytes \<Rightarrow> bytes \<Rightarrow> bytes" where
  "store_header salt iv =
     DILITHIUM_STORE_MAGIC @ put_u32_be (of_nat DILITHIUM_STORE_ITERATIONS) @ salt @ iv
     @ put_u32_be (of_nat DILITHIUM_STORE_PLAINTEXT_BYTES)"

definition store_plaintext :: "bytes \<Rightarrow> bytes \<Rightarrow> bytes" where
  "store_plaintext pk sk = DILITHIUM_PLAINTEXT_MAGIC @ pk @ sk"

text \<open>The output array, complete when the call succeeds.\<close>

definition encrypt_dilithium_payload ::
  "('w, 'k, 'e) store_lib_scheme \<Rightarrow> 'k hybrid_private_key \<Rightarrow> 'k hybrid_public_key \<Rightarrow> string option \<Rightarrow>
   ('w, bytes option) prog" where
  "encrypt_dilithium_payload L private_key public_key passphrase = do {
     (ret, salt) \<leftarrow> RAND_bytes L DILITHIUM_STORE_SALT_BYTES;
     if ret \<le> 0 then fail else do {
     (ret, iv) \<leftarrow> RAND_bytes L DILITHIUM_STORE_IV_BYTES;
     if ret \<le> 0 then fail else do {
     let salt = filled DILITHIUM_STORE_SALT_BYTES salt;
     let iv = filled DILITHIUM_STORE_IV_BYTES iv;
     let header = store_header salt iv;
     attempt (derive_encryption_key L passphrase salt) (\<lambda>key. do {
     let plaintext = store_plaintext (dilithium_public_key public_key) (dilithium_secret_key private_key);
     ensure (EVP_CIPHER_CTX_new L)
       (ensure (positive (EVP_CryptInit_cipher L ''AES-256-GCM''))
       (ensure (positive (EVP_CTRL_GCM_SET_IVLEN L DILITHIUM_STORE_IV_BYTES))
       (ensure (positive (EVP_CryptInit_key L key iv))
       (ensure (positive (EVP_CryptUpdate_aad L header)) (do {
         (ret, produced, ciphertext) \<leftarrow> EVP_EncryptUpdate L key iv header plaintext;
         if ret \<le> 0 \<or> produced \<noteq> int DILITHIUM_STORE_PLAINTEXT_BYTES then fail else do {
         (ret, final_produced) \<leftarrow> EVP_EncryptFinal_ex L key iv header plaintext;
         if ret \<le> 0 \<or> final_produced \<noteq> 0 then fail else do {
         (ret, tag) \<leftarrow> EVP_CTRL_GCM_GET_TAG L key iv header plaintext DILITHIUM_STORE_TAG_BYTES;
         if ret \<le> 0 then fail
         else done_with (header @ filled DILITHIUM_STORE_PLAINTEXT_BYTES ciphertext
                         @ filled DILITHIUM_STORE_TAG_BYTES tag) }}}))))) }) }}}"

text \<open>The input array holds \<open>DILITHIUM_STORE_FILE_BYTES\<close> bytes; the result is the two copied keys.\<close>

definition decrypt_dilithium_payload ::
  "('w, 'k, 'e) store_lib_scheme \<Rightarrow> bytes \<Rightarrow> string option \<Rightarrow> ('w, (bytes \<times> bytes) option) prog" where
  "decrypt_dilithium_payload L input passphrase =
     (let salt = take DILITHIUM_STORE_SALT_BYTES (drop 12 input);
          iv = take DILITHIUM_STORE_IV_BYTES (drop (12 + DILITHIUM_STORE_SALT_BYTES) input);
          header = take DILITHIUM_STORE_HEADER_BYTES input;
          ciphertext = take DILITHIUM_STORE_PLAINTEXT_BYTES (drop DILITHIUM_STORE_HEADER_BYTES input);
          tag = take DILITHIUM_STORE_TAG_BYTES
                  (drop (DILITHIUM_STORE_HEADER_BYTES + DILITHIUM_STORE_PLAINTEXT_BYTES) input)
      in if take 8 input \<noteq> DILITHIUM_STORE_MAGIC \<or>
            get_u32_be (drop 8 input) \<noteq> of_nat DILITHIUM_STORE_ITERATIONS \<or>
            get_u32_be (drop (DILITHIUM_STORE_HEADER_BYTES - 4) input)
              \<noteq> of_nat DILITHIUM_STORE_PLAINTEXT_BYTES
         then fail
         else attempt (derive_encryption_key L passphrase salt) (\<lambda>key.
           ensure (EVP_CIPHER_CTX_new L)
           (ensure (positive (EVP_CryptInit_cipher L ''AES-256-GCM''))
           (ensure (positive (EVP_CTRL_GCM_SET_IVLEN L DILITHIUM_STORE_IV_BYTES))
           (ensure (positive (EVP_CryptInit_key L key iv))
           (ensure (positive (EVP_CryptUpdate_aad L header)) (do {
             (ret, produced, written) \<leftarrow> EVP_DecryptUpdate L key iv header ciphertext;
             if ret \<le> 0 \<or> produced \<noteq> int DILITHIUM_STORE_PLAINTEXT_BYTES then fail
             else ensure (positive (EVP_CTRL_GCM_SET_TAG L tag)) (do {
               (ret, final_produced) \<leftarrow> EVP_DecryptFinal_ex L key iv header ciphertext tag;
               let plaintext = filled DILITHIUM_STORE_PLAINTEXT_BYTES written;
               if ret \<le> 0 \<or> final_produced \<noteq> 0 \<or> take 8 plaintext \<noteq> DILITHIUM_PLAINTEXT_MAGIC then fail
               else done_with (take DILITHIUM_PUBLIC_KEY_BYTES (drop 8 plaintext),
                               take DILITHIUM_SECRET_KEY_BYTES
                                 (drop (8 + DILITHIUM_PUBLIC_KEY_BYTES) plaintext))
             }) })))))))"

text \<open>The part of \<open>save_dilithium_private_key\<close> from its \<open>open\<close> to the label \<open>done\<close>.\<close>

definition write_container ::
  "('w, 'o) os_lib_scheme \<Rightarrow> string \<Rightarrow> bytes \<Rightarrow> ('w, bool) io" where
  "write_container OS path data = do {
     descriptor \<leftarrow> open_excl OS path 384;
     case descriptor of
       Inl e \<Rightarrow> give False
     | Inr fd \<Rightarrow> do {
         stored \<leftarrow> both (write_all OS fd data 0) (plain_call OS Fsync fd);
         closed \<leftarrow> plain_call OS Close fd;
         give (stored \<and> closed) } }"

definition save_dilithium_private_key ::
  "('w, 'k, 'e) store_lib_scheme \<Rightarrow> ('w, 'o) os_lib_scheme \<Rightarrow> string \<Rightarrow> 'k hybrid_private_key \<Rightarrow>
   'k hybrid_public_key \<Rightarrow> string option \<Rightarrow> ('w, bool) io" where
  "save_dilithium_private_key L OS path private_key public_key passphrase = do {
     file_data \<leftarrow> ensure (lift (OPENSSL_malloc L DILITHIUM_STORE_FILE_BYTES))
                    (lift (encrypt_dilithium_payload L private_key public_key passphrase));
     ok \<leftarrow> (case file_data of None \<Rightarrow> give False | Some data \<Rightarrow> write_container OS path data);
     if ok then give True
     else do { _ \<leftarrow> unlink OS path; give False } }"

definition load_dilithium_private_key ::
  "('w, 'k, 'e) store_lib_scheme \<Rightarrow> ('w, 'o) os_lib_scheme \<Rightarrow> string \<Rightarrow> string option \<Rightarrow>
   ('w, (bytes \<times> bytes) option) io" where
  "load_dilithium_private_key L OS path passphrase =
     ensure (secure_regular_file OS path (int DILITHIUM_STORE_FILE_BYTES)) (do {
       allocated \<leftarrow> lift (OPENSSL_malloc L DILITHIUM_STORE_FILE_BYTES);
       descriptor \<leftarrow> open_rdonly OS path;
       case descriptor of
         Inl e \<Rightarrow> fail
       | Inr fd \<Rightarrow> do {
           loaded \<leftarrow>
             ensure (give allocated)
               (attempt (read_all OS fd DILITHIUM_STORE_FILE_BYTES []) (\<lambda>file_data.
                 lift (decrypt_dilithium_payload L file_data passphrase)));
           _ \<leftarrow> plain_call OS Close fd;
           give loaded } })"

section \<open>The store\<close>

definition composite_public_keys_equal ::
  "('w, 'k, 'e) crypto_lib_scheme \<Rightarrow> 'k hybrid_public_key option \<Rightarrow> 'k hybrid_public_key option \<Rightarrow>
   ('w, bool) prog" where
  "composite_public_keys_equal L left right = do {
     left_bytes \<leftarrow> composite_serialize_public_key L left True;
     case left_bytes of
       None \<Rightarrow> give False
     | Some l \<Rightarrow> do {
         right_bytes \<leftarrow> composite_serialize_public_key L right True;
         case right_bytes of
           None \<Rightarrow> give False
         | Some r \<Rightarrow> give (length l = length r \<and> l = r) } }"

definition self_test_challenge :: bytes where
  "self_test_challenge = ascii ''hybrid-key-store-self-test''"

definition keypair_self_test ::
  "('w, 'k, 'e) crypto_lib_scheme \<Rightarrow> 'k hybrid_private_key \<Rightarrow> 'k hybrid_public_key \<Rightarrow>
   ('w, bool) prog" where
  "keypair_self_test L private_key public_key = do {
     signature \<leftarrow> composite_sign L (Some private_key) (Buf self_test_challenge) (Null 0) True;
     case signature of
       None \<Rightarrow> give False
     | Some s \<Rightarrow> composite_verify L (Some public_key) (Buf self_test_challenge) (Null 0) (Buf s) }"

text \<open>\<open>hybrid_key_store_save\<close> after its checks: the two files are written and, on failure, removed.\<close>

definition hybrid_key_store_write ::
  "('w, 'k, 'e) store_lib_scheme \<Rightarrow> ('w, 'o) os_lib_scheme \<Rightarrow> string option \<Rightarrow>
   'k hybrid_private_key \<Rightarrow> 'k hybrid_public_key \<Rightarrow> string option \<Rightarrow> ('w, bool) io" where
  "hybrid_key_store_write L OS directory private_key public_key passphrase = do {
     sm2_path \<leftarrow> join_path L directory HYBRID_SM2_PRIVATE_KEY_FILE;
     dilithium_path \<leftarrow> join_path L directory HYBRID_DILITHIUM_PRIVATE_KEY_FILE;
     (sm2_saved, ok) \<leftarrow>
       (case (sm2_path, dilithium_path) of
          (Some sm2, Some dil) \<Rightarrow> do {
            sm2_saved \<leftarrow> save_sm2_private_key L OS sm2 (sm2_private_key private_key) passphrase;
            ok \<leftarrow> both (give sm2_saved)
                    (save_dilithium_private_key L OS dil private_key public_key passphrase);
            give (sm2_saved, ok) }
        | _ \<Rightarrow> give (False, False));
     if ok then give True
     else do {
       _ \<leftarrow> (case sm2_path of
               Some sm2 \<Rightarrow> if sm2_saved then unlink OS sm2 else give (Inr ())
             | None \<Rightarrow> give (Inr ()));
       _ \<leftarrow> (case dilithium_path of Some dil \<Rightarrow> unlink OS dil | None \<Rightarrow> give (Inr ()));
       give False } }"

definition hybrid_key_store_save ::
  "('w, 'k, 'e) store_lib_scheme \<Rightarrow> ('w, 'o) os_lib_scheme \<Rightarrow> string option \<Rightarrow>
   'k hybrid_private_key option \<Rightarrow> 'k hybrid_public_key option \<Rightarrow> string option \<Rightarrow> ('w, bool) io" where
  "hybrid_key_store_save L OS directory private_key public_key passphrase =
     (case (private_key, public_key) of
        (Some priv, Some pub) \<Rightarrow>
          if \<not> passphrase_valid passphrase then give False
          else
            both (lift (keypair_self_test L priv pub))
              (both (ensure_private_directory OS directory) (do {
                status \<leftarrow> hybrid_key_store_status L OS directory;
                if status \<noteq> HYBRID_KEY_STORE_MISSING then give False
                else hybrid_key_store_write L OS directory priv pub passphrase }))
      | _ \<Rightarrow> give False)"

text \<open>The part of \<open>hybrid_key_store_load\<close> that reads the two files and tests the pair.\<close>

definition load_pair ::
  "('w, 'k, 'e) store_lib_scheme \<Rightarrow> ('w, 'o) os_lib_scheme \<Rightarrow> string \<Rightarrow> string \<Rightarrow> string option \<Rightarrow>
   ('w, ('k hybrid_private_key \<times> 'k hybrid_public_key) option) io" where
  "load_pair L OS sm2_path dilithium_path passphrase =
     attempt (load_sm2_private_key L OS sm2_path passphrase) (\<lambda>sm2_key.
     attempt (load_dilithium_private_key L OS dilithium_path passphrase) (\<lambda>(pk, sk).
     ensure (lift (EVP_PKEY_up_ref L sm2_key)) (do {
       let loaded_private = \<lparr>sm2_private_key = Some sm2_key, dilithium_secret_key = sk\<rparr>;
       let loaded_public = \<lparr>sm2_public_key = Some sm2_key, dilithium_public_key = pk\<rparr>;
       ensure (lift (keypair_self_test L loaded_private loaded_public))
         (done_with (loaded_private, loaded_public)) })))"

text \<open>The result is the return code and the structs behind the two pointers after the call.\<close>

definition hybrid_key_store_load ::
  "('w, 'k, 'e) store_lib_scheme \<Rightarrow> ('w, 'o) os_lib_scheme \<Rightarrow> string option \<Rightarrow> string option \<Rightarrow>
   'k hybrid_private_key option \<Rightarrow> 'k hybrid_public_key option \<Rightarrow>
   ('w, bool \<times> 'k hybrid_private_key option \<times> 'k hybrid_public_key option) io" where
  "hybrid_key_store_load L OS directory passphrase private_key public_key =
     (if private_key = None \<or> public_key = None \<or> \<not> passphrase_valid passphrase
      then give (False, private_key, public_key)
      else do {
        loaded \<leftarrow>
          ensure (ensure_private_directory OS directory) (do {
            status \<leftarrow> hybrid_key_store_status L OS directory;
            if status \<noteq> HYBRID_KEY_STORE_COMPLETE then fail
            else do {
              sm2_path \<leftarrow> join_path L directory HYBRID_SM2_PRIVATE_KEY_FILE;
              dilithium_path \<leftarrow> join_path L directory HYBRID_DILITHIUM_PRIVATE_KEY_FILE;
              case (sm2_path, dilithium_path) of
                (Some sm2, Some dil) \<Rightarrow> load_pair L OS sm2 dil passphrase
              | _ \<Rightarrow> fail } });
        case loaded of
          None \<Rightarrow> give (False, private_key, public_key)
        | Some (priv, pub) \<Rightarrow> give (True, Some priv, Some pub)
      })"

end
