(* ===== verification/Key_Store_Facts.thy ===== *)
theory Key_Store_Facts
  imports Key_Store
begin

text \<open>
  What each operation of the key store does to the file system, and the relations all of them
  keep.
\<close>

section \<open>Paths\<close>

definition key_path :: "string \<Rightarrow> string \<Rightarrow> string" where
  "key_path d name = d @ ''/'' @ name"

text \<open>The three paths a store in the directory \<open>d\<close> consists of.\<close>

definition store_paths :: "string \<Rightarrow> string set" where
  "store_paths d = {d, key_path d HYBRID_SM2_PRIVATE_KEY_FILE, key_path d HYBRID_DILITHIUM_PRIVATE_KEY_FILE}"

lemma key_path_distinct [simp]:
  "key_path d HYBRID_SM2_PRIVATE_KEY_FILE \<noteq> key_path d HYBRID_DILITHIUM_PRIVATE_KEY_FILE"
  "key_path d HYBRID_DILITHIUM_PRIVATE_KEY_FILE \<noteq> key_path d HYBRID_SM2_PRIVATE_KEY_FILE"
  "key_path d n \<noteq> d" "d \<noteq> key_path d n"
  by (simp_all add: key_path_def HYBRID_SM2_PRIVATE_KEY_FILE_def HYBRID_DILITHIUM_PRIVATE_KEY_FILE_def)

lemma store_paths_simps [simp]:
  "d \<in> store_paths d" "key_path d HYBRID_SM2_PRIVATE_KEY_FILE \<in> store_paths d"
  "key_path d HYBRID_DILITHIUM_PRIVATE_KEY_FILE \<in> store_paths d"
  by (simp_all add: store_paths_def)

lemma ends_join_path:
  assumes "ends (join_path L dir name) s r s'"
  shows "files s' = files s \<and> (\<forall>p. r = Some p \<longrightarrow> (\<exists>d. dir = Some d \<and> d \<noteq> [] \<and> p = key_path d name))"
  using assms unfolding join_path_def key_path_def
  by (auto elim!: ends_ensureE dest!: ends_liftD split: option.splits if_splits)

section \<open>Relations kept by every operation\<close>

text \<open>
  A relation on worlds that the five writing calls keep on the paths \<open>P\<close>: then every operation of
  the store keeps it, if its paths are among \<open>P\<close>.
\<close>

locale store_relation = world_relation R
  for R :: "'w world \<Rightarrow> 'w world \<Rightarrow> bool" +
  fixes OS :: "('w, 'o) os_lib_scheme" and P :: "string set"
  assumes mkdir_keeps: "p \<in> P \<Longrightarrow> keeps R (mkdir OS p 448)"
    and open_excl_keeps: "p \<in> P \<Longrightarrow> keeps R (open_excl OS p 384)"
    and write_keeps: "p \<in> P \<Longrightarrow> keeps R (write_at OS p i bs)"
    and flush_keeps: "p \<in> P \<Longrightarrow> keeps R (flush OS c p bs)"
    and unlink_keeps: "p \<in> P \<Longrightarrow> keeps R (unlink OS p)"
begin

lemmas writers = mkdir_keeps open_excl_keeps write_keeps flush_keeps unlink_keeps

lemma keeps_join_path [keeps_intros]: "keeps R (join_path L dir name)"
  unfolding join_path_def by (intro keeps_intros)

lemma keeps_ensure_private_directory:
  "(\<And>d. dir = Some d \<Longrightarrow> d \<in> P) \<Longrightarrow> keeps R (ensure_private_directory OS dir)"
  unfolding ensure_private_directory_def
  by (cases dir) (auto intro!: keeps_intros writers)

lemma keeps_secure_regular_file [keeps_intros]: "keeps R (secure_regular_file OS p n)"
  unfolding secure_regular_file_def by (intro keeps_intros)

lemma keeps_status [keeps_intros]: "keeps R (hybrid_key_store_status L OS dir)"
  unfolding hybrid_key_store_status_def Let_def by (intro keeps_intros)

lemma keeps_sm2_status:
  "(\<And>d. dir = Some d \<Longrightarrow> d \<in> P) \<Longrightarrow> keeps R (hybrid_sm2_key_store_status L OS dir)"
  unfolding hybrid_sm2_key_store_status_def Let_def
  by (intro keeps_intros keeps_ensure_private_directory)

lemma keeps_write_all: "p \<in> P \<Longrightarrow> keeps R (write_all OS p data i)"
proof (induction "length data - i" arbitrary: i rule: less_induct)
  case less
  have "keeps R (case r of None \<Rightarrow> give False | Some n \<Rightarrow> if n = 0 then give False else write_all OS p data (i + n))"
    if "i < length data" for r
    using that less by (cases r) (auto intro!: keeps_give)
  then show ?case
    by (subst write_all.simps) (auto intro!: keeps_bind keeps_give write_keeps less.prems)
qed

lemma keeps_read_all [keeps_intros]: "keeps R (read_all OS p n acc)"
proof (induction "n - length acc" arbitrary: acc rule: less_induct)
  case less
  have "keeps R (case r of None \<Rightarrow> fail | Some bs \<Rightarrow> if bs = [] then fail else read_all OS p n (acc @ bs))"
    if "length acc < n" for r
    using that less by (cases r) (auto intro!: keeps_give simp: neq_Nil_conv)
  then show ?case
    by (subst read_all.simps) (auto intro!: keeps_bind keeps_give keeps_read_at)
qed

lemma keeps_open_then:
  assumes "p \<in> P" and "\<And>e. keeps R (g e)" and "keeps R (f p)"
  shows "keeps R (do { r \<leftarrow> open_excl OS p 384; case r of Inl e \<Rightarrow> g e | Inr fd \<Rightarrow> f fd })"
proof (rule keeps_bind_ends[OF open_excl_keeps[OF assms(1)]])
  fix s r t
  assume "ends (open_excl OS p 384) s r t"
  then show "keeps R (case r of Inl e \<Rightarrow> g e | Inr fd \<Rightarrow> f fd)"
    using assms(2,3) ends_open_excl[of OS p 384 s r t] by (cases r) auto
qed

lemma keeps_save_sm2: "p \<in> P \<Longrightarrow> keeps R (save_sm2_private_key L OS p key pass)"
  unfolding save_sm2_private_key_def write_sm2_stream_def
  by (intro keeps_open_then keeps_intros writers)

lemma keeps_save_dilithium: "p \<in> P \<Longrightarrow> keeps R (save_dilithium_private_key L OS p priv pub pass)"
  unfolding save_dilithium_private_key_def write_container_def
  by (intro keeps_open_then keeps_intros writers keeps_write_all)

lemma keeps_load_sm2 [keeps_intros]: "keeps R (load_sm2_private_key L OS p pass)"
  unfolding load_sm2_private_key_def Let_def by (intro keeps_intros)

lemma keeps_load_dilithium [keeps_intros]: "keeps R (load_dilithium_private_key L OS p pass)"
  unfolding load_dilithium_private_key_def by (intro keeps_intros)

lemma keeps_write:
  assumes "\<And>d. dir = Some d \<Longrightarrow> store_paths d \<subseteq> P"
  shows "keeps R (hybrid_key_store_write L OS dir priv pub pass)"
proof -
  have paths: "\<And>s r s' p name. ends (join_path L dir name) s r s' \<Longrightarrow> r = Some p \<Longrightarrow>
      name \<in> {HYBRID_SM2_PRIVATE_KEY_FILE, HYBRID_DILITHIUM_PRIVATE_KEY_FILE} \<Longrightarrow> p \<in> P"
    using assms by (fastforce dest: ends_join_path simp: store_paths_def)
  show ?thesis
    unfolding hybrid_key_store_write_def
  proof (rule keeps_bind_ends[OF keeps_join_path], rule keeps_bind_ends[OF keeps_join_path], goal_cases)
    case (1 s sm2 t s' dil t')
    then have "\<And>p. sm2 = Some p \<Longrightarrow> p \<in> P" "\<And>p. dil = Some p \<Longrightarrow> p \<in> P"
      by (auto dest: paths)
    then show ?case
      by (cases sm2; cases dil; simp cong: if_cong;
          intro keeps_intros keeps_save_sm2 keeps_save_dilithium writers; simp)
  qed
qed

lemma keeps_save:
  assumes "\<And>d. dir = Some d \<Longrightarrow> store_paths d \<subseteq> P"
  shows "keeps R (hybrid_key_store_save L OS dir priv pub pass)"
proof -
  have "\<And>d. dir = Some d \<Longrightarrow> d \<in> P" using assms store_paths_simps(1) by blast
  with assms show ?thesis
    unfolding hybrid_key_store_save_def
    by (cases priv; cases pub) (auto intro!: keeps_intros keeps_write keeps_ensure_private_directory)
qed

lemma keeps_load:
  assumes "\<And>d. dir = Some d \<Longrightarrow> d \<in> P"
  shows "keeps R (hybrid_key_store_load L OS dir pass priv pub)"
  unfolding hybrid_key_store_load_def load_pair_def Let_def
  using assms by (intro keeps_intros keeps_ensure_private_directory)

lemma keeps_sm2_save:
  assumes "\<And>d. dir = Some d \<Longrightarrow> store_paths d \<subseteq> P"
  shows "keeps R (hybrid_sm2_key_store_save L OS dir key pass)"
proof -
  have dirs: "\<And>d. dir = Some d \<Longrightarrow> d \<in> P" using assms store_paths_simps(1) by blast
  have "\<And>s r s' p. ends (join_path L dir HYBRID_SM2_PRIVATE_KEY_FILE) s r s' \<Longrightarrow> r = Some p \<Longrightarrow> p \<in> P"
    using assms by (fastforce dest: ends_join_path simp: store_paths_def)
  then have path: "keeps R (do { path \<leftarrow> join_path L dir HYBRID_SM2_PRIVATE_KEY_FILE;
              case path of None \<Rightarrow> give False | Some p \<Rightarrow> save_sm2_private_key L OS p key pass })"
    by (intro keeps_bind_ends[OF keeps_join_path]) (auto intro!: keeps_give keeps_save_sm2 split: option.split)
  show ?thesis
    unfolding hybrid_sm2_key_store_save_def
    by (intro keeps_intros keeps_sm2_status path keeps_ensure_private_directory dirs)
qed

lemma keeps_sm2_load:
  assumes "\<And>d. dir = Some d \<Longrightarrow> d \<in> P"
  shows "keeps R (hybrid_sm2_key_store_load L OS dir pass)"
  unfolding hybrid_sm2_key_store_load_def
  using assms by (intro keeps_intros keeps_sm2_status)

end

interpretation frame: store_relation "touches_only P" OS P
  for P :: "string set" and OS :: "('w, 'o) os_lib_scheme"
  by unfold_locales (intro keeps_intros; assumption)+

interpretation confined: store_relation stays_private OS UNIV
  for OS :: "('w, 'o) os_lib_scheme"
  by unfold_locales (intro keeps_intros)+

section \<open>Effects on the files\<close>

text \<open>An operating system that injects no errors and always makes progress.\<close>

definition reliable :: "('w, 'o) os_lib_scheme \<Rightarrow> bool" where
  "reliable OS \<longleftrightarrow> (\<forall>c p. \<not> faulted OS c p) \<and>
     (\<forall>c n k. outcome (os_transfer OS c n) k \<longrightarrow> 0 < n \<longrightarrow> 0 < k) \<and>
     (\<forall>n k. outcome (os_transfer OS Fopen n) k \<longrightarrow> n \<le> k)"

lemma stalled: "outcome (os_transfer OS c n) 0 \<Longrightarrow> 0 < n \<Longrightarrow> \<not> reliable OS"
  by (auto simp: reliable_def)

lemma same_file: "fs p = Some (Reg m d) \<Longrightarrow> \<exists>d'. fs = fs(p \<mapsto> Reg m d')"
  by (rule exI[of _ d]) (simp add: fun_upd_idem)

lemma ends_write_all:
  assumes "ends (write_all OS p data i) s r s'" and "i \<le> length data"
    and "files s p = Some (Reg m (take i data))"
  shows "if r then files s' = (files s)(p \<mapsto> Reg m data)
         else \<not> reliable OS \<and> (\<exists>d. files s' = (files s)(p \<mapsto> Reg m d))"
  using assms
proof (induction "length data - i" arbitrary: i s rule: less_induct)
  case less
  show ?case
  proof (cases "i < length data")
    case False
    with less.prems show ?thesis by (subst (asm) write_all.simps) (auto simp: fun_upd_idem)
  next
    case True
    with less.prems(1) obtain w t where call: "ends (write_at OS p i (drop i data)) s w t"
        and rest: "ends (case w of None \<Rightarrow> give False
          | Some n \<Rightarrow> if n = 0 then give False else write_all OS p data (i + n)) t r s'"
      by (subst (asm) write_all.simps) (auto simp: ends_bind)
    show ?thesis
    proof (cases w)
      case None
      with call rest ends_write_at[OF call] less.prems(3) have "\<not> r" "\<not> reliable OS"
          "files s' = (files s)(p \<mapsto> Reg m (take i data))"
        by (auto simp: reliable_def fun_upd_idem)
      then show ?thesis by auto
    next
      case (Some n)
      with ends_write_at[OF call] less.prems(3) have n: "n \<le> length data - i"
          and t: "files t = (files s)(p \<mapsto> Reg m (take (i + n) data))"
          and stall: "n = 0 \<Longrightarrow> \<not> reliable OS"
        using True by (auto simp: take_add reliable_def min_def split: if_splits)
      show ?thesis
      proof (cases "n = 0")
        case True
        with rest Some t less.prems(3) stall show ?thesis by (auto simp: fun_upd_idem intro: same_file)
      next
        case False
        have "if r then files s' = (files t)(p \<mapsto> Reg m data)
              else \<not> reliable OS \<and> (\<exists>d. files s' = (files t)(p \<mapsto> Reg m d))"
          by (rule less.hyps[of "i + n"]) (use rest Some False n t True in auto)
        with t show ?thesis by (auto split: if_splits)
      qed
    qed
  qed
qed

lemma prefix_length: "x = take k d \<Longrightarrow> x = take (length x) d"
  by (cases "k \<le> length d") auto

lemma ends_read_all:
  assumes "ends (read_all OS p n acc) s r s'" and "acc = take (length acc) d" and "length acc \<le> n"
    and "files s p = Some (Reg m d)"
  shows "files s' = files s \<and>
    (case r of Some x \<Rightarrow> x = take n d \<and> n \<le> length d
             | None \<Rightarrow> \<not> reliable OS \<or> length d < n)"
  using assms
proof (induction "n - length acc" arbitrary: acc s rule: less_induct)
  case less
  have len: "length acc \<le> length d" using less.prems(2) by (metis length_take min.bounded_iff order_refl)
  show ?case
  proof (cases "length acc < n")
    case False
    with less.prems len show ?thesis by (subst (asm) read_all.simps) auto
  next
    case True
    with less.prems(1) obtain c t where call: "ends (read_at OS p (length acc) (n - length acc)) s c t"
        and rest: "ends (case c of None \<Rightarrow> fail
          | Some bs \<Rightarrow> if bs = [] then fail else read_all OS p n (acc @ bs)) t r s'"
      by (subst (asm) read_all.simps) (auto simp: ends_bind)
    note fs = ends_read_at[OF call]
    show ?thesis
    proof (cases c)
      case None
      with rest fs less.prems(4) show ?thesis by (auto simp: reliable_def)
    next
      case (Some bs)
      with fs less.prems(4) obtain k where bs: "bs = take (min k (n - length acc)) (drop (length acc) d)"
          and k: "outcome (os_transfer OS Read (n - length acc)) k" and t: "files t = files s"
        by auto
      show ?thesis
      proof (cases "bs = []")
        case True
        with bs have "min k (n - length acc) = 0 \<or> length d \<le> length acc" by auto
        with k \<open>length acc < n\<close> have "\<not> reliable OS \<or> length d < n"
          by (cases "k = 0") (auto dest: stalled)
        with rest Some True t show ?thesis by auto
      next
        case False
        have "acc @ bs = take (length acc + min k (n - length acc)) d"
          using less.prems(2) bs by (simp add: take_add)
        then have pre: "acc @ bs = take (length (acc @ bs)) d"
          by (rule prefix_length)
        have "files s' = files t \<and> (case r of Some x \<Rightarrow> x = take n d \<and> n \<le> length d
             | None \<Rightarrow> \<not> reliable OS \<or> length d < n)"
        proof (rule less.hyps[OF _ _ pre])
          show "n - length (acc @ bs) < n - length acc" using False True by (cases bs) auto
          show "length (acc @ bs) \<le> n" using bs True by auto
          show "ends (read_all OS p n (acc @ bs)) t r s'" using rest Some False by simp
        qed (use t less.prems(4) in simp)
        with t show ?thesis by simp
      qed
    qed
  qed
qed

lemma ends_bothD:
  "ends (both m k) s r s' \<Longrightarrow> \<exists>b t. ends m s b t \<and> (if b then ends k t r s' else \<not> r \<and> s' = t)"
  by (erule ends_bothE) force+

lemma ends_both_give:
  "ends (both (give b) k) s r s' \<Longrightarrow> if b then ends k s r s' else \<not> r \<and> s' = s"
  by (auto dest!: ends_bothD split: if_splits)

lemma ends_write_sm2_stream:
  assumes "ends (write_sm2_stream L OS p k pw) s ok u" and "files s p = Some (Reg m d0)"
  shows "\<exists>d. files u = (files s)(p \<mapsto> Reg m d) \<and>
    (ok \<longrightarrow> outcome (PEM_write_PKCS8PrivateKey L k ''AES-256-CBC'' pw) (True, d))"
proof -
  from assms(1) obtain out s1 where o1: "ends (plain_call OS Fdopen p) s out s1"
      and rest: "ends (if \<not> out then do { _ \<leftarrow> plain_call OS Close p; give False }
     else do {
       (written, pem) \<leftarrow> lift (PEM_write_PKCS8PrivateKey L k ''AES-256-CBC'' pw);
       flushed \<leftarrow> both (give written) (flush OS Fflush p pem);
       synced \<leftarrow> both (give flushed) (plain_call OS Fsync p);
       closed \<leftarrow> (if flushed then plain_call OS Fclose p else flush OS Fclose p pem);
       give (synced \<and> closed) }) s1 ok u"
    unfolding write_sm2_stream_def by (auto simp: ends_bind)
  have s1: "files s1 = files s" using ends_plain_call[OF o1] by simp
  show ?thesis
  proof (cases out)
    case False
    with rest s1 assms(2) show ?thesis
      by (auto simp: ends_bind fun_upd_idem dest!: ends_plain_call intro!: exI[of _ d0])
  next
    case True
    with rest obtain wr pem s2 fl s3 sy s4 cl where
        pm: "ends (lift (PEM_write_PKCS8PrivateKey L k ''AES-256-CBC'' pw)) s1 (wr, pem) s2"
        and fl: "ends (both (give wr) (flush OS Fflush p pem)) s2 fl s3"
        and sy: "ends (both (give fl) (plain_call OS Fsync p)) s3 sy s4"
        and cl: "ends (if fl then plain_call OS Fclose p else flush OS Fclose p pem) s4 cl u"
        and ok: "ok \<longrightarrow> sy"
      by (clarsimp simp: ends_bind)
    have s2: "files s2 p = Some (Reg m d0)" "files s2 = files s"
      using ends_liftD[OF pm] s1 assms(2) by auto
    have s4: "files s4 = files s3" and syfl: "sy \<longrightarrow> fl"
      using ends_both_give[OF sy] by (auto dest: ends_plain_call split: if_splits)
    show ?thesis
    proof (cases fl)
      case True
      with ends_both_give[OF fl] have wr and "ends (flush OS Fflush p pem) s2 True s3"
        by (auto split: if_splits)
      with ends_flush[OF this(2) s2(1)] s2 s4 cl True pm show ?thesis
        by (auto dest!: ends_plain_call ends_liftD)
    next
      case False
      have "\<exists>d. files s3 = (files s)(p \<mapsto> Reg m d)"
        using ends_both_give[OF fl] s2 assms(2) False
        by (auto split: if_splits dest: ends_flush[OF _ s2(1)] intro: same_file)
      then obtain d where "files s4 = (files s)(p \<mapsto> Reg m d)" using s4 by auto
      with cl False ok syfl ends_flush[of OS Fclose p pem s4 cl u m d] show ?thesis
        by (auto split: if_splits)
    qed
  qed
qed

lemma ends_save_sm2_private_key:
  assumes "ends (save_sm2_private_key L OS p key pass) s r s'"
  shows "if r then \<exists>k pw pem. key = Some k \<and> pass = Some pw \<and> files s p = None \<and>
             outcome (PEM_write_PKCS8PrivateKey L k ''AES-256-CBC'' pw) (True, pem) \<and>
             files s' = (files s)(p \<mapsto> Reg (384 AND NOT (os_umask OS)) pem)
         else files s' = files s \<or> faulted OS Unlink p \<and> files s p = None"
proof (cases "\<exists>k pw. key = Some k \<and> pass = Some pw \<and> passphrase_valid pass")
  case False
  with assms show ?thesis
    unfolding save_sm2_private_key_def by (cases key; cases pass) (auto split: if_splits)
next
  case True
  then obtain k pw where kp: "key = Some k" "pass = Some pw" "passphrase_valid (Some pw)" by auto
  with assms obtain fd t where op: "ends (open_excl OS p 384) s fd t"
      and rest: "ends (case fd of Inl e \<Rightarrow> give False | Inr fd \<Rightarrow> do {
                ok \<leftarrow> write_sm2_stream L OS fd k pw;
                if ok then give True else do { _ \<leftarrow> unlink OS p; give False } }) t r s'"
    unfolding save_sm2_private_key_def by (auto simp: ends_bind)
  show ?thesis
  proof (cases fd)
    case (Inl e)
    with rest ends_open_excl[OF op] show ?thesis by auto
  next
    case (Inr q)
    let ?m = "384 AND NOT (os_umask OS)"
    from Inr ends_open_excl[OF op] have q: "q = p" and fresh: "files s p = None"
        and t: "files t = (files s)(p \<mapsto> Reg ?m [])" by auto
    from Inr rest obtain ok u where body: "ends (write_sm2_stream L OS p k pw) t ok u"
        and fin: "ends (if ok then give True else do { _ \<leftarrow> unlink OS p; give False }) u r s'"
      unfolding q by (auto simp: ends_bind)
    from ends_write_sm2_stream[OF body, of ?m "[]"] t obtain d where
        u: "files u = (files s)(p \<mapsto> Reg ?m d)"
        and pem: "ok \<longrightarrow> outcome (PEM_write_PKCS8PrivateKey L k ''AES-256-CBC'' pw) (True, d)" by auto
    show ?thesis
    proof (cases ok)
      case True
      with fin u pem kp fresh show ?thesis by auto
    next
      case False
      with fin obtain x where "\<not> r" "ends (unlink OS p) u x s'" by (auto simp: ends_bind)
      with ends_unlink[OF this(2)] u fresh show ?thesis
        by (cases x) (auto simp: fun_upd_idem)
    qed
  qed
qed

lemma ends_write_container:
  assumes "ends (write_container OS p data) s r s'"
  shows "if r then files s p = None \<and> files s' = (files s)(p \<mapsto> Reg (384 AND NOT (os_umask OS)) data)
         else files s' = files s \<and> (faulted OS Open p \<or> files s p \<noteq> None) \<or>
           files s p = None \<and> \<not> reliable OS \<and>
           (\<exists>d. files s' = (files s)(p \<mapsto> Reg (384 AND NOT (os_umask OS)) d))"
proof -
  let ?m = "384 AND NOT (os_umask OS)"
  from assms obtain fd t where op: "ends (open_excl OS p 384) s fd t"
      and rest: "ends (case fd of Inl e \<Rightarrow> give False | Inr fd \<Rightarrow> do {
         stored \<leftarrow> both (write_all OS fd data 0) (plain_call OS Fsync fd);
         closed \<leftarrow> plain_call OS Close fd;
         give (stored \<and> closed) }) t r s'"
    unfolding write_container_def by (auto simp: ends_bind)
  show ?thesis
  proof (cases fd)
    case (Inl e)
    with rest ends_open_excl[OF op] show ?thesis by auto
  next
    case (Inr q)
    from Inr ends_open_excl[OF op] have q: "q = p" and fresh: "files s p = None"
        and t: "files t = (files s)(p \<mapsto> Reg ?m [])" by auto
    from Inr rest obtain st u cl where body: "ends (both (write_all OS p data 0) (plain_call OS Fsync p)) t st u"
        and cl: "ends (plain_call OS Close p) u cl s'" and r: "r \<longleftrightarrow> st \<and> cl"
      unfolding q by (auto simp: ends_bind)
    from body obtain w v where w: "ends (write_all OS p data 0) t w v"
        and sy: "if w then ends (plain_call OS Fsync p) v st u else \<not> st \<and> u = v"
      by (auto dest: ends_bothD)
    have "\<exists>d. files v = (files s)(p \<mapsto> Reg ?m d) \<and> (w \<longrightarrow> d = data) \<and> (w \<or> \<not> reliable OS)"
      using ends_write_all[OF w, of ?m] t by (auto split: if_splits)
    moreover have "files u = files v" "\<not> st \<longrightarrow> \<not> w \<or> \<not> reliable OS" "st \<longrightarrow> w"
      using sy by (auto split: if_splits dest: ends_plain_call simp: reliable_def)
    moreover have "files s' = files u" "\<not> cl \<longrightarrow> \<not> reliable OS"
      using ends_plain_call[OF cl] by (auto simp: reliable_def)
    ultimately show ?thesis using fresh r by auto
  qed
qed

lemma ends_ensureD:
  "ends (ensure m k) s r s' \<Longrightarrow> \<exists>b t. ends m s b t \<and> (if b then ends k t r s' else r = None \<and> s' = t)"
  by (erule ends_ensureE) force+

lemma ends_save_dilithium_private_key:
  assumes "ends (save_dilithium_private_key L OS p priv pub pass) s r s'"
  shows "if r then \<exists>data. files s p = None \<and> outcome (encrypt_dilithium_payload L priv pub pass) (Some data) \<and>
             files s' = (files s)(p \<mapsto> Reg (384 AND NOT (os_umask OS)) data)
         else files s' = (files s)(p := None) \<or>
           files s' = files s \<and> (\<forall>n. files s p = Some n \<longrightarrow> S_ISDIR n \<or> faulted OS Unlink p) \<or>
           faulted OS Unlink p \<and> files s p = None"
proof -
  from assms obtain fd s1 ok s2 where
      pay: "ends (ensure (lift (OPENSSL_malloc L DILITHIUM_STORE_FILE_BYTES))
                    (lift (encrypt_dilithium_payload L priv pub pass))) s fd s1"
      and wr: "ends (case fd of None \<Rightarrow> give False | Some data \<Rightarrow> write_container OS p data) s1 ok s2"
      and fin: "ends (if ok then give True else do { _ \<leftarrow> unlink OS p; give False }) s2 r s'"
    unfolding save_dilithium_private_key_def by (auto simp: ends_bind)
  from pay have s1: "files s1 = files s"
      and enc: "\<forall>data. fd = Some data \<longrightarrow> outcome (encrypt_dilithium_payload L priv pub pass) (Some data)"
    by (auto dest!: ends_ensureD ends_liftD split: if_splits)
  show ?thesis
  proof (cases ok)
    case True
    with wr s1 enc fin show ?thesis
      by (cases fd) (auto dest!: ends_write_container)
  next
    case False
    with fin obtain x where "\<not> r" and x: "ends (unlink OS p) s2 x s'" by (auto simp: ends_bind)
    moreover have "files s2 = files s \<or> files s p = None \<and> (\<exists>m d. files s2 = (files s)(p \<mapsto> Reg m d))"
      using wr s1 False by (cases fd) (auto dest!: ends_write_container)
    ultimately show ?thesis
      using ends_unlink[OF x] by (cases x) (auto simp: fun_upd_idem)
  qed
qed

section \<open>Directories and status\<close>

definition private_directory :: "filesystem \<Rightarrow> string \<Rightarrow> bool" where
  "private_directory fs d \<longleftrightarrow> (\<exists>n. fs d = Some n \<and> S_ISDIR n \<and> private_node n)"

definition private_file :: "filesystem \<Rightarrow> string \<Rightarrow> bytes \<Rightarrow> bool" where
  "private_file fs p data \<longleftrightarrow> (\<exists>m. fs p = Some (Reg m data) \<and> private_node (Reg m data))"

lemma ends_ensure_private_directory:
  assumes "ends (ensure_private_directory OS dir) s b s'"
  shows "(files s' = files s \<or> (\<exists>d. dir = Some d \<and> files s d = None \<and>
            files s' = (files s)(d \<mapsto> Dir (448 AND NOT (os_umask OS))))) \<and>
         (if b then \<exists>d. dir = Some d \<and> d \<noteq> [] \<and> private_directory (files s') d
          else (\<exists>d. dir = Some d \<and> d \<noteq> [] \<and> (private_directory (files s) d \<or> files s d = None))
                 \<longrightarrow> \<not> reliable OS)"
proof (cases "\<exists>d. dir = Some d \<and> d \<noteq> []")
  case False
  with assms show ?thesis
    unfolding ensure_private_directory_def by (auto split: option.splits)
next
  case True
  then obtain d where d: "dir = Some d" "d \<noteq> []" by blast
  with assms obtain found t st where l1: "ends (lstat OS d) s found t"
      and mid: "ends (case found of Inr node \<Rightarrow> done_with node
               | Inl e \<Rightarrow> if e \<noteq> ENOENT then fail else do {
                     made \<leftarrow> mkdir OS d 448;
                     case made of Inl e \<Rightarrow> fail | Inr _ \<Rightarrow> do {
                         found \<leftarrow> lstat OS d;
                         give (case found of Inl e \<Rightarrow> None | Inr node \<Rightarrow> Some node) } }) t st s'"
      and b: "b \<longleftrightarrow> (case st of None \<Rightarrow> False
                  | Some node \<Rightarrow> S_ISDIR node \<and> \<not> S_ISLNK node \<and> st_mode node AND 63 = 0)"
    unfolding ensure_private_directory_def by (auto simp: ends_bind)
  have dir_lnk: "S_ISDIR n \<Longrightarrow> \<not> S_ISLNK n" for n by (cases n) auto
  note l1f = ends_lstat[OF l1]
  show ?thesis
  proof (cases found)
    case (Inr n)
    with mid l1f b d dir_lnk show ?thesis
      by (auto simp: private_directory_def private_node_def)
  next
    case (Inl e)
    show ?thesis
    proof (cases "e = ENOENT")
      case False
      with Inl mid l1f b d show ?thesis by (auto simp: reliable_def)
    next
      case True
      with Inl mid obtain made u where mk: "ends (mkdir OS d 448) t made u"
          and rest: "ends (case made of Inl e \<Rightarrow> fail | Inr _ \<Rightarrow> do {
                         found \<leftarrow> lstat OS d;
                         give (case found of Inl e \<Rightarrow> None | Inr node \<Rightarrow> Some node) }) u st s'"
        by (auto simp: ends_bind)
      show ?thesis
      proof (cases made)
        case (Inl e')
        with rest ends_mkdir[OF mk] l1f \<open>found = Inl e\<close> b d show ?thesis
          by (auto simp: reliable_def)
      next
        case (Inr x)
        with rest obtain f2 where l2: "ends (lstat OS d) u f2 s'"
            and st: "st = (case f2 of Inl e \<Rightarrow> None | Inr node \<Rightarrow> Some node)"
          by (auto simp: ends_bind)
        from Inr ends_mkdir[OF mk] l1f \<open>found = Inl e\<close> ends_lstat[OF l2] st b d show ?thesis
          by (cases f2) (auto simp: private_directory_def private_node_def reliable_def)
      qed
    qed
  qed
qed

lemma ends_secure_regular_file:
  assumes "ends (secure_regular_file OS p n) s b s'"
  shows "files s' = files s \<and>
    (if b then \<exists>data. private_file (files s) p data \<and> (n < 0 \<or> int (length data) = n)
     else reliable OS \<longrightarrow> \<not> (\<exists>data. private_file (files s) p data \<and> (n < 0 \<or> int (length data) = n)))"
proof -
  from assms obtain f where l: "ends (lstat OS p) s f s'"
      and b: "b \<longleftrightarrow> (case f of Inl e \<Rightarrow> False
           | Inr node \<Rightarrow> S_ISREG node \<and> \<not> S_ISLNK node \<and> st_mode node AND 63 = 0 \<and>
               (n < 0 \<or> int (st_size node) = n))"
    unfolding secure_regular_file_def by (auto simp: ends_bind)
  show ?thesis
  proof (cases f)
    case (Inl e)
    with b ends_lstat[OF l] show ?thesis by (auto simp: private_file_def reliable_def)
  next
    case (Inr node)
    with b ends_lstat[OF l] show ?thesis
      by (cases node) (auto simp: private_file_def private_node_def)
  qed
qed

lemma ends_status:
  assumes "ends (hybrid_key_store_status L OS dir) s r s'"
  shows "files s' = files s \<and>
    (r = HYBRID_KEY_STORE_COMPLETE \<longrightarrow> (\<exists>d. dir = Some d \<and>
       files s (key_path d HYBRID_SM2_PRIVATE_KEY_FILE) \<noteq> None \<and>
       files s (key_path d HYBRID_DILITHIUM_PRIVATE_KEY_FILE) \<noteq> None))"
proof -
  from assms obtain p t q u where p: "ends (join_path L dir HYBRID_SM2_PRIVATE_KEY_FILE) s p t"
      and q: "ends (join_path L dir HYBRID_DILITHIUM_PRIVATE_KEY_FILE) t q u"
      and rest: "ends (case (p, q) of (Some sm2, Some dil) \<Rightarrow> do {
         sm2_access \<leftarrow> access OS sm2;
         dilithium_access \<leftarrow> access OS dil;
         let sm2_exists = (sm2_access = Inr ());
         let dilithium_exists = (dilithium_access = Inr ());
         give (if \<not> sm2_exists \<and> \<not> dilithium_exists then HYBRID_KEY_STORE_MISSING
               else if sm2_exists \<and> dilithium_exists then HYBRID_KEY_STORE_COMPLETE
               else HYBRID_KEY_STORE_INCOMPLETE) }
     | _ \<Rightarrow> give HYBRID_KEY_STORE_INCOMPLETE) u r s'"
    unfolding hybrid_key_store_status_def by (auto simp: ends_bind)
  show ?thesis
    using rest ends_join_path[OF p] ends_join_path[OF q]
    by (cases p; cases q)
      (auto simp: ends_bind Let_def dest!: ends_access split: if_splits)
qed

text \<open>A directory name short enough for \<open>join_path\<close>, and an allocator that never fails.\<close>

definition path_ready :: "('w, 'k, 'e) crypto_lib_scheme \<Rightarrow> string \<Rightarrow> bool" where
  "path_ready L d \<longleftrightarrow> d \<noteq> [] \<and> length d \<le> SIZE_MAX - 30 \<and> (\<forall>n. always (OPENSSL_malloc L n) True)"

lemma ends_join_ready:
  assumes "ends (join_path L (Some d) name) s p t" and "path_ready L d"
    and "name \<in> {HYBRID_SM2_PRIVATE_KEY_FILE, HYBRID_DILITHIUM_PRIVATE_KEY_FILE}"
  shows "p = Some (key_path d name) \<and> files t = files s"
proof -
  have "outcome (OPENSSL_malloc L k) b \<Longrightarrow> b" for k b
    using assms(2) by (auto simp: path_ready_def dest: always_outcome)
  with assms show ?thesis
    unfolding join_path_def key_path_def path_ready_def
    by (auto dest!: ends_ensureD ends_liftD
        simp: SIZE_MAX_def HYBRID_SM2_PRIVATE_KEY_FILE_def HYBRID_DILITHIUM_PRIVATE_KEY_FILE_def
        split: if_splits)
qed

lemma ends_status_complete:
  assumes run: "ends (hybrid_key_store_status L OS (Some d)) s r s'" and ready: "path_ready L d"
    and os: "reliable OS" and sm2: "files s (key_path d HYBRID_SM2_PRIVATE_KEY_FILE) = Some (Reg m1 d1)"
    and dil: "files s (key_path d HYBRID_DILITHIUM_PRIVATE_KEY_FILE) = Some (Reg m2 d2)"
  shows "r = HYBRID_KEY_STORE_COMPLETE"
proof -
  from run obtain p t q u where p: "ends (join_path L (Some d) HYBRID_SM2_PRIVATE_KEY_FILE) s p t"
      and q: "ends (join_path L (Some d) HYBRID_DILITHIUM_PRIVATE_KEY_FILE) t q u"
      and rest: "ends (case (p, q) of (Some sm2, Some dil) \<Rightarrow> do {
         sm2_access \<leftarrow> access OS sm2;
         dilithium_access \<leftarrow> access OS dil;
         let sm2_exists = (sm2_access = Inr ());
         let dilithium_exists = (dilithium_access = Inr ());
         give (if \<not> sm2_exists \<and> \<not> dilithium_exists then HYBRID_KEY_STORE_MISSING
               else if sm2_exists \<and> dilithium_exists then HYBRID_KEY_STORE_COMPLETE
               else HYBRID_KEY_STORE_INCOMPLETE) }
     | _ \<Rightarrow> give HYBRID_KEY_STORE_INCOMPLETE) u r s'"
    unfolding hybrid_key_store_status_def by (auto simp: ends_bind)
  note P = ends_join_ready[OF p ready, simplified] and Q = ends_join_ready[OF q ready, simplified]
  from rest P Q obtain a v b w where a: "ends (access OS (key_path d HYBRID_SM2_PRIVATE_KEY_FILE)) u a v"
      and b: "ends (access OS (key_path d HYBRID_DILITHIUM_PRIVATE_KEY_FILE)) v b w"
      and r: "r = (if a \<noteq> Inr () \<and> b \<noteq> Inr () then HYBRID_KEY_STORE_MISSING
               else if a = Inr () \<and> b = Inr () then HYBRID_KEY_STORE_COMPLETE
               else HYBRID_KEY_STORE_INCOMPLETE)"
    by (auto simp: ends_bind Let_def)
  have "a = Inr ()" using ends_access[OF a] P Q os sm2 follow_regular[of "files s" _ m1 d1]
    by (cases a) (auto simp: reliable_def)
  moreover have "b = Inr ()" using ends_access[OF a] ends_access[OF b] P Q os dil follow_regular[of "files s" _ m2 d2]
    by (cases b) (auto simp: reliable_def)
  ultimately show ?thesis using r by simp
qed

end
