(* ===== verification/Key_Store_Save.thy ===== *)
theory Key_Store_Save
  imports Key_Store_Facts
begin

text \<open>
  The saving half of the key store: what the file system holds after a successful and after a
  failed save.
\<close>

text \<open>The two files a successful save creates, with the contents the libraries produced.\<close>

definition saved_files ::
  "('w, 'k, 'e) store_lib_scheme \<Rightarrow> string \<Rightarrow> 'k hybrid_private_key \<Rightarrow> 'k hybrid_public_key \<Rightarrow>
   string option \<Rightarrow> mode \<Rightarrow> filesystem \<Rightarrow> filesystem \<Rightarrow> bool" where
  "saved_files L d priv pub pass m fs fs' \<longleftrightarrow>
     (\<exists>k pw pem data. sm2_private_key priv = Some k \<and> pass = Some pw \<and>
        outcome (PEM_write_PKCS8PrivateKey L k ''AES-256-CBC'' pw) (True, pem) \<and>
        outcome (encrypt_dilithium_payload L priv pub pass) (Some data) \<and>
        fs (key_path d HYBRID_SM2_PRIVATE_KEY_FILE) = None \<and>
        fs (key_path d HYBRID_DILITHIUM_PRIVATE_KEY_FILE) = None \<and>
        fs' = fs(key_path d HYBRID_SM2_PRIVATE_KEY_FILE \<mapsto> Reg m pem,
                 key_path d HYBRID_DILITHIUM_PRIVATE_KEY_FILE \<mapsto> Reg m data))"

lemma ends_store_write:
  assumes run: "ends (hybrid_key_store_write L OS (Some d) priv pub pass) s r s'"
  defines "sm2 \<equiv> key_path d HYBRID_SM2_PRIVATE_KEY_FILE"
    and "dil \<equiv> key_path d HYBRID_DILITHIUM_PRIVATE_KEY_FILE"
  shows "if r then saved_files L d priv pub pass (384 AND NOT (os_umask OS)) (files s) (files s')
         else (\<exists>p. faulted OS Unlink p) \<or> files s sm2 \<noteq> None \<or> files s dil \<noteq> None \<or> files s' = files s"
proof -
  from run obtain p t q u sv ok v where p: "ends (join_path L (Some d) HYBRID_SM2_PRIVATE_KEY_FILE) s p t"
      and q: "ends (join_path L (Some d) HYBRID_DILITHIUM_PRIVATE_KEY_FILE) t q u"
      and wr: "ends (case (p, q) of
          (Some sm2, Some dil) \<Rightarrow> do {
            sm2_saved \<leftarrow> save_sm2_private_key L OS sm2 (sm2_private_key priv) pass;
            ok \<leftarrow> both (give sm2_saved) (save_dilithium_private_key L OS dil priv pub pass);
            give (sm2_saved, ok) }
        | _ \<Rightarrow> give (False, False)) u (sv, ok) v"
      and fin: "ends (if ok then give True
     else do {
       _ \<leftarrow> (case p of Some sm2 \<Rightarrow> if sv then unlink OS sm2 else give (Inr ()) | None \<Rightarrow> give (Inr ()));
       _ \<leftarrow> (case q of Some dil \<Rightarrow> unlink OS dil | None \<Rightarrow> give (Inr ()));
       give False }) v r s'"
    unfolding hybrid_key_store_write_def by (auto simp: ends_bind)
  have pq: "files u = files s" "p \<noteq> None \<longrightarrow> p = Some sm2" "q \<noteq> None \<longrightarrow> q = Some dil"
    using ends_join_path[OF p] ends_join_path[OF q] by (auto simp: sm2_def dil_def)
  have sd: "sm2 \<noteq> dil" by (simp add: sm2_def dil_def)
  show ?thesis
  proof (cases "p = None \<or> q = None")
    case True
    with wr have "\<not> ok" "\<not> sv" "files v = files s" by (auto simp: pq split: option.splits)
    with fin pq show ?thesis
      by (auto simp: ends_bind fun_upd_idem split: option.splits sum.splits dest!: ends_unlink)
  next
    case False
    with pq have pq': "p = Some sm2" "q = Some dil" by auto
    with wr obtain w ok' where s1: "ends (save_sm2_private_key L OS sm2 (sm2_private_key priv) pass) u sv w"
        and s2: "ends (both (give sv) (save_dilithium_private_key L OS dil priv pub pass)) w ok v"
      by (auto simp: ends_bind)
    note S1 = ends_save_sm2_private_key[OF s1, unfolded pq(1)]
    show ?thesis
    proof (cases sv)
      case False
      with s2 have "\<not> ok" "v = w" by (auto dest: ends_both_give)
      with False fin pq' obtain x where "\<not> r" and x: "ends (unlink OS dil) w x s'"
        by (auto simp: ends_bind)
      with S1 False ends_unlink[OF x] show ?thesis
        by (cases x) (auto simp: fun_upd_idem)
    next
      case True
      with s2 have s2': "ends (save_dilithium_private_key L OS dil priv pub pass) w ok v"
        by (auto dest: ends_both_give)
      note S2 = ends_save_dilithium_private_key[OF s2']
      show ?thesis
      proof (cases ok)
        case True
        with S1 S2 \<open>sv\<close> fin sd show ?thesis
          by (auto simp: saved_files_def sm2_def[symmetric] dil_def[symmetric]) blast
      next
        case False
        with True fin pq' obtain x y z where "\<not> r" and x: "ends (unlink OS sm2) v x y"
            and z: "ends (unlink OS dil) y z s'" by (auto simp: ends_bind)
        obtain m d0 where w: "files s sm2 = None" "files w = (files s)(sm2 \<mapsto> Reg m d0)"
          using S1 \<open>sv\<close> by auto
        show ?thesis
        proof (cases "(\<exists>p. faulted OS Unlink p) \<or> files s dil \<noteq> None")
          case True
          with \<open>\<not> r\<close> show ?thesis by auto
        next
          case clean: False
          with S2 False w sd have "files v = (files s)(sm2 \<mapsto> Reg m d0)"
            by (auto simp: fun_upd_idem)
          with ends_unlink[OF x] clean w have "files y = files s" by (cases x) (auto simp: fun_upd_idem)
          with ends_unlink[OF z] clean have "files s' = files s" by (cases z) (auto simp: fun_upd_idem)
          with \<open>\<not> r\<close> show ?thesis by auto
        qed
      qed
    qed
  qed
qed

text \<open>When another process stored its SM2 file after the status check.\<close>

lemma ends_store_write_taken:
  assumes run: "ends (hybrid_key_store_write L OS (Some d) priv pub pass) s r s'"
    and sm2: "files s (key_path d HYBRID_SM2_PRIVATE_KEY_FILE) = Some n"
    and dil: "files s (key_path d HYBRID_DILITHIUM_PRIVATE_KEY_FILE) = Some (Reg m data)"
    and ok: "\<not> faulted OS Unlink (key_path d HYBRID_DILITHIUM_PRIVATE_KEY_FILE)"
    and path: "d \<noteq> []" "length d \<le> SIZE_MAX - 30" "\<And>n. always (OPENSSL_malloc L n) True"
  shows "\<not> r \<and> files s' = (files s)(key_path d HYBRID_DILITHIUM_PRIVATE_KEY_FILE := None)"
proof -
  let ?sm2 = "key_path d HYBRID_SM2_PRIVATE_KEY_FILE" and ?dil = "key_path d HYBRID_DILITHIUM_PRIVATE_KEY_FILE"
  have malloc: "outcome (OPENSSL_malloc L k) b \<Longrightarrow> b" for k b
    using always_outcome[OF path(3)] by blast
  have join: "ends (join_path L (Some d) name) a p b \<Longrightarrow> length name \<le> 28 \<Longrightarrow> name \<noteq> [] \<Longrightarrow> p = Some (key_path d name)"
    for name a p b
    using path(1,2) unfolding join_path_def key_path_def
    by (auto dest!: ends_ensureD ends_liftD simp: SIZE_MAX_def split: if_splits dest: malloc)
  from run obtain p t q u sv ok v where p: "ends (join_path L (Some d) HYBRID_SM2_PRIVATE_KEY_FILE) s p t"
      and q: "ends (join_path L (Some d) HYBRID_DILITHIUM_PRIVATE_KEY_FILE) t q u"
      and wr: "ends (case (p, q) of
          (Some sm2, Some dil) \<Rightarrow> do {
            sm2_saved \<leftarrow> save_sm2_private_key L OS sm2 (sm2_private_key priv) pass;
            ok \<leftarrow> both (give sm2_saved) (save_dilithium_private_key L OS dil priv pub pass);
            give (sm2_saved, ok) }
        | _ \<Rightarrow> give (False, False)) u (sv, ok) v"
      and fin: "ends (if ok then give True
     else do {
       _ \<leftarrow> (case p of Some sm2 \<Rightarrow> if sv then unlink OS sm2 else give (Inr ()) | None \<Rightarrow> give (Inr ()));
       _ \<leftarrow> (case q of Some dil \<Rightarrow> unlink OS dil | None \<Rightarrow> give (Inr ()));
       give False }) v r s'"
    unfolding hybrid_key_store_write_def by (auto simp: ends_bind)
  have pq: "p = Some ?sm2" "q = Some ?dil" "files u = files s"
    using join[OF p] join[OF q] ends_join_path[OF p] ends_join_path[OF q]
    by (auto simp: HYBRID_SM2_PRIVATE_KEY_FILE_def HYBRID_DILITHIUM_PRIVATE_KEY_FILE_def)
  from wr pq obtain w where s1: "ends (save_sm2_private_key L OS ?sm2 (sm2_private_key priv) pass) u sv w"
      and s2: "ends (both (give sv) (save_dilithium_private_key L OS ?dil priv pub pass)) w ok v"
    by (auto simp: ends_bind)
  from ends_save_sm2_private_key[OF s1] pq sm2 have "\<not> sv" "files w = files s" by (auto split: if_splits)
  with s2 have "\<not> ok" "files v = files s" by (auto dest: ends_both_give)
  with fin pq \<open>\<not> sv\<close> obtain x where "\<not> r" and x: "ends (unlink OS ?dil) v x s'"
    by (auto simp: ends_bind)
  with ends_unlink[OF x] dil ok \<open>files v = files s\<close> show ?thesis by (cases x) auto
qed

lemma ends_store_save:
  assumes run: "ends (hybrid_key_store_save L OS dir priv pub pass) s r s'"
  shows "if r then \<exists>d pr pu fs. dir = Some d \<and> d \<noteq> [] \<and> priv = Some pr \<and> pub = Some pu \<and>
             passphrase_valid pass \<and> outcome (keypair_self_test L pr pu) True \<and>
             (fs = files s \<or> files s d = None \<and> fs = (files s)(d \<mapsto> Dir (448 AND NOT (os_umask OS)))) \<and>
             private_directory fs d \<and>
             saved_files L d pr pu pass (384 AND NOT (os_umask OS)) fs (files s')
         else \<forall>d. dir = Some d \<longrightarrow> (\<exists>p. faulted OS Unlink p) \<or>
             files s (key_path d HYBRID_SM2_PRIVATE_KEY_FILE) \<noteq> None \<or>
             files s (key_path d HYBRID_DILITHIUM_PRIVATE_KEY_FILE) \<noteq> None \<or>
             files s' = files s \<or>
             files s d = None \<and> files s' = (files s)(d \<mapsto> Dir (448 AND NOT (os_umask OS)))"
proof (cases "\<exists>pr pu. priv = Some pr \<and> pub = Some pu \<and> passphrase_valid pass")
  case False
  with run show ?thesis
    unfolding hybrid_key_store_save_def by (cases priv; cases pub) (auto split: if_splits)
next
  case True
  then obtain pr pu where pp: "priv = Some pr" "pub = Some pu" "passphrase_valid pass" by blast
  with run obtain b t where test: "ends (lift (keypair_self_test L pr pu)) s b t"
      and rest: "if b then ends (both (ensure_private_directory OS dir) (do {
                status \<leftarrow> hybrid_key_store_status L OS dir;
                if status \<noteq> HYBRID_KEY_STORE_MISSING then give False
                else hybrid_key_store_write L OS dir pr pu pass })) t r s' else \<not> r \<and> s' = t"
    unfolding hybrid_key_store_save_def by (auto dest!: ends_bothD)
  have t: "files t = files s" "outcome (keypair_self_test L pr pu) b" using ends_liftD[OF test] by auto
  show ?thesis
  proof (cases b)
    case False
    with rest t show ?thesis by auto
  next
    case True
    with rest obtain e u where ep: "ends (ensure_private_directory OS dir) t e u"
        and rest2: "if e then ends (do {
                status \<leftarrow> hybrid_key_store_status L OS dir;
                if status \<noteq> HYBRID_KEY_STORE_MISSING then give False
                else hybrid_key_store_write L OS dir pr pu pass }) u r s' else \<not> r \<and> s' = u"
      by (auto dest!: ends_bothD)
    have u: "files u = files s \<or> (\<exists>d. dir = Some d \<and> files s d = None \<and>
            files u = (files s)(d \<mapsto> Dir (448 AND NOT (os_umask OS))))"
      and priv: "e \<Longrightarrow> \<exists>d. dir = Some d \<and> d \<noteq> [] \<and> private_directory (files u) d"
      using ends_ensure_private_directory[OF ep] t by auto
    show ?thesis
    proof (cases e)
      case False
      with rest2 u show ?thesis by auto
    next
      case True
      with rest2 obtain st v where stat: "ends (hybrid_key_store_status L OS dir) u st v"
          and rest3: "ends (if st \<noteq> HYBRID_KEY_STORE_MISSING then give False
                else hybrid_key_store_write L OS dir pr pu pass) v r s'"
        by (auto simp: ends_bind)
      have v: "files v = files u" using ends_status[OF stat] by simp
      show ?thesis
      proof (cases "st = HYBRID_KEY_STORE_MISSING")
        case False
        with rest3 u v show ?thesis by auto
      next
        case missing: True
        from priv[OF True] obtain d where d: "dir = Some d" "d \<noteq> []" "private_directory (files v) d"
          using v by auto
        with rest3 missing have wr: "ends (hybrid_key_store_write L OS (Some d) pr pu pass) v r s'" by simp
        have keep: "files v (key_path d n) = files s (key_path d n)" for n
          using u v d by (auto simp: fun_upd_def)
        show ?thesis
        proof (cases r)
          case True
          with ends_store_write[OF wr] d pp t \<open>b\<close> u v show ?thesis
            by (auto intro!: exI[of _ "files v"])
        next
          case False
          with ends_store_write[OF wr] d u v keep show ?thesis by auto
        qed
      qed
    qed
  qed
qed

end
