(* ===== verification/Key_Store_Load.thy ===== *)
theory Key_Store_Load
  imports Key_Store_Facts
begin

text \<open>
  The Dilithium2 container and the loading half of the key store.
\<close>

section \<open>The container\<close>

lemma length_put_u32 [simp]: "length (put_u32_be v) = 4"
  by (simp add: put_u32_be_def)

lemma get_put_u32 [simp]: "get_u32_be (put_u32_be v @ rest) = v"
proof -
  have "get_u32_be (put_u32_be v @ rest) =
    push_bit 24 (ucast (ucast (drop_bit 24 v) :: byte)) OR push_bit 16 (ucast (ucast (drop_bit 16 v) :: byte)) OR
    push_bit 8 (ucast (ucast (drop_bit 8 v) :: byte)) OR ucast (ucast v :: byte)"
    by (simp add: get_u32_be_def put_u32_be_def)
  also have "\<dots> = v"
  proof (rule bit_word_eqI)
    have off: "k + (n - k) = (if k \<le> n then n else k)" for k n :: nat by simp
    fix n
    assume "n < LENGTH(32)"
    then show "bit ((push_bit 24 (ucast (ucast (drop_bit 24 v) :: byte)) OR
        push_bit 16 (ucast (ucast (drop_bit 16 v) :: byte)) OR
        push_bit 8 (ucast (ucast (drop_bit 8 v) :: byte)) OR ucast (ucast v :: byte)) :: 32 word) n = bit v n"
      by (auto simp: bit_simps not_le not_less off split: if_splits)
  qed
  finally show ?thesis .
qed

lemma length_magic [simp]: "length DILITHIUM_STORE_MAGIC = 8" "length DILITHIUM_PLAINTEXT_MAGIC = 8"
  by (simp_all add: DILITHIUM_STORE_MAGIC_def DILITHIUM_PLAINTEXT_MAGIC_def)

lemma header_parts:
  assumes "length salt = 16" and "length iv = 12" and "length ct = 3880" and "length tag = 16"
  defines "data \<equiv> store_header salt iv @ ct @ tag"
  shows "length data = 3940" "take 8 data = DILITHIUM_STORE_MAGIC"
    "get_u32_be (drop 8 data) = of_nat DILITHIUM_STORE_ITERATIONS"
    "get_u32_be (drop 40 data) = of_nat DILITHIUM_STORE_PLAINTEXT_BYTES"
    "take 16 (drop 12 data) = salt" "take 12 (drop 28 data) = iv"
    "take 44 data = store_header salt iv" "take 3880 (drop 44 data) = ct" "take 16 (drop 3924 data) = tag"
  using assms(1-4) unfolding data_def store_header_def by (simp_all add: drop_append take_append)

lemma outcome_derive_encryption_key:
  assumes "outcome (derive_encryption_key L pass salt) (Some key)"
  obtains pw k where "pass = Some pw" and "passphrase_valid pass"
    and "key = filled DILITHIUM_STORE_KEY_BYTES k"
    and "outcome (PKCS5_PBKDF2_HMAC L pw salt DILITHIUM_STORE_ITERATIONS ''SHA256'' DILITHIUM_STORE_KEY_BYTES) (1, k)"
  using assms unfolding derive_encryption_key_def
  by (auto elim!: outcome_elims split: option.splits if_splits)

lemma outcome_encrypt_dilithium_payload:
  assumes "outcome (encrypt_dilithium_payload L priv pub pass) (Some data)"
  obtains salt iv key ct tag ret ret'
  where "data = store_header salt iv @ filled DILITHIUM_STORE_PLAINTEXT_BYTES ct @ filled DILITHIUM_STORE_TAG_BYTES tag"
    and "length salt = 16" and "length iv = 12"
    and "outcome (derive_encryption_key L pass salt) (Some key)"
    and "0 < ret" and "outcome (EVP_EncryptUpdate L key iv (store_header salt iv)
      (store_plaintext (dilithium_public_key pub) (dilithium_secret_key priv)))
      (ret, int DILITHIUM_STORE_PLAINTEXT_BYTES, ct)"
    and "0 < ret'" and "outcome (EVP_CTRL_GCM_GET_TAG L key iv (store_header salt iv)
      (store_plaintext (dilithium_public_key pub) (dilithium_secret_key priv)) DILITHIUM_STORE_TAG_BYTES) (ret', tag)"
  using assms unfolding encrypt_dilithium_payload_def Let_def
  by (auto elim!: outcome_elims simp: not_le sizes simp del: append_eq_append_conv
      split: if_splits)

text \<open>
  The container \<open>data\<close> is well formed, AES-256-GCM reported its tag valid under the key derived
  from the passphrase and the container's own salt, with the whole header as associated data, and
  the plaintext consists of the two keys behind the magic bytes.
\<close>

definition authentic_container ::
  "('w, 'k, 'e) store_lib_scheme \<Rightarrow> bytes \<Rightarrow> string option \<Rightarrow> bytes \<Rightarrow> bytes \<Rightarrow> bool" where
  "authentic_container L data pass pk sk \<longleftrightarrow>
     take 8 data = DILITHIUM_STORE_MAGIC \<and>
     get_u32_be (drop 8 data) = of_nat DILITHIUM_STORE_ITERATIONS \<and>
     get_u32_be (drop 40 data) = of_nat DILITHIUM_STORE_PLAINTEXT_BYTES \<and>
     length pk = DILITHIUM_PUBLIC_KEY_BYTES \<and> length sk = DILITHIUM_SECRET_KEY_BYTES \<and>
     (\<exists>key written r r'.
        outcome (derive_encryption_key L pass (take 16 (drop 12 data))) (Some key) \<and>
        0 < r \<and> outcome (EVP_DecryptUpdate L key (take 12 (drop 28 data)) (take 44 data)
          (take 3880 (drop 44 data))) (r, int DILITHIUM_STORE_PLAINTEXT_BYTES, written) \<and>
        0 < r' \<and> outcome (EVP_DecryptFinal_ex L key (take 12 (drop 28 data)) (take 44 data)
          (take 3880 (drop 44 data)) (take 16 (drop 3924 data))) (r', 0) \<and>
        filled DILITHIUM_STORE_PLAINTEXT_BYTES written = store_plaintext pk sk)"

lemma authentic_container_lengths:
  "authentic_container L data pass pk sk \<Longrightarrow>
     length pk = DILITHIUM_PUBLIC_KEY_BYTES \<and> length sk = DILITHIUM_SECRET_KEY_BYTES"
  by (simp add: authentic_container_def)

lemma outcome_decrypt_dilithium_payload:
  assumes "outcome (decrypt_dilithium_payload L data pass) (Some (pk, sk))"
  shows "authentic_container L data pass pk sk"
proof -
  have split: "filled 3880 w = store_plaintext (take 1312 (drop 8 (filled 3880 w))) (drop 1320 (filled 3880 w))"
    if "take 8 (filled 3880 w) = DILITHIUM_PLAINTEXT_MAGIC" for w
  proof -
    let ?f = "filled 3880 w"
    have "drop 1320 ?f = drop 1312 (drop 8 ?f)" by simp
    then have "take 1312 (drop 8 ?f) @ drop 1320 ?f = drop 8 ?f"
      by (simp only: append_take_drop_id)
    then show ?thesis using that unfolding store_plaintext_def by (metis append_take_drop_id)
  qed
  from assms have "take 8 data = DILITHIUM_STORE_MAGIC"
      "get_u32_be (drop 8 data) = of_nat DILITHIUM_STORE_ITERATIONS"
      "get_u32_be (drop 40 data) = of_nat DILITHIUM_STORE_PLAINTEXT_BYTES"
    and "\<exists>key w r r'. outcome (derive_encryption_key L pass (take 16 (drop 12 data))) (Some key) \<and>
        outcome (EVP_DecryptUpdate L key (take 12 (drop 28 data)) (take 44 data)
          (take 3880 (drop 44 data))) (r, 3880, w) \<and> 0 < r \<and>
        outcome (EVP_DecryptFinal_ex L key (take 12 (drop 28 data)) (take 44 data)
          (take 3880 (drop 44 data)) (take 16 (drop 3924 data))) (r', 0) \<and> 0 < r' \<and>
        take 8 (filled 3880 w) = DILITHIUM_PLAINTEXT_MAGIC \<and> pk = take 1312 (drop 8 (filled 3880 w)) \<and>
        sk = drop 1320 (filled 3880 w)"
    unfolding decrypt_dilithium_payload_def Let_def sizes
    by (auto elim!: outcome_elims simp: not_le split: if_splits) blast
  then show ?thesis
    unfolding authentic_container_def sizes by (auto dest: split) (metis split)
qed

section \<open>Documented behaviour of the libraries\<close>

text \<open>
  AES-GCM: what was encrypted decrypts, with the same key, vector, associated data and tag, to the
  plaintext, and the setup calls of a decryption succeed; PBKDF2 is a function of its arguments.
\<close>

definition cipher_law :: "('w, 'k, 'e) store_lib_scheme \<Rightarrow> bool" where
  "cipher_law L \<longleftrightarrow>
     (\<forall>key iv aad pt r n ct r' tag. 0 < r \<longrightarrow> 0 < r' \<longrightarrow>
        outcome (EVP_EncryptUpdate L key iv aad pt) (r, n, ct) \<longrightarrow>
        outcome (EVP_CTRL_GCM_GET_TAG L key iv aad pt DILITHIUM_STORE_TAG_BYTES) (r', tag) \<longrightarrow>
        n = int (length ct) \<and> length tag = DILITHIUM_STORE_TAG_BYTES \<and>
        always (EVP_DecryptUpdate L key iv aad ct) (1, int (length pt), pt) \<and>
        always (EVP_DecryptFinal_ex L key iv aad ct tag) (1, 0)) \<and>
     always (EVP_CIPHER_CTX_new L) True \<and> always (EVP_CryptInit_cipher L ''AES-256-GCM'') 1 \<and>
     always (EVP_CTRL_GCM_SET_IVLEN L DILITHIUM_STORE_IV_BYTES) 1 \<and>
     (\<forall>key iv. always (EVP_CryptInit_key L key iv) 1) \<and>
     (\<forall>aad. always (EVP_CryptUpdate_aad L aad) 1) \<and> (\<forall>tag. always (EVP_CTRL_GCM_SET_TAG L tag) 1) \<and>
     (\<forall>pw salt n dg len. steady (PKCS5_PBKDF2_HMAC L pw salt n dg len))"

lemma always_derive:
  assumes "cipher_law L" and "outcome (derive_encryption_key L pass salt) (Some key)"
  shows "always (derive_encryption_key L pass salt) (Some key)"
proof -
  from assms(2) obtain pw k where pw: "pass = Some pw" "passphrase_valid pass"
      "key = filled DILITHIUM_STORE_KEY_BYTES k"
      and "outcome (PKCS5_PBKDF2_HMAC L pw salt DILITHIUM_STORE_ITERATIONS ''SHA256'' DILITHIUM_STORE_KEY_BYTES) (1, k)"
    by (rule outcome_derive_encryption_key)
  then have "always (PKCS5_PBKDF2_HMAC L pw salt DILITHIUM_STORE_ITERATIONS ''SHA256'' DILITHIUM_STORE_KEY_BYTES) (1, k)"
    using assms(1) by (auto simp: cipher_law_def intro: steady_outcome)
  then show ?thesis
    using pw unfolding derive_encryption_key_def by (auto intro!: always_bind)
qed

lemma always_decrypt_after_encrypt:
  assumes law: "cipher_law L" and wf: "wf_private_key priv" "wf_public_key pub"
    and enc: "outcome (encrypt_dilithium_payload L priv pub pass) (Some data)"
  shows "length data = DILITHIUM_STORE_FILE_BYTES \<and>
    always (decrypt_dilithium_payload L data pass) (Some (dilithium_public_key pub, dilithium_secret_key priv))"
proof -
  from enc obtain salt iv key c t r r' where
      data: "data = store_header salt iv @ filled DILITHIUM_STORE_PLAINTEXT_BYTES c @ filled DILITHIUM_STORE_TAG_BYTES t"
      and len: "length salt = 16" "length iv = 12"
      and key: "outcome (derive_encryption_key L pass salt) (Some key)"
      and upd: "0 < r" "outcome (EVP_EncryptUpdate L key iv (store_header salt iv)
        (store_plaintext (dilithium_public_key pub) (dilithium_secret_key priv)))
        (r, int DILITHIUM_STORE_PLAINTEXT_BYTES, c)"
      and tag: "0 < r'" "outcome (EVP_CTRL_GCM_GET_TAG L key iv (store_header salt iv)
        (store_plaintext (dilithium_public_key pub) (dilithium_secret_key priv)) DILITHIUM_STORE_TAG_BYTES) (r', t)"
    by (rule outcome_encrypt_dilithium_payload)
  let ?pt = "store_plaintext (dilithium_public_key pub) (dilithium_secret_key priv)"
  from law upd tag have lens: "length c = 3880" "length t = 16"
      and dec: "always (EVP_DecryptUpdate L key iv (store_header salt iv) c) (1, int (length ?pt), ?pt)"
        "always (EVP_DecryptFinal_ex L key iv (store_header salt iv) c t) (1, 0)"
    unfolding cipher_law_def sizes by fastforce+
  then have data': "data = store_header salt iv @ c @ t" using data by (simp add: sizes)
  note parts = header_parts[OF len lens, folded data']
  have pt: "length (dilithium_secret_key priv) = 2560" "length ?pt = 3880" "take 8 ?pt = DILITHIUM_PLAINTEXT_MAGIC"
      "take 1312 (drop 8 ?pt) = dilithium_public_key pub"
      "take 2560 (drop 1320 ?pt) = dilithium_secret_key priv"
    using wf by (simp_all add: store_plaintext_def wf_public_key_def wf_private_key_def sizes)
  have key': "always (derive_encryption_key L pass (take 16 (drop 12 data))) (Some key)"
    using always_derive[OF law key] parts(5) by simp
  have dec': "always (EVP_DecryptUpdate L key (take 12 (drop 28 data)) (take 44 data) (take 3880 (drop 44 data)))
      (1, 3880, ?pt)"
    "always (EVP_DecryptFinal_ex L key (take 12 (drop 28 data)) (take 44 data) (take 3880 (drop 44 data))
      (take 16 (drop 3924 data))) (1, 0)"
    using dec[unfolded pt(2)] unfolding parts by (simp_all only: of_nat_numeral)
  from law have init: "always (EVP_CIPHER_CTX_new L) True" "always (EVP_CryptInit_cipher L ''AES-256-GCM'') 1"
      "always (EVP_CTRL_GCM_SET_IVLEN L 12) 1" "\<And>key iv. always (EVP_CryptInit_key L key iv) 1"
      "\<And>aad. always (EVP_CryptUpdate_aad L aad) 1" "\<And>tag. always (EVP_CTRL_GCM_SET_TAG L tag) 1"
    by (simp_all add: cipher_law_def sizes)
  have "always (decrypt_dilithium_payload L data pass) (Some (dilithium_public_key pub, dilithium_secret_key priv))"
    unfolding decrypt_dilithium_payload_def Let_def sizes
    using parts(2-4) pt
    by (auto simp: sizes intro!: always_attempt[OF key'] always_ensure[OF init(1)] always_ensure_one init(2,3,4,5,6)
        always_bind[OF dec'(1)] always_bind[OF dec'(2)])
  then show ?thesis using parts(1) by (simp add: sizes)
qed

section \<open>Loading\<close>

lemma private_file_data: "private_file fs p d \<Longrightarrow> private_file fs p d' \<Longrightarrow> d' = d"
  by (auto simp: private_file_def)

lemma ends_ensure_lift_positive:
  "ends (ensure (lift m) (done_with x)) s r s' \<Longrightarrow>
     files s' = files s \<and> (case r of None \<Rightarrow> outcome m False | Some y \<Rightarrow> y = x \<and> outcome m True)"
  by (auto dest!: ends_ensureD ends_liftD split: if_splits)

lemma ends_load_sm2_private_key:
  assumes run: "ends (load_sm2_private_key L OS p pass) s r s'"
  shows "files s' = files s \<and>
    (case r of
      Some k \<Rightarrow> \<exists>data n. private_file (files s) p data \<and> passphrase_valid pass \<and>
        (reliable OS \<longrightarrow> take n data = data) \<and> outcome (PEM_read_PrivateKey L (take n data) (password_callback pass False)) (Some k) \<and>
        EVP_PKEY_is_a L k ''SM2'' \<and> outcome (positive (EVP_PKEY_private_check L k)) True
    | None \<Rightarrow> \<forall>data k. private_file (files s) p data \<longrightarrow> passphrase_valid pass \<longrightarrow> reliable OS \<longrightarrow>
        always (PEM_read_PrivateKey L data (password_callback pass False)) (Some k) \<longrightarrow>
        EVP_PKEY_is_a L k ''SM2'' \<longrightarrow> always (EVP_PKEY_CTX_new_from_pkey L k) True \<longrightarrow>
        \<not> always (EVP_PKEY_private_check L k) 1)"
proof -
  from run obtain sec t where sec: "ends (secure_regular_file OS p (-1)) s sec t"
      and rest: "ends (if \<not> sec \<or> \<not> passphrase_valid pass then fail else do {
       input \<leftarrow> fopen_read OS p;
       case input of Inl e \<Rightarrow> fail | Inr file \<Rightarrow> do {
           fs \<leftarrow> get_files;
           let contents = (case fs file of None \<Rightarrow> [] | Some node \<Rightarrow> node_data node);
           delivered \<leftarrow> lift (os_transfer OS Fopen (length contents));
           private_key \<leftarrow> lift (PEM_read_PrivateKey L (take delivered contents) (password_callback pass False));
           _ \<leftarrow> plain_call OS Fclose file;
           case private_key of None \<Rightarrow> fail | Some key \<Rightarrow>
               if \<not> EVP_PKEY_is_a L key ''SM2'' then fail
               else ensure (lift (EVP_PKEY_CTX_new_from_pkey L key))
                   (ensure (lift (positive (EVP_PKEY_private_check L key))) (done_with key)) } }) t r s'"
    unfolding load_sm2_private_key_def by (auto simp: ends_bind)
  note S = ends_secure_regular_file[OF sec]
  show ?thesis
  proof (cases "sec \<and> passphrase_valid pass")
    case False
    with rest S show ?thesis by auto
  next
    case True
    with S obtain data m where pf: "private_file (files s) p data" and m: "files s p = Some (Reg m data)"
        and t: "files t = files s" by (auto simp: private_file_def)
    from rest True obtain inp u where op: "ends (fopen_read OS p) t inp u"
        and rest: "ends (case inp of Inl e \<Rightarrow> fail | Inr file \<Rightarrow> do {
           fs \<leftarrow> get_files;
           let contents = (case fs file of None \<Rightarrow> [] | Some node \<Rightarrow> node_data node);
           delivered \<leftarrow> lift (os_transfer OS Fopen (length contents));
           private_key \<leftarrow> lift (PEM_read_PrivateKey L (take delivered contents) (password_callback pass False));
           _ \<leftarrow> plain_call OS Fclose file;
           case private_key of None \<Rightarrow> fail | Some key \<Rightarrow>
               if \<not> EVP_PKEY_is_a L key ''SM2'' then fail
               else ensure (lift (EVP_PKEY_CTX_new_from_pkey L key))
                   (ensure (lift (positive (EVP_PKEY_private_check L key))) (done_with key)) }) u r s'"
      by (auto simp: ends_bind)
    have "follow 40 (files s) p = Inr p" using m by (rule follow_regular)
    note O = ends_fopen_read[OF op, unfolded t this]
    show ?thesis
    proof (cases inp)
      case (Inl e)
      with O rest show ?thesis by (auto simp: reliable_def)
    next
      case (Inr src)
      with O m have src: "src = p" "files u p = Some (Reg m data)" "files u = files s" by auto
      with rest Inr obtain n v key w b x where
          n: "ends (lift (os_transfer OS Fopen (length data))) u n v"
          and key: "ends (lift (PEM_read_PrivateKey L (take n data) (password_callback pass False))) v key w"
          and cl: "ends (plain_call OS Fclose p) w b x"
          and rest: "ends (case key of None \<Rightarrow> fail | Some key \<Rightarrow>
               if \<not> EVP_PKEY_is_a L key ''SM2'' then fail
               else ensure (lift (EVP_PKEY_CTX_new_from_pkey L key))
                   (ensure (lift (positive (EVP_PKEY_private_check L key))) (done_with key))) x r s'"
        by (auto simp: ends_bind Let_def)
      have x: "files x = files s" and rd: "outcome (PEM_read_PrivateKey L (take n data) (password_callback pass False)) key"
          and full: "reliable OS \<Longrightarrow> take n data = data"
        using ends_liftD[OF n] ends_liftD[OF key] ends_plain_call[OF cl] src by (auto simp: reliable_def)
      have chk: "files s' = files s \<and> (\<forall>k. r = Some k \<longrightarrow> key = Some k \<and> EVP_PKEY_is_a L k ''SM2'' \<and>
            outcome (positive (EVP_PKEY_private_check L k)) True)"
        using rest x by (auto dest!: ends_ensureD ends_liftD split: option.splits if_splits)
      have none: "key = None \<or> (\<exists>k. key = Some k \<and> (\<not> EVP_PKEY_is_a L k ''SM2'' \<or>
          outcome (EVP_PKEY_CTX_new_from_pkey L k) False \<or>
          outcome (positive (EVP_PKEY_private_check L k)) False))" if "r = None"
        using rest that by (auto dest!: ends_ensureD ends_liftD split: option.splits if_splits)
      show ?thesis
      proof (cases r)
        case (Some k)
        with chk pf rd True full show ?thesis by auto
      next
        case None
        have "\<not> always (EVP_PKEY_private_check L k) 1"
          if "reliable OS" "always (PEM_read_PrivateKey L data (password_callback pass False)) (Some k)"
            "EVP_PKEY_is_a L k ''SM2''" "always (EVP_PKEY_CTX_new_from_pkey L k) True" for k
        proof
          assume chk1: "always (EVP_PKEY_private_check L k) 1"
          from that rd full have "key = Some k" by (auto dest: always_outcome)
          with none[OF None] that show False
            using always_outcome[OF that(4)] always_outcome[OF always_positive[OF chk1]] by auto
        qed
        with None chk pf show ?thesis by (auto dest: private_file_data)
      qed
    qed
  qed
qed

lemma ends_load_dilithium_private_key:
  assumes run: "ends (load_dilithium_private_key L OS p pass) s r s'"
  shows "files s' = files s \<and>
    (case r of
      Some (pk, sk) \<Rightarrow> \<exists>data. private_file (files s) p data \<and> length data = DILITHIUM_STORE_FILE_BYTES \<and>
        outcome (decrypt_dilithium_payload L data pass) (Some (pk, sk)) \<and>
        authentic_container L data pass pk sk
    | None \<Rightarrow> \<forall>data x. private_file (files s) p data \<longrightarrow> length data = DILITHIUM_STORE_FILE_BYTES \<longrightarrow>
        reliable OS \<longrightarrow> always (OPENSSL_malloc L DILITHIUM_STORE_FILE_BYTES) True \<longrightarrow>
        \<not> always (decrypt_dilithium_payload L data pass) (Some x))"
proof -
  let ?n = DILITHIUM_STORE_FILE_BYTES
  from run obtain sec t where sec: "ends (secure_regular_file OS p (int ?n)) s sec t"
      and rest: "if sec then ends (do {
       allocated \<leftarrow> lift (OPENSSL_malloc L ?n);
       descriptor \<leftarrow> open_rdonly OS p;
       case descriptor of Inl e \<Rightarrow> fail | Inr fd \<Rightarrow> do {
           loaded \<leftarrow> ensure (give allocated) (attempt (read_all OS fd ?n []) (\<lambda>file_data.
                 lift (decrypt_dilithium_payload L file_data pass)));
           _ \<leftarrow> plain_call OS Close fd;
           give loaded } }) t r s' else r = None \<and> s' = t"
    unfolding load_dilithium_private_key_def by (auto dest: ends_ensureD)
  note S = ends_secure_regular_file[OF sec]
  show ?thesis
  proof (cases sec)
    case False
    with rest S show ?thesis by (auto simp: private_file_def)
  next
    case True
    with S obtain data m where pf: "private_file (files s) p data" and m: "files s p = Some (Reg m data)"
        and len: "length data = ?n" and t: "files t = files s" by (auto simp: private_file_def)
    from rest True obtain al u fd v where al: "ends (lift (OPENSSL_malloc L ?n)) t al u"
        and op: "ends (open_rdonly OS p) u fd v"
        and rest: "ends (case fd of Inl e \<Rightarrow> fail | Inr fd \<Rightarrow> do {
           loaded \<leftarrow> ensure (give al) (attempt (read_all OS fd ?n []) (\<lambda>file_data.
                 lift (decrypt_dilithium_payload L file_data pass)));
           _ \<leftarrow> plain_call OS Close fd;
           give loaded }) v r s'"
      by (auto simp: ends_bind)
    have u: "files u = files s" "outcome (OPENSSL_malloc L ?n) al" using ends_liftD[OF al] t by auto
    note O = ends_open_rdonly[OF op, unfolded u(1)]
    show ?thesis
    proof (cases fd)
      case (Inl e)
      with O rest m show ?thesis by (auto simp: reliable_def)
    next
      case (Inr q)
      with O have q: "q = p" and v: "files v = files s" by auto
      from rest Inr q obtain w b where
          ld: "ends (ensure (give al) (attempt (read_all OS p ?n []) (\<lambda>file_data.
                 lift (decrypt_dilithium_payload L file_data pass)))) v r w"
          and cl: "ends (plain_call OS Close p) w b s'" by (auto simp: ends_bind)
      have s': "files s' = files w" using ends_plain_call[OF cl] by simp
      show ?thesis
      proof (cases al)
        case False
        with ld v s' u(2) show ?thesis by (auto dest!: ends_ensureD dest: always_outcome)
      next
        case True
        with ld have at: "ends (attempt (read_all OS p ?n []) (\<lambda>file_data.
                 lift (decrypt_dilithium_payload L file_data pass))) v r w" by (auto dest!: ends_ensureD)
        then show ?thesis
        proof (rule ends_attemptE)
          assume rd: "ends (read_all OS p ?n []) v None w" and "r = None"
          with ends_read_all[OF rd, of data m] m len v s' show ?thesis
            by (auto dest: private_file_data[OF pf])
        next
          fix x y
          assume rd: "ends (read_all OS p ?n []) v (Some x) y"
            and dec: "ends (lift (decrypt_dilithium_payload L x pass)) y r w"
          from ends_read_all[OF rd, of data m] m len v have "x = data" "files y = files s" by auto
          with dec s' have fin: "files s' = files s" "outcome (decrypt_dilithium_payload L data pass) r"
            by (auto dest: ends_liftD)
          show ?thesis
          proof (cases r)
            case (Some pq)
            with fin pf len show ?thesis
              by (cases pq) (auto dest: outcome_decrypt_dilithium_payload)
          next
            case None
            with fin show ?thesis by (auto dest: private_file_data[OF pf] always_outcome)
          qed
        qed
      qed
    qed
  qed
qed

text \<open>What a loaded pair is: read from two private files of a private directory, and self-tested.\<close>

definition loaded_from ::
  "('w, 'k, 'e) store_lib_scheme \<Rightarrow> filesystem \<Rightarrow> string \<Rightarrow> string option \<Rightarrow>
   'k hybrid_private_key \<Rightarrow> 'k hybrid_public_key \<Rightarrow> bool" where
  "loaded_from L fs d pass priv pub \<longleftrightarrow>
     private_directory fs d \<and> wf_private_key priv \<and> wf_public_key pub \<and>
     sm2_public_key pub = sm2_private_key priv \<and>
     (\<exists>k pem n. sm2_private_key priv = Some k \<and> private_file fs (key_path d HYBRID_SM2_PRIVATE_KEY_FILE) pem \<and>
        outcome (PEM_read_PrivateKey L (take n pem) (password_callback pass False)) (Some k) \<and>
        EVP_PKEY_is_a L k ''SM2'' \<and> outcome (positive (EVP_PKEY_private_check L k)) True) \<and>
     (\<exists>data. private_file fs (key_path d HYBRID_DILITHIUM_PRIVATE_KEY_FILE) data \<and>
        length data = DILITHIUM_STORE_FILE_BYTES \<and>
        authentic_container L data pass (dilithium_public_key pub) (dilithium_secret_key priv)) \<and>
     outcome (keypair_self_test L priv pub) True"

lemma ends_load_pair:
  assumes "ends (load_pair L OS sm2 dil pass) s r s'"
  shows "files s' = files s" and "r = Some (a, b) \<Longrightarrow>
    \<exists>k pk sk x. a = \<lparr>sm2_private_key = Some k, dilithium_secret_key = sk\<rparr> \<and>
      b = \<lparr>sm2_public_key = Some k, dilithium_public_key = pk\<rparr> \<and> files x = files s \<and>
      ends (load_sm2_private_key L OS sm2 pass) s (Some k) x \<and>
      (\<exists>y. ends (load_dilithium_private_key L OS dil pass) x (Some (pk, sk)) y) \<and>
      outcome (keypair_self_test L a b) True"
    and "r = None \<Longrightarrow> ends (load_sm2_private_key L OS sm2 pass) s None s' \<or>
      (\<exists>k x. ends (load_sm2_private_key L OS sm2 pass) s (Some k) x \<and>
         (ends (load_dilithium_private_key L OS dil pass) x None s' \<or>
          (\<exists>pk sk y. ends (load_dilithium_private_key L OS dil pass) x (Some (pk, sk)) y \<and>
             (outcome (EVP_PKEY_up_ref L k) False \<or>
              outcome (keypair_self_test L \<lparr>sm2_private_key = Some k, dilithium_secret_key = sk\<rparr>
                         \<lparr>sm2_public_key = Some k, dilithium_public_key = pk\<rparr>) False))))"
proof -
  let ?test = "\<lambda>k pk sk. ensure (lift (EVP_PKEY_up_ref L k))
       (ensure (lift (keypair_self_test L \<lparr>sm2_private_key = Some k, dilithium_secret_key = sk\<rparr>
                         \<lparr>sm2_public_key = Some k, dilithium_public_key = pk\<rparr>))
         (done_with (\<lparr>sm2_private_key = Some k, dilithium_secret_key = sk\<rparr>,
                     \<lparr>sm2_public_key = Some k, dilithium_public_key = pk\<rparr>)))"
  have test: "files t' = files t \<and>
      (case q of None \<Rightarrow> outcome (EVP_PKEY_up_ref L k) False \<or>
              outcome (keypair_self_test L \<lparr>sm2_private_key = Some k, dilithium_secret_key = sk\<rparr>
                         \<lparr>sm2_public_key = Some k, dilithium_public_key = pk\<rparr>) False
      | Some ab \<Rightarrow> ab = (\<lparr>sm2_private_key = Some k, dilithium_secret_key = sk\<rparr>,
                     \<lparr>sm2_public_key = Some k, dilithium_public_key = pk\<rparr>) \<and>
          outcome (keypair_self_test L (fst ab) (snd ab)) True)"
    if "ends (?test k pk sk) t q t'" for k pk sk t q t'
    using that by (auto dest!: ends_ensureD ends_liftD split: if_splits)
  from assms have "ends (attempt (load_sm2_private_key L OS sm2 pass) (\<lambda>k.
     attempt (load_dilithium_private_key L OS dil pass) (\<lambda>(pk, sk). ?test k pk sk))) s r s'"
    by (simp add: load_pair_def Let_def)
  then consider "ends (load_sm2_private_key L OS sm2 pass) s None s'" "r = None"
    | k x where "ends (load_sm2_private_key L OS sm2 pass) s (Some k) x"
        "ends (load_dilithium_private_key L OS dil pass) x None s'" "r = None"
    | k x pk sk y where "ends (load_sm2_private_key L OS sm2 pass) s (Some k) x"
        "ends (load_dilithium_private_key L OS dil pass) x (Some (pk, sk)) y" "ends (?test k pk sk) y r s'"
    by (auto elim!: ends_attemptE)
  note cases = this
  show "files s' = files s"
    by (rule cases) (auto dest!: ends_load_sm2_private_key ends_load_dilithium_private_key dest: test)
  show "\<exists>k pk sk x. a = \<lparr>sm2_private_key = Some k, dilithium_secret_key = sk\<rparr> \<and>
      b = \<lparr>sm2_public_key = Some k, dilithium_public_key = pk\<rparr> \<and> files x = files s \<and>
      ends (load_sm2_private_key L OS sm2 pass) s (Some k) x \<and>
      (\<exists>y. ends (load_dilithium_private_key L OS dil pass) x (Some (pk, sk)) y) \<and>
      outcome (keypair_self_test L a b) True" if "r = Some (a, b)"
  proof (rule cases)
    fix k x pk sk y
    assume *: "ends (load_sm2_private_key L OS sm2 pass) s (Some k) x"
      "ends (load_dilithium_private_key L OS dil pass) x (Some (pk, sk)) y" "ends (?test k pk sk) y r s'"
    from test[OF *(3)] that have "a = \<lparr>sm2_private_key = Some k, dilithium_secret_key = sk\<rparr>"
        "b = \<lparr>sm2_public_key = Some k, dilithium_public_key = pk\<rparr>" "outcome (keypair_self_test L a b) True"
      by auto
    moreover have "files x = files s" using ends_load_sm2_private_key[OF *(1)] by simp
    ultimately show ?thesis using *(1,2) by blast
  qed (use that in simp_all)
  show "ends (load_sm2_private_key L OS sm2 pass) s None s' \<or>
      (\<exists>k x. ends (load_sm2_private_key L OS sm2 pass) s (Some k) x \<and>
         (ends (load_dilithium_private_key L OS dil pass) x None s' \<or>
          (\<exists>pk sk y. ends (load_dilithium_private_key L OS dil pass) x (Some (pk, sk)) y \<and>
             (outcome (EVP_PKEY_up_ref L k) False \<or>
              outcome (keypair_self_test L \<lparr>sm2_private_key = Some k, dilithium_secret_key = sk\<rparr>
                         \<lparr>sm2_public_key = Some k, dilithium_public_key = pk\<rparr>) False))))" if "r = None"
    by (rule cases) (use that test in \<open>fastforce+\<close>)
qed

lemma ends_store_load:
  assumes run: "ends (hybrid_key_store_load L OS dir pass (Some pr0) (Some pu0)) s (ok, priv, pub) s'"
    and pass: "passphrase_valid pass"
  obtains e t where "ends (ensure_private_directory OS dir) s e t" and "\<not> e" and "\<not> ok"
      and "priv = Some pr0" and "pub = Some pu0"
  | t st u where "ends (ensure_private_directory OS dir) s True t"
      and "ends (hybrid_key_store_status L OS dir) t st u" and "st \<noteq> HYBRID_KEY_STORE_COMPLETE"
      and "\<not> ok" and "priv = Some pr0" and "pub = Some pu0"
  | t u p v q w l where "ends (ensure_private_directory OS dir) s True t"
      and "ends (hybrid_key_store_status L OS dir) t HYBRID_KEY_STORE_COMPLETE u"
      and "ends (join_path L dir HYBRID_SM2_PRIVATE_KEY_FILE) u p v"
      and "ends (join_path L dir HYBRID_DILITHIUM_PRIVATE_KEY_FILE) v q w"
      and "ends (case (p, q) of (Some sm2, Some dil) \<Rightarrow> load_pair L OS sm2 dil pass | _ \<Rightarrow> fail) w l s'"
      and "case l of None \<Rightarrow> \<not> ok \<and> priv = Some pr0 \<and> pub = Some pu0
                   | Some (a, b) \<Rightarrow> ok \<and> priv = Some a \<and> pub = Some b"
proof -
  let ?body = "do {
            status \<leftarrow> hybrid_key_store_status L OS dir;
            if status \<noteq> HYBRID_KEY_STORE_COMPLETE then fail
            else do {
              sm2_path \<leftarrow> join_path L dir HYBRID_SM2_PRIVATE_KEY_FILE;
              dilithium_path \<leftarrow> join_path L dir HYBRID_DILITHIUM_PRIVATE_KEY_FILE;
              case (sm2_path, dilithium_path) of (Some sm2, Some dil) \<Rightarrow> load_pair L OS sm2 dil pass | _ \<Rightarrow> fail } }"
  from run pass obtain l where l: "ends (ensure (ensure_private_directory OS dir) ?body) s l s'"
      and res: "case l of None \<Rightarrow> \<not> ok \<and> priv = Some pr0 \<and> pub = Some pu0
                  | Some (a, b) \<Rightarrow> ok \<and> priv = Some a \<and> pub = Some b"
    unfolding hybrid_key_store_load_def by (auto simp: ends_bind split: option.splits)
  from l show thesis
  proof (rule ends_ensureE)
    assume "ends (ensure_private_directory OS dir) s False s'" and "l = None"
    with res that(1) show thesis by auto
  next
    fix t
    assume e: "ends (ensure_private_directory OS dir) s True t" and body: "ends ?body t l s'"
    from body obtain st u where st: "ends (hybrid_key_store_status L OS dir) t st u"
        and rest: "ends (if st \<noteq> HYBRID_KEY_STORE_COMPLETE then fail
            else do {
              sm2_path \<leftarrow> join_path L dir HYBRID_SM2_PRIVATE_KEY_FILE;
              dilithium_path \<leftarrow> join_path L dir HYBRID_DILITHIUM_PRIVATE_KEY_FILE;
              case (sm2_path, dilithium_path) of (Some sm2, Some dil) \<Rightarrow> load_pair L OS sm2 dil pass | _ \<Rightarrow> fail })
            u l s'" by (rule ends_bindE)
    show thesis
    proof (cases "st = HYBRID_KEY_STORE_COMPLETE")
      case False
      with rest res show thesis by (intro that(2)[OF e st]) auto
    next
      case True
      with rest obtain p v q w where "ends (join_path L dir HYBRID_SM2_PRIVATE_KEY_FILE) u p v"
          "ends (join_path L dir HYBRID_DILITHIUM_PRIVATE_KEY_FILE) v q w"
          "ends (case (p, q) of (Some sm2, Some dil) \<Rightarrow> load_pair L OS sm2 dil pass | _ \<Rightarrow> fail) w l s'"
        by (simp only: simp_thms if_False) (elim ends_bindE, blast)
      with that(3)[OF e st[unfolded True]] res show thesis by blast
    qed
  qed
qed

lemma ends_load_sound:
  assumes run: "ends (hybrid_key_store_load L OS dir pass (Some pr0) (Some pu0)) s (True, priv, pub) s'"
    and pass: "passphrase_valid pass"
  shows "\<exists>d pr pu. dir = Some d \<and> priv = Some pr \<and> pub = Some pu \<and> loaded_from L (files s') d pass pr pu"
  using run pass
proof (rule ends_store_load, goal_cases)
  case (3 t u p v q w l)
  from ends_ensure_private_directory[OF 3(1)] obtain d where d: "dir = Some d"
      "private_directory (files t) d" by auto
  from 3(6) obtain a b where l: "l = Some (a, b)" and res: "priv = Some a" "pub = Some b"
    by (auto split: option.splits)
  from 3(5) l obtain sm2 dil where pq: "p = Some sm2" "q = Some dil" by (auto split: option.splits)
  have paths: "sm2 = key_path d HYBRID_SM2_PRIVATE_KEY_FILE" "dil = key_path d HYBRID_DILITHIUM_PRIVATE_KEY_FILE"
      and fs: "files w = files t"
    using ends_join_path[OF 3(3)] ends_join_path[OF 3(4)] ends_status[OF 3(2)] pq d(1) by auto
  from 3(5) pq l have pair: "ends (load_pair L OS sm2 dil pass) w (Some (a, b)) s'" by simp
  from ends_load_pair(2)[OF pair refl] obtain k pk sk x y where
      ab: "a = \<lparr>sm2_private_key = Some k, dilithium_secret_key = sk\<rparr>"
        "b = \<lparr>sm2_public_key = Some k, dilithium_public_key = pk\<rparr>"
      and x: "files x = files w" and k: "ends (load_sm2_private_key L OS sm2 pass) w (Some k) x"
      and dk: "ends (load_dilithium_private_key L OS dil pass) x (Some (pk, sk)) y"
      and test: "outcome (keypair_self_test L a b) True" by blast
  have "files s' = files t" using ends_load_pair(1)[OF pair] fs by simp
  then have "loaded_from L (files s') d pass a b"
    using ends_load_sm2_private_key[OF k] ends_load_dilithium_private_key[OF dk] test d(2) fs x paths ab
    by (auto simp: loaded_from_def wf_private_key_def wf_public_key_def dest: authentic_container_lengths)
  with d(1) res show ?case by blast
qed auto

lemma ends_load_complete:
  assumes run: "ends (hybrid_key_store_load L OS (Some d) pass (Some pr0) (Some pu0)) s (ok, priv, pub) s'"
    and pass: "passphrase_valid pass" and os: "reliable OS" and ready: "path_ready L d"
    and dir: "private_directory (files s) d"
    and sm2: "private_file (files s) (key_path d HYBRID_SM2_PRIVATE_KEY_FILE) pem"
    and dil: "private_file (files s) (key_path d HYBRID_DILITHIUM_PRIVATE_KEY_FILE) data"
    and len: "length data = DILITHIUM_STORE_FILE_BYTES"
    and rd: "always (PEM_read_PrivateKey L pem (password_callback pass False)) (Some k)"
    and k: "EVP_PKEY_is_a L k ''SM2''" "always (EVP_PKEY_CTX_new_from_pkey L k) True"
      "always (EVP_PKEY_private_check L k) 1" "always (EVP_PKEY_up_ref L k) True"
    and dec: "always (decrypt_dilithium_payload L data pass) (Some (pk, sk))"
    and test: "always (keypair_self_test L \<lparr>sm2_private_key = Some k, dilithium_secret_key = sk\<rparr>
                         \<lparr>sm2_public_key = Some k, dilithium_public_key = pk\<rparr>) True"
  shows "ok \<and> priv = Some \<lparr>sm2_private_key = Some k, dilithium_secret_key = sk\<rparr> \<and>
         pub = Some \<lparr>sm2_public_key = Some k, dilithium_public_key = pk\<rparr>"
  using run pass
proof (rule ends_store_load, goal_cases)
  case (1 e t)
  have "d \<noteq> []" using ready by (simp add: path_ready_def)
  with ends_ensure_private_directory[OF 1(1)] 1(2) os dir show ?case by auto
next
  case (2 t st u)
  from ends_ensure_private_directory[OF 2(1)] dir have "files t = files s"
    by (auto simp: private_directory_def)
  with sm2 dil obtain m1 m2 where "files t (key_path d HYBRID_SM2_PRIVATE_KEY_FILE) = Some (Reg m1 pem)"
      "files t (key_path d HYBRID_DILITHIUM_PRIVATE_KEY_FILE) = Some (Reg m2 data)"
    by (auto simp: private_file_def)
  from ends_status_complete[OF 2(2) ready os this] 2(3) show ?case by simp
next
  case (3 t u p v q w l)
  let ?sm2 = "key_path d HYBRID_SM2_PRIVATE_KEY_FILE" and ?dil = "key_path d HYBRID_DILITHIUM_PRIVATE_KEY_FILE"
  note P = ends_join_ready[OF 3(3) ready, simplified] and Q = ends_join_ready[OF 3(4) ready, simplified]
  have fw: "files w = files s"
    using ends_ensure_private_directory[OF 3(1)] dir ends_status[OF 3(2)] P Q
    by (auto simp: private_directory_def)
  from 3(5) P Q have pair: "ends (load_pair L OS ?sm2 ?dil pass) w l s'" by simp
  have sm2_ok: "r = Some k \<and> files x = files s" if "ends (load_sm2_private_key L OS ?sm2 pass) w r x" for r x
  proof (cases r)
    case None
    with ends_load_sm2_private_key[OF that] sm2 rd k os pass fw show ?thesis by auto
  next
    case (Some k')
    with ends_load_sm2_private_key[OF that] sm2 os fw have "files x = files s"
        "outcome (PEM_read_PrivateKey L pem (password_callback pass False)) (Some k')"
      by (auto dest: private_file_data[OF sm2])
    with Some always_outcome[OF rd] show ?thesis by auto
  qed
  have m: "always (OPENSSL_malloc L DILITHIUM_STORE_FILE_BYTES) True" using ready by (simp add: path_ready_def)
  have dil_ok: "r = Some (pk, sk)"
    if run: "ends (load_dilithium_private_key L OS ?dil pass) x r y" and "files x = files s" for r x y
  proof (cases r)
    case None
    with ends_load_dilithium_private_key[OF run] that(2) dil len os m dec show ?thesis by auto
  next
    case (Some xy)
    with ends_load_dilithium_private_key[OF run] that(2)
    have "outcome (decrypt_dilithium_payload L data pass) (Some xy)"
      by (cases xy) (auto dest: private_file_data[OF dil])
    with Some always_outcome[OF dec] show ?thesis by auto
  qed
  show ?case
  proof (cases l)
    case None
    from ends_load_pair(3)[OF pair None] sm2_ok dil_ok always_outcome[OF k(4)] always_outcome[OF test]
    show ?thesis by blast
  next
    case (Some ab)
    obtain a b where ab: "ab = (a, b)" by (cases ab)
    from ends_load_pair(2)[OF pair Some[unfolded ab]] obtain k' pk' sk' x y where
        "a = \<lparr>sm2_private_key = Some k', dilithium_secret_key = sk'\<rparr>"
        "b = \<lparr>sm2_public_key = Some k', dilithium_public_key = pk'\<rparr>"
        "ends (load_sm2_private_key L OS ?sm2 pass) w (Some k') x"
        "ends (load_dilithium_private_key L OS ?dil pass) x (Some (pk', sk')) y" by blast
    with sm2_ok dil_ok have "a = \<lparr>sm2_private_key = Some k, dilithium_secret_key = sk\<rparr>"
        "b = \<lparr>sm2_public_key = Some k, dilithium_public_key = pk\<rparr>" by blast+
    with 3(6) Some ab show ?thesis by simp
  qed
qed

end
