(* ===== verification/Key_Store_Theorems.thy ===== *)
theory Key_Store_Theorems
  imports Key_Store_Save Key_Store_Load Reference_Facts
begin

text \<open>
  The properties of the key store, with a concrete library and operating system for the witnesses:
  encryption is the identity with a constant tag, a PEM file is the key itself and reading it asks
  for the passphrase in a buffer of 1024 characters, and no system call fails.
\<close>

definition toy_store :: "(unit, bytes) store_lib" where
  "toy_store = toy_with \<lparr>
     PKCS5_PBKDF2_HMAC = \<lambda>pw salt n dg len. give (1, replicate len 1),
     RAND_bytes = \<lambda>n. give (1, replicate n 6),
     EVP_CIPHER_CTX_new = give True, EVP_CryptInit_cipher = \<lambda>c. give 1,
     EVP_CTRL_GCM_SET_IVLEN = \<lambda>n. give 1, EVP_CryptInit_key = \<lambda>k iv. give 1,
     EVP_CryptUpdate_aad = \<lambda>a. give 1,
     EVP_EncryptUpdate = \<lambda>k iv a p. give (1, int (length p), p),
     EVP_EncryptFinal_ex = \<lambda>k iv a p. give (1, 0),
     EVP_CTRL_GCM_GET_TAG = \<lambda>k iv a p n. give (1, replicate 16 5),
     EVP_DecryptUpdate = \<lambda>k iv a c. give (1, int (length c), c),
     EVP_CTRL_GCM_SET_TAG = \<lambda>t. give 1,
     EVP_DecryptFinal_ex = \<lambda>k iv a c t. give (1, 0),
     PEM_write_PKCS8PrivateKey = \<lambda>k c pw. give (True, k),
     PEM_read_PrivateKey = \<lambda>d cb. give (if fst (cb 1024) \<le> 0 then None else Some d),
     EVP_PKEY_private_check = \<lambda>k. give 1\<rparr>"

definition toy_os :: "unit os_lib" where
  "toy_os = \<lparr>os_umask = 0, os_fault = \<lambda>c p. give None, os_transfer = \<lambda>c n. give n\<rparr>"

abbreviation toy_world :: "filesystem \<Rightarrow> unit world" where
  "toy_world fs \<equiv> \<lparr>files = fs, ext = ()\<rparr>"

abbreviation toy_pass :: "string option" where
  "toy_pass \<equiv> Some ''correct horse''"

lemma toy_os_reliable [simp]: "reliable toy_os" "\<not> faulted toy_os c p"
  by (simp_all add: reliable_def faulted_def toy_os_def)

lemma toy_cipher_law [simp]: "cipher_law toy_store"
  by (auto simp: cipher_law_def toy_store_def toy_with_def sizes)

lemma toy_path_ready [simp]: "path_ready toy_store ''keys''"
  by (simp add: path_ready_def toy_store_def SIZE_MAX_def)

lemma toy_pass_valid [simp]: "passphrase_valid toy_pass"
  by (simp add: passphrase_valid_def INT_MAX_def)

lemma toy_store_lib:
  "EVP_PKEY_is_a toy_store k ''SM2''" "EVP_PKEY_CTX_new_from_pkey toy_store k = give True"
  "EVP_PKEY_private_check toy_store k = give 1" "EVP_PKEY_up_ref toy_store k = give True"
  "PEM_write_PKCS8PrivateKey toy_store k c pw = give (True, k)"
  "PEM_read_PrivateKey toy_store d cb = give (if fst (cb 1024) \<le> 0 then None else Some d)"
  by (simp_all add: toy_store_def toy_with_def)

text \<open>The two halves of the stored pair, with a common SM2 key object.\<close>

lemma toy_self_test:
  "always (keypair_self_test (toy_with e) toy_private toy_public) True"
proof -
  have sign: "always (composite_sign (toy_with e) (Some toy_private) (Buf self_test_challenge) (Null 0) True)
      (Some (toy_composite_signature self_test_challenge []))"
    using toy_sign_null[of e self_test_challenge] by (simp add: always_def run_def)
  have "always (composite_verify (toy_with e) (Some toy_public) (Buf self_test_challenge) (Null 0)
      (Buf (toy_composite_signature self_test_challenge []))) True"
    using always_outcome[OF sign]
    by (intro always_verify_after_sign[where sk = toy_private and s2k = toy_point and p2k = toy_point])
      (use sign in \<open>auto simp: always_def outcome_def\<close>)
  then show ?thesis
    unfolding keypair_self_test_def by (auto intro!: always_bind[OF sign])
qed

lemma toy_store_self_test [simp]: "always (keypair_self_test toy_store toy_private toy_public) True"
  by (simp add: toy_store_def toy_self_test)

section \<open>A concrete run\<close>

lemma lift_give [simp]: "lift (give a) = give a"
  by (simp add: lift_def State_Monad.return_def)

lemma give_bind [simp]: "State_Monad.bind (give a) f = f a"
  by (cases "f a") (simp add: State_Monad.bind_def State_Monad.return_def)

lemma run_steps [simp]:
  "run_state (State_Monad.bind m f) s = (case run_state m s of (a, t) \<Rightarrow> run_state (f a) t)"
  "run_state get_files s = (files s, s)"
  "run_state (put_node p n) s = ((), s\<lparr>files := (files s)(p := n)\<rparr>)"
  by (simp_all add: State_Monad.bind_def get_files_def put_node_def)

lemma toy_syscall [simp]: "syscall toy_os c p body = body"
  by (simp add: syscall_def toy_os_def)

lemma toy_lift: "always m a \<Longrightarrow> lift m = (give a :: (unit, 'a) io)"
  by (drule always_unit) simp

definition toy_data :: bytes where
  "toy_data = store_header (replicate 16 6) (replicate 12 6)
     @ store_plaintext (replicate 1312 7) (replicate 2560 7) @ replicate 16 5"

lemma toy_encrypt:
  assumes "passphrase_valid (Some pw)"
  shows "encrypt_dilithium_payload toy_store toy_private toy_public (Some pw) = give (Some toy_data)"
  using assms
  by (simp add: encrypt_dilithium_payload_def derive_encryption_key_def toy_store_def toy_with_def ensure_def
      attempt_def positive_def toy_data_def sizes store_plaintext_def)

lemma toy_data_length: "length toy_data = 3940"
  unfolding toy_data_def by (rule header_parts(1)) (simp_all add: store_plaintext_def)

lemma toy_write_all:
  assumes "files s p = Some (Reg m [])"
  shows "run_state (write_all toy_os p toy_data 0) s = (True, s\<lparr>files := (files s)(p \<mapsto> Reg m toy_data)\<rparr>)"
proof -
  have "toy_data \<noteq> []" using toy_data_length by auto
  moreover have "write_all toy_os p toy_data (length toy_data) = give True"
    by (subst write_all.simps) simp
  ultimately show ?thesis
    using assms by (subst write_all.simps) (simp add: write_at_def toy_os_def[THEN arg_cong, of os_transfer])
qed

lemma toy_join [simp]:
  assumes "length d < 1000" and "d \<noteq> []"
  shows "join_path toy_store (Some d) HYBRID_SM2_PRIVATE_KEY_FILE
     = give (Some (key_path d HYBRID_SM2_PRIVATE_KEY_FILE))"
  "join_path toy_store (Some d) HYBRID_DILITHIUM_PRIVATE_KEY_FILE
     = give (Some (key_path d HYBRID_DILITHIUM_PRIVATE_KEY_FILE))"
  using assms
  by (simp_all add: join_path_def key_path_def ensure_def toy_store_def toy_with_def SIZE_MAX_def
      HYBRID_SM2_PRIVATE_KEY_FILE_def HYBRID_DILITHIUM_PRIVATE_KEY_FILE_def)

lemma toy_plain_call [simp]: "plain_call toy_os c p = give True"
  by (simp add: plain_call_def)

definition toy_saved :: filesystem where
  "toy_saved = [''keys'' \<mapsto> Dir 448, key_path ''keys'' HYBRID_SM2_PRIVATE_KEY_FILE \<mapsto> Reg 384 toy_point,
     key_path ''keys'' HYBRID_DILITHIUM_PRIVATE_KEY_FILE \<mapsto> Reg 384 toy_data]"

lemma toy_umask [simp]: "os_umask toy_os = 0"
  by (simp add: toy_os_def)

lemma toy_save_sm2:
  assumes "files s p = None" and "passphrase_valid (Some pw)"
  shows "run_state (save_sm2_private_key toy_store toy_os p (Some toy_point) (Some pw)) s
    = (True, s\<lparr>files := (files s)(p \<mapsto> Reg 384 toy_point)\<rparr>)"
  using assms
  by (simp add: save_sm2_private_key_def write_sm2_stream_def open_excl_def flush_def spill_def both_def
      toy_store_def[THEN arg_cong, of PEM_write_PKCS8PrivateKey] toy_with_def
      toy_os_def[THEN arg_cong, of os_transfer])

lemma toy_save_dilithium:
  assumes "files s p = None" and "passphrase_valid (Some pw)"
  shows "run_state (save_dilithium_private_key toy_store toy_os p toy_private toy_public (Some pw)) s
    = (True, s\<lparr>files := (files s)(p \<mapsto> Reg 384 toy_data)\<rparr>)"
proof -
  have "OPENSSL_malloc toy_store n = give True" for n
    by (simp add: toy_store_def toy_with_def)
  with assms show ?thesis
    by (simp add: save_dilithium_private_key_def write_container_def open_excl_def both_def ensure_def
        toy_encrypt toy_write_all)
qed

text \<open>Saving into a directory that does not exist yet.\<close>

definition add_store :: "string \<Rightarrow> filesystem \<Rightarrow> filesystem" where
  "add_store d fs = fs(d \<mapsto> Dir 448, key_path d HYBRID_SM2_PRIVATE_KEY_FILE \<mapsto> Reg 384 toy_point,
     key_path d HYBRID_DILITHIUM_PRIVATE_KEY_FILE \<mapsto> Reg 384 toy_data)"

lemma toy_status_missing:
  assumes "length d < 1000" and "d \<noteq> []" and "\<forall>p\<in>store_paths d - {d}. files s p = None" and "files s d \<in> {None, Some (Dir 448)}"
  shows "run_state (hybrid_key_store_status toy_store toy_os (Some d)) s = (HYBRID_KEY_STORE_MISSING, s)"
  using assms by (auto simp: hybrid_key_store_status_def access_def follow.simps store_paths_def)

lemma toy_save_in:
  assumes "length d < 1000" and "\<forall>p\<in>store_paths d. files s p = None" and "d \<noteq> []"
    and "passphrase_valid (Some pw)"
  shows "run_state (hybrid_key_store_save toy_store toy_os (Some d) (Some toy_private) (Some toy_public) (Some pw)) s
    = (True, s\<lparr>files := add_store d (files s)\<rparr>)"
proof -
  have st: "run_state (hybrid_key_store_status toy_store toy_os (Some d)) (s\<lparr>files := (files s)(d \<mapsto> Dir 448)\<rparr>)
      = (HYBRID_KEY_STORE_MISSING, s\<lparr>files := (files s)(d \<mapsto> Dir 448)\<rparr>)"
    by (rule toy_status_missing[OF assms(1,3)]) (use assms in auto)
  have dir: "run_state (ensure_private_directory toy_os (Some d)) s = (True, s\<lparr>files := (files s)(d \<mapsto> Dir 448)\<rparr>)"
    using assms by (simp add: ensure_private_directory_def lstat_def mkdir_def)
  show ?thesis
    using assms
    by (simp add: hybrid_key_store_save_def both_def toy_lift[OF toy_store_self_test] dir st
        hybrid_key_store_write_def toy_save_sm2 toy_save_dilithium add_store_def store_paths_def)
qed

lemma toy_save_run:
  "passphrase_valid (Some pw) \<Longrightarrow>
     run_state (hybrid_key_store_save toy_store toy_os (Some ''keys'') (Some toy_private) (Some toy_public) (Some pw))
       (toy_world Map.empty) = (True, toy_world toy_saved)"
  by (subst toy_save_in) (simp_all add: add_store_def toy_saved_def)

lemma toy_save_ends:
  "passphrase_valid (Some pw) \<Longrightarrow>
     ends (hybrid_key_store_save toy_store toy_os (Some ''keys'') (Some toy_private) (Some toy_public) (Some pw))
       (toy_world Map.empty) True (toy_world toy_saved)"
  by (simp add: ends_def toy_save_run)

section \<open>Properties\<close>

text \<open>
  C11: When \<open>hybrid_key_store_save\<close> returns success, the pair has passed its self test, the store
  directory is a directory only its owner can use, and the two key files are new, readable by the
  owner only and complete: the SM2 file holds exactly what PEM encryption under the passphrase
  produced and the Dilithium2 file exactly one encrypted container of the pair.
\<close>

theorem key_store_save_success:
  assumes "ends (hybrid_key_store_save L OS dir priv pub pass) s True s'"
  shows "\<exists>d pr pu k pw pem data. dir = Some d \<and> priv = Some pr \<and> pub = Some pu \<and>
    outcome (keypair_self_test L pr pu) True \<and> private_directory (files s') d \<and>
    sm2_private_key pr = Some k \<and> pass = Some pw \<and> passphrase_valid pass \<and>
    outcome (PEM_write_PKCS8PrivateKey L k ''AES-256-CBC'' pw) (True, pem) \<and>
    outcome (encrypt_dilithium_payload L pr pu pass) (Some data) \<and>
    files s (key_path d HYBRID_SM2_PRIVATE_KEY_FILE) = None \<and>
    files s (key_path d HYBRID_DILITHIUM_PRIVATE_KEY_FILE) = None \<and>
    private_file (files s') (key_path d HYBRID_SM2_PRIVATE_KEY_FILE) pem \<and>
    private_file (files s') (key_path d HYBRID_DILITHIUM_PRIVATE_KEY_FILE) data"
proof -
  from ends_store_save[OF assms] obtain d pr pu fs where *: "dir = Some d" "priv = Some pr" "pub = Some pu"
      "passphrase_valid pass" "outcome (keypair_self_test L pr pu) True" "private_directory fs d"
      "fs = files s \<or> fs = (files s)(d \<mapsto> Dir (448 AND NOT (os_umask OS)))"
      "saved_files L d pr pu pass (384 AND NOT (os_umask OS)) fs (files s')" by auto
  then show ?thesis
    by (auto simp: saved_files_def private_file_def private_node_def private_directory_def)
qed

theorem key_store_save_success_witness:
  "\<exists>d pr pu k pw pem data. Some ''keys'' = Some d \<and> Some toy_private = Some pr \<and> Some toy_public = Some pu \<and>
    outcome (keypair_self_test toy_store pr pu) True \<and> private_directory (files (toy_world toy_saved)) d \<and>
    sm2_private_key pr = Some k \<and> toy_pass = Some pw \<and> passphrase_valid toy_pass \<and>
    outcome (PEM_write_PKCS8PrivateKey toy_store k ''AES-256-CBC'' pw) (True, pem) \<and>
    outcome (encrypt_dilithium_payload toy_store pr pu toy_pass) (Some data) \<and>
    files (toy_world Map.empty) (key_path d HYBRID_SM2_PRIVATE_KEY_FILE) = None \<and>
    files (toy_world Map.empty) (key_path d HYBRID_DILITHIUM_PRIVATE_KEY_FILE) = None \<and>
    private_file (files (toy_world toy_saved)) (key_path d HYBRID_SM2_PRIVATE_KEY_FILE) pem \<and>
    private_file (files (toy_world toy_saved)) (key_path d HYBRID_DILITHIUM_PRIVATE_KEY_FILE) data"
  by (rule key_store_save_success[OF toy_save_ends[OF toy_pass_valid]])

text \<open>
  C12: A failed save leaves no key material behind: if the two key files did not exist and removing
  a file works, then after \<open>hybrid_key_store_save\<close> fails, at whatever step, the file system is what
  it was, except that the (empty) directory itself may have been created.
\<close>

theorem key_store_save_failure_clean:
  assumes "ends (hybrid_key_store_save L OS (Some d) priv pub pass) s False s'"
    and "files s (key_path d HYBRID_SM2_PRIVATE_KEY_FILE) = None"
    and "files s (key_path d HYBRID_DILITHIUM_PRIVATE_KEY_FILE) = None"
    and "\<forall>p. \<not> faulted OS Unlink p"
  shows "files s' = files s \<or> files s d = None \<and> files s' = (files s)(d \<mapsto> Dir (448 AND NOT (os_umask OS)))"
  using ends_store_save[OF assms(1)] assms(2-4) by auto

theorem key_store_save_failure_clean_witness:
  "files (toy_world Map.empty) = files (toy_world Map.empty) \<or>
     files (toy_world Map.empty) ''keys'' = None \<and>
     files (toy_world Map.empty) = (files (toy_world Map.empty))(''keys'' \<mapsto> Dir (448 AND NOT (os_umask toy_os)))"
  by (rule key_store_save_failure_clean[where L = toy_store and priv = "Some toy_private"
        and pub = "Some toy_public" and pass = "Some ''short''"])
    (simp_all add: hybrid_key_store_save_def passphrase_valid_def)

text \<open>
  C13: The key store is confined: whatever the arguments, the faults and the outcome, saving changes
  at most the directory and the two key files, loading at most the directory entry it may create,
  and no operation ever makes a node accessible to group or others.
\<close>

theorem key_store_confined:
  "touches_only (store_paths d) s (snd (run_state (hybrid_key_store_save L OS (Some d) priv pub pass) s)) \<and>
   touches_only {d} s (snd (run_state (hybrid_key_store_load L OS (Some d) pass priv pub) s)) \<and>
   touches_only (store_paths d) s (snd (run_state (hybrid_sm2_key_store_save L OS (Some d) key pass) s)) \<and>
   touches_only {d} s (snd (run_state (hybrid_sm2_key_store_load L OS (Some d) pass) s)) \<and>
   stays_private s (snd (run_state (hybrid_key_store_save L OS (Some d) priv pub pass) s)) \<and>
   stays_private s (snd (run_state (hybrid_key_store_load L OS (Some d) pass priv pub) s)) \<and>
   stays_private s (snd (run_state (hybrid_sm2_key_store_save L OS (Some d) key pass) s)) \<and>
   stays_private s (snd (run_state (hybrid_sm2_key_store_load L OS (Some d) pass) s))"
proof -
  note frames = frame.keeps_save frame.keeps_load frame.keeps_sm2_save frame.keeps_sm2_load
  note modes = confined.keeps_save confined.keeps_load confined.keeps_sm2_save confined.keeps_sm2_load
  show ?thesis
    by (intro conjI; rule keeps_snd; rule frames modes; simp)
qed

text \<open>
  C14: When another process stores its keys between the status check and the writes of
  \<open>hybrid_key_store_save\<close> (lines 574 to 599), the save fails, as it must, but its clean-up removes
  the Dilithium2 file of that other, complete store: \<open>dilithium_path\<close> is unlinked even when this
  call never created it.
\<close>

theorem key_store_cleanup_removes_foreign_key:
  assumes "ends (hybrid_key_store_write L OS (Some d) priv pub pass) s r s'"
    and "files s (key_path d HYBRID_SM2_PRIVATE_KEY_FILE) = Some n"
    and "files s (key_path d HYBRID_DILITHIUM_PRIVATE_KEY_FILE) = Some (Reg m data)"
    and "\<not> faulted OS Unlink (key_path d HYBRID_DILITHIUM_PRIVATE_KEY_FILE)" and "path_ready L d"
  shows "\<not> r \<and> files s' (key_path d HYBRID_SM2_PRIVATE_KEY_FILE) = Some n \<and>
    files s' (key_path d HYBRID_DILITHIUM_PRIVATE_KEY_FILE) = None"
proof -
  from assms(5) have "d \<noteq> []" "length d \<le> SIZE_MAX - 30" "\<And>n. always (OPENSSL_malloc L n) True"
    by (auto simp: path_ready_def)
  from ends_store_write_taken[OF assms(1-4) this] assms(2) show ?thesis by simp
qed

lemma toy_taken_run:
  "ends (hybrid_key_store_write toy_store toy_os (Some ''keys'') toy_private toy_public toy_pass)
     (toy_world toy_saved) False
     (toy_world (toy_saved(key_path ''keys'' HYBRID_DILITHIUM_PRIVATE_KEY_FILE := None)))"
  by (simp add: ends_def hybrid_key_store_write_def save_sm2_private_key_def open_excl_def toy_saved_def
      both_def unlink_def)

theorem key_store_cleanup_removes_foreign_key_witness:
  "\<not> False \<and> files (toy_world (toy_saved(key_path ''keys'' HYBRID_DILITHIUM_PRIVATE_KEY_FILE := None)))
     (key_path ''keys'' HYBRID_SM2_PRIVATE_KEY_FILE) = Some (Reg 384 toy_point) \<and>
   files (toy_world (toy_saved(key_path ''keys'' HYBRID_DILITHIUM_PRIVATE_KEY_FILE := None)))
     (key_path ''keys'' HYBRID_DILITHIUM_PRIVATE_KEY_FILE) = None"
  by (rule key_store_cleanup_removes_foreign_key[OF toy_taken_run]) (simp_all add: toy_saved_def)

text \<open>
  C15: Loading is all or nothing: on success the two structs hold a pair read from two private
  regular files in a private directory, the Dilithium2 keys out of a container whose tag AES-GCM
  verified, the SM2 key checked by OpenSSL, and the pair self-tested; on failure the caller's
  structs are exactly what they were.
\<close>

theorem key_store_load_sound:
  "case run_state (hybrid_key_store_load L OS dir pass (Some pr0) (Some pu0)) s of ((ok, priv, pub), s') \<Rightarrow>
     if ok then \<exists>d pr pu. dir = Some d \<and> priv = Some pr \<and> pub = Some pu \<and> loaded_from L (files s') d pass pr pu
     else priv = Some pr0 \<and> pub = Some pu0"
proof -
  obtain ok priv pub s' where fields: "run_state (hybrid_key_store_load L OS dir pass (Some pr0) (Some pu0)) s
      = ((ok, priv, pub), s')" by (metis prod_cases3 surj_pair)
  then have run: "ends (hybrid_key_store_load L OS dir pass (Some pr0) (Some pu0)) s (ok, priv, pub) s'"
    by (simp add: ends_def)
  have "if ok then \<exists>d pr pu. dir = Some d \<and> priv = Some pr \<and> pub = Some pu \<and> loaded_from L (files s') d pass pr pu
     else priv = Some pr0 \<and> pub = Some pu0"
  proof (cases "passphrase_valid pass")
    case False
    with run show ?thesis by (simp add: hybrid_key_store_load_def)
  next
    case True
    with run ends_load_sound[of L OS dir pass pr0 pu0 s priv pub s'] show ?thesis
      by (cases ok) (auto elim!: ends_store_load split: option.splits)
  qed
  then show ?thesis by (simp add: fields)
qed

text \<open>
  C16: Container round trip: the encrypted container is 3940 bytes and decrypts, under the same
  passphrase and at any later time, to the public and secret key that went in (magic bytes,
  iteration count, length field, salt, vector, ciphertext and tag are found where they were put).
\<close>

theorem dilithium_container_roundtrip:
  assumes "run (encrypt_dilithium_payload L priv pub pass) w = Some data"
    and "wf_private_key priv" and "wf_public_key pub" and "cipher_law L"
  shows "length data = 3940 \<and> take 8 data = ascii ''HPQCDK01'' \<and>
    run (decrypt_dilithium_payload L data pass) w' = Some (dilithium_public_key pub, dilithium_secret_key priv)"
proof -
  note enc = run_outcome[OF assms(1)]
  from always_decrypt_after_encrypt[OF assms(4,2,3) enc]
  have dec: "length data = DILITHIUM_STORE_FILE_BYTES"
      "always (decrypt_dilithium_payload L data pass) (Some (dilithium_public_key pub, dilithium_secret_key priv))"
    by auto
  then have "outcome (decrypt_dilithium_payload L data pass) (Some (dilithium_public_key pub, dilithium_secret_key priv))"
    by (auto simp: always_def outcome_def)
  then have "take 8 data = DILITHIUM_STORE_MAGIC"
    by (auto dest: outcome_decrypt_dilithium_payload simp: authentic_container_def)
  with dec show ?thesis by (simp add: sizes always_run DILITHIUM_STORE_MAGIC_def)
qed

theorem dilithium_container_roundtrip_witness:
  "length toy_data = 3940 \<and> take 8 toy_data = ascii ''HPQCDK01'' \<and>
    run (decrypt_dilithium_payload toy_store toy_data toy_pass) ()
      = Some (dilithium_public_key toy_public, dilithium_secret_key toy_private)"
  by (rule dilithium_container_roundtrip[where priv = toy_private and w = "()"]) (simp_all add: toy_encrypt)

section \<open>Passphrases and PEM files\<close>

text \<open>
  OpenSSL's PEM reader offers the callback a buffer of \<open>PEM_BUFSIZE\<close> characters. A key encrypted
  under a passphrase is read back when the callback supplies that passphrase; and when the
  callback supplies none (or the empty one), what was encrypted under a non-empty passphrase, or a
  file cut short of it, is not read.
\<close>

definition PEM_BUFSIZE :: nat where
  "PEM_BUFSIZE = 1024"

definition pem_roundtrip :: "('w, 'k, 'e) store_lib_scheme \<Rightarrow> 'k \<Rightarrow> bool" where
  "pem_roundtrip L k \<longleftrightarrow>
     (\<forall>pw pem cb. outcome (PEM_write_PKCS8PrivateKey L k ''AES-256-CBC'' pw) (True, pem) \<longrightarrow> pw \<noteq> [] \<longrightarrow>
        cb (int PEM_BUFSIZE) = (int (length pw), pw) \<longrightarrow> always (PEM_read_PrivateKey L pem cb) (Some k))"

definition pem_needs_passphrase :: "('w, 'k, 'e) store_lib_scheme \<Rightarrow> bool" where
  "pem_needs_passphrase L \<longleftrightarrow>
     (\<forall>k pw pem cb n. outcome (PEM_write_PKCS8PrivateKey L k ''AES-256-CBC'' pw) (True, pem) \<longrightarrow> pw \<noteq> [] \<longrightarrow>
        fst (cb (int PEM_BUFSIZE)) \<le> 0 \<longrightarrow> always (PEM_read_PrivateKey L (take n pem) cb) None)"

lemma passphrase_nonempty: "passphrase_valid (Some pw) \<Longrightarrow> pw \<noteq> []"
  by (auto simp: passphrase_valid_def)

lemma toy_pem [simp]: "pem_roundtrip toy_store k" "pem_needs_passphrase toy_store"
  by (auto simp: pem_roundtrip_def pem_needs_passphrase_def toy_store_lib PEM_BUFSIZE_def)

text \<open>A pair whose halves belong together passes the self test, when no library call fails.\<close>

lemma keypair_self_test_passes:
  assumes ready: "signer_ready L (dilithium_secret_key pr) k" "verifier_ready L p2k"
    and keys: "sm2_private_key pr = Some k" "sm2_public_key pu = Some p2k"
      "length (dilithium_secret_key pr) = DILITHIUM_SECRET_KEY_BYTES"
    and pairs: "dilithium_pair L (dilithium_secret_key pr) (dilithium_public_key pu)" "sm2_pair L k p2k"
  shows "always (keypair_self_test L pr pu) True"
  unfolding keypair_self_test_def
proof (rule always_bind_any)
  fix r
  assume sign: "outcome (composite_sign L (Some pr) (Buf self_test_challenge) (Null 0) True) r"
  have "der_law L" using ready(2) by (simp add: verifier_ready_def)
  with succeeds_composite_sign[OF ready(1) _ keys(1,3), of "Buf self_test_challenge" "Null 0"]
  obtain b where b: "r = Some b" using succeedsD[OF _ sign] by (auto simp: COMPOSITE_MAX_CONTEXT_BYTES_def)
  show "always (case r of None \<Rightarrow> give False
      | Some s \<Rightarrow> composite_verify L (Some pu) (Buf self_test_challenge) (Null 0) (Buf s)) True"
    using always_verify_after_sign[OF sign[unfolded b] keys(1,2) pairs ready(2)] by (simp add: b)
qed

lemma toy_signer_ready [simp]: "signer_ready (toy_with e) sk k"
  unfolding signer_ready_def
  by (simp add: toy_with_def[THEN arg_cong, of EVP_DigestSign] toy_dilithium_signature_def sizes
      toy_with_def[THEN arg_cong, of libc_malloc] toy_with_def[THEN arg_cong, of EVP_Digest]
      toy_with_def[THEN arg_cong, of ref_signature] toy_with_def[THEN arg_cong, of EVP_MD_CTX_new]
      toy_with_def[THEN arg_cong, of EVP_DigestSignInit_ex] toy_with_def[THEN arg_cong, of EVP_PKEY_CTX_set1_id]
      toy_with_def[THEN arg_cong, of EVP_DigestSign_length])

lemma toy_store_toy_with: "\<exists>e. toy_store = toy_with e"
  unfolding toy_store_def by blast

lemma toy_store_laws [simp]:
  "signer_ready toy_store sk k" "verifier_ready toy_store k" "sm2_pair toy_store k k"
  "length pk = 1312 \<Longrightarrow> hd pk = hd sk \<Longrightarrow> dilithium_pair toy_store sk pk"
proof -
  obtain e where e: "toy_store = toy_with e" using toy_store_toy_with ..
  show "signer_ready toy_store sk k" "verifier_ready toy_store k" "sm2_pair toy_store k k"
    "length pk = 1312 \<Longrightarrow> hd pk = hd sk \<Longrightarrow> dilithium_pair toy_store sk pk"
    unfolding e by simp_all
qed

text \<open>
  C17: What was saved can be loaded: after a successful save under a passphrase of at most 1024
  characters, \<open>hybrid_key_store_load\<close> succeeds, self test included, and returns the same private key
  and the same Dilithium2 public key, with the SM2 public half taken from the private key. Assumed
  is only that the operating system and the libraries work: no call fails for want of resources,
  AES-GCM decrypts what it encrypted, a PEM file is read under the passphrase it was written with,
  and each of the two primitives verifies what it signed under the pair that was saved.
\<close>

theorem key_store_save_then_load:
  assumes saved: "ends (hybrid_key_store_save L OS (Some d) (Some pr) (Some pu) (Some pw)) s True s1"
    and "wf_private_key pr" and "wf_public_key pu" and "sm2_private_key pr = Some k"
    and short: "length pw \<le> 1024"
    and os: "reliable OS" and ready: "path_ready L d" and law: "cipher_law L"
    and "EVP_PKEY_is_a L k ''SM2''" and "always (EVP_PKEY_CTX_new_from_pkey L k) True"
    and "always (EVP_PKEY_private_check L k) 1" and "always (EVP_PKEY_up_ref L k) True"
    and pem_law: "pem_roundtrip L k"
    and dil: "dilithium_pair L (dilithium_secret_key pr) (dilithium_public_key pu)"
    and sm2: "sm2_pair L k k"
    and sign: "signer_ready L (dilithium_secret_key pr) k" and verify: "verifier_ready L k"
  shows "fst (run_state (hybrid_key_store_load L OS (Some d) (Some pw) (Some pr0) (Some pu0)) s1)
           = (True, Some pr, Some (pu\<lparr>sm2_public_key := Some k\<rparr>))"
proof -
  from ends_store_save[OF saved] obtain fs where pass: "passphrase_valid (Some pw)"
      and dir: "private_directory fs d"
      and files: "saved_files L d pr pu (Some pw) (384 AND NOT (os_umask OS)) fs (files s1)" by auto
  from files assms(4) obtain pem data where
          pem: "outcome (PEM_write_PKCS8PrivateKey L k ''AES-256-CBC'' pw) (True, pem)"
      and enc: "outcome (encrypt_dilithium_payload L pr pu (Some pw)) (Some data)"
      and s1: "files s1 = fs(key_path d HYBRID_SM2_PRIVATE_KEY_FILE \<mapsto> Reg (384 AND NOT (os_umask OS)) pem,
                 key_path d HYBRID_DILITHIUM_PRIVATE_KEY_FILE \<mapsto> Reg (384 AND NOT (os_umask OS)) data)"
    by (auto simp: saved_files_def)
  from always_decrypt_after_encrypt[OF law assms(2,3) enc]
  have dec: "length data = DILITHIUM_STORE_FILE_BYTES"
      "always (decrypt_dilithium_payload L data (Some pw)) (Some (dilithium_public_key pu, dilithium_secret_key pr))"
    by auto
  have "password_callback (Some pw) False (int PEM_BUFSIZE) = (int (length pw), pw)"
    using short by (simp add: password_callback_def PEM_BUFSIZE_def)
  with pem_law pem passphrase_nonempty[OF pass]
  have rd: "always (PEM_read_PrivateKey L pem (password_callback (Some pw) False)) (Some k)"
    by (auto simp: pem_roundtrip_def)
  have test: "always (keypair_self_test L pr (pu\<lparr>sm2_public_key := Some k\<rparr>)) True"
    by (rule keypair_self_test_passes[OF sign verify assms(4)])
      (use assms(2) dil sm2 in \<open>auto simp: wf_private_key_def\<close>)
  have keys: "\<lparr>sm2_private_key = Some k, dilithium_secret_key = dilithium_secret_key pr\<rparr> = pr"
    "\<lparr>sm2_public_key = Some k, dilithium_public_key = dilithium_public_key pu\<rparr> = pu\<lparr>sm2_public_key := Some k\<rparr>"
    using assms(4) by (cases pr; cases pu; simp)+
  obtain ok priv pub s2 where load: "ends (hybrid_key_store_load L OS (Some d) (Some pw) (Some pr0) (Some pu0)) s1
      (ok, priv, pub) s2"
    using ends_total[of "hybrid_key_store_load L OS (Some d) (Some pw) (Some pr0) (Some pu0)" s1] by auto
  have "ok \<and> priv = Some pr \<and> pub = Some (pu\<lparr>sm2_public_key := Some k\<rparr>)"
    using ends_load_complete[OF load pass os ready _ _ _ dec(1) rd assms(9-12) dec(2)] dir s1 test
    by (auto simp: keys private_directory_def private_file_def private_node_def)
  with load show ?thesis by (simp add: ends_def)
qed

theorem key_store_save_then_load_witness:
  "fst (run_state (hybrid_key_store_load toy_store toy_os (Some ''keys'') toy_pass
       (Some \<lparr>sm2_private_key = None, dilithium_secret_key = replicate 2560 0\<rparr>)
       (Some \<lparr>sm2_public_key = None, dilithium_public_key = replicate 1312 0\<rparr>)) (toy_world toy_saved)) = (True, Some toy_private, Some (toy_public\<lparr>sm2_public_key := Some toy_point\<rparr>))"
  by (rule key_store_save_then_load[OF toy_save_ends[OF toy_pass_valid], where k = toy_point])
    (simp_all add: toy_store_lib)

text \<open>
  C18: Keys can be stored under a passphrase of more than 1024 characters and are then lost: after
  such a successful save, no load from that store under the same passphrase ever succeeds, whatever
  the operating system and the libraries do, as long as the SM2 key file is the one that was saved.
  OpenSSL hands \<open>password_callback\<close> a buffer of \<open>PEM_BUFSIZE\<close> (1024) characters, the callback then
  returns 0, and without its passphrase the encrypted key is not read.
\<close>

theorem long_passphrase_never_loads:
  assumes saved: "ends (hybrid_key_store_save L OS (Some d) (Some pr) (Some pu) (Some pw)) s True s1"
    and "1024 < length pw" and law: "pem_needs_passphrase L"
    and kept: "files s2 (key_path d HYBRID_SM2_PRIVATE_KEY_FILE) = files s1 (key_path d HYBRID_SM2_PRIVATE_KEY_FILE)"
  shows "fst (run_state (hybrid_key_store_load L OS' (Some d) (Some pw) (Some pr0) (Some pu0)) s2)
      = (False, Some pr0, Some pu0)"
proof -
  let ?sm2 = "key_path d HYBRID_SM2_PRIVATE_KEY_FILE"
  from ends_store_save[OF saved] obtain fs where pass: "passphrase_valid (Some pw)"
      and "saved_files L d pr pu (Some pw) (384 AND NOT (os_umask OS)) fs (files s1)" by auto
  with kept obtain k pem m where pem: "outcome (PEM_write_PKCS8PrivateKey L k ''AES-256-CBC'' pw) (True, pem)"
      and s2: "files s2 ?sm2 = Some (Reg m pem)"
    by (auto simp: saved_files_def)
  obtain ok priv pub s3 where fields: "run_state (hybrid_key_store_load L OS' (Some d) (Some pw) (Some pr0) (Some pu0)) s2
      = ((ok, priv, pub), s3)" by (metis prod_cases3 surj_pair)
  then have run: "ends (hybrid_key_store_load L OS' (Some d) (Some pw) (Some pr0) (Some pu0)) s2 (ok, priv, pub) s3"
    by (simp add: ends_def)
  have "touches_only {d} s2 s3" by (rule keepsD[OF frame.keeps_load run]) simp
  with s2 have s3: "files s3 ?sm2 = Some (Reg m pem)" by (simp add: touches_only_def)
  have "fst (password_callback (Some pw) False (int PEM_BUFSIZE)) \<le> 0"
    using assms(2) by (simp add: password_callback_def PEM_BUFSIZE_def)
  with law pem passphrase_nonempty[OF pass]
  have "always (PEM_read_PrivateKey L (take n pem) (password_callback (Some pw) False)) None" for n
    unfolding pem_needs_passphrase_def by blast
  then have "outcome (PEM_read_PrivateKey L (take n pem) (password_callback (Some pw) False)) r \<Longrightarrow> r = None" for n r
    by (rule always_outcome)
  with s3 have "\<not> loaded_from L (files s3) d (Some pw) pr' pu'" for pr' pu'
    by (auto simp: loaded_from_def private_file_def)
  with ends_load_sound[of L OS' "Some d" "Some pw" pr0 pu0 s2 priv pub s3] run pass have "\<not> ok"
    by (cases ok) auto
  with run pass have "priv = Some pr0 \<and> pub = Some pu0"
    by (elim ends_store_load) (auto split: option.splits)
  with \<open>\<not> ok\<close> show ?thesis by (simp add: fields)
qed

theorem long_passphrase_never_loads_witness:
  "fst (run_state (hybrid_key_store_load toy_store toy_os (Some ''keys'') (Some (replicate 1025 CHR ''x''))
      (Some toy_private) (Some toy_public)) (toy_world toy_saved)) = (False, Some toy_private, Some toy_public)"
  by (rule long_passphrase_never_loads[OF toy_save_ends, where OS' = toy_os])
    (simp_all add: passphrase_valid_def INT_MAX_def)

text \<open>
  The SM2-only store never overwrites: if anything exists at the key file's path, in whatever
  form, \<open>hybrid_sm2_key_store_save\<close> fails and the file is exactly what it was.
\<close>

theorem sm2_store_never_overwrites:
  assumes "ends (hybrid_sm2_key_store_save L OS (Some d) key pass) s r s'"
    and "files s (key_path d HYBRID_SM2_PRIVATE_KEY_FILE) = Some n"
  shows "\<not> r \<and> files s' (key_path d HYBRID_SM2_PRIVATE_KEY_FILE) = Some n"
proof -
  let ?p = "key_path d HYBRID_SM2_PRIVATE_KEY_FILE"
  have sane: "files u ?p = Some n" if "ends (ensure_private_directory OS (Some d)) t e u" "files t ?p = Some n" for t e u
    using ends_ensure_private_directory[OF that(1)] that(2) by auto
  have stat: "files u ?p = Some n" if "ends (hybrid_sm2_key_store_status L OS (Some d)) s st u" for st u
  proof -
    have "touches_only {d} s u" by (rule keepsD[OF frame.keeps_sm2_status that]) simp
    with assms(2) show ?thesis by (simp add: touches_only_def)
  qed
  have sav: "\<not> r \<and> files u ?p = Some n"
    if "ends (save_sm2_private_key L OS ?p key pass) t r u" "files t ?p = Some n" for t r u
    using ends_save_sm2_private_key[OF that(1)] that(2) by (auto split: if_splits)
  have wrt: "\<not> b \<and> files u ?p = Some n"
    if run: "ends (do { path \<leftarrow> join_path L (Some d) HYBRID_SM2_PRIVATE_KEY_FILE;
              case path of None \<Rightarrow> give False | Some p \<Rightarrow> save_sm2_private_key L OS p key pass }) t b u"
      and "files t ?p = Some n" for t b u
  proof -
    from run obtain q v where q: "ends (join_path L (Some d) HYBRID_SM2_PRIVATE_KEY_FILE) t q v"
        and rest: "ends (case q of None \<Rightarrow> give False | Some p \<Rightarrow> save_sm2_private_key L OS p key pass) v b u"
      by (rule ends_bindE)
    have v: "files v ?p = Some n" and "\<forall>p. q = Some p \<longrightarrow> p = ?p"
      using ends_join_path[OF q] that(2) by auto
    with rest sav show ?thesis by (cases q) auto
  qed
  have rest: "\<not> r \<and> files s' ?p = Some n"
    if run: "ends (both (ensure_private_directory OS (Some d)) (do {
              path \<leftarrow> join_path L (Some d) HYBRID_SM2_PRIVATE_KEY_FILE;
              case path of None \<Rightarrow> give False | Some p \<Rightarrow> save_sm2_private_key L OS p key pass })) t r s'"
      and t: "files t ?p = Some n" for t
    using run
  proof (rule ends_bothE)
    assume "ends (ensure_private_directory OS (Some d)) t False s'" and "\<not> r"
    with sane t show ?thesis by blast
  next
    fix u
    assume "ends (ensure_private_directory OS (Some d)) t True u"
      and "ends (do { path \<leftarrow> join_path L (Some d) HYBRID_SM2_PRIVATE_KEY_FILE;
              case path of None \<Rightarrow> give False | Some p \<Rightarrow> save_sm2_private_key L OS p key pass }) u r s'"
    with sane t wrt show ?thesis by blast
  qed
  show ?thesis
  proof (cases "\<exists>k. key = Some k \<and> EVP_PKEY_is_a L k ''SM2'' \<and> passphrase_valid pass")
    case False
    with assms show ?thesis
      unfolding hybrid_sm2_key_store_save_def by (auto split: option.splits if_splits)
  next
    case True
    with assms(1) obtain st u where st: "ends (hybrid_sm2_key_store_status L OS (Some d)) s st u"
        and body: "ends (if st \<noteq> HYBRID_KEY_STORE_MISSING then give False
            else both (ensure_private_directory OS (Some d)) (do {
              path \<leftarrow> join_path L (Some d) HYBRID_SM2_PRIVATE_KEY_FILE;
              case path of None \<Rightarrow> give False | Some p \<Rightarrow> save_sm2_private_key L OS p key pass })) u r s'"
      unfolding hybrid_sm2_key_store_save_def by (auto simp: ends_bind)
    show ?thesis
      using body stat[OF st] rest[of u] by (cases "st = HYBRID_KEY_STORE_MISSING") auto
  qed
qed

theorem sm2_store_never_overwrites_witness:
  "\<not> False \<and> files (toy_world toy_saved) (key_path ''keys'' HYBRID_SM2_PRIVATE_KEY_FILE) = Some (Reg 384 toy_point)"
  by (rule sm2_store_never_overwrites[where L = toy_store and OS = toy_os and key = "Some toy_point"
        and pass = "Some ''short''" and s = "toy_world toy_saved"])
    (simp_all add: hybrid_sm2_key_store_save_def passphrase_valid_def toy_saved_def)

end
