(* ===== verification/X509_Lib.thy ===== *)
theory X509_Lib
  imports Composite_Sig
begin

text \<open>
  OpenSSL's X.509 and ASN.1 functions as parameters (record \<open>x509_lib\<close>, which extends the
  cryptographic library), and the structures the code reads and builds field by field. The opaque
  objects stay type parameters: \<open>'k\<close> an \<open>EVP_PKEY\<close>, \<open>'x\<close> an \<open>X509\<close>, \<open>'n\<close> an \<open>X509_NAME\<close>, \<open>'o\<close> an
  \<open>ASN1_OBJECT\<close>, \<open>'p\<close> an \<open>X509_PUBKEY\<close>. Accessors of a parsed certificate are plain functions; a call
  that allocates, decodes or looks at the clock is a \<open>prog\<close>. Times are seconds. An encoder returns its
  code and, when that is positive, as many bytes as it says.
\<close>

datatype nid = NID_basic_constraints | NID_key_usage | NID_ext_key_usage | NID_subject_alt_name
  | NID_subject_key_identifier | NID_authority_key_identifier | NID_server_auth | NID_other int

datatype 'o algor_parameter = V_ASN1_UNDEF | V_ASN1_OBJECT 'o | V_ASN1_OTHER int

record 'o x509_algor =
  algorithm :: "'o option"
  parameter_type :: "'o algor_parameter"

record asn1_bit_string =
  flags :: "64 word"
  bit_data :: bytes

record 'o x509_extension =
  ext_object :: 'o
  ext_critical :: bool
  ext_data :: "bytes option"

datatype general_name = GEN_DNS "bytes option" | GEN_OTHER int

text \<open>\<open>COMPOSITE_TBS_CERTIFICATE\<close> and \<open>COMPOSITE_CERTIFICATE\<close> of \<open>src/hybrid_x509.c\<close>.\<close>

record ('n, 'o, 'p) composite_tbs_certificate =
  version :: "int option"
  serial_number :: int
  signature :: "'o x509_algor"
  issuer :: 'n
  not_before :: int
  not_after :: int
  subject :: 'n
  subject_public_key_info :: 'p
  issuer_uid :: "asn1_bit_string option"
  subject_uid :: "asn1_bit_string option"
  extensions :: "'o x509_extension list option"

record ('n, 'o, 'p) composite_certificate =
  tbs_certificate :: "('n, 'o, 'p) composite_tbs_certificate"
  signature_algorithm :: "'o x509_algor"
  signature_value :: asn1_bit_string

text \<open>
  The macros of which an ASN.1 template is made: the member of the struct, the type of its value and
  the tag number, when there is one.
\<close>

datatype asn1_template =
    ASN1_SIMPLE string string
  | ASN1_EXP_OPT string string nat
  | ASN1_IMP_OPT string string nat
  | ASN1_EXP_SEQUENCE_OF_OPT string string nat

record ('w, 'k, 'x, 'n, 'o, 'p) x509_lib = "('w, 'k) crypto_lib" +
  asn1_call :: "string \<Rightarrow> ('w, bool) prog"
    \<comment> \<open>a constructor, setter or stack push of the name given: whether it succeeds\<close>
  OBJ_txt2obj :: "string \<Rightarrow> ('w, 'o option) prog"
  OBJ_obj2txt :: "'o \<Rightarrow> int \<times> string"
  OBJ_cmp :: "'o \<Rightarrow> 'o \<Rightarrow> int"
  OBJ_obj2nid :: "'o \<Rightarrow> nid"
  X509_NAME_new :: "('w, 'n option) prog"
  X509_NAME_add_entry_by_txt :: "'n \<Rightarrow> string \<Rightarrow> string \<Rightarrow> string \<Rightarrow> ('w, 'n option) prog"
    \<comment> \<open>name, field, string type, value: the extended name\<close>
  X509_NAME_dup :: "'n \<Rightarrow> ('w, 'n option) prog"
  X509_NAME_cmp :: "'n option \<Rightarrow> 'n option \<Rightarrow> int"
  X509V3_EXT_conf_nid :: "nid \<Rightarrow> string \<Rightarrow> ('w, 'o x509_extension option) prog"
  X509_EXTENSION_create_by_OBJ :: "'o \<Rightarrow> bool \<Rightarrow> bytes \<Rightarrow> ('w, 'o x509_extension option) prog"
  X509V3_EXT_i2d_octets :: "nid \<Rightarrow> bytes \<Rightarrow> ('w, 'o x509_extension option) prog"
  X509V3_EXT_i2d_authority :: "bytes \<Rightarrow> ('w, 'o x509_extension option) prog"
    \<comment> \<open>of an \<open>AUTHORITY_KEYID\<close> with only the key identifier\<close>
  X509_PUBKEY_set0_param :: "'o \<Rightarrow> 'o algor_parameter \<Rightarrow> bytes \<Rightarrow> ('w, 'p option) prog"
  X509_PUBKEY_get0_param :: "'p \<Rightarrow> (bytes \<times> 'o x509_algor option) option"
  X509_gmtime_adj :: "int \<Rightarrow> ('w, int option) prog"
  COMPOSITE_TBS_CERTIFICATE_new :: "('w, ('n, 'o, 'p) composite_tbs_certificate option) prog"
  COMPOSITE_CERTIFICATE_new :: "('w, 64 word option) prog"
    \<comment> \<open>the flags of the new certificate's signature value\<close>
  ASN1_item_i2d_tbs :: "asn1_template list \<Rightarrow> ('n, 'o, 'p) composite_tbs_certificate \<Rightarrow> ('w, int \<times> bytes) prog"
    \<comment> \<open>\<open>ASN1_item_i2d\<close> of a \<open>COMPOSITE_TBS_CERTIFICATE\<close> by the templates given\<close>
  ASN1_item_i2d_certificate :: "asn1_template list \<Rightarrow> asn1_template list \<Rightarrow>
    ('n, 'o, 'p) composite_certificate \<Rightarrow> ('w, int \<times> bytes) prog"
    \<comment> \<open>the same of a \<open>COMPOSITE_CERTIFICATE\<close>: its templates and those of its body\<close>
  d2i_X509 :: "bytes \<Rightarrow> ('w, ('x \<times> nat) option) prog"
    \<comment> \<open>the certificate and how far the cursor moved\<close>
  i2d_re_X509_tbs :: "'x \<Rightarrow> ('w, int \<times> bytes) prog"
  X509_get_subject_name :: "'x \<Rightarrow> 'n option"
  X509_get_issuer_name :: "'x \<Rightarrow> 'n option"
  X509_get0_signature :: "'x \<Rightarrow> asn1_bit_string option \<times> 'o x509_algor option"
  X509_get0_tbs_sigalg :: "'x \<Rightarrow> 'o x509_algor option"
  X509_get_X509_PUBKEY :: "'x \<Rightarrow> 'p option"
  X509_get0_pubkey_bitstr :: "'x \<Rightarrow> asn1_bit_string option"
  X509_get_pubkey :: "'x \<Rightarrow> ('w, 'k option) prog"
  X509_get_ext_by_OBJ :: "'x \<Rightarrow> 'o \<Rightarrow> int \<Rightarrow> int"
  X509_get_ext :: "'x \<Rightarrow> int \<Rightarrow> 'o x509_extension option"
  ext_d2i_basic_constraints :: "'x \<Rightarrow> ('w, bool option \<times> int) prog"
    \<comment> \<open>\<open>X509_get_ext_d2i\<close> for \<open>NID_basic_constraints\<close>: the CA flag of the decoded value (None when
        the result is null), and the criticality\<close>
  ext_d2i_key_usage :: "'x \<Rightarrow> ('w, asn1_bit_string option \<times> int) prog"
  ext_d2i_ext_key_usage :: "'x \<Rightarrow> ('w, 'o list option) prog"
  ext_d2i_subject_alt_name :: "'x \<Rightarrow> ('w, general_name list option) prog"
  ext_d2i_subject_key_identifier :: "'x \<Rightarrow> ('w, bytes option) prog"
  ext_d2i_authority_key_identifier :: "'x \<Rightarrow> ('w, bytes option option) prog"
    \<comment> \<open>the decoded value's key identifier, which may be absent\<close>
  ASN1_BIT_STRING_get_bit :: "asn1_bit_string \<Rightarrow> nat \<Rightarrow> bool"
  X509_get0_notBefore :: "'x \<Rightarrow> int"
  X509_get0_notAfter :: "'x \<Rightarrow> int"
  X509_cmp_current_time :: "int \<Rightarrow> ('w, int) prog"
  X509_check_host :: "'x \<Rightarrow> string \<Rightarrow> ('w, int) prog"

end
