(* ===== verification/Hybrid_X509.thy ===== *)
theory Hybrid_X509
  imports X509_Lib
begin

text \<open>
  \<open>include/hybrid_x509.h\<close> and \<open>src/hybrid_x509.c\<close>: building and signing the three kinds of
  certificates, and the accessors the verifier uses. A null pointer is None. The two functions that
  write and read files are in \<open>Cert_Files\<close>.
\<close>

definition COMPOSITE_SM2_DILITHIUM_EXPERIMENTAL_OID :: string where
  "COMPOSITE_SM2_DILITHIUM_EXPERIMENTAL_OID = ''1.3.6.1.4.1.32473.1.1''"

definition HYBRID_PQC_EXTENSION_OID :: string where
  "HYBRID_PQC_EXTENSION_OID = ''1.3.6.1.4.1.2.267.7''"

section \<open>The ASN.1 templates\<close>

definition COMPOSITE_TBS_CERTIFICATE_seq_tt :: "asn1_template list" where
  "COMPOSITE_TBS_CERTIFICATE_seq_tt =
     [ASN1_EXP_OPT ''version'' ''ASN1_INTEGER'' 0,
      ASN1_SIMPLE ''serial_number'' ''ASN1_INTEGER'',
      ASN1_SIMPLE ''signature'' ''X509_ALGOR'',
      ASN1_SIMPLE ''issuer'' ''X509_NAME'',
      ASN1_SIMPLE ''validity'' ''X509_VAL'',
      ASN1_SIMPLE ''subject'' ''X509_NAME'',
      ASN1_SIMPLE ''subject_public_key_info'' ''X509_PUBKEY'',
      ASN1_IMP_OPT ''issuer_uid'' ''ASN1_BIT_STRING'' 1,
      ASN1_IMP_OPT ''subject_uid'' ''ASN1_BIT_STRING'' 2,
      ASN1_EXP_SEQUENCE_OF_OPT ''extensions'' ''X509_EXTENSION'' 3]"

definition COMPOSITE_CERTIFICATE_seq_tt :: "asn1_template list" where
  "COMPOSITE_CERTIFICATE_seq_tt =
     [ASN1_SIMPLE ''tbs_certificate'' ''COMPOSITE_TBS_CERTIFICATE'',
      ASN1_SIMPLE ''signature_algorithm'' ''X509_ALGOR'',
      ASN1_SIMPLE ''signature_value'' ''ASN1_BIT_STRING'']"

text \<open>The encoders of \<open>IMPLEMENT_ASN1_FUNCTIONS\<close>.\<close>

definition i2d_COMPOSITE_TBS_CERTIFICATE ::
  "('w, 'k, 'x, 'n, 'o, 'p, 'e) x509_lib_scheme \<Rightarrow> ('n, 'o, 'p) composite_tbs_certificate \<Rightarrow>
   ('w, int \<times> bytes) prog" where
  "i2d_COMPOSITE_TBS_CERTIFICATE L tbs = ASN1_item_i2d_tbs L COMPOSITE_TBS_CERTIFICATE_seq_tt tbs"

definition i2d_COMPOSITE_CERTIFICATE ::
  "('w, 'k, 'x, 'n, 'o, 'p, 'e) x509_lib_scheme \<Rightarrow> ('n, 'o, 'p) composite_certificate \<Rightarrow>
   ('w, int \<times> bytes) prog" where
  "i2d_COMPOSITE_CERTIFICATE L certificate =
     ASN1_item_i2d_certificate L COMPOSITE_CERTIFICATE_seq_tt COMPOSITE_TBS_CERTIFICATE_seq_tt certificate"

section \<open>Parts of a certificate\<close>

definition set_composite_algorithm ::
  "('w, 'k, 'x, 'n, 'o, 'p, 'e) x509_lib_scheme \<Rightarrow> ('w, 'o x509_algor option) prog" where
  "set_composite_algorithm L =
     attempt (OBJ_txt2obj L COMPOSITE_SM2_DILITHIUM_EXPERIMENTAL_OID) (\<lambda>object.
       done_with \<lparr>algorithm = Some object, parameter_type = V_ASN1_UNDEF\<rparr>)"

definition make_name ::
  "('w, 'k, 'x, 'n, 'o, 'p, 'e) x509_lib_scheme \<Rightarrow> string option \<Rightarrow> ('w, 'n option) prog" where
  "make_name L common_name =
     (case common_name of
        None \<Rightarrow> fail
      | Some cn \<Rightarrow>
          if cn = [] then fail
          else
            attempt (X509_NAME_new L) (\<lambda>name.
            attempt (X509_NAME_add_entry_by_txt L name ''C'' ''ASC'' ''CN'') (\<lambda>name.
            attempt (X509_NAME_add_entry_by_txt L name ''O'' ''ASC'' ''Experimental Hybrid PKI'') (\<lambda>name.
              X509_NAME_add_entry_by_txt L name ''CN'' ''UTF8'' cn))))"

text \<open>
  A stack of extensions is a list; pushing returns the longer list. \<open>push_extension\<close> takes what the
  constructor of the extension returned.
\<close>

definition push_extension ::
  "('w, 'k, 'x, 'n, 'o, 'p, 'e) x509_lib_scheme \<Rightarrow> 'o x509_extension list \<Rightarrow> 'o x509_extension option \<Rightarrow>
   ('w, 'o x509_extension list option) prog" where
  "push_extension L exts extension =
     (case extension of
        None \<Rightarrow> fail
      | Some e \<Rightarrow> ensure (asn1_call L ''sk_X509_EXTENSION_push'') (done_with (exts @ [e])))"

definition add_conf_extension ::
  "('w, 'k, 'x, 'n, 'o, 'p, 'e) x509_lib_scheme \<Rightarrow> nid \<Rightarrow> string \<Rightarrow> 'o x509_extension list \<Rightarrow>
   ('w, 'o x509_extension list option) prog" where
  "add_conf_extension L nid value exts = do {
     extension \<leftarrow> X509V3_EXT_conf_nid L nid value;
     push_extension L exts extension }"

definition der_null :: bytes where
  "der_null = [5, 0]"

definition add_pqc_marker ::
  "('w, 'k, 'x, 'n, 'o, 'p, 'e) x509_lib_scheme \<Rightarrow> 'o x509_extension list \<Rightarrow>
   ('w, 'o x509_extension list option) prog" where
  "add_pqc_marker L exts = do {
     object \<leftarrow> OBJ_txt2obj L HYBRID_PQC_EXTENSION_OID;
     value \<leftarrow> asn1_call L ''ASN1_OCTET_STRING_new'';
     case object of
       None \<Rightarrow> fail
     | Some obj \<Rightarrow>
         ensure (give value)
           (ensure (asn1_call L ''ASN1_OCTET_STRING_set'')
             (attempt (X509_EXTENSION_create_by_OBJ L obj False der_null) (\<lambda>extension.
                push_extension L exts (Some extension)))) }"

definition compute_key_identifier ::
  "('w, 'k, 'x, 'n, 'o, 'p, 'e) x509_lib_scheme \<Rightarrow> 'k hybrid_public_key option \<Rightarrow> ('w, bytes option) prog" where
  "compute_key_identifier L key =
     attempt (composite_serialize_public_key L key True) (\<lambda>serialized. do {
       (ok, digest) \<leftarrow> EVP_Digest L ''SHA256'' serialized;
       if \<not> ok \<or> length digest \<noteq> 32 then fail else done_with digest })"

text \<open>The tail shared by the two subject-key-identifier functions.\<close>

definition push_key_identifier ::
  "('w, 'k, 'x, 'n, 'o, 'p, 'e) x509_lib_scheme \<Rightarrow> bytes \<Rightarrow> 'o x509_extension list \<Rightarrow>
   ('w, 'o x509_extension list option) prog" where
  "push_key_identifier L digest exts =
     ensure (asn1_call L ''ASN1_OCTET_STRING_new'')
       (ensure (asn1_call L ''ASN1_OCTET_STRING_set'')
         (attempt (X509V3_EXT_i2d_octets L NID_subject_key_identifier digest) (\<lambda>extension.
            push_extension L exts (Some extension))))"

definition add_subject_key_identifier ::
  "('w, 'k, 'x, 'n, 'o, 'p, 'e) x509_lib_scheme \<Rightarrow> 'k hybrid_public_key option \<Rightarrow>
   'o x509_extension list \<Rightarrow> ('w, 'o x509_extension list option) prog" where
  "add_subject_key_identifier L key exts =
     attempt (compute_key_identifier L key) (\<lambda>digest. push_key_identifier L digest exts)"

definition compute_sm2_key_identifier ::
  "('w, 'k, 'x, 'n, 'o, 'p, 'e) x509_lib_scheme \<Rightarrow> 'k option \<Rightarrow> ('w, bytes option) prog" where
  "compute_sm2_key_identifier L key =
     (case serialize_sm2_public_key L key (replicate SM2_UNCOMPRESSED_PUBLIC_KEY_BYTES 0) of
        (ok, public_key) \<Rightarrow>
          if \<not> ok then fail
          else do {
            (ok, digest) \<leftarrow> EVP_Digest L ''SHA256'' public_key;
            if \<not> ok \<or> length digest \<noteq> 32 then fail else done_with digest })"

definition add_sm2_subject_key_identifier ::
  "('w, 'k, 'x, 'n, 'o, 'p, 'e) x509_lib_scheme \<Rightarrow> 'k option \<Rightarrow> 'o x509_extension list \<Rightarrow>
   ('w, 'o x509_extension list option) prog" where
  "add_sm2_subject_key_identifier L key exts =
     attempt (compute_sm2_key_identifier L key) (\<lambda>digest. push_key_identifier L digest exts)"

definition add_authority_key_identifier ::
  "('w, 'k, 'x, 'n, 'o, 'p, 'e) x509_lib_scheme \<Rightarrow> 'k hybrid_public_key option \<Rightarrow>
   'o x509_extension list \<Rightarrow> ('w, 'o x509_extension list option) prog" where
  "add_authority_key_identifier L issuer_key exts =
     attempt (compute_key_identifier L issuer_key) (\<lambda>digest.
       ensure (asn1_call L ''AUTHORITY_KEYID_new'')
         (ensure (asn1_call L ''ASN1_OCTET_STRING_new'')
           (ensure (asn1_call L ''ASN1_OCTET_STRING_set'')
             (attempt (X509V3_EXT_i2d_authority L digest) (\<lambda>extension.
                push_extension L exts (Some extension))))))"

definition make_composite_spki ::
  "('w, 'k, 'x, 'n, 'o, 'p, 'e) x509_lib_scheme \<Rightarrow> 'k hybrid_public_key option \<Rightarrow> ('w, 'p option) prog" where
  "make_composite_spki L key =
     attempt (composite_serialize_public_key L key True) (\<lambda>serialized.
       if length serialized > INT_MAX then fail
       else do {
         spki \<leftarrow> asn1_call L ''X509_PUBKEY_new'';
         object \<leftarrow> OBJ_txt2obj L COMPOSITE_SM2_DILITHIUM_EXPERIMENTAL_OID;
         case object of
           None \<Rightarrow> fail
         | Some obj \<Rightarrow> ensure (give spki) (X509_PUBKEY_set0_param L obj V_ASN1_UNDEF serialized) })"

definition make_sm2_spki ::
  "('w, 'k, 'x, 'n, 'o, 'p, 'e) x509_lib_scheme \<Rightarrow> 'k option \<Rightarrow> ('w, 'p option) prog" where
  "make_sm2_spki L key =
     (case key of
        None \<Rightarrow> fail
      | Some k \<Rightarrow>
          if \<not> EVP_PKEY_is_a L k ''SM2'' then fail
          else do {
            spki \<leftarrow> asn1_call L ''X509_PUBKEY_new'';
            alg \<leftarrow> OBJ_txt2obj L ''1.2.840.10045.2.1'';
            curve \<leftarrow> OBJ_txt2obj L ''1.2.156.10197.1.301'';
            allocated \<leftarrow> OPENSSL_malloc L SM2_UNCOMPRESSED_PUBLIC_KEY_BYTES;
            case (alg, curve) of
              (Some alg, Some crv) \<Rightarrow>
                if \<not> spki \<or> \<not> allocated then fail
                else
                  (case serialize_sm2_public_key L key (replicate SM2_UNCOMPRESSED_PUBLIC_KEY_BYTES 0) of
                     (ok, public_key) \<Rightarrow>
                       if \<not> ok then fail
                       else X509_PUBKEY_set0_param L alg (V_ASN1_OBJECT crv) public_key)
            | _ \<Rightarrow> fail })"

section \<open>Extension profiles\<close>

definition build_root_extensions ::
  "('w, 'k, 'x, 'n, 'o, 'p, 'e) x509_lib_scheme \<Rightarrow> 'k hybrid_public_key option \<Rightarrow>
   ('w, 'o x509_extension list option) prog" where
  "build_root_extensions L ca_public_key =
     ensure (asn1_call L ''sk_X509_EXTENSION_new_null'')
     (attempt (add_conf_extension L NID_basic_constraints ''critical,CA:TRUE'' []) (\<lambda>exts.
      attempt (add_conf_extension L NID_key_usage ''critical,keyCertSign,cRLSign'' exts) (\<lambda>exts.
      attempt (add_subject_key_identifier L ca_public_key exts) (\<lambda>exts.
        add_pqc_marker L exts))))"

text \<open>\<open>snprintf\<close> into 300 bytes: the value must be shorter than the buffer.\<close>

definition build_server_extensions ::
  "('w, 'k, 'x, 'n, 'o, 'p, 'e) x509_lib_scheme \<Rightarrow> 'k hybrid_public_key option \<Rightarrow>
   'k hybrid_public_key option \<Rightarrow> string option \<Rightarrow> ('w, 'o x509_extension list option) prog" where
  "build_server_extensions L ca_public_key server_public_key dns_name =
     (case dns_name of
        None \<Rightarrow> fail
      | Some dns \<Rightarrow>
          if dns = [] then fail
          else
            let san_value = ''DNS:'' @ dns in
            if length san_value \<ge> 300 then fail
            else
              ensure (asn1_call L ''sk_X509_EXTENSION_new_null'')
              (attempt (add_conf_extension L NID_basic_constraints ''critical,CA:FALSE'' []) (\<lambda>exts.
               attempt (add_conf_extension L NID_key_usage ''critical,digitalSignature'' exts) (\<lambda>exts.
               attempt (add_conf_extension L NID_ext_key_usage ''serverAuth'' exts) (\<lambda>exts.
               attempt (add_conf_extension L NID_subject_alt_name san_value exts) (\<lambda>exts.
               attempt (add_subject_key_identifier L server_public_key exts) (\<lambda>exts.
               attempt (add_authority_key_identifier L ca_public_key exts) (\<lambda>exts.
                 add_pqc_marker L exts))))))))"

definition build_encryption_server_extensions ::
  "('w, 'k, 'x, 'n, 'o, 'p, 'e) x509_lib_scheme \<Rightarrow> 'k hybrid_public_key option \<Rightarrow> 'k option \<Rightarrow>
   ('w, 'o x509_extension list option) prog" where
  "build_encryption_server_extensions L ca_public_key server_sm2_public_key =
     ensure (asn1_call L ''sk_X509_EXTENSION_new_null'')
     (attempt (add_conf_extension L NID_basic_constraints ''critical,CA:FALSE'' []) (\<lambda>exts.
      attempt (add_conf_extension L NID_key_usage ''critical,keyEncipherment,keyAgreement'' exts) (\<lambda>exts.
      attempt (add_sm2_subject_key_identifier L server_sm2_public_key exts) (\<lambda>exts.
      attempt (add_authority_key_identifier L ca_public_key exts) (\<lambda>exts.
        add_pqc_marker L exts)))))"

section \<open>The certificate to be signed\<close>

text \<open>
  The part shared by \<open>make_tbs\<close> and \<open>make_sm2_encryption_tbs\<close> after their four allocations: the fields
  of the freshly allocated \<open>tbs\<close> are replaced one by one.
\<close>

definition fill_tbs ::
  "('w, 'k, 'x, 'n, 'o, 'p, 'e) x509_lib_scheme \<Rightarrow> ('n, 'o, 'p) composite_tbs_certificate \<Rightarrow>
   'n \<Rightarrow> 'n \<Rightarrow> 'p \<Rightarrow> int \<Rightarrow> ('w, 'o x509_extension list option) prog \<Rightarrow>
   ('w, ('n, 'o, 'p) composite_tbs_certificate option) prog" where
  "fill_tbs L tbs issuer_copy subject_name spki serial build =
     ensure (asn1_call L ''ASN1_INTEGER_new'')
     (ensure (asn1_call L ''ASN1_INTEGER_set'')
     (ensure (asn1_call L ''ASN1_INTEGER_set'')
     (attempt (set_composite_algorithm L) (\<lambda>algor.
      attempt (X509_gmtime_adj L (-60)) (\<lambda>before.
      attempt (X509_gmtime_adj L 31536000) (\<lambda>after.
      attempt build (\<lambda>exts.
        done_with (tbs\<lparr>issuer := issuer_copy, subject := subject_name, subject_public_key_info := spki,
          version := Some 2, serial_number := serial, signature := algor, not_before := before,
          not_after := after, extensions := Some exts\<rparr>))))))))"

definition make_tbs ::
  "('w, 'k, 'x, 'n, 'o, 'p, 'e) x509_lib_scheme \<Rightarrow> 'k hybrid_public_key option \<Rightarrow> 'n \<Rightarrow> string option \<Rightarrow>
   int \<Rightarrow> bool \<Rightarrow> 'k hybrid_public_key option \<Rightarrow> string option \<Rightarrow>
   ('w, ('n, 'o, 'p) composite_tbs_certificate option) prog" where
  "make_tbs L subject_key issuer_name subject_common_name serial is_ca ca_public_key dns_name = do {
     tbs \<leftarrow> COMPOSITE_TBS_CERTIFICATE_new L;
     issuer_copy \<leftarrow> X509_NAME_dup L issuer_name;
     subject_name \<leftarrow> make_name L subject_common_name;
     spki \<leftarrow> make_composite_spki L subject_key;
     case (tbs, issuer_copy, subject_name, spki) of
       (Some tbs, Some issuer_copy, Some subject_name, Some spki) \<Rightarrow>
         fill_tbs L tbs issuer_copy subject_name spki serial
           (if is_ca then build_root_extensions L subject_key
            else build_server_extensions L ca_public_key subject_key dns_name)
     | _ \<Rightarrow> fail }"

definition make_sm2_encryption_tbs ::
  "('w, 'k, 'x, 'n, 'o, 'p, 'e) x509_lib_scheme \<Rightarrow> 'k option \<Rightarrow> 'n \<Rightarrow> string option \<Rightarrow>
   'k hybrid_public_key option \<Rightarrow> ('w, ('n, 'o, 'p) composite_tbs_certificate option) prog" where
  "make_sm2_encryption_tbs L subject_key issuer_name subject_common_name ca_public_key = do {
     tbs \<leftarrow> COMPOSITE_TBS_CERTIFICATE_new L;
     issuer_copy \<leftarrow> X509_NAME_dup L issuer_name;
     subject_name \<leftarrow> make_name L subject_common_name;
     spki \<leftarrow> make_sm2_spki L subject_key;
     case (tbs, issuer_copy, subject_name, spki) of
       (Some tbs, Some issuer_copy, Some subject_name, Some spki) \<Rightarrow>
         fill_tbs L tbs issuer_copy subject_name spki 3
           (build_encryption_server_extensions L ca_public_key subject_key)
     | _ \<Rightarrow> fail }"

text \<open>
  \<open>ASN1_STRING_FLAG_BITS_LEFT\<close> is \<open>0x08\<close>; the three low bits count unused bits. Of the new
  certificate's initial contents only the flags of its signature value survive.
\<close>

definition set_no_unused_bits :: "64 word \<Rightarrow> 64 word" where
  "set_no_unused_bits fl = (fl AND NOT (0x08 OR 0x07)) OR 0x08"

definition sign_tbs ::
  "('w, 'k, 'x, 'n, 'o, 'p, 'e) x509_lib_scheme \<Rightarrow> ('n, 'o, 'p) composite_tbs_certificate option \<Rightarrow>
   'k hybrid_private_key option \<Rightarrow> ('w, 'x option) prog" where
  "sign_tbs L tbs signing_key =
     (case (tbs, signing_key) of
        (Some tbs, Some key) \<Rightarrow> do {
          (tbs_der_len, tbs_der) \<leftarrow> i2d_COMPOSITE_TBS_CERTIFICATE L tbs;
          if tbs_der_len \<le> 0 then fail
          else
            attempt (composite_sign L (Some key) (Buf tbs_der) (Null 0) True) (\<lambda>sig.
              if length sig > INT_MAX then fail
              else
                attempt (COMPOSITE_CERTIFICATE_new L) (\<lambda>fl.
                attempt (set_composite_algorithm L) (\<lambda>algor.
                ensure (asn1_call L ''ASN1_BIT_STRING_set'') (do {
                   let certificate = \<lparr>tbs_certificate = tbs, signature_algorithm = algor,
                     signature_value = \<lparr>flags = set_no_unused_bits fl, bit_data = sig\<rparr>\<rparr>;
                   (certificate_der_len, certificate_der) \<leftarrow> i2d_COMPOSITE_CERTIFICATE L certificate;
                   if certificate_der_len \<le> 0 then fail
                   else
                     attempt (d2i_X509 L certificate_der) (\<lambda>(parsed, consumed).
                       if consumed \<noteq> length certificate_der then fail else done_with parsed)
                 })))) }
      | _ \<Rightarrow> fail)"

definition hybrid_x509_create_root ::
  "('w, 'k, 'x, 'n, 'o, 'p, 'e) x509_lib_scheme \<Rightarrow> 'k hybrid_private_key option \<Rightarrow>
   'k hybrid_public_key option \<Rightarrow> string option \<Rightarrow> ('w, 'x option) prog" where
  "hybrid_x509_create_root L ca_private_key ca_public_key common_name = do {
     name \<leftarrow> make_name L common_name;
     case name of
       None \<Rightarrow> fail
     | Some n \<Rightarrow> do {
         tbs \<leftarrow> make_tbs L ca_public_key n common_name 1 True ca_public_key None;
         sign_tbs L tbs ca_private_key } }"

definition hybrid_x509_create_server ::
  "('w, 'k, 'x, 'n, 'o, 'p, 'e) x509_lib_scheme \<Rightarrow> 'k hybrid_private_key option \<Rightarrow>
   'k hybrid_public_key option \<Rightarrow> 'k hybrid_public_key option \<Rightarrow> 'x option \<Rightarrow> string option \<Rightarrow>
   string option \<Rightarrow> ('w, 'x option) prog" where
  "hybrid_x509_create_server L ca_private_key ca_public_key server_public_key issuer_certificate
     common_name dns_name =
     (case issuer_certificate of
        None \<Rightarrow> fail
      | Some ic \<Rightarrow>
          (case X509_get_subject_name L ic of
             None \<Rightarrow> fail
           | Some issuer_name \<Rightarrow> do {
               tbs \<leftarrow> make_tbs L server_public_key issuer_name common_name 2 False ca_public_key dns_name;
               sign_tbs L tbs ca_private_key }))"

definition hybrid_x509_create_sm2_encryption ::
  "('w, 'k, 'x, 'n, 'o, 'p, 'e) x509_lib_scheme \<Rightarrow> 'k hybrid_private_key option \<Rightarrow>
   'k hybrid_public_key option \<Rightarrow> 'k option \<Rightarrow> 'x option \<Rightarrow> string option \<Rightarrow> ('w, 'x option) prog" where
  "hybrid_x509_create_sm2_encryption L ca_private_key ca_public_key server_sm2_public_key
     issuer_certificate common_name =
     (if ca_private_key = None \<or> ca_public_key = None \<or> server_sm2_public_key = None \<or>
         common_name = None \<or> common_name = Some [] then fail
      else case issuer_certificate of
        None \<Rightarrow> fail
      | Some ic \<Rightarrow>
          (case X509_get_subject_name L ic of
             None \<Rightarrow> fail
           | Some issuer_name \<Rightarrow> do {
               tbs \<leftarrow> make_sm2_encryption_tbs L server_sm2_public_key issuer_name common_name ca_public_key;
               sign_tbs L tbs ca_private_key }))"

section \<open>Reading a certificate\<close>

definition hybrid_x509_get_tbs_der ::
  "('w, 'k, 'x, 'n, 'o, 'p, 'e) x509_lib_scheme \<Rightarrow> 'x option \<Rightarrow> bool \<Rightarrow> ('w, bytes option) prog" where
  "hybrid_x509_get_tbs_der L certificate outs =
     (if \<not> outs then fail
      else case certificate of
        None \<Rightarrow> fail
      | Some c \<Rightarrow> do {
          (output_len, output) \<leftarrow> i2d_re_X509_tbs L c;
          if output_len \<le> 0 then fail else done_with output })"

text \<open>\<open>OBJ_obj2txt\<close> writes into a buffer of 128 characters, whose contents \<open>strcmp\<close> then compares.\<close>

definition algorithm_is_composite_and_absent ::
  "('w, 'k, 'x, 'n, 'o, 'p, 'e) x509_lib_scheme \<Rightarrow> 'o x509_algor option \<Rightarrow> bool" where
  "algorithm_is_composite_and_absent L algor =
     (case algor of
        None \<Rightarrow> False
      | Some a \<Rightarrow>
          (case algorithm a of
             None \<Rightarrow> False
           | Some object \<Rightarrow>
               parameter_type a = V_ASN1_UNDEF \<and>
               (case OBJ_obj2txt L object of (n, oid) \<Rightarrow>
                  0 < n \<and> take 127 oid = COMPOSITE_SM2_DILITHIUM_EXPERIMENTAL_OID)))"

definition hybrid_x509_composite_signature_algorithms_valid ::
  "('w, 'k, 'x, 'n, 'o, 'p, 'e) x509_lib_scheme \<Rightarrow> 'x option \<Rightarrow> bool" where
  "hybrid_x509_composite_signature_algorithms_valid L certificate =
     (case certificate of
        None \<Rightarrow> False
      | Some c \<Rightarrow>
          (case (X509_get0_signature L c, X509_get0_tbs_sigalg L c) of ((sig, outer), tbs) \<Rightarrow>
             sig \<noteq> None \<and>
             algorithm_is_composite_and_absent L tbs \<and>
             algorithm_is_composite_and_absent L outer \<and>
             OBJ_cmp L (the (algorithm (the tbs))) (the (algorithm (the outer))) = 0))"

definition hybrid_x509_subject_public_key_is_composite ::
  "('w, 'k, 'x, 'n, 'o, 'p, 'e) x509_lib_scheme \<Rightarrow> 'x option \<Rightarrow> bool" where
  "hybrid_x509_subject_public_key_is_composite L certificate =
     (case certificate of
        None \<Rightarrow> False
      | Some c \<Rightarrow>
          (case X509_get_X509_PUBKEY L c of
             None \<Rightarrow> False
           | Some spki \<Rightarrow>
               (case X509_PUBKEY_get0_param L spki of
                  None \<Rightarrow> False
                | Some (key, algor) \<Rightarrow> algorithm_is_composite_and_absent L algor)))"

definition hybrid_x509_subject_public_key_is_sm2 ::
  "('w, 'k, 'x, 'n, 'o, 'p, 'e) x509_lib_scheme \<Rightarrow> 'x option \<Rightarrow> ('w, bool) prog" where
  "hybrid_x509_subject_public_key_is_sm2 L certificate =
     (case certificate of
        None \<Rightarrow> give False
      | Some c \<Rightarrow> do {
          key \<leftarrow> X509_get_pubkey L c;
          give (case key of None \<Rightarrow> False | Some k \<Rightarrow> EVP_PKEY_is_a L k ''SM2'') })"

definition hybrid_x509_composite_algorithms_valid ::
  "('w, 'k, 'x, 'n, 'o, 'p, 'e) x509_lib_scheme \<Rightarrow> 'x option \<Rightarrow> bool" where
  "hybrid_x509_composite_algorithms_valid L certificate \<longleftrightarrow>
     hybrid_x509_composite_signature_algorithms_valid L certificate \<and>
     hybrid_x509_subject_public_key_is_composite L certificate"

definition hybrid_x509_get_composite_public_key ::
  "('w, 'k, 'x, 'n, 'o, 'p, 'e) x509_lib_scheme \<Rightarrow> 'x option \<Rightarrow> 'k hybrid_public_key option \<Rightarrow>
   ('w, bool \<times> 'k hybrid_public_key option) prog" where
  "hybrid_x509_get_composite_public_key L certificate public_key =
     (if public_key = None then give (False, public_key)
      else case certificate of
        None \<Rightarrow> give (False, public_key)
      | Some c \<Rightarrow>
          (case (X509_get_X509_PUBKEY L c, X509_get0_pubkey_bitstr L c) of
             (Some spki, Some public_key_bits) \<Rightarrow>
               if flags public_key_bits AND 7 \<noteq> 0 then give (False, public_key)
               else (case X509_PUBKEY_get0_param L spki of
                  None \<Rightarrow> give (False, public_key)
                | Some (serialized, algor) \<Rightarrow>
                    if \<not> algorithm_is_composite_and_absent L algor \<or> length serialized = 0
                    then give (False, public_key)
                    else composite_parse_public_key L (Buf serialized) public_key)
           | _ \<Rightarrow> give (False, public_key)))"

definition blank_public_key :: "'k hybrid_public_key" where
  "blank_public_key = \<lparr>sm2_public_key = None,
     dilithium_public_key = replicate DILITHIUM_PUBLIC_KEY_BYTES 0\<rparr>"

definition hybrid_x509_public_key_matches ::
  "('w, 'k, 'x, 'n, 'o, 'p, 'e) x509_lib_scheme \<Rightarrow> 'x option \<Rightarrow> 'k hybrid_public_key option \<Rightarrow>
   ('w, bool) prog" where
  "hybrid_x509_public_key_matches L certificate public_key =
     (if certificate = None \<or> public_key = None then give False
      else do {
        (ok, certificate_key) \<leftarrow> hybrid_x509_get_composite_public_key L certificate (Some blank_public_key);
        if \<not> ok then give False
        else do {
          certificate_bytes \<leftarrow> composite_serialize_public_key L certificate_key True;
          case certificate_bytes of
            None \<Rightarrow> give False
          | Some cb \<Rightarrow> do {
              loaded_bytes \<leftarrow> composite_serialize_public_key L public_key True;
              case loaded_bytes of
                None \<Rightarrow> give False
              | Some lb \<Rightarrow> give (length cb = length lb \<and> cb = lb) } } })"

text \<open>\<open>output\<close> is the caller's 65-byte array, zeroed again when the call fails.\<close>

definition hybrid_x509_get_sm2_public_key_octets ::
  "('w, 'k, 'x, 'n, 'o, 'p, 'e) x509_lib_scheme \<Rightarrow> 'x option \<Rightarrow> bytes option \<Rightarrow>
   ('w, bool \<times> bytes option) prog" where
  "hybrid_x509_get_sm2_public_key_octets L certificate output =
     (case (certificate, output) of
        (Some c, Some out) \<Rightarrow> do {
          key \<leftarrow> X509_get_pubkey L c;
          give (case serialize_sm2_public_key L key out of (ok, out') \<Rightarrow>
                  if ok then (True, Some out')
                  else (False, Some (cleanse SM2_UNCOMPRESSED_PUBLIC_KEY_BYTES out'))) }
      | _ \<Rightarrow> give (False, output))"

definition hybrid_x509_sm2_public_key_matches ::
  "('w, 'k, 'x, 'n, 'o, 'p, 'e) x509_lib_scheme \<Rightarrow> 'x option \<Rightarrow> 'k option \<Rightarrow> ('w, bool) prog" where
  "hybrid_x509_sm2_public_key_matches L certificate public_key =
     (case (certificate, public_key) of
        (Some c, Some k) \<Rightarrow>
          if \<not> EVP_PKEY_is_a L k ''SM2'' then give False
          else do {
            (ok, certificate_bytes) \<leftarrow> hybrid_x509_get_sm2_public_key_octets L certificate
              (Some (replicate SM2_UNCOMPRESSED_PUBLIC_KEY_BYTES 0));
            if \<not> ok then give False
            else give (case EVP_PKEY_get_pub_key L k SM2_UNCOMPRESSED_PUBLIC_KEY_BYTES of
                    (ret, supplied) \<Rightarrow>
                      0 < ret \<and> length supplied = SM2_UNCOMPRESSED_PUBLIC_KEY_BYTES \<and>
                      certificate_bytes = Some supplied) }
      | _ \<Rightarrow> give False)"

definition hybrid_x509_get_signature ::
  "('w, 'k, 'x, 'n, 'o, 'p, 'e) x509_lib_scheme \<Rightarrow> 'x option \<Rightarrow> bool \<Rightarrow> bytes option" where
  "hybrid_x509_get_signature L certificate outs =
     (if \<not> outs then None
      else case certificate of
        None \<Rightarrow> None
      | Some c \<Rightarrow>
          (case fst (X509_get0_signature L c) of
             None \<Rightarrow> None
           | Some value \<Rightarrow>
               if flags value AND 7 \<noteq> 0 \<or> length (bit_data value) = 0 then None
               else Some (bit_data value)))"

definition hybrid_x509_has_pqc_extension ::
  "('w, 'k, 'x, 'n, 'o, 'p, 'e) x509_lib_scheme \<Rightarrow> 'x option \<Rightarrow> ('w, bool) prog" where
  "hybrid_x509_has_pqc_extension L certificate =
     (case certificate of
        None \<Rightarrow> give False
      | Some c \<Rightarrow> do {
          object \<leftarrow> OBJ_txt2obj L HYBRID_PQC_EXTENSION_OID;
          case object of
            None \<Rightarrow> give False
          | Some obj \<Rightarrow>
              let first = X509_get_ext_by_OBJ L c obj (-1);
                  second = (if first \<ge> 0 then X509_get_ext_by_OBJ L c obj first else -1)
              in if first < 0 \<or> second \<ge> 0 then give False
                 else give (case X509_get_ext L c first of
                     None \<Rightarrow> False
                   | Some extension \<Rightarrow>
                       \<not> ext_critical extension \<and> ext_data extension = Some der_null) })"

end
