(* ===== verification/Hybrid_Chain.thy ===== *)
theory Hybrid_Chain
  imports Hybrid_X509
begin

text \<open>
  \<open>include/hybrid_chain.h\<close> and \<open>src/hybrid_chain.c\<close>: verification of the self-signed root, of a server
  certificate, of an SM2 encryption certificate, and of the chain root/server, with a report of
  every check. A verifier returns its code together with the \<open>local\<close> report, which the code stores
  through \<open>result\<close> when that pointer is non-null.
\<close>

section \<open>The reports\<close>

record hybrid_cert_verify_result =
  issuer_subject_link_valid :: bool
  validity_valid :: bool
  issuer_ca_constraints_valid :: bool
  subject_constraints_valid :: bool
  eku_valid :: bool
  san_valid :: bool
  key_identifiers_valid :: bool
  pqc_extension_present :: bool
  composite_oids_valid :: bool
  subject_public_key_composite :: bool
  subject_public_key_sm2 :: bool
  composite_public_key_valid :: bool
  signature_format_valid :: bool
  dilithium_valid :: bool
  sm2_valid :: bool
  composite_valid :: bool
  certificate_valid :: bool

definition empty_cert_result :: hybrid_cert_verify_result where
  "empty_cert_result = \<lparr>
     issuer_subject_link_valid = False, validity_valid = False,
     issuer_ca_constraints_valid = False, subject_constraints_valid = False,
     eku_valid = False, san_valid = False, key_identifiers_valid = False,
     pqc_extension_present = False, composite_oids_valid = False,
     subject_public_key_composite = False, subject_public_key_sm2 = False,
     composite_public_key_valid = False, signature_format_valid = False,
     dilithium_valid = False, sm2_valid = False, composite_valid = False,
     certificate_valid = False\<rparr>"

record hybrid_chain_verify_result =
  trust_anchor_configured :: bool
  chain_root :: hybrid_cert_verify_result
  chain_server :: hybrid_cert_verify_result
  chain_valid :: bool

definition empty_chain_result :: hybrid_chain_verify_result where
  "empty_chain_result = \<lparr>trust_anchor_configured = False, chain_root = empty_cert_result,
     chain_server = empty_cert_result, chain_valid = False\<rparr>"

section \<open>The checks\<close>

definition certificate_time_valid ::
  "('w, 'k, 'x, 'n, 'o, 'p, 'e) x509_lib_scheme \<Rightarrow> 'x option \<Rightarrow> ('w, bool) prog" where
  "certificate_time_valid L certificate =
     (case certificate of
        None \<Rightarrow> give False
      | Some c \<Rightarrow> do {
          before \<leftarrow> X509_cmp_current_time L (X509_get0_notBefore L c);
          after \<leftarrow> X509_cmp_current_time L (X509_get0_notAfter L c);
          give (before < 0 \<and> after > 0) })"

definition certificate_constraints_valid ::
  "('w, 'k, 'x, 'n, 'o, 'p, 'e) x509_lib_scheme \<Rightarrow> 'x \<Rightarrow> bool \<Rightarrow> ('w, bool) prog" where
  "certificate_constraints_valid L certificate is_ca = do {
     (constraints, critical) \<leftarrow> ext_d2i_basic_constraints L certificate;
     let basic_valid = (case constraints of None \<Rightarrow> False | Some ca \<Rightarrow> critical = 1 \<and> ca = is_ca);
     (usage, critical) \<leftarrow> ext_d2i_key_usage L certificate;
     let usage_valid =
       (case usage of
          None \<Rightarrow> False
        | Some u \<Rightarrow>
            critical = 1 \<and>
            (if is_ca then
               ASN1_BIT_STRING_get_bit L u 5 \<and> ASN1_BIT_STRING_get_bit L u 6 \<and>
               \<not> ASN1_BIT_STRING_get_bit L u 0 \<and> \<not> ASN1_BIT_STRING_get_bit L u 2 \<and>
               \<not> ASN1_BIT_STRING_get_bit L u 3 \<and> \<not> ASN1_BIT_STRING_get_bit L u 4
             else
               ASN1_BIT_STRING_get_bit L u 0 \<and> \<not> ASN1_BIT_STRING_get_bit L u 2 \<and>
               \<not> ASN1_BIT_STRING_get_bit L u 3 \<and> \<not> ASN1_BIT_STRING_get_bit L u 4 \<and>
               \<not> ASN1_BIT_STRING_get_bit L u 5 \<and> \<not> ASN1_BIT_STRING_get_bit L u 6));
     give (basic_valid \<and> usage_valid) }"

definition encryption_certificate_constraints_valid ::
  "('w, 'k, 'x, 'n, 'o, 'p, 'e) x509_lib_scheme \<Rightarrow> 'x \<Rightarrow> ('w, bool) prog" where
  "encryption_certificate_constraints_valid L certificate = do {
     (constraints, critical) \<leftarrow> ext_d2i_basic_constraints L certificate;
     let basic_valid = (case constraints of None \<Rightarrow> False | Some ca \<Rightarrow> critical = 1 \<and> \<not> ca);
     (usage, critical) \<leftarrow> ext_d2i_key_usage L certificate;
     let usage_valid =
       (case usage of
          None \<Rightarrow> False
        | Some u \<Rightarrow>
            critical = 1 \<and>
            \<not> ASN1_BIT_STRING_get_bit L u 0 \<and> ASN1_BIT_STRING_get_bit L u 2 \<and>
            ASN1_BIT_STRING_get_bit L u 4 \<and>
            \<not> ASN1_BIT_STRING_get_bit L u 5 \<and> \<not> ASN1_BIT_STRING_get_bit L u 6);
     give (basic_valid \<and> usage_valid) }"

text \<open>The two loops with \<open>break\<close>.\<close>

fun any_server_auth :: "('w, 'k, 'x, 'n, 'o, 'p, 'e) x509_lib_scheme \<Rightarrow> 'o list \<Rightarrow> bool" where
  "any_server_auth L [] = False"
| "any_server_auth L (u # us) = (if OBJ_obj2nid L u = NID_server_auth then True else any_server_auth L us)"

definition server_eku_valid ::
  "('w, 'k, 'x, 'n, 'o, 'p, 'e) x509_lib_scheme \<Rightarrow> 'x \<Rightarrow> ('w, bool) prog" where
  "server_eku_valid L certificate = do {
     usage \<leftarrow> ext_d2i_ext_key_usage L certificate;
     give (case usage of None \<Rightarrow> False | Some us \<Rightarrow> any_server_auth L us) }"

fun any_dns_name :: "general_name list \<Rightarrow> bool" where
  "any_dns_name [] = False"
| "any_dns_name (g # gs) =
     (case g of
        GEN_DNS (Some d) \<Rightarrow> if 0 < length d then True else any_dns_name gs
      | _ \<Rightarrow> any_dns_name gs)"

definition server_san_valid ::
  "('w, 'k, 'x, 'n, 'o, 'p, 'e) x509_lib_scheme \<Rightarrow> 'x \<Rightarrow> ('w, bool) prog" where
  "server_san_valid L certificate = do {
     names \<leftarrow> ext_d2i_subject_alt_name L certificate;
     give (case names of None \<Rightarrow> False | Some gs \<Rightarrow> any_dns_name gs) }"

definition subject_key_identifier_present ::
  "('w, 'k, 'x, 'n, 'o, 'p, 'e) x509_lib_scheme \<Rightarrow> 'x \<Rightarrow> ('w, bool) prog" where
  "subject_key_identifier_present L certificate = do {
     identifier \<leftarrow> ext_d2i_subject_key_identifier L certificate;
     give (case identifier of None \<Rightarrow> False | Some i \<Rightarrow> 0 < length i) }"

definition server_key_identifiers_valid ::
  "('w, 'k, 'x, 'n, 'o, 'p, 'e) x509_lib_scheme \<Rightarrow> 'x \<Rightarrow> 'x \<Rightarrow> ('w, bool) prog" where
  "server_key_identifiers_valid L certificate issuer_certificate = do {
     subject_identifier \<leftarrow> ext_d2i_subject_key_identifier L certificate;
     issuer_identifier \<leftarrow> ext_d2i_subject_key_identifier L issuer_certificate;
     authority \<leftarrow> ext_d2i_authority_key_identifier L certificate;
     give (case (subject_identifier, issuer_identifier, authority) of
             (Some si, Some ii, Some (Some keyid)) \<Rightarrow>
               0 < length si \<and> 0 < length ii \<and> length ii = length keyid \<and> ii = keyid
           | _ \<Rightarrow> False) }"

section \<open>The verifiers\<close>

definition verify_certificate_signature ::
  "('w, 'k, 'x, 'n, 'o, 'p, 'e) x509_lib_scheme \<Rightarrow> 'x option \<Rightarrow> 'k hybrid_public_key option \<Rightarrow>
   hybrid_cert_verify_result \<Rightarrow> ('w, bool \<times> hybrid_cert_verify_result) prog" where
  "verify_certificate_signature L certificate issuer_key result = do {
     tbs_der \<leftarrow> hybrid_x509_get_tbs_der L certificate True;
     case tbs_der of
       None \<Rightarrow> give (composite_valid result, result)
     | Some tbs \<Rightarrow>
         (case hybrid_x509_get_signature L certificate True of
            None \<Rightarrow> give (composite_valid result, result)
          | Some sig \<Rightarrow> do {
              (_, composite_result) \<leftarrow> composite_verify_detailed L issuer_key (Buf tbs) (Null 0) (Buf sig);
              let result = result\<lparr>
                signature_format_valid := composite_verify_result.format_valid composite_result,
                dilithium_valid := composite_verify_result.dilithium_valid composite_result,
                sm2_valid := composite_verify_result.sm2_valid composite_result,
                composite_valid := composite_verify_result.composite_valid composite_result\<rparr>;
              give (composite_valid result, result) }) }"

definition hybrid_verify_root_self_signature ::
  "('w, 'k, 'x, 'n, 'o, 'p, 'e) x509_lib_scheme \<Rightarrow> 'x option \<Rightarrow>
   ('w, bool \<times> hybrid_cert_verify_result) prog" where
  "hybrid_verify_root_self_signature L root =
     (case root of
        None \<Rightarrow> give (False, empty_cert_result)
      | Some r \<Rightarrow> do {
          let local = empty_cert_result;
          let local = local\<lparr>issuer_subject_link_valid :=
            X509_NAME_cmp L (X509_get_issuer_name L r) (X509_get_subject_name L r) = 0\<rparr>;
          time \<leftarrow> certificate_time_valid L root;
          let local = local\<lparr>validity_valid := time\<rparr>;
          ca \<leftarrow> certificate_constraints_valid L r True;
          let local = local\<lparr>issuer_ca_constraints_valid := ca, subject_constraints_valid := ca,
            eku_valid := True, san_valid := True\<rparr>;
          ski \<leftarrow> subject_key_identifier_present L r;
          let local = local\<lparr>key_identifiers_valid := ski\<rparr>;
          pqc \<leftarrow> hybrid_x509_has_pqc_extension L root;
          let local = local\<lparr>pqc_extension_present := pqc,
            composite_oids_valid := hybrid_x509_composite_signature_algorithms_valid L root,
            subject_public_key_composite := hybrid_x509_subject_public_key_is_composite L root\<rparr>;
          (key_ok, root_key) \<leftarrow> hybrid_x509_get_composite_public_key L root (Some blank_public_key);
          let local = local\<lparr>composite_public_key_valid := key_ok\<rparr>;
          local \<leftarrow> (if key_ok then do {
                       (_, local) \<leftarrow> verify_certificate_signature L root root_key local;
                       give local }
                     else give local);
          let local = local\<lparr>certificate_valid :=
            issuer_subject_link_valid local \<and> validity_valid local \<and>
            issuer_ca_constraints_valid local \<and> pqc_extension_present local \<and>
            key_identifiers_valid local \<and> composite_oids_valid local \<and>
            subject_public_key_composite local \<and>
            composite_public_key_valid local \<and> composite_valid local\<rparr>;
          give (certificate_valid local, local) })"

definition hybrid_verify_certificate ::
  "('w, 'k, 'x, 'n, 'o, 'p, 'e) x509_lib_scheme \<Rightarrow> 'x option \<Rightarrow> 'x option \<Rightarrow>
   ('w, bool \<times> hybrid_cert_verify_result) prog" where
  "hybrid_verify_certificate L certificate issuer_certificate =
     (case (certificate, issuer_certificate) of
        (Some c, Some ic) \<Rightarrow> do {
          let local = empty_cert_result;
          let local = local\<lparr>issuer_subject_link_valid :=
            X509_NAME_cmp L (X509_get_issuer_name L c) (X509_get_subject_name L ic) = 0\<rparr>;
          time \<leftarrow> certificate_time_valid L certificate;
          let local = local\<lparr>validity_valid := time\<rparr>;
          ca \<leftarrow> certificate_constraints_valid L ic True;
          let local = local\<lparr>issuer_ca_constraints_valid := ca\<rparr>;
          leaf \<leftarrow> certificate_constraints_valid L c False;
          let local = local\<lparr>subject_constraints_valid := leaf\<rparr>;
          eku \<leftarrow> server_eku_valid L c;
          let local = local\<lparr>eku_valid := eku\<rparr>;
          san \<leftarrow> server_san_valid L c;
          let local = local\<lparr>san_valid := san\<rparr>;
          ids \<leftarrow> server_key_identifiers_valid L c ic;
          let local = local\<lparr>key_identifiers_valid := ids\<rparr>;
          pqc \<leftarrow> hybrid_x509_has_pqc_extension L certificate;
          let local = local\<lparr>pqc_extension_present := pqc,
            composite_oids_valid := hybrid_x509_composite_signature_algorithms_valid L certificate,
            subject_public_key_composite := hybrid_x509_subject_public_key_is_composite L certificate\<rparr>;
          (key_ok, issuer_key) \<leftarrow>
            hybrid_x509_get_composite_public_key L issuer_certificate (Some blank_public_key);
          let local = local\<lparr>composite_public_key_valid := key_ok\<rparr>;
          local \<leftarrow> (if key_ok then do {
                       (_, local) \<leftarrow> verify_certificate_signature L certificate issuer_key local;
                       give local }
                     else give local);
          let local = local\<lparr>certificate_valid :=
            issuer_subject_link_valid local \<and> validity_valid local \<and>
            issuer_ca_constraints_valid local \<and>
            subject_constraints_valid local \<and> eku_valid local \<and> san_valid local \<and>
            key_identifiers_valid local \<and> pqc_extension_present local \<and>
            composite_oids_valid local \<and>
            subject_public_key_composite local \<and>
            composite_public_key_valid local \<and> composite_valid local\<rparr>;
          give (certificate_valid local, local) }
      | _ \<Rightarrow> give (False, empty_cert_result))"

definition hybrid_verify_encryption_certificate ::
  "('w, 'k, 'x, 'n, 'o, 'p, 'e) x509_lib_scheme \<Rightarrow> 'x option \<Rightarrow> 'x option \<Rightarrow>
   ('w, bool \<times> hybrid_cert_verify_result) prog" where
  "hybrid_verify_encryption_certificate L certificate issuer_certificate =
     (case (certificate, issuer_certificate) of
        (Some c, Some ic) \<Rightarrow> do {
          let local = empty_cert_result;
          let local = local\<lparr>issuer_subject_link_valid :=
            X509_NAME_cmp L (X509_get_issuer_name L c) (X509_get_subject_name L ic) = 0\<rparr>;
          time \<leftarrow> certificate_time_valid L certificate;
          let local = local\<lparr>validity_valid := time\<rparr>;
          ca \<leftarrow> certificate_constraints_valid L ic True;
          let local = local\<lparr>issuer_ca_constraints_valid := ca\<rparr>;
          leaf \<leftarrow> encryption_certificate_constraints_valid L c;
          let local = local\<lparr>subject_constraints_valid := leaf, eku_valid := True, san_valid := True\<rparr>;
          ids \<leftarrow> server_key_identifiers_valid L c ic;
          let local = local\<lparr>key_identifiers_valid := ids\<rparr>;
          pqc \<leftarrow> hybrid_x509_has_pqc_extension L certificate;
          let local = local\<lparr>pqc_extension_present := pqc,
            composite_oids_valid := hybrid_x509_composite_signature_algorithms_valid L certificate\<rparr>;
          sm2 \<leftarrow> hybrid_x509_subject_public_key_is_sm2 L certificate;
          let local = local\<lparr>subject_public_key_sm2 := sm2\<rparr>;
          (key_ok, issuer_key) \<leftarrow>
            hybrid_x509_get_composite_public_key L issuer_certificate (Some blank_public_key);
          let local = local\<lparr>composite_public_key_valid := key_ok\<rparr>;
          local \<leftarrow> (if key_ok then do {
                       (_, local) \<leftarrow> verify_certificate_signature L certificate issuer_key local;
                       give local }
                     else give local);
          let local = local\<lparr>certificate_valid :=
            issuer_subject_link_valid local \<and> validity_valid local \<and>
            issuer_ca_constraints_valid local \<and>
            subject_constraints_valid local \<and> key_identifiers_valid local \<and>
            pqc_extension_present local \<and> composite_oids_valid local \<and>
            subject_public_key_sm2 local \<and>
            composite_public_key_valid local \<and> composite_valid local\<rparr>;
          give (certificate_valid local, local) }
      | _ \<Rightarrow> give (False, empty_cert_result))"

definition hybrid_verify_chain ::
  "('w, 'k, 'x, 'n, 'o, 'p, 'e) x509_lib_scheme \<Rightarrow> 'x option \<Rightarrow> 'x option \<Rightarrow>
   ('w, bool \<times> hybrid_chain_verify_result) prog" where
  "hybrid_verify_chain L root server = do {
     let local = empty_chain_result\<lparr>trust_anchor_configured := (root \<noteq> None)\<rparr>;
     (_, root_result) \<leftarrow> hybrid_verify_root_self_signature L root;
     (_, server_result) \<leftarrow> hybrid_verify_certificate L server root;
     let local = local\<lparr>chain_root := root_result, chain_server := server_result\<rparr>;
     let local = local\<lparr>chain_valid :=
       trust_anchor_configured local \<and> certificate_valid (chain_root local) \<and>
       certificate_valid (chain_server local)\<rparr>;
     give (chain_valid local, local) }"

end
