(* ===== verification/Tlcp_Adapter.thy ===== *)
theory Tlcp_Adapter
  imports Hybrid_Chain
begin

text \<open>
  \<open>include/tlcp_hybrid_cert_adapter.h\<close> and \<open>src/tlcp_hybrid_cert_adapter.c\<close>: the callback that
  decides, for the certificate list of a TLCP handshake, whether the hybrid policy applies and
  whether the list is valid, and hands the SM2 signing key back to the handshake.
\<close>

section \<open>Results and reports\<close>

datatype tlcp_hybrid_cert_result =
    TLCP_HYBRID_CERT_INVALID | TLCP_HYBRID_CERT_NOT_APPLICABLE | TLCP_HYBRID_CERT_VALID

text \<open>The enumerators' values, which give the results their order.\<close>

fun tlcp_result_code :: "tlcp_hybrid_cert_result \<Rightarrow> int" where
  "tlcp_result_code TLCP_HYBRID_CERT_INVALID = -1"
| "tlcp_result_code TLCP_HYBRID_CERT_NOT_APPLICABLE = 0"
| "tlcp_result_code TLCP_HYBRID_CERT_VALID = 1"

lemma tlcp_result_code_inj [simp]: "tlcp_result_code a = tlcp_result_code b \<longleftrightarrow> a = b"
  by (cases a; cases b) simp_all

instantiation tlcp_hybrid_cert_result :: linorder
begin

definition less_eq_tlcp_hybrid_cert_result where
  "a \<le> b \<longleftrightarrow> tlcp_result_code a \<le> tlcp_result_code b"

definition less_tlcp_hybrid_cert_result where
  "a < b \<longleftrightarrow> tlcp_result_code a < tlcp_result_code b"

instance
  by standard (auto simp: less_eq_tlcp_hybrid_cert_result_def less_tlcp_hybrid_cert_result_def
      dest: order_antisym)

end

lemma tlcp_result_bounds [simp]:
  "TLCP_HYBRID_CERT_INVALID \<le> r" "r \<le> TLCP_HYBRID_CERT_VALID"
  by (cases r; simp add: less_eq_tlcp_hybrid_cert_result_def)+

record tlcp_hybrid_cert_verify_report =
  recognized_composite :: bool
  oid_ok :: bool
  pqc_marker_ok :: bool
  issuer_subject_ok :: bool
  validity_ok :: bool
  constraints_ok :: bool
  key_usage_ok :: bool
  hostname_ok :: bool
  dilithium_ok :: bool
  sm2_ok :: bool
  composite_ok :: bool
  encryption_subject_spki_sm2_ok :: bool
  encryption_oid_ok :: bool
  encryption_pqc_marker_ok :: bool
  encryption_dilithium_ok :: bool
  encryption_sm2_ok :: bool
  encryption_composite_ok :: bool
  encryption_certificate_ok :: bool
  tlcp_dual_identity_ok :: bool
  tlcp_dual_certificate_ok :: bool
  report_chain :: hybrid_chain_verify_result
  report_encryption :: hybrid_cert_verify_result

definition empty_report :: tlcp_hybrid_cert_verify_report where
  "empty_report = \<lparr>
     recognized_composite = False, oid_ok = False, pqc_marker_ok = False,
     issuer_subject_ok = False, validity_ok = False, constraints_ok = False,
     key_usage_ok = False, hostname_ok = False, dilithium_ok = False, sm2_ok = False,
     composite_ok = False, encryption_subject_spki_sm2_ok = False, encryption_oid_ok = False,
     encryption_pqc_marker_ok = False, encryption_dilithium_ok = False,
     encryption_sm2_ok = False, encryption_composite_ok = False,
     encryption_certificate_ok = False, tlcp_dual_identity_ok = False,
     tlcp_dual_certificate_ok = False, report_chain = empty_chain_result,
     report_encryption = empty_cert_result\<rparr>"

record tlcp_hybrid_cert_adapter_config =
  trust_anchor :: buf
  expected_hostname :: "string option"
  last_report :: "tlcp_hybrid_cert_verify_report option"
    \<comment> \<open>the struct behind the pointer, None for a null pointer\<close>

section \<open>Recognising and decoding certificates\<close>

definition composite_oid_der :: bytes where
  "composite_oid_der = [0x06, 0x0a, 0x2b, 0x06, 0x01, 0x04, 0x01, 0x81, 0xfd, 0x59, 0x01, 0x01]"

lemma length_composite_oid_der [simp]: "length composite_oid_der = 12"
  by (simp add: composite_oid_der_def)

text \<open>The loop from index \<open>i\<close> on.\<close>

function oid_scan :: "bytes \<Rightarrow> nat \<Rightarrow> bool" where
  "oid_scan der i =
     (if i \<le> length der - length composite_oid_der then
        (if take (length composite_oid_der) (drop i der) = composite_oid_der then True
         else oid_scan der (i + 1))
      else False)"
  by pat_completeness auto

termination
  by (relation "measure (\<lambda>(der, i). Suc (length der) - i)") auto

declare oid_scan.simps [simp del]

definition contains_composite_oid :: "buf \<Rightarrow> bool" where
  "contains_composite_oid der =
     (if buf_null der \<or> buf_len der < length composite_oid_der then False
      else oid_scan (buf_bytes der) 0)"

definition decode_der_strict ::
  "('w, 'k, 'x, 'n, 'o, 'p, 'e) x509_lib_scheme \<Rightarrow> buf \<Rightarrow> ('w, 'x option) prog" where
  "decode_der_strict L der =
     (if buf_null der \<or> buf_len der = 0 \<or> buf_len der > LONG_MAX then fail
      else attempt (d2i_X509 L (buf_bytes der)) (\<lambda>(certificate, consumed).
        if consumed \<noteq> buf_len der then fail else done_with certificate))"

text \<open>The cursor and the remaining length are one \<open>buf\<close>, unchanged when decoding fails.\<close>

definition decode_next_certificate ::
  "('w, 'k, 'x, 'n, 'o, 'p, 'e) x509_lib_scheme \<Rightarrow> buf \<Rightarrow> ('w, 'x option \<times> buf) prog" where
  "decode_next_certificate L der =
     (if buf_null der \<or> buf_len der = 0 \<or> buf_len der > LONG_MAX then give (None, der)
      else do {
        decoded \<leftarrow> d2i_X509 L (buf_bytes der);
        case decoded of
          None \<Rightarrow> give (None, der)
        | Some (certificate, consumed) \<Rightarrow>
            if consumed = 0 \<or> consumed > buf_len der then give (None, der)
            else give (Some certificate, Buf (drop consumed (buf_bytes der))) })"

definition certificate_mentions_composite ::
  "('w, 'k, 'x, 'n, 'o, 'p, 'e) x509_lib_scheme \<Rightarrow> 'x option \<Rightarrow> ('w, bool) prog" where
  "certificate_mentions_composite L certificate =
     (case certificate of
        None \<Rightarrow> give False
      | Some c \<Rightarrow> do {
          let outer_object = Option.bind (snd (X509_get0_signature L c)) algorithm;
          let inner_object = Option.bind (X509_get0_tbs_sigalg L c) algorithm;
          composite \<leftarrow> OBJ_txt2obj L COMPOSITE_SM2_DILITHIUM_EXPERIMENTAL_OID;
          give (case composite of
                  None \<Rightarrow> False
                | Some obj \<Rightarrow>
                    (case outer_object of None \<Rightarrow> False | Some o1 \<Rightarrow> OBJ_cmp L o1 obj = 0) \<or>
                    (case inner_object of None \<Rightarrow> False | Some o2 \<Rightarrow> OBJ_cmp L o2 obj = 0)) })"

section \<open>Verification\<close>

definition tlcp_hybrid_cert_get_sm2_sign_public_key ::
  "('w, 'k, 'x, 'n, 'o, 'p, 'e) x509_lib_scheme \<Rightarrow> buf \<Rightarrow> bytes option \<Rightarrow>
   ('w, bool \<times> bytes option) prog" where
  "tlcp_hybrid_cert_get_sm2_sign_public_key L cert_der output = do {
     certificate \<leftarrow> decode_der_strict L cert_der;
     if certificate \<noteq> None \<and> hybrid_x509_composite_algorithms_valid L certificate then do {
       (ok, public_key) \<leftarrow>
         hybrid_x509_get_composite_public_key L certificate (Some blank_public_key);
       if ok then give (composite_get_sm2_public_key_octets L public_key output)
       else give (False, output) }
     else give (False, output) }"

text \<open>
  The result is the code, the caller's key array after the call, and the \<open>local\<close> report, which the
  code stores through \<open>report\<close> when that pointer is non-null.
\<close>

definition tlcp_hybrid_cert_verify_der ::
  "('w, 'k, 'x, 'n, 'o, 'p, 'e) x509_lib_scheme \<Rightarrow> buf \<Rightarrow> buf \<Rightarrow> string option \<Rightarrow> bytes option \<Rightarrow>
   ('w, tlcp_hybrid_cert_result \<times> bytes option \<times> tlcp_hybrid_cert_verify_report) prog" where
  "tlcp_hybrid_cert_verify_der L signing_cert_der trust_anchor_der hostname sm2_out = do {
     let local = empty_report;
     let sm2_out = map_option (cleanse SM2_UNCOMPRESSED_PUBLIC_KEY_BYTES) sm2_out;
     signing \<leftarrow> decode_der_strict L signing_cert_der;
     case signing of
       None \<Rightarrow> do {
         let local = local\<lparr>recognized_composite := contains_composite_oid signing_cert_der\<rparr>;
         give (if \<not> recognized_composite local then TLCP_HYBRID_CERT_NOT_APPLICABLE
               else TLCP_HYBRID_CERT_INVALID, sm2_out, local) }
     | Some sc \<Rightarrow> do {
         mentioned \<leftarrow> certificate_mentions_composite L signing;
         let local = local\<lparr>recognized_composite := mentioned\<rparr>;
         if \<not> recognized_composite local
         then give (TLCP_HYBRID_CERT_NOT_APPLICABLE, sm2_out, local)
         else do {
           let local = local\<lparr>oid_ok := hybrid_x509_composite_algorithms_valid L signing\<rparr>;
           marker \<leftarrow> hybrid_x509_has_pqc_extension L signing;
           let local = local\<lparr>pqc_marker_ok := marker\<rparr>;
           root \<leftarrow> decode_der_strict L trust_anchor_der;
           (chain_ok, chain) \<leftarrow> (case root of
              None \<Rightarrow> give (False, report_chain local)
            | Some _ \<Rightarrow> hybrid_verify_chain L root signing);
           let local = local\<lparr>report_chain := chain\<rparr>;
           let local = local\<lparr>
             issuer_subject_ok := issuer_subject_link_valid (chain_server chain),
             validity_ok := validity_valid (chain_root chain) \<and> validity_valid (chain_server chain),
             constraints_ok := issuer_ca_constraints_valid (chain_server chain) \<and>
                               subject_constraints_valid (chain_server chain),
             key_usage_ok := subject_constraints_valid (chain_server chain),
             dilithium_ok := dilithium_valid (chain_server chain),
             sm2_ok := sm2_valid (chain_server chain),
             composite_ok := composite_valid (chain_server chain)\<rparr>;
           host \<leftarrow> (if hostname = None \<or> hostname = Some [] then give True
                    else do { r \<leftarrow> X509_check_host L sc (the hostname); give (r = 1) });
           let local = local\<lparr>hostname_ok := host\<rparr>;
           (chain_ok, sm2_out) \<leftarrow>
             (if \<not> oid_ok local \<or> \<not> pqc_marker_ok local \<or> \<not> chain_ok \<or> \<not> hostname_ok local \<or>
                 sm2_out = None
              then give (False, sm2_out)
              else do {
                (got, sm2_out) \<leftarrow> tlcp_hybrid_cert_get_sm2_sign_public_key L signing_cert_der sm2_out;
                give (chain_ok \<and> got, sm2_out) });
           give (if chain_ok then TLCP_HYBRID_CERT_VALID else TLCP_HYBRID_CERT_INVALID,
                 sm2_out, local) } } }"

text \<open>What is printed to \<open>stderr\<close>: the lines, without their newlines.\<close>

definition report_line :: "string \<Rightarrow> bool \<Rightarrow> string" where
  "report_line label ok = ''[Hybrid Cert] '' @ label @ '': '' @ (if ok then ''PASS'' else ''FAIL'')"

definition tlcp_hybrid_cert_report_print :: "tlcp_hybrid_cert_verify_report option \<Rightarrow> string list" where
  "tlcp_hybrid_cert_report_print report =
     (case report of
        None \<Rightarrow> []
      | Some r \<Rightarrow>
          [report_line ''Composite OID'' (oid_ok r),
           report_line ''PQC marker'' (pqc_marker_ok r),
           report_line ''issuer/subject'' (issuer_subject_ok r),
           report_line ''validity'' (validity_ok r),
           report_line ''constraints'' (constraints_ok r),
           report_line ''hostname'' (hostname_ok r),
           report_line ''Dilithium2'' (dilithium_ok r),
           report_line ''SM2'' (sm2_ok r),
           report_line ''Composite AND'' (composite_ok r),
           report_line ''Encryption SPKI is SM2'' (encryption_subject_spki_sm2_ok r),
           report_line ''Encryption Composite OID'' (encryption_oid_ok r),
           report_line ''Encryption PQC marker'' (encryption_pqc_marker_ok r),
           report_line ''Encryption Dilithium2'' (encryption_dilithium_ok r),
           report_line ''Encryption SM2'' (encryption_sm2_ok r),
           report_line ''Encryption Composite AND'' (encryption_composite_ok r),
           report_line ''Encryption certificate overall'' (encryption_certificate_ok r),
           report_line ''TLCP dual identity'' (tlcp_dual_identity_ok r),
           report_line ''TLCP dual certificate overall'' (tlcp_dual_certificate_ok r)])"

text \<open>
  The part of the callback under \<open>if (result == TLCP_HYBRID_CERT_VALID)\<close>: the checks of the second
  certificate.
\<close>

definition verify_dual_certificate ::
  "('w, 'k, 'x, 'n, 'o, 'p, 'e) x509_lib_scheme \<Rightarrow> 'x option \<Rightarrow> 'x option \<Rightarrow> buf \<Rightarrow>
   tlcp_hybrid_cert_verify_report \<Rightarrow>
   ('w, tlcp_hybrid_cert_result \<times> tlcp_hybrid_cert_verify_report) prog" where
  "verify_dual_certificate L signing encryption anchor local = do {
     root \<leftarrow> decode_der_strict L anchor;
     (ok, result) \<leftarrow> hybrid_verify_encryption_certificate L encryption root;
     let local = local\<lparr>
       encryption_certificate_ok := ok,
       report_encryption := result,
       encryption_subject_spki_sm2_ok := subject_public_key_sm2 result,
       encryption_oid_ok := composite_oids_valid result,
       encryption_pqc_marker_ok := pqc_extension_present result,
       encryption_dilithium_ok := dilithium_valid result,
       encryption_sm2_ok := sm2_valid result,
       encryption_composite_ok := composite_valid result,
       tlcp_dual_identity_ok :=
         (case (signing, encryption) of
            (Some s, Some e) \<Rightarrow>
              X509_NAME_cmp L (X509_get_subject_name L s) (X509_get_subject_name L e) = 0 \<and>
              X509_NAME_cmp L (X509_get_issuer_name L s) (X509_get_issuer_name L e) = 0
          | _ \<Rightarrow> False)\<rparr>;
     let local = local\<lparr>tlcp_dual_certificate_ok :=
       composite_ok local \<and> encryption_certificate_ok local \<and> tlcp_dual_identity_ok local\<rparr>;
     give (if \<not> tlcp_dual_certificate_ok local then TLCP_HYBRID_CERT_INVALID
           else TLCP_HYBRID_CERT_VALID, local) }"

text \<open>
  The callback. The signing certificate is what the first decoding consumed; when that fails its
  length is zero. The results: the code, the caller's key array, the configuration with the struct
  behind \<open>last_report\<close>, and the printed lines.
\<close>

definition tlcp_hybrid_cert_gmssl_verify_callback ::
  "('w, 'k, 'x, 'n, 'o, 'p, 'e) x509_lib_scheme \<Rightarrow> buf \<Rightarrow> bytes option \<Rightarrow>
   tlcp_hybrid_cert_adapter_config option \<Rightarrow> bool \<Rightarrow>
   ('w, tlcp_hybrid_cert_result \<times> bytes option \<times> tlcp_hybrid_cert_adapter_config option \<times> string list) prog" where
  "tlcp_hybrid_cert_gmssl_verify_callback L cert_chain_der sm2_out config verbose =
     (case config of
        None \<Rightarrow> give (TLCP_HYBRID_CERT_INVALID, sm2_out, config, [])
      | Some cfg \<Rightarrow> do {
          (signing, cursor) \<leftarrow> decode_next_certificate L cert_chain_der;
          let signing_der_len = (if signing \<noteq> None then buf_len cert_chain_der - buf_len cursor else 0);
          let signing_der = (if buf_null cert_chain_der then Null signing_der_len
                             else Buf (take signing_der_len (buf_bytes cert_chain_der)));
          (encryption, cursor) \<leftarrow> decode_next_certificate L cursor;
          (result, sm2_out, local) \<leftarrow>
            tlcp_hybrid_cert_verify_der L signing_der (trust_anchor cfg) (expected_hostname cfg) sm2_out;
          (result, local) \<leftarrow>
            (if result = TLCP_HYBRID_CERT_VALID
             then verify_dual_certificate L signing encryption (trust_anchor cfg) local
             else give (result, local));
          let cfg = (if last_report cfg \<noteq> None then cfg\<lparr>last_report := Some local\<rparr> else cfg);
          let printed = (if verbose \<and> result \<noteq> TLCP_HYBRID_CERT_NOT_APPLICABLE
                         then tlcp_hybrid_cert_report_print (Some local) else []);
          give (result, sm2_out, Some cfg, printed) })"

end
