(* ===== verification/Chain_Facts.thy ===== *)
theory Chain_Facts
  imports Tlcp_Adapter
begin

text \<open>
  What the checks of \<open>Hybrid_X509\<close> and \<open>Hybrid_Chain\<close> establish: the abstract specification of an
  acceptable certificate, the contract shared by the three verifiers as a locale with its
  interpretations, and elimination rules for every check.
\<close>

section \<open>Certificate contents\<close>

text \<open>The certificate carries the composite key \<open>k\<close>: its public-key bits, under the composite OID
  without parameters and without unused bits, are the encoding of \<open>k\<close>.\<close>

definition certifies_key ::
  "('w, 'k, 'x, 'n, 'o, 'p, 'e) x509_lib_scheme \<Rightarrow> 'x \<Rightarrow> 'k hybrid_public_key \<Rightarrow> bool" where
  "certifies_key L x k \<longleftrightarrow>
     (\<exists>spki bits octets alg sm2 ret.
        X509_get_X509_PUBKEY L x = Some spki \<and> X509_get0_pubkey_bitstr L x = Some bits \<and>
        flags bits AND 7 = 0 \<and> X509_PUBKEY_get0_param L spki = Some (octets, alg) \<and>
        algorithm_is_composite_and_absent L alg \<and>
        length octets = COMPOSITE_PUBLIC_KEY_BYTES \<and> octets ! DILITHIUM_PUBLIC_KEY_BYTES = 4 \<and>
        0 < ret \<and>
        outcome (EVP_PKEY_fromdata L ''SM2'' (drop DILITHIUM_PUBLIC_KEY_BYTES octets)) (ret, Some sm2) \<and>
        k = \<lparr>sm2_public_key = Some sm2,
             dilithium_public_key = take DILITHIUM_PUBLIC_KEY_BYTES octets\<rparr>)"

text \<open>The certificate's signature bits, without unused bits, are a composite signature with empty
  context over its encoded body, valid in both components under \<open>k\<close>.\<close>

definition signed_under ::
  "('w, 'k, 'x, 'n, 'o, 'p, 'e) x509_lib_scheme \<Rightarrow> 'x \<Rightarrow> 'k hybrid_public_key \<Rightarrow> bool" where
  "signed_under L x k \<longleftrightarrow>
     (\<exists>n tbs value. outcome (i2d_re_X509_tbs L x) (n, tbs) \<and> 0 < n \<and>
        fst (X509_get0_signature L x) = Some value \<and> flags value AND 7 = 0 \<and>
        composite_accepts L k tbs [] (bit_data value))"

text \<open>The bits 0 and 2 to 6 of a key usage; bit 1 is never looked at.\<close>

definition usage_bits ::
  "('w, 'k, 'x, 'n, 'o, 'p, 'e) x509_lib_scheme \<Rightarrow> asn1_bit_string \<Rightarrow> nat list" where
  "usage_bits L u = filter (ASN1_BIT_STRING_get_bit L u) [0, 2, 3, 4, 5, 6]"

definition constrained ::
  "('w, 'k, 'x, 'n, 'o, 'p, 'e) x509_lib_scheme \<Rightarrow> 'x \<Rightarrow> bool \<Rightarrow> nat list list \<Rightarrow> bool" where
  "constrained L x ca allowed \<longleftrightarrow>
     (\<exists>u. outcome (ext_d2i_basic_constraints L x) (Some ca, 1) \<and>
          outcome (ext_d2i_key_usage L x) (Some u, 1) \<and> usage_bits L u \<in> set allowed)"

definition ca_usages :: "nat list list" where "ca_usages = [[5, 6]]"
definition leaf_usages :: "nat list list" where "leaf_usages = [[0]]"
definition encryption_usages :: "nat list list" where "encryption_usages = [[2, 4], [2, 3, 4]]"

definition within_validity ::
  "('w, 'k, 'x, 'n, 'o, 'p, 'e) x509_lib_scheme \<Rightarrow> 'x \<Rightarrow> bool" where
  "within_validity L x \<longleftrightarrow>
     (\<exists>b a. outcome (X509_cmp_current_time L (X509_get0_notBefore L x)) b \<and> b < 0 \<and>
            outcome (X509_cmp_current_time L (X509_get0_notAfter L x)) a \<and> 0 < a)"

definition pqc_marked ::
  "('w, 'k, 'x, 'n, 'o, 'p, 'e) x509_lib_scheme \<Rightarrow> 'x \<Rightarrow> bool" where
  "pqc_marked L x \<longleftrightarrow>
     (\<exists>obj i e. outcome (OBJ_txt2obj L HYBRID_PQC_EXTENSION_OID) (Some obj) \<and>
        X509_get_ext_by_OBJ L x obj (-1) = i \<and> 0 \<le> i \<and> X509_get_ext_by_OBJ L x obj i < 0 \<and>
        X509_get_ext L x i = Some e \<and> \<not> ext_critical e \<and> ext_data e = Some der_null)"

definition key_ids_linked ::
  "('w, 'k, 'x, 'n, 'o, 'p, 'e) x509_lib_scheme \<Rightarrow> 'x \<Rightarrow> 'x \<Rightarrow> bool" where
  "key_ids_linked L x ix \<longleftrightarrow>
     (\<exists>si ki. outcome (ext_d2i_subject_key_identifier L x) (Some si) \<and> si \<noteq> [] \<and>
        outcome (ext_d2i_subject_key_identifier L ix) (Some ki) \<and> ki \<noteq> [] \<and>
        outcome (ext_d2i_authority_key_identifier L x) (Some (Some ki)))"

section \<open>The checks, one by one\<close>

lemma usage_bits_ca: "usage_bits L u \<in> set ca_usages \<longleftrightarrow>
   ASN1_BIT_STRING_get_bit L u 5 \<and> ASN1_BIT_STRING_get_bit L u 6 \<and>
   \<not> ASN1_BIT_STRING_get_bit L u 0 \<and> \<not> ASN1_BIT_STRING_get_bit L u 2 \<and>
   \<not> ASN1_BIT_STRING_get_bit L u 3 \<and> \<not> ASN1_BIT_STRING_get_bit L u 4"
  by (simp add: usage_bits_def ca_usages_def)

lemma usage_bits_leaf: "usage_bits L u \<in> set leaf_usages \<longleftrightarrow>
   ASN1_BIT_STRING_get_bit L u 0 \<and> \<not> ASN1_BIT_STRING_get_bit L u 2 \<and>
   \<not> ASN1_BIT_STRING_get_bit L u 3 \<and> \<not> ASN1_BIT_STRING_get_bit L u 4 \<and>
   \<not> ASN1_BIT_STRING_get_bit L u 5 \<and> \<not> ASN1_BIT_STRING_get_bit L u 6"
  by (simp add: usage_bits_def leaf_usages_def)

lemma usage_bits_encryption: "usage_bits L u \<in> set encryption_usages \<longleftrightarrow>
   \<not> ASN1_BIT_STRING_get_bit L u 0 \<and> ASN1_BIT_STRING_get_bit L u 2 \<and>
   ASN1_BIT_STRING_get_bit L u 4 \<and>
   \<not> ASN1_BIT_STRING_get_bit L u 5 \<and> \<not> ASN1_BIT_STRING_get_bit L u 6"
  by (simp add: usage_bits_def encryption_usages_def)

lemma outcome_certificate_constraints_valid [outcome_elims]:
  assumes "outcome (certificate_constraints_valid L x ca) True"
  obtains "constrained L x ca (if ca then ca_usages else leaf_usages)"
  using assms unfolding certificate_constraints_valid_def constrained_def Let_def
  by (auto elim!: outcome_bind simp: usage_bits_ca usage_bits_leaf split: option.splits if_splits) blast+

lemma outcome_encryption_constraints_valid [outcome_elims]:
  assumes "outcome (encryption_certificate_constraints_valid L x) True"
  obtains "constrained L x False encryption_usages"
  using assms unfolding encryption_certificate_constraints_valid_def constrained_def Let_def
  by (auto elim!: outcome_bind simp: usage_bits_encryption split: option.splits) blast

lemma outcome_certificate_time_valid [outcome_elims]:
  assumes "outcome (certificate_time_valid L (Some x)) True"
  obtains "within_validity L x"
  using assms unfolding certificate_time_valid_def within_validity_def
  by (auto elim!: outcome_bind) blast

lemma outcome_has_pqc_extension [outcome_elims]:
  assumes "outcome (hybrid_x509_has_pqc_extension L (Some x)) True"
  obtains "pqc_marked L x"
  using assms unfolding hybrid_x509_has_pqc_extension_def pqc_marked_def Let_def
  by (auto elim!: outcome_bind simp: not_less not_le split: option.splits if_splits) blast

lemma any_server_auth_iff: "any_server_auth L us \<longleftrightarrow> (\<exists>u\<in>set us. OBJ_obj2nid L u = NID_server_auth)"
  by (induction us) auto

lemma any_dns_name_iff: "any_dns_name gs \<longleftrightarrow> (\<exists>d. d \<noteq> [] \<and> GEN_DNS (Some d) \<in> set gs)"
  by (induction gs) (auto split: general_name.splits option.splits)

lemma outcome_server_eku_valid [outcome_elims]:
  assumes "outcome (server_eku_valid L x) True"
  obtains us u where "outcome (ext_d2i_ext_key_usage L x) (Some us)" and "u \<in> set us"
    and "OBJ_obj2nid L u = NID_server_auth"
  using assms unfolding server_eku_valid_def
  by (auto elim!: outcome_bind simp: any_server_auth_iff split: option.splits)

lemma outcome_server_san_valid [outcome_elims]:
  assumes "outcome (server_san_valid L x) True"
  obtains gs d where "outcome (ext_d2i_subject_alt_name L x) (Some gs)" and "d \<noteq> []"
    and "GEN_DNS (Some d) \<in> set gs"
  using assms unfolding server_san_valid_def
  by (auto elim!: outcome_bind simp: any_dns_name_iff split: option.splits)

lemma outcome_subject_key_identifier_present [outcome_elims]:
  assumes "outcome (subject_key_identifier_present L x) True"
  obtains ki where "outcome (ext_d2i_subject_key_identifier L x) (Some ki)" and "ki \<noteq> []"
  using assms unfolding subject_key_identifier_present_def
  by (auto elim!: outcome_bind split: option.splits)

lemma outcome_server_key_identifiers_valid [outcome_elims]:
  assumes "outcome (server_key_identifiers_valid L x ix) True"
  obtains "key_ids_linked L x ix"
proof -
  from assms obtain si ii au where parts: "outcome (ext_d2i_subject_key_identifier L x) si"
      "outcome (ext_d2i_subject_key_identifier L ix) ii" "outcome (ext_d2i_authority_key_identifier L x) au"
      and "case (si, ii, au) of (Some si, Some ii, Some (Some keyid)) \<Rightarrow>
             0 < length si \<and> 0 < length ii \<and> length ii = length keyid \<and> ii = keyid | _ \<Rightarrow> False"
    unfolding server_key_identifiers_valid_def by (auto elim!: outcome_bind)
  then obtain s k where "si = Some s" "ii = Some k" "au = Some (Some k)" "s \<noteq> []" "k \<noteq> []"
    by (cases si; cases ii; cases au) (auto split: option.splits)
  with parts that show thesis unfolding key_ids_linked_def by blast
qed

lemma outcome_subject_public_key_is_sm2 [outcome_elims]:
  assumes "outcome (hybrid_x509_subject_public_key_is_sm2 L (Some x)) True"
  obtains k where "outcome (X509_get_pubkey L x) (Some k)" and "EVP_PKEY_is_a L k ''SM2''"
  using assms unfolding hybrid_x509_subject_public_key_is_sm2_def
  by (auto elim!: outcome_bind split: option.splits)

lemma outcome_get_composite_public_key:
  assumes "outcome (hybrid_x509_get_composite_public_key L cert key) (True, r)"
  obtains x k where "cert = Some x" and "r = Some k" and "certifies_key L x k"
proof -
  from assms obtain x spki bits octets alg where x: "cert = Some x"
      "X509_get_X509_PUBKEY L x = Some spki" "X509_get0_pubkey_bitstr L x = Some bits"
      "flags bits AND 7 = 0" "X509_PUBKEY_get0_param L spki = Some (octets, alg)"
      "algorithm_is_composite_and_absent L alg"
      and parse: "outcome (composite_parse_public_key L (Buf octets) key) (True, r)"
    unfolding hybrid_x509_get_composite_public_key_def
    by (auto split: if_splits option.splits)
  from parse obtain sm2 ret where "length octets = COMPOSITE_PUBLIC_KEY_BYTES"
      "r = Some \<lparr>sm2_public_key = Some sm2, dilithium_public_key = take DILITHIUM_PUBLIC_KEY_BYTES octets\<rparr>"
      "drop DILITHIUM_PUBLIC_KEY_BYTES octets ! 0 = 4" "0 < ret"
      "outcome (EVP_PKEY_fromdata L ''SM2'' (drop DILITHIUM_PUBLIC_KEY_BYTES octets)) (ret, Some sm2)"
    by (elim outcome_composite_parse_public_key) auto
  with x that show thesis unfolding certifies_key_def by (fastforce simp: sizes)
qed

text \<open>The certified key encodes to the bytes it was read from.\<close>

lemma certifies_key_octets:
  assumes "certifies_key L x k" and "sm2_import_law L"
  obtains spki octets alg where "X509_get_X509_PUBKEY L x = Some spki"
    and "X509_PUBKEY_get0_param L spki = Some (octets, alg)"
    and "algorithm_is_composite_and_absent L alg" and "public_key_octets L k = octets"
proof -
  from assms(1) obtain spki octets alg sm2 ret where x: "X509_get_X509_PUBKEY L x = Some spki"
      "X509_PUBKEY_get0_param L spki = Some (octets, alg)" "algorithm_is_composite_and_absent L alg"
      and len: "length octets = COMPOSITE_PUBLIC_KEY_BYTES" "octets ! DILITHIUM_PUBLIC_KEY_BYTES = 4"
      and imp: "0 < ret"
        "outcome (EVP_PKEY_fromdata L ''SM2'' (drop DILITHIUM_PUBLIC_KEY_BYTES octets)) (ret, Some sm2)"
      and k: "k = \<lparr>sm2_public_key = Some sm2,
        dilithium_public_key = take DILITHIUM_PUBLIC_KEY_BYTES octets\<rparr>"
    unfolding certifies_key_def by blast
  have "length (drop DILITHIUM_PUBLIC_KEY_BYTES octets) = SM2_UNCOMPRESSED_PUBLIC_KEY_BYTES"
      "drop DILITHIUM_PUBLIC_KEY_BYTES octets ! 0 = 4"
    using len by (simp_all add: sizes)
  with assms(2) imp have "sm2_octets L sm2 (drop DILITHIUM_PUBLIC_KEY_BYTES octets)"
    unfolding sm2_import_law_def by blast
  then have "public_key_octets L k = octets"
    by (simp add: k public_key_octets_def sm2_octets_def)
  with x show thesis by (rule that)
qed

lemma outcome_get_tbs_der [outcome_elims]:
  assumes "outcome (hybrid_x509_get_tbs_der L cert outs) (Some tbs)"
  obtains x n where "cert = Some x" and "outcome (i2d_re_X509_tbs L x) (n, tbs)" and "0 < n"
  using assms unfolding hybrid_x509_get_tbs_der_def
  by (auto elim!: outcome_bind simp: not_le split: if_splits option.splits)

lemma get_signature_Some:
  assumes "hybrid_x509_get_signature L (Some x) outs = Some sig"
  shows "\<exists>value. fst (X509_get0_signature L x) = Some value \<and> flags value AND 7 = 0 \<and> bit_data value = sig"
  using assms unfolding hybrid_x509_get_signature_def by (auto split: if_splits option.splits)

section \<open>The signature step\<close>

text \<open>The last check of every verifier, made only when the issuer's key could be read.\<close>

definition signature_step ::
  "('w, 'k, 'x, 'n, 'o, 'p, 'e) x509_lib_scheme \<Rightarrow> 'x option \<Rightarrow> 'x option \<Rightarrow>
   hybrid_cert_verify_result \<Rightarrow> ('w, hybrid_cert_verify_result) prog" where
  "signature_step L certificate issuer_certificate local = do {
     (key_ok, issuer_key) \<leftarrow>
       hybrid_x509_get_composite_public_key L issuer_certificate (Some blank_public_key);
     let local = local\<lparr>composite_public_key_valid := key_ok\<rparr>;
     if key_ok then do {
       (_, local) \<leftarrow> verify_certificate_signature L certificate issuer_key local;
       give local }
     else give local }"

text \<open>The composite flag of a report is the strict AND of the two component flags.\<close>

definition strict_report :: "hybrid_cert_verify_result \<Rightarrow> bool" where
  "strict_report r \<longleftrightarrow>
     (composite_valid r \<longleftrightarrow> signature_format_valid r \<and> dilithium_valid r \<and> sm2_valid r)"

text \<open>The fields that the signature step may write are the last five.\<close>

definition same_checks :: "hybrid_cert_verify_result \<Rightarrow> hybrid_cert_verify_result \<Rightarrow> bool" where
  "same_checks r r' \<longleftrightarrow>
     r'\<lparr>composite_public_key_valid := composite_public_key_valid r,
        signature_format_valid := signature_format_valid r, dilithium_valid := dilithium_valid r,
        sm2_valid := sm2_valid r, composite_valid := composite_valid r\<rparr> = r"

lemma outcome_verify_certificate_signature:
  assumes "outcome (verify_certificate_signature L cert key r) (v, r')"
  obtains "r' = r"
  | x tbs n sig cr where "cert = Some x" and "outcome (i2d_re_X509_tbs L x) (n, tbs)" and "0 < n"
    and "hybrid_x509_get_signature L (Some x) True = Some sig"
    and "outcome (composite_verify_detailed L key (Buf tbs) (Null 0) (Buf sig)) (composite_verify_result.composite_valid cr, cr)"
    and "r' = r\<lparr>signature_format_valid := composite_verify_result.format_valid cr,
                dilithium_valid := composite_verify_result.dilithium_valid cr,
                sm2_valid := composite_verify_result.sm2_valid cr,
                composite_valid := composite_verify_result.composite_valid cr\<rparr>"
proof -
  from assms obtain der where der: "outcome (hybrid_x509_get_tbs_der L cert True) der"
      and rest: "outcome (case der of None \<Rightarrow> give (composite_valid r, r) | Some tbs \<Rightarrow>
         (case hybrid_x509_get_signature L cert True of
            None \<Rightarrow> give (composite_valid r, r)
          | Some sig \<Rightarrow> do {
              (_, cr) \<leftarrow> composite_verify_detailed L key (Buf tbs) (Null 0) (Buf sig);
              let r = r\<lparr>signature_format_valid := composite_verify_result.format_valid cr,
                dilithium_valid := composite_verify_result.dilithium_valid cr,
                sm2_valid := composite_verify_result.sm2_valid cr,
                composite_valid := composite_verify_result.composite_valid cr\<rparr>;
              give (composite_valid r, r) })) (v, r')"
    unfolding verify_certificate_signature_def by (auto elim: outcome_bind)
  show thesis
  proof (cases der)
    case None
    with rest show thesis by (intro that(1)) simp
  next
    case (Some tbs)
    with der obtain x n where x: "cert = Some x" "outcome (i2d_re_X509_tbs L x) (n, tbs)" "0 < n"
      by (auto elim: outcome_get_tbs_der)
    show thesis
    proof (cases "hybrid_x509_get_signature L cert True")
      case None
      with rest Some show thesis by (intro that(1)) simp
    next
      case sig: (Some sig)
      with rest Some obtain u cr where
          out: "outcome (composite_verify_detailed L key (Buf tbs) (Null 0) (Buf sig)) (u, cr)"
          and r': "r' = r\<lparr>signature_format_valid := composite_verify_result.format_valid cr,
                dilithium_valid := composite_verify_result.dilithium_valid cr,
                sm2_valid := composite_verify_result.sm2_valid cr,
                composite_valid := composite_verify_result.composite_valid cr\<rparr>"
        by (auto elim!: outcome_bind simp: Let_def)
      from that(2)[OF x _ _ r'] sig x(1) out outcome_composite_verify_detailed(1)[OF out]
      show thesis by simp
    qed
  qed
qed

lemma outcome_signature_step:
  assumes "outcome (signature_step L cert issuer_cert r) r'" and "\<not> composite_valid r" and "strict_report r"
  shows "same_checks r r'" and "strict_report r'"
    and "composite_valid r' \<Longrightarrow> \<exists>x ix k. cert = Some x \<and> issuer_cert = Some ix \<and>
           composite_public_key_valid r' \<and> certifies_key L ix k \<and> signed_under L x k"
proof -
  have "same_checks r r' \<and> strict_report r' \<and>
    (composite_valid r' \<longrightarrow> (\<exists>x ix k. cert = Some x \<and> issuer_cert = Some ix \<and>
       composite_public_key_valid r' \<and> certifies_key L ix k \<and> signed_under L x k))"
    using assms(1) unfolding signature_step_def
  proof (elim outcome_bind, goal_cases)
    case (1 a)
    obtain ok key where a: "a = (ok, key)" by (cases a)
    show ?case
    proof (cases ok)
      case False
      with 1 a have "r' = r\<lparr>composite_public_key_valid := False\<rparr>" by simp
      then show ?thesis using assms(2,3) by (simp add: strict_report_def same_checks_def)
    next
      case True
      with 1(1) a obtain ix k where ix: "issuer_cert = Some ix" "key = Some k" "certifies_key L ix k"
        by (auto elim: outcome_get_composite_public_key)
      from 1(2) True a obtain v where
        "outcome (verify_certificate_signature L cert key (r\<lparr>composite_public_key_valid := True\<rparr>)) (v, r')"
        by (auto elim!: outcome_bind)
      then show ?thesis
      proof (cases rule: outcome_verify_certificate_signature)
        case 1
        then show ?thesis using assms(2,3) by (simp add: strict_report_def same_checks_def)
      next
        case (2 x tbs n sig cr)
        have "signed_under L x k" if "composite_valid r'"
        proof -
          from that 2 have "composite_verify_result.composite_valid cr" by simp
          from outcome_composite_verify_detailed_valid[OF 2(5) this] ix(2)
          have "composite_accepts L k tbs [] sig" by auto
          with 2 get_signature_Some[OF 2(4)] show ?thesis unfolding signed_under_def by auto
        qed
        moreover have "same_checks r r'"
          unfolding same_checks_def 2(6) by simp
        ultimately show ?thesis
          using 2 ix outcome_composite_verify_detailed[OF 2(5)] by (auto simp: strict_report_def)
      qed
    qed
  qed
  then show "same_checks r r'" and "strict_report r'"
    and "composite_valid r' \<Longrightarrow> \<exists>x ix k. cert = Some x \<and> issuer_cert = Some ix \<and>
           composite_public_key_valid r' \<and> certifies_key L ix k \<and> signed_under L x k"
    by blast+
qed

section \<open>The verifiers as a sequence of checks\<close>

text \<open>What each verifier requires of its report.\<close>

definition root_required :: "hybrid_cert_verify_result \<Rightarrow> bool" where
  "root_required r \<longleftrightarrow>
     issuer_subject_link_valid r \<and> validity_valid r \<and> issuer_ca_constraints_valid r \<and>
     pqc_extension_present r \<and> key_identifiers_valid r \<and> composite_oids_valid r \<and>
     subject_public_key_composite r \<and> composite_public_key_valid r \<and> composite_valid r"

definition server_required :: "hybrid_cert_verify_result \<Rightarrow> bool" where
  "server_required r \<longleftrightarrow>
     issuer_subject_link_valid r \<and> validity_valid r \<and> issuer_ca_constraints_valid r \<and>
     subject_constraints_valid r \<and> eku_valid r \<and> san_valid r \<and> key_identifiers_valid r \<and>
     pqc_extension_present r \<and> composite_oids_valid r \<and> subject_public_key_composite r \<and>
     composite_public_key_valid r \<and> composite_valid r"

definition encryption_required :: "hybrid_cert_verify_result \<Rightarrow> bool" where
  "encryption_required r \<longleftrightarrow>
     issuer_subject_link_valid r \<and> validity_valid r \<and> issuer_ca_constraints_valid r \<and>
     subject_constraints_valid r \<and> key_identifiers_valid r \<and>
     pqc_extension_present r \<and> composite_oids_valid r \<and> subject_public_key_sm2 r \<and>
     composite_public_key_valid r \<and> composite_valid r"

lemmas required_defs = root_required_def server_required_def encryption_required_def

lemma hybrid_verify_root_self_signature_steps:
  "hybrid_verify_root_self_signature L (Some r) = do {
     time \<leftarrow> certificate_time_valid L (Some r);
     ca \<leftarrow> certificate_constraints_valid L r True;
     ski \<leftarrow> subject_key_identifier_present L r;
     pqc \<leftarrow> hybrid_x509_has_pqc_extension L (Some r);
     local \<leftarrow> signature_step L (Some r) (Some r) (empty_cert_result\<lparr>
       issuer_subject_link_valid :=
         X509_NAME_cmp L (X509_get_issuer_name L r) (X509_get_subject_name L r) = 0,
       validity_valid := time, issuer_ca_constraints_valid := ca, subject_constraints_valid := ca,
       eku_valid := True, san_valid := True, key_identifiers_valid := ski,
       pqc_extension_present := pqc,
       composite_oids_valid := hybrid_x509_composite_signature_algorithms_valid L (Some r),
       subject_public_key_composite := hybrid_x509_subject_public_key_is_composite L (Some r)\<rparr>);
     let local = local\<lparr>certificate_valid := root_required local\<rparr>;
     give (certificate_valid local, local) }"
  by (simp add: hybrid_verify_root_self_signature_def signature_step_def
      root_required_def Let_def split_def bind_assoc)

lemma hybrid_verify_certificate_steps:
  "hybrid_verify_certificate L (Some c) (Some ic) = do {
     time \<leftarrow> certificate_time_valid L (Some c);
     ca \<leftarrow> certificate_constraints_valid L ic True;
     leaf \<leftarrow> certificate_constraints_valid L c False;
     eku \<leftarrow> server_eku_valid L c;
     san \<leftarrow> server_san_valid L c;
     ids \<leftarrow> server_key_identifiers_valid L c ic;
     pqc \<leftarrow> hybrid_x509_has_pqc_extension L (Some c);
     local \<leftarrow> signature_step L (Some c) (Some ic) (empty_cert_result\<lparr>
       issuer_subject_link_valid :=
         X509_NAME_cmp L (X509_get_issuer_name L c) (X509_get_subject_name L ic) = 0,
       validity_valid := time, issuer_ca_constraints_valid := ca, subject_constraints_valid := leaf,
       eku_valid := eku, san_valid := san, key_identifiers_valid := ids,
       pqc_extension_present := pqc,
       composite_oids_valid := hybrid_x509_composite_signature_algorithms_valid L (Some c),
       subject_public_key_composite := hybrid_x509_subject_public_key_is_composite L (Some c)\<rparr>);
     let local = local\<lparr>certificate_valid := server_required local\<rparr>;
     give (certificate_valid local, local) }"
  by (simp add: hybrid_verify_certificate_def signature_step_def
      server_required_def Let_def split_def bind_assoc)

lemma hybrid_verify_encryption_certificate_steps:
  "hybrid_verify_encryption_certificate L (Some c) (Some ic) = do {
     time \<leftarrow> certificate_time_valid L (Some c);
     ca \<leftarrow> certificate_constraints_valid L ic True;
     leaf \<leftarrow> encryption_certificate_constraints_valid L c;
     ids \<leftarrow> server_key_identifiers_valid L c ic;
     pqc \<leftarrow> hybrid_x509_has_pqc_extension L (Some c);
     sm2 \<leftarrow> hybrid_x509_subject_public_key_is_sm2 L (Some c);
     local \<leftarrow> signature_step L (Some c) (Some ic) (empty_cert_result\<lparr>
       issuer_subject_link_valid :=
         X509_NAME_cmp L (X509_get_issuer_name L c) (X509_get_subject_name L ic) = 0,
       validity_valid := time, issuer_ca_constraints_valid := ca, subject_constraints_valid := leaf,
       eku_valid := True, san_valid := True, key_identifiers_valid := ids,
       pqc_extension_present := pqc,
       composite_oids_valid := hybrid_x509_composite_signature_algorithms_valid L (Some c),
       subject_public_key_sm2 := sm2\<rparr>);
     let local = local\<lparr>certificate_valid := encryption_required local\<rparr>;
     give (certificate_valid local, local) }"
  by (simp add: hybrid_verify_encryption_certificate_def signature_step_def
      encryption_required_def Let_def split_def bind_assoc)

section \<open>The contract of a verifier\<close>

text \<open>
  The return code is the report's overall flag, that flag is the conjunction \<open>required\<close>, and the
  composite flag is strict. The clients' facts: acceptance needs both components, and one failing
  component rejects.
\<close>

locale certificate_verifier =
  fixes verify :: "('w, bool \<times> hybrid_cert_verify_result) prog"
    and required :: "hybrid_cert_verify_result \<Rightarrow> bool"
  assumes returned: "outcome verify (v, r) \<Longrightarrow> v = certificate_valid r"
    and conjunction: "outcome verify (v, r) \<Longrightarrow> certificate_valid r = required r"
    and strict: "outcome verify (v, r) \<Longrightarrow> strict_report r"
    and needs_composite: "required r \<Longrightarrow> composite_valid r"
begin

lemma accepts_both:
  assumes "outcome verify (True, r)"
  shows "signature_format_valid r \<and> dilithium_valid r \<and> sm2_valid r"
proof -
  from assms have "composite_valid r" using returned conjunction needs_composite by blast
  with strict[OF assms] show ?thesis by (simp add: strict_report_def)
qed

lemma report_run:
  "case run verify w of (v, r) \<Rightarrow>
     v = certificate_valid r \<and> certificate_valid r = required r \<and> strict_report r"
proof (cases "run verify w")
  case (Pair v r)
  then have "outcome verify (v, r)" by (rule run_outcome)
  with Pair show ?thesis using returned conjunction strict by auto
qed

end

lemma empty_cert_result_simps [simp]:
  "\<not> certificate_valid empty_cert_result" "\<not> composite_valid empty_cert_result"
  "\<not> issuer_subject_link_valid empty_cert_result" "\<not> validity_valid empty_cert_result"
  "\<not> signature_format_valid empty_cert_result" "\<not> dilithium_valid empty_cert_result"
  "\<not> sm2_valid empty_cert_result" "strict_report empty_cert_result"
  by (simp_all add: empty_cert_result_def strict_report_def)

lemma strict_report_updates [simp]:
  "strict_report (r\<lparr>certificate_valid := b\<rparr>) = strict_report r"
  by (simp add: strict_report_def)

text \<open>One verifier's report, built by the signature step on the flags \<open>pre\<close> of the other checks.\<close>

lemma signature_step_report:
  assumes "outcome (do { local \<leftarrow> signature_step L cert issuer_cert pre;
       let local = local\<lparr>certificate_valid := required local\<rparr>;
       give (certificate_valid local, local) }) (v, r)"
    and "\<not> composite_valid pre" and "strict_report pre"
    and "\<And>r b. required (r\<lparr>certificate_valid := b\<rparr>) = required r"
  obtains local where "outcome (signature_step L cert issuer_cert pre) local"
    and "r = local\<lparr>certificate_valid := required local\<rparr>" and "v = certificate_valid r"
    and "certificate_valid r = required r" and "strict_report r" and "same_checks pre local"
  using assms(1)
proof (elim outcome_bind)
  fix local
  assume step: "outcome (signature_step L cert issuer_cert pre) local"
    and rest: "outcome (let local = local\<lparr>certificate_valid := required local\<rparr>
                        in give (certificate_valid local, local)) (v, r)"
  from rest have "r = local\<lparr>certificate_valid := required local\<rparr>" "v = certificate_valid r"
    by (simp_all add: Let_def)
  with step assms(4) outcome_signature_step(1,2)[OF step assms(2,3)] show thesis
    by (intro that) simp_all
qed

lemma outcome_verify_root_checked:
  assumes "outcome (hybrid_verify_root_self_signature L (Some x)) (v, r)"
  obtains time ca ski pqc pre local where
    "outcome (certificate_time_valid L (Some x)) time"
    and "outcome (certificate_constraints_valid L x True) ca"
    and "outcome (subject_key_identifier_present L x) ski"
    and "outcome (hybrid_x509_has_pqc_extension L (Some x)) pqc"
    and "pre = empty_cert_result\<lparr>
       issuer_subject_link_valid := X509_NAME_cmp L (X509_get_issuer_name L x) (X509_get_subject_name L x) = 0,
       validity_valid := time, issuer_ca_constraints_valid := ca, subject_constraints_valid := ca,
       eku_valid := True, san_valid := True, key_identifiers_valid := ski, pqc_extension_present := pqc,
       composite_oids_valid := hybrid_x509_composite_signature_algorithms_valid L (Some x),
       subject_public_key_composite := hybrid_x509_subject_public_key_is_composite L (Some x)\<rparr>"
    and "outcome (signature_step L (Some x) (Some x) pre) local"
    and "r = local\<lparr>certificate_valid := root_required local\<rparr>" and "v = certificate_valid r"
    and "certificate_valid r = root_required r" and "strict_report r" and "same_checks pre local"
  using assms unfolding hybrid_verify_root_self_signature_steps
  by (elim outcome_bind signature_step_report)
    (simp_all add: root_required_def strict_report_def empty_cert_result_def)

lemma outcome_verify_server_checked:
  assumes "outcome (hybrid_verify_certificate L (Some x) (Some ix)) (v, r)"
  obtains time ca leaf eku san ids pqc pre local where
    "outcome (certificate_time_valid L (Some x)) time"
    and "outcome (certificate_constraints_valid L ix True) ca"
    and "outcome (certificate_constraints_valid L x False) leaf"
    and "outcome (server_eku_valid L x) eku" and "outcome (server_san_valid L x) san"
    and "outcome (server_key_identifiers_valid L x ix) ids"
    and "outcome (hybrid_x509_has_pqc_extension L (Some x)) pqc"
    and "pre = empty_cert_result\<lparr>
       issuer_subject_link_valid := X509_NAME_cmp L (X509_get_issuer_name L x) (X509_get_subject_name L ix) = 0,
       validity_valid := time, issuer_ca_constraints_valid := ca, subject_constraints_valid := leaf,
       eku_valid := eku, san_valid := san, key_identifiers_valid := ids, pqc_extension_present := pqc,
       composite_oids_valid := hybrid_x509_composite_signature_algorithms_valid L (Some x),
       subject_public_key_composite := hybrid_x509_subject_public_key_is_composite L (Some x)\<rparr>"
    and "outcome (signature_step L (Some x) (Some ix) pre) local"
    and "r = local\<lparr>certificate_valid := server_required local\<rparr>" and "v = certificate_valid r"
    and "certificate_valid r = server_required r" and "strict_report r" and "same_checks pre local"
  using assms unfolding hybrid_verify_certificate_steps
  by (elim outcome_bind signature_step_report)
    (simp_all add: server_required_def strict_report_def empty_cert_result_def)

lemma outcome_verify_encryption_checked:
  assumes "outcome (hybrid_verify_encryption_certificate L (Some x) (Some ix)) (v, r)"
  obtains time ca leaf ids pqc sm2 pre local where
    "outcome (certificate_time_valid L (Some x)) time"
    and "outcome (certificate_constraints_valid L ix True) ca"
    and "outcome (encryption_certificate_constraints_valid L x) leaf"
    and "outcome (server_key_identifiers_valid L x ix) ids"
    and "outcome (hybrid_x509_has_pqc_extension L (Some x)) pqc"
    and "outcome (hybrid_x509_subject_public_key_is_sm2 L (Some x)) sm2"
    and "pre = empty_cert_result\<lparr>
       issuer_subject_link_valid := X509_NAME_cmp L (X509_get_issuer_name L x) (X509_get_subject_name L ix) = 0,
       validity_valid := time, issuer_ca_constraints_valid := ca, subject_constraints_valid := leaf,
       eku_valid := True, san_valid := True, key_identifiers_valid := ids, pqc_extension_present := pqc,
       composite_oids_valid := hybrid_x509_composite_signature_algorithms_valid L (Some x),
       subject_public_key_sm2 := sm2\<rparr>"
    and "outcome (signature_step L (Some x) (Some ix) pre) local"
    and "r = local\<lparr>certificate_valid := encryption_required local\<rparr>" and "v = certificate_valid r"
    and "certificate_valid r = encryption_required r" and "strict_report r" and "same_checks pre local"
  using assms unfolding hybrid_verify_encryption_certificate_steps
  by (elim outcome_bind signature_step_report)
    (simp_all add: encryption_required_def strict_report_def empty_cert_result_def)

text \<open>What each kind of certificate must satisfy, for the key \<open>k\<close> that signs it.\<close>

definition root_accepted ::
  "('w, 'k, 'x, 'n, 'o, 'p, 'e) x509_lib_scheme \<Rightarrow> 'x \<Rightarrow> 'k hybrid_public_key \<Rightarrow> bool" where
  "root_accepted L x k \<longleftrightarrow>
     X509_NAME_cmp L (X509_get_issuer_name L x) (X509_get_subject_name L x) = 0 \<and>
     within_validity L x \<and> constrained L x True ca_usages \<and>
     (\<exists>ki. outcome (ext_d2i_subject_key_identifier L x) (Some ki) \<and> ki \<noteq> []) \<and>
     pqc_marked L x \<and> hybrid_x509_composite_algorithms_valid L (Some x) \<and>
     certifies_key L x k \<and> signed_under L x k"

definition server_accepted ::
  "('w, 'k, 'x, 'n, 'o, 'p, 'e) x509_lib_scheme \<Rightarrow> 'x \<Rightarrow> 'x \<Rightarrow> 'k hybrid_public_key \<Rightarrow> bool" where
  "server_accepted L x ix k \<longleftrightarrow>
     X509_NAME_cmp L (X509_get_issuer_name L x) (X509_get_subject_name L ix) = 0 \<and>
     within_validity L x \<and> constrained L ix True ca_usages \<and> constrained L x False leaf_usages \<and>
     (\<exists>us u. outcome (ext_d2i_ext_key_usage L x) (Some us) \<and> u \<in> set us \<and>
             OBJ_obj2nid L u = NID_server_auth) \<and>
     (\<exists>gs d. outcome (ext_d2i_subject_alt_name L x) (Some gs) \<and> d \<noteq> [] \<and> GEN_DNS (Some d) \<in> set gs) \<and>
     key_ids_linked L x ix \<and> pqc_marked L x \<and> hybrid_x509_composite_algorithms_valid L (Some x) \<and>
     certifies_key L ix k \<and> signed_under L x k"

definition encryption_accepted ::
  "('w, 'k, 'x, 'n, 'o, 'p, 'e) x509_lib_scheme \<Rightarrow> 'x \<Rightarrow> 'x \<Rightarrow> 'k hybrid_public_key \<Rightarrow> bool" where
  "encryption_accepted L x ix k \<longleftrightarrow>
     X509_NAME_cmp L (X509_get_issuer_name L x) (X509_get_subject_name L ix) = 0 \<and>
     within_validity L x \<and> constrained L ix True ca_usages \<and> constrained L x False encryption_usages \<and>
     key_ids_linked L x ix \<and> pqc_marked L x \<and>
     hybrid_x509_composite_signature_algorithms_valid L (Some x) \<and>
     (\<exists>key. outcome (X509_get_pubkey L x) (Some key) \<and> EVP_PKEY_is_a L key ''SM2'') \<and>
     certifies_key L ix k \<and> signed_under L x k"

text \<open>The flags of the final report are those of \<open>pre\<close>, apart from the last five.\<close>

lemma same_checks_fields:
  assumes "same_checks r r'"
  shows "issuer_subject_link_valid r' = issuer_subject_link_valid r" "validity_valid r' = validity_valid r"
    "issuer_ca_constraints_valid r' = issuer_ca_constraints_valid r"
    "subject_constraints_valid r' = subject_constraints_valid r" "eku_valid r' = eku_valid r"
    "san_valid r' = san_valid r" "key_identifiers_valid r' = key_identifiers_valid r"
    "pqc_extension_present r' = pqc_extension_present r" "composite_oids_valid r' = composite_oids_valid r"
    "subject_public_key_composite r' = subject_public_key_composite r"
    "subject_public_key_sm2 r' = subject_public_key_sm2 r"
proof -
  from assms obtain k f d s c where "r = r'\<lparr>composite_public_key_valid := k, signature_format_valid := f,
      dilithium_valid := d, sm2_valid := s, composite_valid := c\<rparr>"
    unfolding same_checks_def by metis
  then show "issuer_subject_link_valid r' = issuer_subject_link_valid r" "validity_valid r' = validity_valid r"
    "issuer_ca_constraints_valid r' = issuer_ca_constraints_valid r"
    "subject_constraints_valid r' = subject_constraints_valid r" "eku_valid r' = eku_valid r"
    "san_valid r' = san_valid r" "key_identifiers_valid r' = key_identifiers_valid r"
    "pqc_extension_present r' = pqc_extension_present r" "composite_oids_valid r' = composite_oids_valid r"
    "subject_public_key_composite r' = subject_public_key_composite r"
    "subject_public_key_sm2 r' = subject_public_key_sm2 r"
    by simp_all
qed

lemma outcome_verify_root [outcome_elims]:
  assumes "outcome (hybrid_verify_root_self_signature L root) (True, r)"
  obtains x k where "root = Some x" and "root_accepted L x k"
proof (cases root)
  case None
  with assms show thesis by (simp add: hybrid_verify_root_self_signature_def)
next
  case (Some x)
  with assms have "outcome (hybrid_verify_root_self_signature L (Some x)) (True, r)" by simp
  then show thesis
  proof (cases rule: outcome_verify_root_checked)
    case (1 time ca ski pqc pre local)
    then have req: "root_required local" "composite_valid local" by (simp_all add: required_defs)
    note fields = same_checks_fields[OF \<open>same_checks pre local\<close>]
    from req have flags: "time" "ca" "ski" "pqc" "hybrid_x509_composite_algorithms_valid L (Some x)"
        "X509_NAME_cmp L (X509_get_issuer_name L x) (X509_get_subject_name L x) = 0"
      unfolding root_required_def fields 1(5) hybrid_x509_composite_algorithms_valid_def by simp_all
    have "\<not> composite_valid pre" "strict_report pre"
      unfolding 1(5) by (simp_all add: strict_report_def empty_cert_result_def)
    from outcome_signature_step(3)[OF 1(6) this req(2)] obtain k
      where "certifies_key L x k" "signed_under L x k" by blast
    with flags 1(1-4) have "root_accepted L x k"
      unfolding root_accepted_def by (auto elim!: outcome_elims)
    with Some show thesis by (rule that)
  qed
qed

lemma outcome_verify_server [outcome_elims]:
  assumes "outcome (hybrid_verify_certificate L cert issuer_cert) (True, r)"
  obtains x ix k where "cert = Some x" and "issuer_cert = Some ix" and "server_accepted L x ix k"
proof (cases "cert = None \<or> issuer_cert = None")
  case True
  with assms show thesis by (auto simp: hybrid_verify_certificate_def split: option.splits)
next
  case False
  then obtain x ix where x: "cert = Some x" "issuer_cert = Some ix" by auto
  with assms have "outcome (hybrid_verify_certificate L (Some x) (Some ix)) (True, r)" by simp
  then show thesis
  proof (cases rule: outcome_verify_server_checked)
    case (1 time ca leaf eku san ids pqc pre local)
    then have req: "server_required local" "composite_valid local" by (simp_all add: required_defs)
    note fields = same_checks_fields[OF \<open>same_checks pre local\<close>]
    from req have flags: "time" "ca" "leaf" "eku" "san" "ids" "pqc"
        "hybrid_x509_composite_algorithms_valid L (Some x)"
        "X509_NAME_cmp L (X509_get_issuer_name L x) (X509_get_subject_name L ix) = 0"
      unfolding server_required_def fields 1(8) hybrid_x509_composite_algorithms_valid_def by simp_all
    have "\<not> composite_valid pre" "strict_report pre"
      unfolding 1(8) by (simp_all add: strict_report_def empty_cert_result_def)
    from outcome_signature_step(3)[OF 1(9) this req(2)] obtain k
      where "certifies_key L ix k" "signed_under L x k" by blast
    with flags 1(1-7) have "server_accepted L x ix k"
      unfolding server_accepted_def by (auto elim!: outcome_elims)
    with x show thesis by (rule that)
  qed
qed

lemma outcome_verify_encryption [outcome_elims]:
  assumes "outcome (hybrid_verify_encryption_certificate L cert issuer_cert) (True, r)"
  obtains x ix k where "cert = Some x" and "issuer_cert = Some ix" and "encryption_accepted L x ix k"
proof (cases "cert = None \<or> issuer_cert = None")
  case True
  with assms show thesis by (auto simp: hybrid_verify_encryption_certificate_def split: option.splits)
next
  case False
  then obtain x ix where x: "cert = Some x" "issuer_cert = Some ix" by auto
  with assms have "outcome (hybrid_verify_encryption_certificate L (Some x) (Some ix)) (True, r)" by simp
  then show thesis
  proof (cases rule: outcome_verify_encryption_checked)
    case (1 time ca leaf ids pqc sm2 pre local)
    then have req: "encryption_required local" "composite_valid local" by (simp_all add: required_defs)
    note fields = same_checks_fields[OF \<open>same_checks pre local\<close>]
    from req have flags: "time" "ca" "leaf" "ids" "pqc" "sm2"
        "hybrid_x509_composite_signature_algorithms_valid L (Some x)"
        "X509_NAME_cmp L (X509_get_issuer_name L x) (X509_get_subject_name L ix) = 0"
      unfolding encryption_required_def fields 1(7) by simp_all
    have "\<not> composite_valid pre" "strict_report pre"
      unfolding 1(7) by (simp_all add: strict_report_def empty_cert_result_def)
    from outcome_signature_step(3)[OF 1(8) this req(2)] obtain k
      where "certifies_key L ix k" "signed_under L x k" by blast
    with flags 1(1-6) have "encryption_accepted L x ix k"
      unfolding encryption_accepted_def by (auto elim!: outcome_elims)
    with x show thesis by (rule that)
  qed
qed

interpretation root_verifier: certificate_verifier
  "hybrid_verify_root_self_signature L root" root_required
  for L :: "('w, 'k, 'x, 'n, 'o, 'p, 'e) x509_lib_scheme" and root
proof unfold_locales
  fix v r assume out: "outcome (hybrid_verify_root_self_signature L root) (v, r)"
  have "v = certificate_valid r \<and> certificate_valid r = root_required r \<and> strict_report r"
  proof (cases root)
    case None
    with out show ?thesis
      by (simp add: hybrid_verify_root_self_signature_def root_required_def)
  next
    case (Some x)
    with out show ?thesis by (auto elim: outcome_verify_root_checked)
  qed
  then show "v = certificate_valid r" "certificate_valid r = root_required r" "strict_report r"
    by blast+
qed (simp add: root_required_def)

interpretation server_verifier: certificate_verifier
  "hybrid_verify_certificate L cert issuer_cert" server_required
  for L :: "('w, 'k, 'x, 'n, 'o, 'p, 'e) x509_lib_scheme" and cert issuer_cert
proof unfold_locales
  fix v r assume out: "outcome (hybrid_verify_certificate L cert issuer_cert) (v, r)"
  have "v = certificate_valid r \<and> certificate_valid r = server_required r \<and> strict_report r"
  proof (cases "cert = None \<or> issuer_cert = None")
    case True
    with out show ?thesis
      by (auto simp: hybrid_verify_certificate_def server_required_def split: option.splits)
  next
    case False
    with out show ?thesis by (auto elim: outcome_verify_server_checked)
  qed
  then show "v = certificate_valid r" "certificate_valid r = server_required r" "strict_report r"
    by blast+
qed (simp add: server_required_def)

interpretation encryption_verifier: certificate_verifier
  "hybrid_verify_encryption_certificate L cert issuer_cert" encryption_required
  for L :: "('w, 'k, 'x, 'n, 'o, 'p, 'e) x509_lib_scheme" and cert issuer_cert
proof unfold_locales
  fix v r assume out: "outcome (hybrid_verify_encryption_certificate L cert issuer_cert) (v, r)"
  have "v = certificate_valid r \<and> certificate_valid r = encryption_required r \<and> strict_report r"
  proof (cases "cert = None \<or> issuer_cert = None")
    case True
    with out show ?thesis
      by (auto simp: hybrid_verify_encryption_certificate_def encryption_required_def split: option.splits)
  next
    case False
    with out show ?thesis by (auto elim: outcome_verify_encryption_checked)
  qed
  then show "v = certificate_valid r" "certificate_valid r = encryption_required r" "strict_report r"
    by blast+
qed (simp add: encryption_required_def)

section \<open>The chain\<close>

lemma certifies_key_dilithium:
  "certifies_key L x k \<Longrightarrow> certifies_key L x k' \<Longrightarrow> dilithium_public_key k = dilithium_public_key k'"
  by (auto simp: certifies_key_def)

lemma outcome_hybrid_verify_chain:
  assumes "outcome (hybrid_verify_chain L root server) (v, r)"
  shows "v = chain_valid r"
    and "chain_valid r \<longleftrightarrow> certificate_valid (chain_root r) \<and> certificate_valid (chain_server r)"
    and "trust_anchor_configured r \<longleftrightarrow> root \<noteq> None"
    and "outcome (hybrid_verify_root_self_signature L root) (certificate_valid (chain_root r), chain_root r)"
    and "outcome (hybrid_verify_certificate L server root) (certificate_valid (chain_server r), chain_server r)"
proof -
  from assms obtain v1 r1 v2 r2 where
      root: "outcome (hybrid_verify_root_self_signature L root) (v1, r1)"
      and server: "outcome (hybrid_verify_certificate L server root) (v2, r2)"
      and r: "v = chain_valid r" "r = empty_chain_result\<lparr>trust_anchor_configured := root \<noteq> None,
        chain_root := r1, chain_server := r2,
        chain_valid := root \<noteq> None \<and> certificate_valid r1 \<and> certificate_valid r2\<rparr>"
    unfolding hybrid_verify_chain_def by (auto elim!: outcome_bind simp: Let_def)
  have "certificate_valid r1 \<Longrightarrow> root \<noteq> None"
    using root root_verifier.returned[OF root] by (auto elim: outcome_verify_root)
  with r root server root_verifier.returned[OF root] server_verifier.returned[OF server]
  show "v = chain_valid r"
    and "chain_valid r \<longleftrightarrow> certificate_valid (chain_root r) \<and> certificate_valid (chain_server r)"
    and "trust_anchor_configured r \<longleftrightarrow> root \<noteq> None"
    and "outcome (hybrid_verify_root_self_signature L root) (certificate_valid (chain_root r), chain_root r)"
    and "outcome (hybrid_verify_certificate L server root) (certificate_valid (chain_server r), chain_server r)"
    by auto
qed

lemma outcome_hybrid_verify_chain_True [outcome_elims]:
  assumes "outcome (hybrid_verify_chain L root server) (True, r)"
  obtains x ix k k' where "root = Some ix" and "server = Some x"
    and "root_accepted L ix k'" and "server_accepted L x ix k"
    and "dilithium_public_key k = dilithium_public_key k'"
proof -
  note parts = outcome_hybrid_verify_chain[OF assms]
  from parts have root: "outcome (hybrid_verify_root_self_signature L root) (True, chain_root r)"
    and server: "outcome (hybrid_verify_certificate L server root) (True, chain_server r)"
    by simp_all
  from root obtain ix k' where ix: "root = Some ix" "root_accepted L ix k'" by (rule outcome_verify_root)
  from server ix(1) obtain x k where "server = Some x" "server_accepted L x ix k"
    by (auto elim: outcome_verify_server)
  moreover from this ix have "dilithium_public_key k = dilithium_public_key k'"
    by (auto simp: root_accepted_def server_accepted_def intro: certifies_key_dilithium)
  ultimately show thesis using ix that by blast
qed

end
