(* ===== verification/X509_Facts.thy ===== *)
theory X509_Facts
  imports Hybrid_X509
begin

text \<open>
  What the issuing functions of \<open>Hybrid_X509\<close> produce: the extension profiles, the body and the
  signed certificate, as predicates over the library calls that built them.
\<close>

section \<open>Parts\<close>

definition composite_object :: "('w, 'k, 'x, 'n, 'o, 'p, 'e) x509_lib_scheme \<Rightarrow> 'o \<Rightarrow> bool" where
  "composite_object L obj \<longleftrightarrow> outcome (OBJ_txt2obj L COMPOSITE_SM2_DILITHIUM_EXPERIMENTAL_OID) (Some obj)"

definition composite_algor :: "('w, 'k, 'x, 'n, 'o, 'p, 'e) x509_lib_scheme \<Rightarrow> 'o x509_algor \<Rightarrow> bool" where
  "composite_algor L a \<longleftrightarrow>
     (\<exists>obj. composite_object L obj \<and> a = \<lparr>algorithm = Some obj, parameter_type = V_ASN1_UNDEF\<rparr>)"

definition built_name :: "('w, 'k, 'x, 'n, 'o, 'p, 'e) x509_lib_scheme \<Rightarrow> string \<Rightarrow> 'n \<Rightarrow> bool" where
  "built_name L cn n \<longleftrightarrow>
     cn \<noteq> [] \<and>
     (\<exists>n0 n1 n2. outcome (X509_NAME_new L) (Some n0) \<and>
        outcome (X509_NAME_add_entry_by_txt L n0 ''C'' ''ASC'' ''CN'') (Some n1) \<and>
        outcome (X509_NAME_add_entry_by_txt L n1 ''O'' ''ASC'' ''Experimental Hybrid PKI'') (Some n2) \<and>
        outcome (X509_NAME_add_entry_by_txt L n2 ''CN'' ''UTF8'' cn) (Some n))"

definition composite_spki ::
  "('w, 'k, 'x, 'n, 'o, 'p, 'e) x509_lib_scheme \<Rightarrow> 'k hybrid_public_key \<Rightarrow> 'p \<Rightarrow> bool" where
  "composite_spki L key spki \<longleftrightarrow>
     exportable L key \<and>
     (\<exists>obj. composite_object L obj \<and>
        outcome (X509_PUBKEY_set0_param L obj V_ASN1_UNDEF (public_key_octets L key)) (Some spki))"

definition sm2_spki :: "('w, 'k, 'x, 'n, 'o, 'p, 'e) x509_lib_scheme \<Rightarrow> 'k \<Rightarrow> 'p \<Rightarrow> bool" where
  "sm2_spki L k spki \<longleftrightarrow>
     (\<exists>alg curve p. outcome (OBJ_txt2obj L ''1.2.840.10045.2.1'') (Some alg) \<and>
        outcome (OBJ_txt2obj L ''1.2.156.10197.1.301'') (Some curve) \<and> sm2_octets L k p \<and>
        outcome (X509_PUBKEY_set0_param L alg (V_ASN1_OBJECT curve) p) (Some spki))"

definition composite_key_id ::
  "('w, 'k, 'x, 'n, 'o, 'p, 'e) x509_lib_scheme \<Rightarrow> 'k hybrid_public_key \<Rightarrow> bytes \<Rightarrow> bool" where
  "composite_key_id L key d \<longleftrightarrow>
     exportable L key \<and> outcome (EVP_Digest L ''SHA256'' (public_key_octets L key)) (True, d) \<and> length d = 32"

definition sm2_key_id :: "('w, 'k, 'x, 'n, 'o, 'p, 'e) x509_lib_scheme \<Rightarrow> 'k \<Rightarrow> bytes \<Rightarrow> bool" where
  "sm2_key_id L k d \<longleftrightarrow>
     (\<exists>p. sm2_octets L k p \<and> outcome (EVP_Digest L ''SHA256'' p) (True, d) \<and> length d = 32)"

definition conf_ext ::
  "('w, 'k, 'x, 'n, 'o, 'p, 'e) x509_lib_scheme \<Rightarrow> nid \<Rightarrow> string \<Rightarrow> 'o x509_extension \<Rightarrow> bool" where
  "conf_ext L nid value e \<longleftrightarrow> outcome (X509V3_EXT_conf_nid L nid value) (Some e)"

definition ski_ext ::
  "('w, 'k, 'x, 'n, 'o, 'p, 'e) x509_lib_scheme \<Rightarrow> bytes \<Rightarrow> 'o x509_extension \<Rightarrow> bool" where
  "ski_ext L d e \<longleftrightarrow> outcome (X509V3_EXT_i2d_octets L NID_subject_key_identifier d) (Some e)"

definition aki_ext ::
  "('w, 'k, 'x, 'n, 'o, 'p, 'e) x509_lib_scheme \<Rightarrow> bytes \<Rightarrow> 'o x509_extension \<Rightarrow> bool" where
  "aki_ext L d e \<longleftrightarrow> outcome (X509V3_EXT_i2d_authority L d) (Some e)"

definition pqc_ext :: "('w, 'k, 'x, 'n, 'o, 'p, 'e) x509_lib_scheme \<Rightarrow> 'o x509_extension \<Rightarrow> bool" where
  "pqc_ext L e \<longleftrightarrow>
     (\<exists>obj. outcome (OBJ_txt2obj L HYBRID_PQC_EXTENSION_OID) (Some obj) \<and>
            outcome (X509_EXTENSION_create_by_OBJ L obj False der_null) (Some e))"

lemma outcome_set_composite_algorithm [outcome_elims]:
  assumes "outcome (set_composite_algorithm L) (Some a)"
  obtains "composite_algor L a"
  using assms unfolding set_composite_algorithm_def composite_algor_def composite_object_def
  by (auto elim!: outcome_elims)

lemma outcome_make_name [outcome_elims]:
  assumes "outcome (make_name L cn) (Some n)"
  obtains s where "cn = Some s" and "built_name L s n"
  using assms unfolding make_name_def built_name_def
  by (auto elim!: outcome_elims split: option.splits if_splits)

lemma outcome_push_extension [outcome_elims]:
  assumes "outcome (push_extension L exts e) (Some exts')"
  obtains e' where "e = Some e'" and "exts' = exts @ [e']"
  using assms unfolding push_extension_def by (auto elim!: outcome_elims split: option.splits)

lemma outcome_add_conf_extension [outcome_elims]:
  assumes "outcome (add_conf_extension L nid value exts) (Some exts')"
  obtains e where "conf_ext L nid value e" and "exts' = exts @ [e]"
  using assms unfolding add_conf_extension_def conf_ext_def by (auto elim!: outcome_elims)

lemma outcome_add_pqc_marker [outcome_elims]:
  assumes "outcome (add_pqc_marker L exts) (Some exts')"
  obtains e where "pqc_ext L e" and "exts' = exts @ [e]"
  using assms unfolding add_pqc_marker_def pqc_ext_def
  by (auto elim!: outcome_elims split: option.splits) blast

lemma outcome_serialize_octets:
  assumes "outcome (composite_serialize_public_key L key True) (Some b)"
  obtains k where "key = Some k" and "exportable L k" and "b = public_key_octets L k"
proof -
  from assms obtain k sm2 p where k: "key = Some k" "sm2_public_key k = Some sm2" "sm2_octets L sm2 p"
      and b: "b = dilithium_public_key k @ p"
    by (rule outcome_composite_serialize_public_key)
  then have "exportable L k" "b = public_key_octets L k"
    by (auto simp: exportable_def public_key_octets_def sm2_octets_def)
  with k(1) show thesis by (rule that)
qed

lemma outcome_compute_key_identifier [outcome_elims]:
  assumes "outcome (compute_key_identifier L key) (Some d)"
  obtains k where "key = Some k" and "composite_key_id L k d"
  using assms unfolding compute_key_identifier_def composite_key_id_def
  by (auto elim!: outcome_attempt_Some outcome_bind outcome_serialize_octets split: if_splits)

lemma outcome_push_key_identifier [outcome_elims]:
  assumes "outcome (push_key_identifier L d exts) (Some exts')"
  obtains e where "ski_ext L d e" and "exts' = exts @ [e]"
  using assms unfolding push_key_identifier_def ski_ext_def by (auto elim!: outcome_elims)

lemma outcome_add_subject_key_identifier [outcome_elims]:
  assumes "outcome (add_subject_key_identifier L key exts) (Some exts')"
  obtains k d e where "key = Some k" and "composite_key_id L k d" and "ski_ext L d e" and "exts' = exts @ [e]"
  using assms unfolding add_subject_key_identifier_def by (auto elim!: outcome_elims)

lemma outcome_compute_sm2_key_identifier [outcome_elims]:
  assumes "outcome (compute_sm2_key_identifier L key) (Some d)"
  obtains k where "key = Some k" and "sm2_key_id L k d"
  using assms unfolding compute_sm2_key_identifier_def sm2_key_id_def
  by (auto elim!: outcome_bind serialize_sm2_public_key_True split: prod.splits if_splits) blast

lemma outcome_add_sm2_subject_key_identifier [outcome_elims]:
  assumes "outcome (add_sm2_subject_key_identifier L key exts) (Some exts')"
  obtains k d e where "key = Some k" and "sm2_key_id L k d" and "ski_ext L d e" and "exts' = exts @ [e]"
  using assms unfolding add_sm2_subject_key_identifier_def by (auto elim!: outcome_elims)

lemma outcome_add_authority_key_identifier [outcome_elims]:
  assumes "outcome (add_authority_key_identifier L key exts) (Some exts')"
  obtains k d e where "key = Some k" and "composite_key_id L k d" and "aki_ext L d e" and "exts' = exts @ [e]"
  using assms unfolding add_authority_key_identifier_def aki_ext_def by (auto elim!: outcome_elims)

lemma outcome_make_composite_spki [outcome_elims]:
  assumes "outcome (make_composite_spki L key) (Some spki)"
  obtains k where "key = Some k" and "composite_spki L k spki"
  using assms unfolding make_composite_spki_def composite_spki_def composite_object_def
  by (auto elim!: outcome_attempt_Some outcome_bind outcome_ensure_Some outcome_serialize_octets
      split: if_splits option.splits) blast

lemma outcome_make_sm2_spki [outcome_elims]:
  assumes "outcome (make_sm2_spki L key) (Some spki)"
  obtains k where "key = Some k" and "sm2_spki L k spki"
proof -
  from assms obtain k alg curve p where k: "key = Some k"
      "outcome (OBJ_txt2obj L ''1.2.840.10045.2.1'') (Some alg)"
      "outcome (OBJ_txt2obj L ''1.2.156.10197.1.301'') (Some curve)"
      and p: "serialize_sm2_public_key L (Some k) (replicate SM2_UNCOMPRESSED_PUBLIC_KEY_BYTES 0) = (True, p)"
      and set0: "outcome (X509_PUBKEY_set0_param L alg (V_ASN1_OBJECT curve) p) (Some spki)"
    unfolding make_sm2_spki_def
    by (auto elim!: outcome_bind split: if_splits option.splits prod.splits)
  from p have "sm2_octets L k p" by (simp add: serialize_sm2_public_key_fst)
  with k set0 that show thesis unfolding sm2_spki_def by blast
qed

section \<open>Profiles\<close>

definition root_extensions ::
  "('w, 'k, 'x, 'n, 'o, 'p, 'e) x509_lib_scheme \<Rightarrow> 'k hybrid_public_key \<Rightarrow> 'o x509_extension list \<Rightarrow> bool" where
  "root_extensions L key exts \<longleftrightarrow>
     (\<exists>bc ku ski mark d. exts = [bc, ku, ski, mark] \<and>
        conf_ext L NID_basic_constraints ''critical,CA:TRUE'' bc \<and>
        conf_ext L NID_key_usage ''critical,keyCertSign,cRLSign'' ku \<and>
        composite_key_id L key d \<and> ski_ext L d ski \<and> pqc_ext L mark)"

definition server_extensions ::
  "('w, 'k, 'x, 'n, 'o, 'p, 'e) x509_lib_scheme \<Rightarrow> 'k hybrid_public_key \<Rightarrow> 'k hybrid_public_key \<Rightarrow>
   string \<Rightarrow> 'o x509_extension list \<Rightarrow> bool" where
  "server_extensions L ca key dns exts \<longleftrightarrow>
     dns \<noteq> [] \<and> length dns < 296 \<and>
     (\<exists>bc ku eku san ski aki mark d ad. exts = [bc, ku, eku, san, ski, aki, mark] \<and>
        conf_ext L NID_basic_constraints ''critical,CA:FALSE'' bc \<and>
        conf_ext L NID_key_usage ''critical,digitalSignature'' ku \<and>
        conf_ext L NID_ext_key_usage ''serverAuth'' eku \<and>
        conf_ext L NID_subject_alt_name (''DNS:'' @ dns) san \<and>
        composite_key_id L key d \<and> ski_ext L d ski \<and>
        composite_key_id L ca ad \<and> aki_ext L ad aki \<and> pqc_ext L mark)"

definition encryption_extensions ::
  "('w, 'k, 'x, 'n, 'o, 'p, 'e) x509_lib_scheme \<Rightarrow> 'k hybrid_public_key \<Rightarrow> 'k \<Rightarrow>
   'o x509_extension list \<Rightarrow> bool" where
  "encryption_extensions L ca key exts \<longleftrightarrow>
     (\<exists>bc ku ski aki mark d ad. exts = [bc, ku, ski, aki, mark] \<and>
        conf_ext L NID_basic_constraints ''critical,CA:FALSE'' bc \<and>
        conf_ext L NID_key_usage ''critical,keyEncipherment,keyAgreement'' ku \<and>
        sm2_key_id L key d \<and> ski_ext L d ski \<and>
        composite_key_id L ca ad \<and> aki_ext L ad aki \<and> pqc_ext L mark)"

text \<open>
  A version 3 body with a composite signature algorithm, valid from a minute before the call for a
  year after it, whose issuer is a copy of \<open>issuer_name\<close>.
\<close>

definition tbs_frame ::
  "('w, 'k, 'x, 'n, 'o, 'p, 'e) x509_lib_scheme \<Rightarrow> 'n \<Rightarrow> string \<Rightarrow> int \<Rightarrow>
   ('n, 'o, 'p) composite_tbs_certificate \<Rightarrow> bool" where
  "tbs_frame L issuer_name cn serial tbs \<longleftrightarrow>
     version tbs = Some 2 \<and> serial_number tbs = serial \<and> composite_algor L (signature tbs) \<and>
     outcome (X509_NAME_dup L issuer_name) (Some (issuer tbs)) \<and> built_name L cn (subject tbs) \<and>
     outcome (X509_gmtime_adj L (-60)) (Some (not_before tbs)) \<and>
     outcome (X509_gmtime_adj L 31536000) (Some (not_after tbs))"

lemma outcome_build_root_extensions [outcome_elims]:
  assumes "outcome (build_root_extensions L key) (Some exts)"
  obtains k where "key = Some k" and "root_extensions L k exts"
  using assms unfolding build_root_extensions_def root_extensions_def
  by (auto elim!: outcome_elims) blast

lemma outcome_build_server_extensions [outcome_elims]:
  assumes "outcome (build_server_extensions L ca key dns) (Some exts)"
  obtains c k d where "ca = Some c" and "key = Some k" and "dns = Some d"
    and "server_extensions L c k d exts"
proof (cases dns)
  case None
  with assms show thesis by (simp add: build_server_extensions_def)
next
  case (Some d)
  with assms obtain c k bc ku eku san ski aki mark i j where keys: "ca = Some c" "key = Some k"
      and "d \<noteq> []" "length d < 296"
      and "conf_ext L NID_basic_constraints ''critical,CA:FALSE'' bc"
      and "conf_ext L NID_key_usage ''critical,digitalSignature'' ku"
      and "conf_ext L NID_ext_key_usage ''serverAuth'' eku"
      and "conf_ext L NID_subject_alt_name (''DNS:'' @ d) san"
      and "composite_key_id L k i" "ski_ext L i ski" "composite_key_id L c j" "aki_ext L j aki"
      and "pqc_ext L mark" "exts = [bc, ku, eku, san, ski, aki, mark]"
    unfolding build_server_extensions_def Let_def
    by (auto elim!: outcome_elims split: if_splits)
  then have "server_extensions L c k d exts"
    unfolding server_extensions_def by (intro conjI exI) assumption+
  with keys Some show thesis by (rule that)
qed

lemma outcome_build_encryption_extensions [outcome_elims]:
  assumes "outcome (build_encryption_server_extensions L ca key) (Some exts)"
  obtains c k where "ca = Some c" and "key = Some k" and "encryption_extensions L c k exts"
proof -
  from assms obtain c k bc ku ski aki mark i j where keys: "ca = Some c" "key = Some k"
      and "conf_ext L NID_basic_constraints ''critical,CA:FALSE'' bc"
      and "conf_ext L NID_key_usage ''critical,keyEncipherment,keyAgreement'' ku"
      and "sm2_key_id L k i" "ski_ext L i ski" "composite_key_id L c j" "aki_ext L j aki"
      and "pqc_ext L mark" "exts = [bc, ku, ski, aki, mark]"
    unfolding build_encryption_server_extensions_def by (auto elim!: outcome_elims)
  then have "encryption_extensions L c k exts"
    unfolding encryption_extensions_def by (intro conjI exI) assumption+
  with keys show thesis by (rule that)
qed

lemma outcome_fill_tbs:
  assumes "outcome (fill_tbs L tbs0 issuer_copy subject_name spki serial build) (Some tbs)"
    and "outcome (X509_NAME_dup L issuer_name) (Some issuer_copy)" and "built_name L cn subject_name"
  obtains exts where "outcome build (Some exts)" and "extensions tbs = Some exts"
    and "subject_public_key_info tbs = spki" and "tbs_frame L issuer_name cn serial tbs"
  using assms unfolding fill_tbs_def tbs_frame_def
  by (auto elim!: outcome_elims)

lemma outcome_make_tbs:
  assumes "outcome (make_tbs L key issuer_name cn serial is_ca ca dns) (Some tbs)"
  obtains k s exts where "key = Some k" and "cn = Some s"
    and "tbs_frame L issuer_name s serial tbs" and "composite_spki L k (subject_public_key_info tbs)"
    and "extensions tbs = Some exts"
    and "outcome (if is_ca then build_root_extensions L key
                  else build_server_extensions L ca key dns) (Some exts)"
proof -
  from assms obtain tbs0 ic sn spki where
      dup: "outcome (X509_NAME_dup L issuer_name) (Some ic)"
      and name: "outcome (make_name L cn) (Some sn)" and spki: "outcome (make_composite_spki L key) (Some spki)"
      and fill: "outcome (fill_tbs L tbs0 ic sn spki serial
        (if is_ca then build_root_extensions L key else build_server_extensions L ca key dns)) (Some tbs)"
    unfolding make_tbs_def by (auto elim!: outcome_bind split: option.splits)
  from name obtain s where s: "cn = Some s" "built_name L s sn" by (rule outcome_make_name)
  from spki obtain k where k: "key = Some k" "composite_spki L k spki" by (rule outcome_make_composite_spki)
  from fill dup s(2) show thesis by (rule outcome_fill_tbs) (use s k that in auto)
qed

lemma outcome_make_sm2_encryption_tbs:
  assumes "outcome (make_sm2_encryption_tbs L key issuer_name cn ca) (Some tbs)"
  obtains k c s exts where "key = Some k" and "ca = Some c" and "cn = Some s"
    and "tbs_frame L issuer_name s 3 tbs" and "sm2_spki L k (subject_public_key_info tbs)"
    and "extensions tbs = Some exts" and "encryption_extensions L c k exts"
proof -
  from assms obtain tbs0 ic sn spki where
      dup: "outcome (X509_NAME_dup L issuer_name) (Some ic)"
      and name: "outcome (make_name L cn) (Some sn)" and spki: "outcome (make_sm2_spki L key) (Some spki)"
      and fill: "outcome (fill_tbs L tbs0 ic sn spki 3 (build_encryption_server_extensions L ca key)) (Some tbs)"
    unfolding make_sm2_encryption_tbs_def by (auto elim!: outcome_bind split: option.splits)
  from name obtain s where s: "cn = Some s" "built_name L s sn" by (rule outcome_make_name)
  from spki obtain k where k: "key = Some k" "sm2_spki L k spki" by (rule outcome_make_sm2_spki)
  from fill dup s(2) obtain exts where e: "outcome (build_encryption_server_extensions L ca key) (Some exts)"
      "extensions tbs = Some exts" "subject_public_key_info tbs = spki" "tbs_frame L issuer_name s 3 tbs"
    by (rule outcome_fill_tbs)
  from e(1) k obtain c where "ca = Some c" "encryption_extensions L c k exts"
    by (auto elim: outcome_build_encryption_extensions)
  with e s k that show thesis by auto
qed

section \<open>The signed certificate\<close>

text \<open>
  The certificate \<open>cert\<close> holds the body \<open>tbs\<close> and the composite signature of its encoding, and \<open>x\<close> is
  what its whole encoding decodes to. The signature is a bit string marked as having no unused bits
  (\<open>ASN1_STRING_FLAG_BITS_LEFT\<close>, 8, with a count of 0 in the three low bits).
\<close>

definition issued_as ::
  "('w, 'k, 'x, 'n, 'o, 'p, 'e) x509_lib_scheme \<Rightarrow> 'k hybrid_private_key \<Rightarrow>
   ('n, 'o, 'p) composite_tbs_certificate \<Rightarrow> ('n, 'o, 'p) composite_certificate \<Rightarrow> 'x \<Rightarrow> bool" where
  "issued_as L sk tbs cert x \<longleftrightarrow>
     tbs_certificate cert = tbs \<and> composite_algor L (signature_algorithm cert) \<and>
     flags (signature_value cert) AND 15 = 8 \<and>
     (\<exists>n der. outcome (i2d_COMPOSITE_TBS_CERTIFICATE L tbs) (n, der) \<and> 0 < n \<and>
        outcome (composite_sign L (Some sk) (Buf der) (Null 0) True)
                (Some (bit_data (signature_value cert)))) \<and>
     (\<exists>n der. outcome (i2d_COMPOSITE_CERTIFICATE L cert) (n, der) \<and> 0 < n \<and>
        outcome (d2i_X509 L der) (Some (x, length der)))"

lemma no_unused_bits: "set_no_unused_bits fl AND 15 = 8"
  by (simp add: set_no_unused_bits_def bit.conj_disj_distrib2 and.assoc)

lemma outcome_sign_tbs:
  assumes "outcome (sign_tbs L t key) (Some x)"
  obtains tbs sk cert where "t = Some tbs" and "key = Some sk" and "issued_as L sk tbs cert x"
proof (cases "t = None \<or> key = None")
  case True
  with assms show thesis by (auto simp: sign_tbs_def split: option.splits)
next
  case False
  then obtain tbs sk where t: "t = Some tbs" "key = Some sk" by auto
  let ?cert = "\<lambda>fl alg sig. \<lparr>tbs_certificate = tbs, signature_algorithm = alg,
      signature_value = \<lparr>flags = set_no_unused_bits fl, bit_data = sig\<rparr>\<rparr>"
  from assms obtain n der sig fl alg m cder where
      tbs: "outcome (i2d_COMPOSITE_TBS_CERTIFICATE L tbs) (n, der)" "0 < n"
      and sig: "outcome (composite_sign L (Some sk) (Buf der) (Null 0) True) (Some sig)"
      and alg: "outcome (set_composite_algorithm L) (Some alg)"
      and cert: "outcome (i2d_COMPOSITE_CERTIFICATE L (?cert fl alg sig)) (m, cder)" "0 < m"
        "outcome (d2i_X509 L cder) (Some (x, length cder))"
    unfolding sign_tbs_def t Let_def
    by (auto elim!: outcome_bind outcome_attempt_Some outcome_ensure_Some simp: not_le split: if_splits)
  from alg have "composite_algor L alg" by (rule outcome_set_composite_algorithm)
  with tbs sig cert have "issued_as L sk tbs (?cert fl alg sig) x"
    unfolding issued_as_def by (auto simp: no_unused_bits)
  with t show thesis by (rule that)
qed

definition root_profile ::
  "('w, 'k, 'x, 'n, 'o, 'p, 'e) x509_lib_scheme \<Rightarrow> 'k hybrid_public_key \<Rightarrow> string \<Rightarrow>
   ('n, 'o, 'p) composite_tbs_certificate \<Rightarrow> bool" where
  "root_profile L key cn tbs \<longleftrightarrow>
     (\<exists>n exts. built_name L cn n \<and> tbs_frame L n cn 1 tbs \<and>
        composite_spki L key (subject_public_key_info tbs) \<and>
        extensions tbs = Some exts \<and> root_extensions L key exts)"

definition server_profile ::
  "('w, 'k, 'x, 'n, 'o, 'p, 'e) x509_lib_scheme \<Rightarrow> 'x \<Rightarrow> 'k hybrid_public_key \<Rightarrow>
   'k hybrid_public_key \<Rightarrow> string \<Rightarrow> string \<Rightarrow> ('n, 'o, 'p) composite_tbs_certificate \<Rightarrow> bool" where
  "server_profile L ix ca key cn dns tbs \<longleftrightarrow>
     (\<exists>n exts. X509_get_subject_name L ix = Some n \<and> tbs_frame L n cn 2 tbs \<and>
        composite_spki L key (subject_public_key_info tbs) \<and>
        extensions tbs = Some exts \<and> server_extensions L ca key dns exts)"

definition encryption_profile ::
  "('w, 'k, 'x, 'n, 'o, 'p, 'e) x509_lib_scheme \<Rightarrow> 'x \<Rightarrow> 'k hybrid_public_key \<Rightarrow> 'k \<Rightarrow> string \<Rightarrow>
   ('n, 'o, 'p) composite_tbs_certificate \<Rightarrow> bool" where
  "encryption_profile L ix ca key cn tbs \<longleftrightarrow>
     (\<exists>n exts. X509_get_subject_name L ix = Some n \<and> tbs_frame L n cn 3 tbs \<and>
        sm2_spki L key (subject_public_key_info tbs) \<and>
        extensions tbs = Some exts \<and> encryption_extensions L ca key exts)"

lemma outcome_create_root [outcome_elims]:
  assumes "outcome (hybrid_x509_create_root L sk pk cn) (Some x)"
  obtains s k c tbs cert where "sk = Some s" and "pk = Some k" and "cn = Some c"
    and "root_profile L k c tbs" and "issued_as L s tbs cert x"
proof -
  from assms obtain n t where n: "outcome (make_name L cn) (Some n)"
      and t: "outcome (make_tbs L pk n cn 1 True pk None) t"
      and sign: "outcome (sign_tbs L t sk) (Some x)"
    unfolding hybrid_x509_create_root_def by (auto elim!: outcome_bind split: option.splits)
  from sign obtain tbs s cert where s: "t = Some tbs" "sk = Some s" "issued_as L s tbs cert x"
    by (rule outcome_sign_tbs)
  from t[unfolded s(1)] obtain k c exts where k: "pk = Some k" "cn = Some c" "tbs_frame L n c 1 tbs"
      "composite_spki L k (subject_public_key_info tbs)" "extensions tbs = Some exts"
      and "outcome (build_root_extensions L pk) (Some exts)"
    by (rule outcome_make_tbs) simp
  then have "root_extensions L k exts" by (auto elim: outcome_build_root_extensions)
  moreover from n k(2) have "built_name L c n" by (auto elim: outcome_make_name)
  ultimately have "root_profile L k c tbs" using k unfolding root_profile_def by blast
  with s k show thesis by (intro that) auto
qed

lemma outcome_create_server [outcome_elims]:
  assumes "outcome (hybrid_x509_create_server L sk pk key issuer_cert cn dns) (Some x)"
  obtains s ca k ix c d tbs cert where "sk = Some s" and "pk = Some ca" and "key = Some k"
    and "issuer_cert = Some ix" and "cn = Some c" and "dns = Some d"
    and "server_profile L ix ca k c d tbs" and "issued_as L s tbs cert x"
proof -
  from assms obtain ix n t where ix: "issuer_cert = Some ix" "X509_get_subject_name L ix = Some n"
      and t: "outcome (make_tbs L key n cn 2 False pk dns) t"
      and sign: "outcome (sign_tbs L t sk) (Some x)"
    unfolding hybrid_x509_create_server_def by (auto elim!: outcome_bind split: option.splits)
  from sign obtain tbs s cert where s: "t = Some tbs" "sk = Some s" "issued_as L s tbs cert x"
    by (rule outcome_sign_tbs)
  from t[unfolded s(1)] obtain k c exts where k: "key = Some k" "cn = Some c" "tbs_frame L n c 2 tbs"
      "composite_spki L k (subject_public_key_info tbs)" "extensions tbs = Some exts"
      and "outcome (build_server_extensions L pk key dns) (Some exts)"
    by (rule outcome_make_tbs) simp
  then obtain ca d where "pk = Some ca" "dns = Some d" "server_extensions L ca k d exts"
    by (auto elim: outcome_build_server_extensions)
  moreover from this ix k have "server_profile L ix ca k c d tbs" unfolding server_profile_def by blast
  ultimately show thesis using s ix k by (intro that) auto
qed

lemma outcome_create_sm2_encryption [outcome_elims]:
  assumes "outcome (hybrid_x509_create_sm2_encryption L sk pk key issuer_cert cn) (Some x)"
  obtains s ca k ix c tbs cert where "sk = Some s" and "pk = Some ca" and "key = Some k"
    and "issuer_cert = Some ix" and "cn = Some c"
    and "encryption_profile L ix ca k c tbs" and "issued_as L s tbs cert x"
proof -
  from assms obtain ix n t where ix: "issuer_cert = Some ix" "X509_get_subject_name L ix = Some n"
      and t: "outcome (make_sm2_encryption_tbs L key n cn pk) t"
      and sign: "outcome (sign_tbs L t sk) (Some x)"
    unfolding hybrid_x509_create_sm2_encryption_def
    by (auto elim!: outcome_bind split: option.splits if_splits)
  from sign obtain tbs s cert where s: "t = Some tbs" "sk = Some s" "issued_as L s tbs cert x"
    by (rule outcome_sign_tbs)
  from t[unfolded s(1)] obtain k ca c exts where k: "key = Some k" "pk = Some ca" "cn = Some c"
      "tbs_frame L n c 3 tbs" "sm2_spki L k (subject_public_key_info tbs)" "extensions tbs = Some exts"
      "encryption_extensions L ca k exts"
    by (rule outcome_make_sm2_encryption_tbs)
  moreover from this ix have "encryption_profile L ix ca k c tbs" unfolding encryption_profile_def by blast
  ultimately show thesis using s ix by (intro that) auto
qed

end
