(* ===== verification/Chain_Complete.thy ===== *)
theory Chain_Complete
  imports Chain_Facts X509_Facts
begin

text \<open>
  That the verifiers accept what the issuing functions made. This direction rests on documented
  behaviour of OpenSSL, stated here law by law: object identifiers are values, an extension is filed
  under its own NID, the fields of a decoded certificate are those of the encoded one, and an
  extension that occurs once is read back with the meaning of its constructor.
\<close>

section \<open>Laws of the library\<close>

definition single_valued_prog :: "('w, 'a option) prog \<Rightarrow> bool" where
  "single_valued_prog m \<longleftrightarrow> (\<forall>a b. outcome m (Some a) \<longrightarrow> outcome m (Some b) \<longrightarrow> a = b)"

definition object_law :: "('w, 'k, 'x, 'n, 'o, 'p, 'e) x509_lib_scheme \<Rightarrow> bool" where
  "object_law L \<longleftrightarrow>
     (\<exists>obj n. always (OBJ_txt2obj L COMPOSITE_SM2_DILITHIUM_EXPERIMENTAL_OID) (Some obj) \<and>
              OBJ_obj2txt L obj = (n, COMPOSITE_SM2_DILITHIUM_EXPERIMENTAL_OID) \<and> 0 < n) \<and>
     (\<exists>obj i. always (OBJ_txt2obj L HYBRID_PQC_EXTENSION_OID) (Some obj) \<and> OBJ_obj2nid L obj = NID_other i) \<and>
     (\<forall>a b. OBJ_cmp L a b = 0 \<longleftrightarrow> a = b)"

definition ext_nid :: "('w, 'k, 'x, 'n, 'o, 'p, 'e) x509_lib_scheme \<Rightarrow> 'o x509_extension \<Rightarrow> nid" where
  "ext_nid L e = OBJ_obj2nid L (ext_object e)"

definition extension_law :: "('w, 'k, 'x, 'n, 'o, 'p, 'e) x509_lib_scheme \<Rightarrow> bool" where
  "extension_law L \<longleftrightarrow>
     (\<forall>nid v e. conf_ext L nid v e \<longrightarrow> ext_nid L e = nid) \<and>
     (\<forall>d e. ski_ext L d e \<longrightarrow> ext_nid L e = NID_subject_key_identifier) \<and>
     (\<forall>d e. aki_ext L d e \<longrightarrow> ext_nid L e = NID_authority_key_identifier) \<and>
     (\<forall>obj c d e. outcome (X509_EXTENSION_create_by_OBJ L obj c d) (Some e) \<longrightarrow>
        e = \<lparr>ext_object = obj, ext_critical = c, ext_data = Some d\<rparr>)"

definition name_law :: "('w, 'k, 'x, 'n, 'o, 'p, 'e) x509_lib_scheme \<Rightarrow> bool" where
  "name_law L \<longleftrightarrow>
     single_valued_prog (X509_NAME_new L) \<and>
     (\<forall>n f t v. single_valued_prog (X509_NAME_add_entry_by_txt L n f t v)) \<and>
     (\<forall>n n'. outcome (X509_NAME_dup L n) (Some n') \<longrightarrow> n' = n) \<and>
     (\<forall>n. X509_NAME_cmp L (Some n) (Some n) = 0)"

definition spki_law :: "('w, 'k, 'x, 'n, 'o, 'p, 'e) x509_lib_scheme \<Rightarrow> bool" where
  "spki_law L \<longleftrightarrow>
     (\<forall>obj t b spki. outcome (X509_PUBKEY_set0_param L obj t b) (Some spki) \<longrightarrow>
        X509_PUBKEY_get0_param L spki = Some (b, Some \<lparr>algorithm = Some obj, parameter_type = t\<rparr>))"

definition digest_law :: "('w, 'k, 'x, 'n, 'o, 'p, 'e) x509_lib_scheme \<Rightarrow> bool" where
  "digest_law L \<longleftrightarrow> (\<forall>b. steady (EVP_Digest L ''SHA256'' b))"

text \<open>The first position after \<open>lo\<close> of an extension that \<open>hit\<close> selects; \<open>i\<close> is the position of the
  head of the list.\<close>

fun find_ext_by :: "('o x509_extension \<Rightarrow> bool) \<Rightarrow> int \<Rightarrow> int \<Rightarrow> 'o x509_extension list \<Rightarrow> int" where
  "find_ext_by hit lo i [] = -1"
| "find_ext_by hit lo i (e # es) =
     (if lo < i \<and> hit e then i else find_ext_by hit lo (i + 1) es)"

abbreviation find_ext ::
  "('w, 'k, 'x, 'n, 'o, 'p, 'e) x509_lib_scheme \<Rightarrow> 'o \<Rightarrow> int \<Rightarrow> int \<Rightarrow> 'o x509_extension list \<Rightarrow> int" where
  "find_ext L obj \<equiv> find_ext_by (\<lambda>e. OBJ_cmp L (ext_object e) obj = 0)"

definition carries :: "('w, 'k, 'x, 'n, 'o, 'p, 'e) x509_lib_scheme \<Rightarrow> 'x \<Rightarrow> 'o x509_extension list \<Rightarrow> bool" where
  "carries L x exts \<longleftrightarrow>
     (\<forall>obj lo. X509_get_ext_by_OBJ L x obj lo = find_ext L obj lo 0 exts) \<and>
     (\<forall>i. X509_get_ext L x i = (if 0 \<le> i \<and> i < int (length exts) then Some (exts ! nat i) else None))"

text \<open>\<open>e\<close> is the only extension with the given NID.\<close>

definition unique_ext ::
  "('w, 'k, 'x, 'n, 'o, 'p, 'e) x509_lib_scheme \<Rightarrow> 'o x509_extension list \<Rightarrow> nid \<Rightarrow> 'o x509_extension \<Rightarrow> bool" where
  "unique_ext L exts nid e \<longleftrightarrow> filter (\<lambda>e. ext_nid L e = nid) exts = [e]"

text \<open>What the configuration strings mean.\<close>

definition reads_basic_constraints ::
  "('w, 'k, 'x, 'n, 'o, 'p, 'e) x509_lib_scheme \<Rightarrow> 'x \<Rightarrow> 'o x509_extension list \<Rightarrow> bool" where
  "reads_basic_constraints L x exts \<longleftrightarrow>
     (\<forall>e. unique_ext L exts NID_basic_constraints e \<longrightarrow>
        (conf_ext L NID_basic_constraints ''critical,CA:TRUE'' e \<longrightarrow>
           always (ext_d2i_basic_constraints L x) (Some True, 1)) \<and>
        (conf_ext L NID_basic_constraints ''critical,CA:FALSE'' e \<longrightarrow>
           always (ext_d2i_basic_constraints L x) (Some False, 1)))"

definition reads_key_usage ::
  "('w, 'k, 'x, 'n, 'o, 'p, 'e) x509_lib_scheme \<Rightarrow> 'x \<Rightarrow> 'o x509_extension list \<Rightarrow> bool" where
  "reads_key_usage L x exts \<longleftrightarrow>
     (\<forall>e v bits. unique_ext L exts NID_key_usage e \<longrightarrow> conf_ext L NID_key_usage v e \<longrightarrow>
        (v, bits) \<in> set [(''critical,keyCertSign,cRLSign'', [5, 6]), (''critical,digitalSignature'', [0]),
                        (''critical,keyEncipherment,keyAgreement'', [2, 4])] \<longrightarrow>
        (\<exists>u. always (ext_d2i_key_usage L x) (Some u, 1) \<and> usage_bits L u = bits))"

text \<open>
  The names that the configuration syntax takes literally: it splits a value at commas and line ends
  and strips white space.
\<close>

definition plain_dns :: "string \<Rightarrow> bool" where
  "plain_dns dns \<longleftrightarrow> list_all (\<lambda>c. c \<in> set
     ''abcdefghijklmnopqrstuvwxyzABCDEFGHIJKLMNOPQRSTUVWXYZ0123456789-.*'') dns"

definition reads_server_names ::
  "('w, 'k, 'x, 'n, 'o, 'p, 'e) x509_lib_scheme \<Rightarrow> 'x \<Rightarrow> 'o x509_extension list \<Rightarrow> bool" where
  "reads_server_names L x exts \<longleftrightarrow>
     (\<forall>e. unique_ext L exts NID_ext_key_usage e \<longrightarrow> conf_ext L NID_ext_key_usage ''serverAuth'' e \<longrightarrow>
        (\<exists>u. always (ext_d2i_ext_key_usage L x) (Some [u]) \<and> OBJ_obj2nid L u = NID_server_auth)) \<and>
     (\<forall>e dns. unique_ext L exts NID_subject_alt_name e \<longrightarrow> dns \<noteq> [] \<longrightarrow> plain_dns dns \<longrightarrow>
        conf_ext L NID_subject_alt_name (''DNS:'' @ dns) e \<longrightarrow>
        always (ext_d2i_subject_alt_name L x) (Some [GEN_DNS (Some (ascii dns))]))"

definition reads_key_ids ::
  "('w, 'k, 'x, 'n, 'o, 'p, 'e) x509_lib_scheme \<Rightarrow> 'x \<Rightarrow> 'o x509_extension list \<Rightarrow> bool" where
  "reads_key_ids L x exts \<longleftrightarrow>
     (\<forall>e d. unique_ext L exts NID_subject_key_identifier e \<longrightarrow> ski_ext L d e \<longrightarrow>
        always (ext_d2i_subject_key_identifier L x) (Some d)) \<and>
     (\<forall>e d. unique_ext L exts NID_authority_key_identifier e \<longrightarrow> aki_ext L d e \<longrightarrow>
        always (ext_d2i_authority_key_identifier L x) (Some (Some d)))"

text \<open>
  RFC 5280, section 4.1, as templates over the members of the two structs: the order of the fields of
  a \<open>Certificate\<close> and a \<open>TBSCertificate\<close>, their types and tags.
\<close>

definition rfc5280_tbs :: "asn1_template list" where
  "rfc5280_tbs =
     [ASN1_EXP_OPT ''version'' ''ASN1_INTEGER'' 0] @
     map (\<lambda>(member, item). ASN1_SIMPLE member item)
       [(''serial_number'', ''ASN1_INTEGER''), (''signature'', ''X509_ALGOR''), (''issuer'', ''X509_NAME''),
        (''validity'', ''X509_VAL''), (''subject'', ''X509_NAME''), (''subject_public_key_info'', ''X509_PUBKEY'')] @
     [ASN1_IMP_OPT ''issuer_uid'' ''ASN1_BIT_STRING'' 1, ASN1_IMP_OPT ''subject_uid'' ''ASN1_BIT_STRING'' 2,
      ASN1_EXP_SEQUENCE_OF_OPT ''extensions'' ''X509_EXTENSION'' 3]"

definition rfc5280_certificate :: "asn1_template list" where
  "rfc5280_certificate =
     map (\<lambda>(member, item). ASN1_SIMPLE member item)
       [(''tbs_certificate'', ''COMPOSITE_TBS_CERTIFICATE''), (''signature_algorithm'', ''X509_ALGOR''),
        (''signature_value'', ''ASN1_BIT_STRING'')]"

lemma templates_rfc5280:
  "COMPOSITE_TBS_CERTIFICATE_seq_tt = rfc5280_tbs" "COMPOSITE_CERTIFICATE_seq_tt = rfc5280_certificate"
  by (simp_all add: COMPOSITE_TBS_CERTIFICATE_seq_tt_def COMPOSITE_CERTIFICATE_seq_tt_def
      rfc5280_tbs_def rfc5280_certificate_def)

lemma encoders_rfc5280:
  "i2d_COMPOSITE_TBS_CERTIFICATE L tbs = ASN1_item_i2d_tbs L rfc5280_tbs tbs"
  "i2d_COMPOSITE_CERTIFICATE L cert = ASN1_item_i2d_certificate L rfc5280_certificate rfc5280_tbs cert"
  by (simp_all add: i2d_COMPOSITE_TBS_CERTIFICATE_def i2d_COMPOSITE_CERTIFICATE_def templates_rfc5280)

text \<open>
  The certificate object \<open>x\<close> has the fields of \<open>cert\<close>. A bit string keeps its bytes when
  \<open>ASN1_STRING_FLAG_BITS_LEFT\<close> (8) is set with no unused bits; otherwise the encoder strips trailing
  zero bits or masks them, and nothing is said.
\<close>

definition reads_fields ::
  "('w, 'k, 'x, 'n, 'o, 'p, 'e) x509_lib_scheme \<Rightarrow> 'x \<Rightarrow> ('n, 'o, 'p) composite_certificate \<Rightarrow> bool" where
  "reads_fields L x cert \<longleftrightarrow>
     X509_get_subject_name L x = Some (subject (tbs_certificate cert)) \<and>
     X509_get_issuer_name L x = Some (issuer (tbs_certificate cert)) \<and>
     X509_get0_tbs_sigalg L x = Some (signature (tbs_certificate cert)) \<and>
     snd (X509_get0_signature L x) = Some (signature_algorithm cert) \<and>
     (\<exists>v. fst (X509_get0_signature L x) = Some v \<and>
          (flags (signature_value cert) AND 15 = 8 \<longrightarrow>
             bit_data v = bit_data (signature_value cert) \<and> flags v AND 7 = 0)) \<and>
     X509_get_X509_PUBKEY L x = Some (subject_public_key_info (tbs_certificate cert)) \<and>
     (\<exists>bits. X509_get0_pubkey_bitstr L x = Some bits \<and> flags bits AND 7 = 0) \<and>
     (\<forall>n der. outcome (ASN1_item_i2d_tbs L rfc5280_tbs (tbs_certificate cert)) (n, der) \<longrightarrow> 0 < n \<longrightarrow>
        always (i2d_re_X509_tbs L x) (n, der))"

text \<open>What was encoded by the templates of RFC 5280 is decoded to an object with the same fields.\<close>

definition codec_law :: "('w, 'k, 'x, 'n, 'o, 'p, 'e) x509_lib_scheme \<Rightarrow> bool" where
  "codec_law L \<longleftrightarrow>
     (\<forall>cert n der x exts.
        outcome (ASN1_item_i2d_certificate L rfc5280_certificate rfc5280_tbs cert) (n, der) \<longrightarrow> 0 < n \<longrightarrow>
        outcome (d2i_X509 L der) (Some (x, length der)) \<longrightarrow>
        extensions (tbs_certificate cert) = Some exts \<longrightarrow>
        reads_fields L x cert \<and> carries L x exts \<and> reads_basic_constraints L x exts \<and>
        reads_key_usage L x exts \<and> reads_server_names L x exts \<and> reads_key_ids L x exts)"

definition x509_laws :: "('w, 'k, 'x, 'n, 'o, 'p, 'e) x509_lib_scheme \<Rightarrow> bool" where
  "x509_laws L \<longleftrightarrow> object_law L \<and> extension_law L \<and> name_law L \<and> spki_law L \<and> digest_law L \<and> codec_law L"

text \<open>
  The issuer's key pair: the primitives verify what they sign, and the public key survives being
  encoded in a certificate, \<open>k\<close> being the imported SM2 key object.
\<close>

definition issuing_keys ::
  "('w, 'k, 'x, 'n, 'o, 'p, 'e) x509_lib_scheme \<Rightarrow> 'k hybrid_private_key \<Rightarrow> 'k hybrid_public_key \<Rightarrow> 'k \<Rightarrow> bool" where
  "issuing_keys L sk pk k \<longleftrightarrow>
     wf_public_key pk \<and> dilithium_pair L (dilithium_secret_key sk) (dilithium_public_key pk) \<and>
     (\<exists>s. sm2_private_key sk = Some s \<and> sm2_pair L s k) \<and> verifier_ready L k \<and>
     sm2_import_ready L (drop DILITHIUM_PUBLIC_KEY_BYTES (public_key_octets L pk)) k"

text \<open>The clock stays within the validity of the certificate.\<close>

definition stays_valid :: "('w, 'k, 'x, 'n, 'o, 'p, 'e) x509_lib_scheme \<Rightarrow> 'x \<Rightarrow> bool" where
  "stays_valid L x \<longleftrightarrow>
     (\<exists>b a. always (X509_cmp_current_time L (X509_get0_notBefore L x)) b \<and> b < 0 \<and>
            always (X509_cmp_current_time L (X509_get0_notAfter L x)) a \<and> 0 < a)"

lemma always_certificate_time_valid:
  "stays_valid L x \<Longrightarrow> always (certificate_time_valid L (Some x)) True"
  unfolding certificate_time_valid_def stays_valid_def option.case by (auto intro!: always_bind)

section \<open>The marker extension\<close>

lemma find_ext_forward:
  "lo < i \<Longrightarrow> 0 \<le> i \<Longrightarrow> find_ext L obj lo i es < 0 \<longleftrightarrow> (\<forall>e\<in>set es. OBJ_cmp L (ext_object e) obj \<noteq> 0)"
  by (induction es arbitrary: i) auto

lemma find_ext_skip:
  "i + int (length xs) \<le> lo + 1 \<Longrightarrow> find_ext L obj lo i (xs @ es) = find_ext L obj lo (i + int (length xs)) es"
proof (induction xs arbitrary: i)
  case (Cons e xs)
  from Cons.prems have "\<not> lo < i" by simp
  with Cons.IH[of "i + 1"] Cons.prems show ?case by (simp add: algebra_simps)
qed simp

lemma find_ext_first:
  "lo < i \<Longrightarrow> \<forall>e\<in>set xs. OBJ_cmp L (ext_object e) obj \<noteq> 0 \<Longrightarrow>
   find_ext L obj lo i (xs @ es) = find_ext L obj lo (i + int (length xs)) es"
  by (induction xs arbitrary: i) (auto simp: algebra_simps)

text \<open>The two searches of \<open>hybrid_x509_has_pqc_extension\<close> accept exactly one occurrence.\<close>

lemma has_pqc_extension_exactly_once:
  assumes obj: "always (OBJ_txt2obj L HYBRID_PQC_EXTENSION_OID) (Some obj)" and carries: "carries L x exts"
  shows "always (hybrid_x509_has_pqc_extension L (Some x))
    (\<exists>e. filter (\<lambda>e. OBJ_cmp L (ext_object e) obj = 0) exts = [e] \<and> \<not> ext_critical e \<and>
         ext_data e = Some der_null)"
proof -
  let ?hit = "\<lambda>e. OBJ_cmp L (ext_object e) obj = 0"
  define xs where "xs = takeWhile (\<lambda>e. \<not> ?hit e) exts"
  have xs: "\<forall>e\<in>set xs. \<not> ?hit e" by (auto simp: xs_def dest: set_takeWhileD)
  have by_obj: "X509_get_ext_by_OBJ L x obj lo = find_ext L obj lo 0 exts" for lo
    using carries by (simp add: carries_def)
  let ?first = "X509_get_ext_by_OBJ L x obj (-1)"
  have result: "always (hybrid_x509_has_pqc_extension L (Some x))
      (0 \<le> ?first \<and> X509_get_ext_by_OBJ L x obj ?first < 0 \<and>
       (case X509_get_ext L x ?first of
          None \<Rightarrow> False | Some e \<Rightarrow> \<not> ext_critical e \<and> ext_data e = Some der_null))"
    unfolding hybrid_x509_has_pqc_extension_def Let_def option.case
    by (rule always_bind[OF obj]) simp
  show ?thesis
  proof (cases "dropWhile (\<lambda>e. \<not> ?hit e) exts")
    case Nil
    then have none: "\<forall>e\<in>set exts. \<not> ?hit e" by simp
    then have "?first < 0" by (simp add: by_obj find_ext_forward)
    moreover from none have "filter ?hit exts = []" by (simp add: filter_empty_conv)
    ultimately show ?thesis using result by simp
  next
    case (Cons e es)
    then have exts: "exts = xs @ e # es"
      unfolding xs_def using takeWhile_dropWhile_id[of "\<lambda>e. \<not> ?hit e" exts] by simp
    from Cons have hit: "?hit e" using hd_dropWhile[of "\<lambda>e. \<not> ?hit e" exts] by simp
    let ?n = "int (length xs)"
    have "?first = find_ext L obj (-1) (0 + ?n) (e # es)"
      unfolding by_obj exts by (rule find_ext_first) (simp_all add: xs)
    with hit have first: "?first = ?n" by simp
    have "X509_get_ext_by_OBJ L x obj ?n = find_ext L obj ?n (0 + ?n) (e # es)"
      unfolding by_obj exts by (rule find_ext_skip) simp
    then have "X509_get_ext_by_OBJ L x obj ?n = find_ext L obj ?n (?n + 1) es" by simp
    then have second: "X509_get_ext_by_OBJ L x obj ?n < 0 \<longleftrightarrow> (\<forall>e\<in>set es. \<not> ?hit e)"
      by (simp add: find_ext_forward)
    have get: "X509_get_ext L x ?n = Some e"
      using carries unfolding carries_def exts by (simp add: nth_append)
    have "filter ?hit xs = []" using xs by (simp add: filter_empty_conv)
    then have "filter ?hit exts = [e'] \<longleftrightarrow> e' = e \<and> (\<forall>e\<in>set es. \<not> ?hit e)" for e'
      using hit by (auto simp: exts filter_empty_conv)
    with result show ?thesis unfolding first second get by simp
  qed
qed

section \<open>What an issued certificate looks like to the checks\<close>

lemma composite_algor_checked:
  assumes "object_law L" and "composite_algor L a"
  shows "algorithm_is_composite_and_absent L (Some a)"
proof -
  from assms(1) obtain obj n where
      obj: "always (OBJ_txt2obj L COMPOSITE_SM2_DILITHIUM_EXPERIMENTAL_OID) (Some obj)"
      and shown: "OBJ_obj2txt L obj = (n, COMPOSITE_SM2_DILITHIUM_EXPERIMENTAL_OID)" "0 < n"
    by (auto simp: object_law_def)
  from assms(2) obtain obj' where
      "outcome (OBJ_txt2obj L COMPOSITE_SM2_DILITHIUM_EXPERIMENTAL_OID) (Some obj')"
      and a: "a = \<lparr>algorithm = Some obj', parameter_type = V_ASN1_UNDEF\<rparr>"
    by (auto simp: composite_algor_def composite_object_def)
  with obj have "obj' = obj" by (auto dest: always_outcome)
  moreover have "length COMPOSITE_SM2_DILITHIUM_EXPERIMENTAL_OID \<le> 127"
    by (simp add: COMPOSITE_SM2_DILITHIUM_EXPERIMENTAL_OID_def)
  ultimately show ?thesis using shown a by (simp add: algorithm_is_composite_and_absent_def)
qed

lemma composite_algor_object:
  assumes "object_law L" and "composite_algor L a" and "composite_algor L b"
  shows "OBJ_cmp L (the (algorithm a)) (the (algorithm b)) = 0"
proof -
  from assms(1) obtain obj where
      "always (OBJ_txt2obj L COMPOSITE_SM2_DILITHIUM_EXPERIMENTAL_OID) (Some obj)"
    by (auto simp: object_law_def)
  with assms(2,3) have "algorithm a = Some obj" "algorithm b = Some obj"
    unfolding composite_algor_def composite_object_def
    by (metis always_outcome option.inject x509_algor.select_convs(1))+
  with assms(1) show ?thesis by (simp add: object_law_def)
qed

lemma issued_reads:
  assumes "x509_laws L" and "issued_as L sk tbs cert x" and "extensions tbs = Some exts"
  shows "reads_fields L x cert" and "carries L x exts" and "reads_basic_constraints L x exts"
    and "reads_key_usage L x exts" and "reads_server_names L x exts" and "reads_key_ids L x exts"
  using assms unfolding x509_laws_def codec_law_def issued_as_def encoders_rfc5280 by blast+

lemma issued_signature_algorithms:
  assumes "object_law L" and "issued_as L sk tbs cert x" and "reads_fields L x cert"
    and "composite_algor L (signature tbs)"
  shows "hybrid_x509_composite_signature_algorithms_valid L (Some x)"
proof -
  from assms(2) have sig: "composite_algor L (signature_algorithm cert)" "tbs_certificate cert = tbs"
    by (simp_all add: issued_as_def)
  show ?thesis
    using composite_algor_checked[OF assms(1) sig(1)] composite_algor_checked[OF assms(1,4)]
      composite_algor_object[OF assms(1,4) sig(1)] assms(3) sig(2)
    unfolding hybrid_x509_composite_signature_algorithms_valid_def reads_fields_def
    by (auto split: prod.splits)
qed

lemma spki_checked:
  assumes "object_law L" and "spki_law L" and "composite_spki L key spki"
    and "X509_get_X509_PUBKEY L x = Some spki"
  shows "hybrid_x509_subject_public_key_is_composite L (Some x)"
    and "\<exists>alg. X509_PUBKEY_get0_param L spki = Some (public_key_octets L key, alg) \<and>
               algorithm_is_composite_and_absent L alg"
proof -
  from assms(3) obtain obj where obj: "composite_object L obj"
      and "outcome (X509_PUBKEY_set0_param L obj V_ASN1_UNDEF (public_key_octets L key)) (Some spki)"
    by (auto simp: composite_spki_def)
  with assms(2) have get0: "X509_PUBKEY_get0_param L spki =
      Some (public_key_octets L key, Some \<lparr>algorithm = Some obj, parameter_type = V_ASN1_UNDEF\<rparr>)"
    by (simp add: spki_law_def)
  have "algorithm_is_composite_and_absent L (Some \<lparr>algorithm = Some obj, parameter_type = V_ASN1_UNDEF\<rparr>)"
    by (rule composite_algor_checked[OF assms(1)]) (use obj in \<open>auto simp: composite_algor_def\<close>)
  with get0 assms(4) show "hybrid_x509_subject_public_key_is_composite L (Some x)"
    and "\<exists>alg. X509_PUBKEY_get0_param L spki = Some (public_key_octets L key, alg) \<and>
               algorithm_is_composite_and_absent L alg"
    by (auto simp: hybrid_x509_subject_public_key_is_composite_def)
qed

lemma exportable_octets:
  assumes "wf_public_key key" and "exportable L key"
  shows "length (public_key_octets L key) = COMPOSITE_PUBLIC_KEY_BYTES"
    and "drop DILITHIUM_PUBLIC_KEY_BYTES (public_key_octets L key) ! 0 = 4"
    and "take DILITHIUM_PUBLIC_KEY_BYTES (public_key_octets L key) = dilithium_public_key key"
proof -
  from assms(2) obtain k p where "sm2_public_key key = Some k" and p: "sm2_octets L k p"
    by (auto simp: exportable_def)
  then have oct: "public_key_octets L key = dilithium_public_key key @ p"
    by (simp add: public_key_octets_def sm2_octets_def)
  show "length (public_key_octets L key) = COMPOSITE_PUBLIC_KEY_BYTES"
    and "drop DILITHIUM_PUBLIC_KEY_BYTES (public_key_octets L key) ! 0 = 4"
    and "take DILITHIUM_PUBLIC_KEY_BYTES (public_key_octets L key) = dilithium_public_key key"
    using assms(1) p unfolding oct by (simp_all add: wf_public_key_def sm2_octets_def sizes)
qed

lemma always_get_composite_public_key:
  assumes laws: "object_law L" "spki_law L" and spki: "composite_spki L pk spki"
    and keys: "issuing_keys L sk pk k"
    and x: "X509_get_X509_PUBKEY L x = Some spki" "X509_get0_pubkey_bitstr L x = Some bits"
      "flags bits AND 7 = 0"
  shows "always (hybrid_x509_get_composite_public_key L (Some x) (Some blank))
           (True, Some \<lparr>sm2_public_key = Some k, dilithium_public_key = dilithium_public_key pk\<rparr>)"
proof -
  from keys have wf: "wf_public_key pk"
    and ready: "sm2_import_ready L (drop DILITHIUM_PUBLIC_KEY_BYTES (public_key_octets L pk)) k"
    by (simp_all add: issuing_keys_def)
  from spki have "exportable L pk" by (simp add: composite_spki_def)
  note oct = exportable_octets[OF wf this]
  from spki_checked(2)[OF laws spki x(1)] obtain alg where
    "X509_PUBKEY_get0_param L spki = Some (public_key_octets L pk, alg)"
    "algorithm_is_composite_and_absent L alg" by blast
  moreover have "public_key_octets L pk \<noteq> []" using oct(1) by (auto simp: sizes)
  ultimately show ?thesis
    using always_composite_parse_public_key[OF oct(1,2) ready, of blank] x
    unfolding hybrid_x509_get_composite_public_key_def by (simp add: oct(3))
qed

text \<open>The signature step accepts a certificate issued with the key that the issuer's certificate carries.\<close>

definition signature_accepted :: "hybrid_cert_verify_result \<Rightarrow> hybrid_cert_verify_result" where
  "signature_accepted r = r\<lparr>composite_public_key_valid := True, signature_format_valid := True,
     dilithium_valid := True, sm2_valid := True, composite_valid := True\<rparr>"

lemma always_signature_step:
  assumes issued: "issued_as L sk tbs cert x" and reads: "reads_fields L x cert"
    and keys: "issuing_keys L sk pk k"
    and key: "always (hybrid_x509_get_composite_public_key L (Some ix) (Some blank_public_key))
           (True, Some \<lparr>sm2_public_key = Some k, dilithium_public_key = dilithium_public_key pk\<rparr>)"
  shows "always (signature_step L (Some x) (Some ix) r) (signature_accepted r)"
proof -
  let ?key = "\<lparr>sm2_public_key = Some k, dilithium_public_key = dilithium_public_key pk\<rparr>"
  from issued obtain n der where der: "outcome (i2d_COMPOSITE_TBS_CERTIFICATE L tbs) (n, der)" "0 < n"
      and sign: "outcome (composite_sign L (Some sk) (Buf der) (Null 0) True)
                   (Some (bit_data (signature_value cert)))"
      and cert: "tbs_certificate cert = tbs" "flags (signature_value cert) AND 15 = 8"
    by (auto simp: issued_as_def)
  from reads der cert have "always (i2d_re_X509_tbs L x) (n, der)"
    by (simp add: reads_fields_def encoders_rfc5280)
  with der(2) have tbs: "always (hybrid_x509_get_tbs_der L (Some x) True) (Some der)"
    unfolding hybrid_x509_get_tbs_der_def by (auto intro!: always_bind)
  have "bit_data (signature_value cert) \<noteq> []"
    using sign by (auto elim!: outcome_composite_sign simp: sizes)
  with reads cert have sig: "hybrid_x509_get_signature L (Some x) True = Some (bit_data (signature_value cert))"
    unfolding hybrid_x509_get_signature_def reads_fields_def by auto
  from keys obtain s where s: "sm2_private_key sk = Some s" "sm2_pair L s k" "verifier_ready L k"
      "dilithium_pair L (dilithium_secret_key sk) (dilithium_public_key pk)"
    by (auto simp: issuing_keys_def)
  have ver: "always (composite_verify_detailed L (Some ?key) (Buf der) (Null 0)
      (Buf (bit_data (signature_value cert))))
      (True, \<lparr>format_valid = True, dilithium_valid = True, sm2_valid = True, composite_valid = True\<rparr>)"
    using always_verify_detailed_after_sign[OF sign s(1), of ?key k] s by simp
  have "always (verify_certificate_signature L (Some x) (Some ?key) (r\<lparr>composite_public_key_valid := True\<rparr>))
      (True, signature_accepted r)"
    unfolding verify_certificate_signature_def signature_accepted_def
    by (rule always_bind[OF tbs], simp add: sig, rule always_bind[OF ver]) (simp add: Let_def)
  then show ?thesis
    unfolding signature_step_def by (intro always_bind[OF key]) (auto simp: Let_def intro: always_bind)
qed

section \<open>The checks of the verifiers on issued certificates\<close>

lemma always_constraints:
  assumes "always (ext_d2i_basic_constraints L x) (Some ca, 1)"
    and "always (ext_d2i_key_usage L x) (Some u, 1)"
    and "usage_bits L u \<in> set (if ca then ca_usages else leaf_usages)"
  shows "always (certificate_constraints_valid L x ca) True"
  unfolding certificate_constraints_valid_def Let_def
  by (rule always_bind[OF assms(1)], simp, rule always_bind[OF assms(2)])
    (use assms(3) in \<open>auto simp: usage_bits_ca usage_bits_leaf split: if_splits\<close>)

lemma always_encryption_constraints:
  assumes "always (ext_d2i_basic_constraints L x) (Some False, 1)"
    and "always (ext_d2i_key_usage L x) (Some u, 1)"
    and "usage_bits L u \<in> set encryption_usages"
  shows "always (encryption_certificate_constraints_valid L x) True"
  unfolding encryption_certificate_constraints_valid_def Let_def
  by (rule always_bind[OF assms(1)], simp, rule always_bind[OF assms(2)])
    (use assms(3) in \<open>simp add: usage_bits_encryption\<close>)

lemma pqc_ext_shape:
  assumes "object_law L" and "extension_law L" and "pqc_ext L mark"
  obtains obj i where "always (OBJ_txt2obj L HYBRID_PQC_EXTENSION_OID) (Some obj)"
    and "OBJ_obj2nid L obj = NID_other i"
    and "mark = \<lparr>ext_object = obj, ext_critical = False, ext_data = Some der_null\<rparr>"
proof -
  from assms(1) obtain obj i where obj: "always (OBJ_txt2obj L HYBRID_PQC_EXTENSION_OID) (Some obj)"
      and nid: "OBJ_obj2nid L obj = NID_other i"
    by (auto simp: object_law_def)
  from assms(3) obj have "outcome (X509_EXTENSION_create_by_OBJ L obj False der_null) (Some mark)"
    by (auto simp: pqc_ext_def dest!: always_outcome)
  with assms(2) have "mark = \<lparr>ext_object = obj, ext_critical = False, ext_data = Some der_null\<rparr>"
    by (simp add: extension_law_def)
  with obj nid show thesis by (rule that)
qed

lemma always_pqc_marker:
  assumes "object_law L" and "extension_law L" and "carries L x (es @ [mark])" and "pqc_ext L mark"
    and "\<And>e i. e \<in> set es \<Longrightarrow> ext_nid L e \<noteq> NID_other i"
  shows "always (hybrid_x509_has_pqc_extension L (Some x)) True"
proof -
  from assms(1,2,4) obtain obj i where obj: "always (OBJ_txt2obj L HYBRID_PQC_EXTENSION_OID) (Some obj)"
      and nid: "OBJ_obj2nid L obj = NID_other i"
      and mark: "mark = \<lparr>ext_object = obj, ext_critical = False, ext_data = Some der_null\<rparr>"
    by (rule pqc_ext_shape)
  from assms(1) have cmp: "\<And>a b. OBJ_cmp L a b = 0 \<longleftrightarrow> a = b" by (simp add: object_law_def)
  have "ext_object e \<noteq> obj" if "e \<in> set es" for e
    using assms(5)[OF that, of i] nid by (auto simp: ext_nid_def)
  then have "filter (\<lambda>e. OBJ_cmp L (ext_object e) obj = 0) (es @ [mark]) = [mark]"
    by (auto simp: cmp mark filter_empty_conv)
  with has_pqc_extension_exactly_once[OF obj assms(3)] show ?thesis by (simp add: mark)
qed

lemma pqc_ext_nid:
  assumes "object_law L" and "extension_law L" and "pqc_ext L mark"
  obtains i where "ext_nid L mark = NID_other i"
  using assms by (elim pqc_ext_shape) (auto simp: ext_nid_def)

text \<open>The reading laws, one use at a time.\<close>

lemma read_ca: "reads_basic_constraints L x exts \<Longrightarrow> unique_ext L exts NID_basic_constraints e \<Longrightarrow>
    conf_ext L NID_basic_constraints (if ca then ''critical,CA:TRUE'' else ''critical,CA:FALSE'') e \<Longrightarrow>
    always (ext_d2i_basic_constraints L x) (Some ca, 1)"
  by (cases ca) (auto simp: reads_basic_constraints_def)

lemma read_usage: "reads_key_usage L x exts \<Longrightarrow> unique_ext L exts NID_key_usage e \<Longrightarrow>
    conf_ext L NID_key_usage v e \<Longrightarrow>
    (v, bits) \<in> set [(''critical,keyCertSign,cRLSign'', [5, 6]), (''critical,digitalSignature'', [0]),
                    (''critical,keyEncipherment,keyAgreement'', [2, 4])] \<Longrightarrow>
    \<exists>u. always (ext_d2i_key_usage L x) (Some u, 1) \<and> usage_bits L u = bits"
  unfolding reads_key_usage_def by blast

lemma read_ski: "reads_key_ids L x exts \<Longrightarrow> unique_ext L exts NID_subject_key_identifier e \<Longrightarrow>
    ski_ext L d e \<Longrightarrow> always (ext_d2i_subject_key_identifier L x) (Some d)"
  unfolding reads_key_ids_def by blast

lemma read_aki: "reads_key_ids L x exts \<Longrightarrow> unique_ext L exts NID_authority_key_identifier e \<Longrightarrow>
    aki_ext L d e \<Longrightarrow> always (ext_d2i_authority_key_identifier L x) (Some (Some d))"
  unfolding reads_key_ids_def by blast

lemma read_eku:
  assumes "reads_server_names L x exts" and "unique_ext L exts NID_ext_key_usage e"
    and "conf_ext L NID_ext_key_usage ''serverAuth'' e"
  shows "always (server_eku_valid L x) True"
proof -
  from assms obtain u where u: "always (ext_d2i_ext_key_usage L x) (Some [u])"
      and "OBJ_obj2nid L u = NID_server_auth"
    unfolding reads_server_names_def by blast
  then show ?thesis unfolding server_eku_valid_def by (intro always_bind[OF u]) simp
qed

lemma read_san:
  assumes "reads_server_names L x exts" and "unique_ext L exts NID_subject_alt_name e"
    and "conf_ext L NID_subject_alt_name (''DNS:'' @ dns) e" and "dns \<noteq> []" and "plain_dns dns"
  shows "always (server_san_valid L x) True"
proof -
  from assms have san: "always (ext_d2i_subject_alt_name L x) (Some [GEN_DNS (Some (ascii dns))])"
    unfolding reads_server_names_def by blast
  show ?thesis unfolding server_san_valid_def
    using assms(4) by (intro always_bind[OF san]) (simp add: ascii_def)
qed

lemma composite_key_id_unique:
  assumes "digest_law L" and "composite_key_id L k d" and "composite_key_id L k d'"
  shows "d = d'"
  using assms unfolding digest_law_def composite_key_id_def
  by (metis always_outcome prod.inject steady_outcome)

text \<open>What the checks find in an issued root.\<close>

lemma issued_root_checks:
  assumes laws: "x509_laws L" and profile: "root_profile L pk cn tbs" and issued: "issued_as L sk tbs cert x"
  obtains d where "composite_key_id L pk d"
    and "always (ext_d2i_subject_key_identifier L x) (Some d)"
    and "always (certificate_constraints_valid L x True) True"
    and "always (hybrid_x509_has_pqc_extension L (Some x)) True"
    and "hybrid_x509_composite_signature_algorithms_valid L (Some x)"
    and "hybrid_x509_subject_public_key_is_composite L (Some x)"
    and "X509_NAME_cmp L (X509_get_issuer_name L x) (X509_get_subject_name L x) = 0"
    and "reads_fields L x cert" and "composite_spki L pk (subject_public_key_info tbs)"
proof -
  from laws have l: "object_law L" "extension_law L" "name_law L" "spki_law L"
    by (simp_all add: x509_laws_def)
  from profile obtain n exts where n: "built_name L cn n" "tbs_frame L n cn 1 tbs"
      and spki: "composite_spki L pk (subject_public_key_info tbs)"
      and exts: "extensions tbs = Some exts" "root_extensions L pk exts"
    by (auto simp: root_profile_def)
  note reads = issued_reads[OF laws issued exts(1)]
  from exts(2) obtain bc ku ski mark d where e: "exts = [bc, ku, ski] @ [mark]"
      and bc: "conf_ext L NID_basic_constraints ''critical,CA:TRUE'' bc"
      and ku: "conf_ext L NID_key_usage ''critical,keyCertSign,cRLSign'' ku"
      and d: "composite_key_id L pk d" "ski_ext L d ski" and mark: "pqc_ext L mark"
    by (auto simp: root_extensions_def)
  from l(1,2) mark obtain i where i: "ext_nid L mark = NID_other i" by (rule pqc_ext_nid)
  have nids: "ext_nid L bc = NID_basic_constraints" "ext_nid L ku = NID_key_usage"
      "ext_nid L ski = NID_subject_key_identifier"
    using l(2) bc ku d(2) by (auto simp: extension_law_def)
  have uniq: "unique_ext L exts NID_basic_constraints bc" "unique_ext L exts NID_key_usage ku"
      "unique_ext L exts NID_subject_key_identifier ski"
    by (simp_all add: unique_ext_def e nids i)
  from read_usage[OF reads(4) uniq(2) ku, of "[5, 6]"] obtain u
    where u: "always (ext_d2i_key_usage L x) (Some u, 1)" "usage_bits L u = [5, 6]" by auto
  have con: "always (certificate_constraints_valid L x True) True"
    using bc by (intro always_constraints[OF read_ca[OF reads(3) uniq(1)] u(1)]) (simp_all add: ca_usages_def u(2))
  from read_ski[OF reads(6) uniq(3) d(2)]
  have ski: "always (ext_d2i_subject_key_identifier L x) (Some d)" .
  have pqc: "always (hybrid_x509_has_pqc_extension L (Some x)) True"
    using reads(2) unfolding e by (rule always_pqc_marker[OF l(1,2) _ mark]) (auto simp: nids)
  have tbs: "tbs_certificate cert = tbs" using issued by (simp add: issued_as_def)
  have "issuer tbs = n" "built_name L cn (subject tbs)"
    using n(2) l(3) by (auto simp: tbs_frame_def name_law_def)
  moreover from this(2) n(1) l(3) have "subject tbs = n"
    unfolding built_name_def name_law_def single_valued_prog_def by blast
  ultimately have name: "X509_NAME_cmp L (X509_get_issuer_name L x) (X509_get_subject_name L x) = 0"
    using reads(1) l(3) by (simp add: reads_fields_def tbs name_law_def)
  have alg: "hybrid_x509_composite_signature_algorithms_valid L (Some x)"
    using n(2) by (intro issued_signature_algorithms[OF l(1) issued reads(1)]) (simp add: tbs_frame_def)
  have "X509_get_X509_PUBKEY L x = Some (subject_public_key_info tbs)"
    using reads(1) by (simp add: reads_fields_def tbs)
  from spki_checked(1)[OF l(1,4) spki this]
  show thesis by (intro that[OF d(1) ski con pqc alg _ name reads(1) spki])
qed

lemma always_key_identifiers:
  assumes "always (ext_d2i_subject_key_identifier L x) (Some d)" and "length d = 32"
    and "always (ext_d2i_subject_key_identifier L ix) (Some a)" and "length a = 32"
    and "always (ext_d2i_authority_key_identifier L x) (Some (Some a))"
  shows "always (server_key_identifiers_valid L x ix) True"
  unfolding server_key_identifiers_valid_def
  by (rule always_bind[OF assms(1)], rule always_bind[OF assms(3)], rule always_bind[OF assms(5)])
    (use assms(2,4) in auto)

text \<open>What the checks find in a server or encryption certificate issued under that root.\<close>

lemma issued_server_checks:
  assumes laws: "x509_laws L" and profile: "server_profile L ix ca pk cn dns tbs"
    and issued: "issued_as L sk tbs cert x" and plain: "plain_dns dns"
  obtains d a where "length d = 32" and "always (ext_d2i_subject_key_identifier L x) (Some d)"
    and "composite_key_id L ca a" and "always (ext_d2i_authority_key_identifier L x) (Some (Some a))"
    and "always (certificate_constraints_valid L x False) True"
    and "always (server_eku_valid L x) True" and "always (server_san_valid L x) True"
    and "always (hybrid_x509_has_pqc_extension L (Some x)) True"
    and "hybrid_x509_composite_signature_algorithms_valid L (Some x)"
    and "hybrid_x509_subject_public_key_is_composite L (Some x)"
    and "X509_NAME_cmp L (X509_get_issuer_name L x) (X509_get_subject_name L ix) = 0"
    and "reads_fields L x cert"
proof -
  from laws have l: "object_law L" "extension_law L" "name_law L" "spki_law L"
    by (simp_all add: x509_laws_def)
  from profile obtain n exts where n: "X509_get_subject_name L ix = Some n" "tbs_frame L n cn 2 tbs"
      and spki: "composite_spki L pk (subject_public_key_info tbs)"
      and exts: "extensions tbs = Some exts" "server_extensions L ca pk dns exts"
    by (auto simp: server_profile_def)
  note reads = issued_reads[OF laws issued exts(1)]
  from exts(2) obtain bc ku eku san ski aki mark d a where dns: "dns \<noteq> []"
      and e: "exts = [bc, ku, eku, san, ski, aki] @ [mark]"
      and bc: "conf_ext L NID_basic_constraints ''critical,CA:FALSE'' bc"
      and ku: "conf_ext L NID_key_usage ''critical,digitalSignature'' ku"
      and eku: "conf_ext L NID_ext_key_usage ''serverAuth'' eku"
      and san: "conf_ext L NID_subject_alt_name (''DNS:'' @ dns) san"
      and d: "composite_key_id L pk d" "ski_ext L d ski"
      and a: "composite_key_id L ca a" "aki_ext L a aki" and mark: "pqc_ext L mark"
    by (auto simp: server_extensions_def)
  from l(1,2) mark obtain i where i: "ext_nid L mark = NID_other i" by (rule pqc_ext_nid)
  have nids: "ext_nid L bc = NID_basic_constraints" "ext_nid L ku = NID_key_usage"
      "ext_nid L eku = NID_ext_key_usage" "ext_nid L san = NID_subject_alt_name"
      "ext_nid L ski = NID_subject_key_identifier" "ext_nid L aki = NID_authority_key_identifier"
    using l(2) bc ku eku san d(2) a(2) by (auto simp: extension_law_def)
  have uniq: "unique_ext L exts NID_basic_constraints bc" "unique_ext L exts NID_key_usage ku"
      "unique_ext L exts NID_ext_key_usage eku" "unique_ext L exts NID_subject_alt_name san"
      "unique_ext L exts NID_subject_key_identifier ski" "unique_ext L exts NID_authority_key_identifier aki"
    by (simp_all add: unique_ext_def e nids i)
  from read_usage[OF reads(4) uniq(2) ku, of "[0]"] obtain u
    where u: "always (ext_d2i_key_usage L x) (Some u, 1)" "usage_bits L u = [0]" by auto
  have con: "always (certificate_constraints_valid L x False) True"
    using bc by (intro always_constraints[OF read_ca[OF reads(3) uniq(1)] u(1)]) (simp_all add: leaf_usages_def u(2))
  have pqc: "always (hybrid_x509_has_pqc_extension L (Some x)) True"
    using reads(2) unfolding e by (rule always_pqc_marker[OF l(1,2) _ mark]) (auto simp: nids)
  have tbs: "tbs_certificate cert = tbs" using issued by (simp add: issued_as_def)
  have "issuer tbs = n" using n(2) l(3) by (auto simp: tbs_frame_def name_law_def)
  then have name: "X509_NAME_cmp L (X509_get_issuer_name L x) (X509_get_subject_name L ix) = 0"
    using reads(1) l(3) n(1) by (simp add: reads_fields_def tbs name_law_def)
  have alg: "hybrid_x509_composite_signature_algorithms_valid L (Some x)"
    using n(2) by (intro issued_signature_algorithms[OF l(1) issued reads(1)]) (simp add: tbs_frame_def)
  have "X509_get_X509_PUBKEY L x = Some (subject_public_key_info tbs)"
    using reads(1) by (simp add: reads_fields_def tbs)
  note comp = spki_checked(1)[OF l(1,4) spki this]
  have "length d = 32" using d(1) by (simp add: composite_key_id_def)
  then show thesis
    by (rule that[OF _ read_ski[OF reads(6) uniq(5) d(2)] a(1) read_aki[OF reads(6) uniq(6) a(2)] con
      read_eku[OF reads(5) uniq(3) eku] read_san[OF reads(5) uniq(4) san dns plain] pqc alg comp name reads(1)])
qed

lemma issued_encryption_checks:
  assumes laws: "x509_laws L" and profile: "encryption_profile L ix ca pk cn tbs"
    and issued: "issued_as L sk tbs cert x"
  obtains d a where "length d = 32" and "always (ext_d2i_subject_key_identifier L x) (Some d)"
    and "composite_key_id L ca a" and "always (ext_d2i_authority_key_identifier L x) (Some (Some a))"
    and "always (encryption_certificate_constraints_valid L x) True"
    and "always (hybrid_x509_has_pqc_extension L (Some x)) True"
    and "hybrid_x509_composite_signature_algorithms_valid L (Some x)"
    and "X509_NAME_cmp L (X509_get_issuer_name L x) (X509_get_subject_name L ix) = 0"
    and "reads_fields L x cert"
proof -
  from laws have l: "object_law L" "extension_law L" "name_law L" "spki_law L"
    by (simp_all add: x509_laws_def)
  from profile obtain n exts where n: "X509_get_subject_name L ix = Some n" "tbs_frame L n cn 3 tbs"
      and exts: "extensions tbs = Some exts" "encryption_extensions L ca pk exts"
    by (auto simp: encryption_profile_def)
  note reads = issued_reads[OF laws issued exts(1)]
  from exts(2) obtain bc ku ski aki mark d a where e: "exts = [bc, ku, ski, aki] @ [mark]"
      and bc: "conf_ext L NID_basic_constraints ''critical,CA:FALSE'' bc"
      and ku: "conf_ext L NID_key_usage ''critical,keyEncipherment,keyAgreement'' ku"
      and d: "sm2_key_id L pk d" "ski_ext L d ski"
      and a: "composite_key_id L ca a" "aki_ext L a aki" and mark: "pqc_ext L mark"
    by (auto simp: encryption_extensions_def)
  from l(1,2) mark obtain i where i: "ext_nid L mark = NID_other i" by (rule pqc_ext_nid)
  have nids: "ext_nid L bc = NID_basic_constraints" "ext_nid L ku = NID_key_usage"
      "ext_nid L ski = NID_subject_key_identifier" "ext_nid L aki = NID_authority_key_identifier"
    using l(2) bc ku d(2) a(2) by (auto simp: extension_law_def)
  have uniq: "unique_ext L exts NID_basic_constraints bc" "unique_ext L exts NID_key_usage ku"
      "unique_ext L exts NID_subject_key_identifier ski" "unique_ext L exts NID_authority_key_identifier aki"
    by (simp_all add: unique_ext_def e nids i)
  from read_usage[OF reads(4) uniq(2) ku, of "[2, 4]"] obtain u
    where u: "always (ext_d2i_key_usage L x) (Some u, 1)" "usage_bits L u = [2, 4]" by auto
  have con: "always (encryption_certificate_constraints_valid L x) True"
    using bc by (intro always_encryption_constraints[OF read_ca[OF reads(3) uniq(1)] u(1)]) (simp_all add: encryption_usages_def u(2))
  have pqc: "always (hybrid_x509_has_pqc_extension L (Some x)) True"
    using reads(2) unfolding e by (rule always_pqc_marker[OF l(1,2) _ mark]) (auto simp: nids)
  have tbs: "tbs_certificate cert = tbs" using issued by (simp add: issued_as_def)
  have "issuer tbs = n" using n(2) l(3) by (auto simp: tbs_frame_def name_law_def)
  then have name: "X509_NAME_cmp L (X509_get_issuer_name L x) (X509_get_subject_name L ix) = 0"
    using reads(1) l(3) n(1) by (simp add: reads_fields_def tbs name_law_def)
  have alg: "hybrid_x509_composite_signature_algorithms_valid L (Some x)"
    using n(2) by (intro issued_signature_algorithms[OF l(1) issued reads(1)]) (simp add: tbs_frame_def)
  have "length d = 32" using d(1) by (auto simp: sm2_key_id_def)
  then show thesis
    by (rule that[OF _ read_ski[OF reads(6) uniq(3) d(2)] a(1) read_aki[OF reads(6) uniq(4) a(2)] con
      pqc alg name reads(1)])
qed

section \<open>Acceptance\<close>

lemma issued_root_key:
  assumes laws: "x509_laws L" and reads: "reads_fields L x cert" and issued: "issued_as L sk tbs cert x"
    and spki: "composite_spki L pk (subject_public_key_info tbs)" and keys: "issuing_keys L sk pk k"
  shows "always (hybrid_x509_get_composite_public_key L (Some x) (Some blank_public_key))
           (True, Some \<lparr>sm2_public_key = Some k, dilithium_public_key = dilithium_public_key pk\<rparr>)"
proof -
  from issued have tbs: "tbs_certificate cert = tbs" by (simp add: issued_as_def)
  from reads obtain bits where "X509_get_X509_PUBKEY L x = Some (subject_public_key_info tbs)"
      "X509_get0_pubkey_bitstr L x = Some bits" "flags bits AND 7 = 0"
    by (auto simp: reads_fields_def tbs)
  with laws spki keys show ?thesis
    by (intro always_get_composite_public_key) (simp_all add: x509_laws_def)
qed

lemma always_verify_root:
  assumes laws: "x509_laws L" and profile: "root_profile L pk cn tbs"
    and issued: "issued_as L sk tbs cert x" and keys: "issuing_keys L sk pk k"
    and time: "always (certificate_time_valid L (Some x)) True"
  shows "\<exists>r. always (hybrid_verify_root_self_signature L (Some x)) (True, r)"
proof -
  from laws profile issued obtain d where d: "composite_key_id L pk d"
      and ski: "always (ext_d2i_subject_key_identifier L x) (Some d)"
      and con: "always (certificate_constraints_valid L x True) True"
      and pqc: "always (hybrid_x509_has_pqc_extension L (Some x)) True"
      and facts: "hybrid_x509_composite_signature_algorithms_valid L (Some x)"
        "hybrid_x509_subject_public_key_is_composite L (Some x)"
        "X509_NAME_cmp L (X509_get_issuer_name L x) (X509_get_subject_name L x) = 0"
      and reads: "reads_fields L x cert" and spki: "composite_spki L pk (subject_public_key_info tbs)"
    by (rule issued_root_checks)
  have "d \<noteq> []" using d by (auto simp: composite_key_id_def)
  then have present: "always (subject_key_identifier_present L x) True"
    unfolding subject_key_identifier_present_def by (intro always_bind[OF ski]) simp
  note step = always_signature_step[OF issued reads keys issued_root_key[OF laws reads issued spki keys]]
  show ?thesis
    unfolding hybrid_verify_root_self_signature_steps
    by (rule exI, rule always_bind[OF time], rule always_bind[OF con], rule always_bind[OF present],
        rule always_bind[OF pqc], rule always_bind[OF step])
      (simp_all add: Let_def facts signature_accepted_def root_required_def)
qed

lemma always_linked_ids:
  assumes laws: "digest_law L" and ids: "composite_key_id L pk d" "composite_key_id L pk a"
    and root: "always (ext_d2i_subject_key_identifier L ix) (Some d)"
    and x: "always (ext_d2i_subject_key_identifier L x) (Some e)" "length e = 32"
      "always (ext_d2i_authority_key_identifier L x) (Some (Some a))"
  shows "always (server_key_identifiers_valid L x ix) True"
proof -
  have "a = d" by (rule composite_key_id_unique[OF laws ids(2,1)])
  moreover have "length d = 32" using ids(1) by (simp add: composite_key_id_def)
  ultimately show ?thesis using always_key_identifiers[OF x(1,2) root _ x(3)[unfolded \<open>a = d\<close>]] by simp
qed

lemma always_verify_server:
  assumes laws: "x509_laws L"
    and root: "root_profile L pk rcn rtbs" "issued_as L sk rtbs rcert ix"
    and server: "server_profile L ix pk spk cn dns tbs" "issued_as L sk tbs cert x" "plain_dns dns"
    and keys: "issuing_keys L sk pk k" and time: "always (certificate_time_valid L (Some x)) True"
  shows "\<exists>r. always (hybrid_verify_certificate L (Some x) (Some ix)) (True, r)"
proof -
  from laws root obtain d where d: "composite_key_id L pk d"
      "always (ext_d2i_subject_key_identifier L ix) (Some d)"
      and ca: "always (certificate_constraints_valid L ix True) True"
      and rreads: "reads_fields L ix rcert" and spki: "composite_spki L pk (subject_public_key_info rtbs)"
    by (rule issued_root_checks)
  from laws server obtain e a where e: "length e = 32" "always (ext_d2i_subject_key_identifier L x) (Some e)"
      and a: "composite_key_id L pk a" "always (ext_d2i_authority_key_identifier L x) (Some (Some a))"
      and con: "always (certificate_constraints_valid L x False) True"
      and eku: "always (server_eku_valid L x) True" and san: "always (server_san_valid L x) True"
      and pqc: "always (hybrid_x509_has_pqc_extension L (Some x)) True"
      and facts: "hybrid_x509_composite_signature_algorithms_valid L (Some x)"
        "hybrid_x509_subject_public_key_is_composite L (Some x)"
        "X509_NAME_cmp L (X509_get_issuer_name L x) (X509_get_subject_name L ix) = 0"
      and reads: "reads_fields L x cert"
    by (rule issued_server_checks)
  from laws have "digest_law L" by (simp add: x509_laws_def)
  note ids = always_linked_ids[OF this d(1) a(1) d(2) e(2,1) a(2)]
  note step = always_signature_step[OF server(2) reads keys issued_root_key[OF laws rreads root(2) spki keys]]
  show ?thesis
    unfolding hybrid_verify_certificate_steps
    by (rule exI, rule always_bind[OF time], rule always_bind[OF ca], rule always_bind[OF con],
        rule always_bind[OF eku], rule always_bind[OF san], rule always_bind[OF ids],
        rule always_bind[OF pqc], rule always_bind[OF step])
      (simp add: Let_def facts signature_accepted_def server_required_def)
qed

lemma always_verify_encryption:
  assumes laws: "x509_laws L"
    and root: "root_profile L pk rcn rtbs" "issued_as L sk rtbs rcert ix"
    and enc: "encryption_profile L ix pk epk cn tbs" "issued_as L sk tbs cert x"
    and keys: "issuing_keys L sk pk k" and time: "always (certificate_time_valid L (Some x)) True"
    and sm2: "always (hybrid_x509_subject_public_key_is_sm2 L (Some x)) True"
  shows "\<exists>r. always (hybrid_verify_encryption_certificate L (Some x) (Some ix)) (True, r)"
proof -
  from laws root obtain d where d: "composite_key_id L pk d"
      "always (ext_d2i_subject_key_identifier L ix) (Some d)"
      and ca: "always (certificate_constraints_valid L ix True) True"
      and rreads: "reads_fields L ix rcert" and spki: "composite_spki L pk (subject_public_key_info rtbs)"
    by (rule issued_root_checks)
  from laws enc obtain e a where e: "length e = 32" "always (ext_d2i_subject_key_identifier L x) (Some e)"
      and a: "composite_key_id L pk a" "always (ext_d2i_authority_key_identifier L x) (Some (Some a))"
      and con: "always (encryption_certificate_constraints_valid L x) True"
      and pqc: "always (hybrid_x509_has_pqc_extension L (Some x)) True"
      and facts: "hybrid_x509_composite_signature_algorithms_valid L (Some x)"
        "X509_NAME_cmp L (X509_get_issuer_name L x) (X509_get_subject_name L ix) = 0"
      and reads: "reads_fields L x cert"
    by (rule issued_encryption_checks)
  from laws have "digest_law L" by (simp add: x509_laws_def)
  note ids = always_linked_ids[OF this d(1) a(1) d(2) e(2,1) a(2)]
  note step = always_signature_step[OF enc(2) reads keys issued_root_key[OF laws rreads root(2) spki keys]]
  show ?thesis
    unfolding hybrid_verify_encryption_certificate_steps
    by (rule exI, rule always_bind[OF time], rule always_bind[OF ca], rule always_bind[OF con],
        rule always_bind[OF ids], rule always_bind[OF pqc], rule always_bind[OF sm2], rule always_bind[OF step])
      (simp add: Let_def facts signature_accepted_def encryption_required_def)
qed

lemma always_verify_chain:
  assumes "always (hybrid_verify_root_self_signature L (Some ix)) (True, r)"
    and "always (hybrid_verify_certificate L (Some x) (Some ix)) (True, s)"
  shows "\<exists>c. always (hybrid_verify_chain L (Some ix) (Some x)) (True, c)"
proof -
  from assms have "certificate_valid r" "certificate_valid s"
    using root_verifier.returned[OF outcome_of_always] server_verifier.returned[OF outcome_of_always]
    by blast+
  note valid = this
  show ?thesis
    unfolding hybrid_verify_chain_def Let_def
    by (rule exI, rule always_bind[OF assms(1)], unfold prod.case, rule always_bind[OF assms(2)])
      (simp add: valid)
qed

end
