(* ===== verification/Toy_X509.thy ===== *)
theory Toy_X509
  imports Chain_Complete Reference_Facts
begin

text \<open>
  A concrete X.509 library that satisfies the laws of \<open>Chain_Complete\<close>, used only in witnesses. It
  can encode three certificates, a root, a server and an encryption certificate, all with the key
  of \<open>Reference_Facts\<close>; objects are their dotted names, names are lists of entries, and an extension
  holds the text it was configured from.
\<close>

datatype toy_cert = Toy_Root | Toy_Server | Toy_Encryption

type_synonym toy_name = "(string \<times> string) list"
type_synonym toy_spki = "string \<times> string algor_parameter \<times> bytes"

fun toy_oid :: "nid \<Rightarrow> string" where
  "toy_oid NID_basic_constraints = ''2.5.29.19''"
| "toy_oid NID_key_usage = ''2.5.29.15''"
| "toy_oid NID_ext_key_usage = ''2.5.29.37''"
| "toy_oid NID_subject_alt_name = ''2.5.29.17''"
| "toy_oid NID_subject_key_identifier = ''2.5.29.14''"
| "toy_oid NID_authority_key_identifier = ''2.5.29.35''"
| "toy_oid NID_server_auth = ''1.3.6.1.5.5.7.3.1''"
| "toy_oid (NID_other i) = ''''"

definition toy_nid :: "string \<Rightarrow> nid" where
  "toy_nid s =
     (case filter (\<lambda>n. toy_oid n = s)
        [NID_basic_constraints, NID_key_usage, NID_ext_key_usage, NID_subject_alt_name,
         NID_subject_key_identifier, NID_authority_key_identifier, NID_server_auth] of
        [] \<Rightarrow> NID_other 0 | n # ns \<Rightarrow> n)"

definition toy_ext :: "nid \<Rightarrow> bytes \<Rightarrow> string x509_extension" where
  "toy_ext n d = \<lparr>ext_object = toy_oid n, ext_critical = True, ext_data = Some d\<rparr>"

definition toy_marker :: "string x509_extension" where
  "toy_marker = \<lparr>ext_object = HYBRID_PQC_EXTENSION_OID, ext_critical = False, ext_data = Some der_null\<rparr>"

definition toy_octets :: bytes where
  "toy_octets = replicate 1312 7 @ toy_point"

fun toy_exts :: "toy_cert \<Rightarrow> string x509_extension list" where
  "toy_exts Toy_Root =
     [toy_ext NID_basic_constraints (ascii ''critical,CA:TRUE''),
      toy_ext NID_key_usage (ascii ''critical,keyCertSign,cRLSign''),
      toy_ext NID_subject_key_identifier (pad 32 toy_octets), toy_marker]"
| "toy_exts Toy_Server =
     [toy_ext NID_basic_constraints (ascii ''critical,CA:FALSE''),
      toy_ext NID_key_usage (ascii ''critical,digitalSignature''),
      toy_ext NID_ext_key_usage (ascii ''serverAuth''),
      toy_ext NID_subject_alt_name (ascii ''DNS:server.local''),
      toy_ext NID_subject_key_identifier (pad 32 toy_octets),
      toy_ext NID_authority_key_identifier (pad 32 toy_octets), toy_marker]"
| "toy_exts Toy_Encryption =
     [toy_ext NID_basic_constraints (ascii ''critical,CA:FALSE''),
      toy_ext NID_key_usage (ascii ''critical,keyEncipherment,keyAgreement''),
      toy_ext NID_subject_key_identifier (pad 32 toy_point),
      toy_ext NID_authority_key_identifier (pad 32 toy_octets), toy_marker]"

definition toy_name :: "string \<Rightarrow> toy_name" where
  "toy_name cn = [(''C'', ''CN''), (''O'', ''Experimental Hybrid PKI''), (''CN'', cn)]"

definition toy_algor :: "string x509_algor" where
  "toy_algor = \<lparr>algorithm = Some COMPOSITE_SM2_DILITHIUM_EXPERIMENTAL_OID, parameter_type = V_ASN1_UNDEF\<rparr>"

fun toy_subject :: "toy_cert \<Rightarrow> toy_name" where
  "toy_subject Toy_Root = toy_name ''Root Hybrid CA''"
| "toy_subject c = toy_name ''server.local''"

fun toy_spki_of :: "toy_cert \<Rightarrow> toy_spki" where
  "toy_spki_of Toy_Encryption = (''1.2.840.10045.2.1'', V_ASN1_OBJECT ''1.2.156.10197.1.301'', toy_point)"
| "toy_spki_of c = (COMPOSITE_SM2_DILITHIUM_EXPERIMENTAL_OID, V_ASN1_UNDEF, toy_octets)"

fun toy_code :: "toy_cert \<Rightarrow> byte" where
  "toy_code Toy_Root = 1"
| "toy_code Toy_Server = 2"
| "toy_code Toy_Encryption = 3"

definition toy_tbs :: "toy_cert \<Rightarrow> (toy_name, string, toy_spki) composite_tbs_certificate" where
  "toy_tbs c = \<lparr>version = Some 2, serial_number = (case c of Toy_Root \<Rightarrow> 1 | Toy_Server \<Rightarrow> 2 | Toy_Encryption \<Rightarrow> 3),
     signature = toy_algor, issuer = toy_name ''Root Hybrid CA'', not_before = -60, not_after = 31536000,
     subject = toy_subject c, subject_public_key_info = toy_spki_of c, issuer_uid = None,
     subject_uid = None, extensions = Some (toy_exts c)\<rparr>"

definition toy_signature :: "toy_cert \<Rightarrow> asn1_bit_string" where
  "toy_signature c = \<lparr>flags = 8, bit_data = toy_composite_signature [toy_code c] []\<rparr>"

definition toy_certificate :: "toy_cert \<Rightarrow> (toy_name, string, toy_spki) composite_certificate" where
  "toy_certificate c = \<lparr>tbs_certificate = toy_tbs c, signature_algorithm = toy_algor,
     signature_value = toy_signature c\<rparr>"

text \<open>Encoding fails for anything but the three certificates.\<close>

definition toy_lookup :: "(toy_cert \<Rightarrow> 'a) \<Rightarrow> 'a \<Rightarrow> toy_cert option" where
  "toy_lookup f a = (if f Toy_Root = a then Some Toy_Root else if f Toy_Server = a then Some Toy_Server
     else if f Toy_Encryption = a then Some Toy_Encryption else None)"

definition toy_encode :: "(toy_cert \<Rightarrow> 'a) \<Rightarrow> 'a \<Rightarrow> int \<times> bytes" where
  "toy_encode f a = (case toy_lookup f a of None \<Rightarrow> (0, []) | Some c \<Rightarrow> (1, [toy_code c]))"

text \<open>Decoding accepts the code of a certificate, and also behind the tag of a sequence.\<close>

definition toy_certificate_d2i :: "bytes \<Rightarrow> (toy_cert \<times> nat) option" where
  "toy_certificate_d2i d = (case d of
     [] \<Rightarrow> None
   | b # bs \<Rightarrow> (case toy_lookup toy_code b of
       Some c \<Rightarrow> Some (c, 1)
     | None \<Rightarrow> if b = 48 \<and> bs \<noteq> [] then map_option (\<lambda>c. (c, 2)) (toy_lookup toy_code (hd bs)) else None))"

definition toy_read :: "nid \<Rightarrow> toy_cert \<Rightarrow> bytes option" where
  "toy_read n c = (case filter (\<lambda>e. ext_object e = toy_oid n) (toy_exts c) of [e] \<Rightarrow> ext_data e | _ \<Rightarrow> None)"

text \<open>The three configurations used have different lengths.\<close>

definition toy_usage :: "bytes \<Rightarrow> nat list" where
  "toy_usage d = (if length d = 28 then [5, 6] else if length d = 25 then [0]
     else if length d = 37 then [2, 4] else [])"

definition toy_x509_with :: "'e \<Rightarrow> (unit, bytes, toy_cert, toy_name, string, toy_spki, 'e) x509_lib_scheme" where
  "toy_x509_with e = toy_with \<lparr>
     asn1_call = \<lambda>s. give True,
     OBJ_txt2obj = \<lambda>s. give (Some s),
     OBJ_obj2txt = \<lambda>s. (int (length s), s),
     OBJ_cmp = \<lambda>a b. if a = b then 0 else 1,
     OBJ_obj2nid = toy_nid,
     X509_NAME_new = give (Some []),
     X509_NAME_add_entry_by_txt = \<lambda>n f t v. give (Some (n @ [(f, v)])),
     X509_NAME_dup = \<lambda>n. give (Some n),
     X509_NAME_cmp = \<lambda>a b. if a = b then 0 else 1,
     X509V3_EXT_conf_nid = \<lambda>n v. give (if n \<in> set [NID_basic_constraints, NID_key_usage,
        NID_ext_key_usage, NID_subject_alt_name] then Some (toy_ext n (ascii v)) else None),
     X509_EXTENSION_create_by_OBJ = \<lambda>obj c d.
       give (Some \<lparr>ext_object = obj, ext_critical = c, ext_data = Some d\<rparr>),
     X509V3_EXT_i2d_octets = \<lambda>n d. give (Some (toy_ext n d)),
     X509V3_EXT_i2d_authority = \<lambda>d. give (Some (toy_ext NID_authority_key_identifier d)),
     X509_PUBKEY_set0_param = \<lambda>obj t b. give (Some (obj, t, b)),
     X509_PUBKEY_get0_param = \<lambda>(obj, t, b). Some (b, Some \<lparr>algorithm = Some obj, parameter_type = t\<rparr>),
     X509_gmtime_adj = \<lambda>d. give (Some d),
     COMPOSITE_TBS_CERTIFICATE_new = give (Some (toy_tbs Toy_Root)),
     COMPOSITE_CERTIFICATE_new = give (Some 0),
     ASN1_item_i2d_tbs = \<lambda>it t. give (if it = rfc5280_tbs then toy_encode toy_tbs t else (0, [])),
     ASN1_item_i2d_certificate = \<lambda>it tbs_it c. give (if it = rfc5280_certificate \<and> tbs_it = rfc5280_tbs then toy_encode toy_certificate c else (0, [])),
     d2i_X509 = \<lambda>d. give (toy_certificate_d2i d),
     i2d_re_X509_tbs = \<lambda>c. give (1, [toy_code c]),
     X509_get_subject_name = \<lambda>c. Some (toy_subject c),
     X509_get_issuer_name = \<lambda>c. Some (toy_name ''Root Hybrid CA''),
     X509_get0_signature = \<lambda>c. (Some (toy_signature c), Some toy_algor),
     X509_get0_tbs_sigalg = \<lambda>c. Some toy_algor,
     X509_get_X509_PUBKEY = \<lambda>c. Some (toy_spki_of c),
     X509_get0_pubkey_bitstr = \<lambda>c. Some \<lparr>flags = 8, bit_data = []\<rparr>,
     X509_get_pubkey = \<lambda>c. give (if c = Toy_Encryption then Some toy_point else None),
     X509_get_ext_by_OBJ = \<lambda>c obj lo. find_ext_by (\<lambda>e. ext_object e = obj) lo 0 (toy_exts c),
     X509_get_ext = \<lambda>c i. if 0 \<le> i \<and> i < int (length (toy_exts c)) then Some (toy_exts c ! nat i) else None,
     ext_d2i_basic_constraints = \<lambda>c. give (map_option (\<lambda>d. d = ascii ''critical,CA:TRUE'')
        (toy_read NID_basic_constraints c), 1),
     ext_d2i_key_usage = \<lambda>c. give (map_option (\<lambda>d. \<lparr>flags = 8, bit_data = d\<rparr>) (toy_read NID_key_usage c), 1),
     ext_d2i_ext_key_usage = \<lambda>c. give (map_option (\<lambda>d. [''1.3.6.1.5.5.7.3.1'']) (toy_read NID_ext_key_usage c)),
     ext_d2i_subject_alt_name = \<lambda>c. give (map_option (\<lambda>d. [GEN_DNS (Some (drop 4 d))])
        (toy_read NID_subject_alt_name c)),
     ext_d2i_subject_key_identifier = \<lambda>c. give (toy_read NID_subject_key_identifier c),
     ext_d2i_authority_key_identifier = \<lambda>c. give (map_option Some (toy_read NID_authority_key_identifier c)),
     ASN1_BIT_STRING_get_bit = \<lambda>u n. n \<in> set (toy_usage (bit_data u)),
     X509_get0_notBefore = \<lambda>c. -60, X509_get0_notAfter = \<lambda>c. 31536000,
     X509_cmp_current_time = \<lambda>t. give (if t \<le> 0 then -1 else 1),
     X509_check_host = \<lambda>c h. give (if c = Toy_Server \<and> h = ''server.local'' then 1 else 0), \<dots> = e\<rparr>"

abbreviation toy_x509 :: "(unit, bytes, toy_cert, toy_name, string, toy_spki) x509_lib" where
  "toy_x509 \<equiv> toy_x509_with ()"

section \<open>The laws hold\<close>

lemma toy_x509_eval:
  "asn1_call (toy_x509_with X) = (\<lambda>s. give True)"
  "OBJ_txt2obj (toy_x509_with X) = (\<lambda>s. give (Some s))"
  "OBJ_obj2txt (toy_x509_with X) = (\<lambda>s. (int (length s), s))"
  "OBJ_cmp (toy_x509_with X) = (\<lambda>a b. if a = b then 0 else 1)"
  "OBJ_obj2nid (toy_x509_with X) = (toy_nid)"
  "X509_NAME_new (toy_x509_with X) = (give (Some []))"
  "X509_NAME_add_entry_by_txt (toy_x509_with X) = (\<lambda>n f t v. give (Some (n @ [(f, v)])))"
  "X509_NAME_dup (toy_x509_with X) = (\<lambda>n. give (Some n))"
  "X509_NAME_cmp (toy_x509_with X) = (\<lambda>a b. if a = b then 0 else 1)"
  "X509V3_EXT_conf_nid (toy_x509_with X) = (\<lambda>n v. give (if n \<in> set [NID_basic_constraints, NID_key_usage, NID_ext_key_usage, NID_subject_alt_name] then Some (toy_ext n (ascii v)) else None))"
  "X509_EXTENSION_create_by_OBJ (toy_x509_with X) = (\<lambda>obj c d. give (Some \<lparr>ext_object = obj, ext_critical = c, ext_data = Some d\<rparr>))"
  "X509V3_EXT_i2d_octets (toy_x509_with X) = (\<lambda>n d. give (Some (toy_ext n d)))"
  "X509V3_EXT_i2d_authority (toy_x509_with X) = (\<lambda>d. give (Some (toy_ext NID_authority_key_identifier d)))"
  "X509_PUBKEY_set0_param (toy_x509_with X) = (\<lambda>obj t b. give (Some (obj, t, b)))"
  "X509_PUBKEY_get0_param (toy_x509_with X) = (\<lambda>(obj, t, b). Some (b, Some \<lparr>algorithm = Some obj, parameter_type = t\<rparr>))"
  "X509_gmtime_adj (toy_x509_with X) = (\<lambda>d. give (Some d))"
  "COMPOSITE_TBS_CERTIFICATE_new (toy_x509_with X) = (give (Some (toy_tbs Toy_Root)))"
  "COMPOSITE_CERTIFICATE_new (toy_x509_with X) = (give (Some 0))"
  "ASN1_item_i2d_tbs (toy_x509_with X) = (\<lambda>it t. give (if it = rfc5280_tbs then toy_encode toy_tbs t else (0, [])))"
  "ASN1_item_i2d_certificate (toy_x509_with X) = (\<lambda>it tbs_it c. give (if it = rfc5280_certificate \<and> tbs_it = rfc5280_tbs then toy_encode toy_certificate c else (0, [])))"
  "d2i_X509 (toy_x509_with X) = (\<lambda>d. give (toy_certificate_d2i d))"
  "i2d_re_X509_tbs (toy_x509_with X) = (\<lambda>c. give (1, [toy_code c]))"
  "X509_get_subject_name (toy_x509_with X) = (\<lambda>c. Some (toy_subject c))"
  "X509_get_issuer_name (toy_x509_with X) = (\<lambda>c. Some (toy_name ''Root Hybrid CA''))"
  "X509_get0_signature (toy_x509_with X) = (\<lambda>c. (Some (toy_signature c), Some toy_algor))"
  "X509_get0_tbs_sigalg (toy_x509_with X) = (\<lambda>c. Some toy_algor)"
  "X509_get_X509_PUBKEY (toy_x509_with X) = (\<lambda>c. Some (toy_spki_of c))"
  "X509_get0_pubkey_bitstr (toy_x509_with X) = (\<lambda>c. Some \<lparr>flags = 8, bit_data = []\<rparr>)"
  "X509_get_pubkey (toy_x509_with X) = (\<lambda>c. give (if c = Toy_Encryption then Some toy_point else None))"
  "X509_get_ext_by_OBJ (toy_x509_with X) = (\<lambda>c obj lo. find_ext_by (\<lambda>e. ext_object e = obj) lo 0 (toy_exts c))"
  "X509_get_ext (toy_x509_with X) = (\<lambda>c i. if 0 \<le> i \<and> i < int (length (toy_exts c)) then Some (toy_exts c ! nat i) else None)"
  "ext_d2i_basic_constraints (toy_x509_with X) = (\<lambda>c. give (map_option (\<lambda>d. d = ascii ''critical,CA:TRUE'') (toy_read NID_basic_constraints c), 1))"
  "ext_d2i_key_usage (toy_x509_with X) = (\<lambda>c. give (map_option (\<lambda>d. \<lparr>flags = 8, bit_data = d\<rparr>) (toy_read NID_key_usage c), 1))"
  "ext_d2i_ext_key_usage (toy_x509_with X) = (\<lambda>c. give (map_option (\<lambda>d. [''1.3.6.1.5.5.7.3.1'']) (toy_read NID_ext_key_usage c)))"
  "ext_d2i_subject_alt_name (toy_x509_with X) = (\<lambda>c. give (map_option (\<lambda>d. [GEN_DNS (Some (drop 4 d))]) (toy_read NID_subject_alt_name c)))"
  "ext_d2i_subject_key_identifier (toy_x509_with X) = (\<lambda>c. give (toy_read NID_subject_key_identifier c))"
  "ext_d2i_authority_key_identifier (toy_x509_with X) = (\<lambda>c. give (map_option Some (toy_read NID_authority_key_identifier c)))"
  "ASN1_BIT_STRING_get_bit (toy_x509_with X) = (\<lambda>u n. n \<in> set (toy_usage (bit_data u)))"
  "X509_get0_notBefore (toy_x509_with X) = (\<lambda>c. -60)"
  "X509_get0_notAfter (toy_x509_with X) = (\<lambda>c. 31536000)"
  "X509_cmp_current_time (toy_x509_with X) = (\<lambda>t. give (if t \<le> 0 then -1 else 1))"
  "X509_check_host (toy_x509_with X) = (\<lambda>c h. give (if c = Toy_Server \<and> h = ''server.local'' then 1 else 0))"
  "EVP_Digest (toy_x509_with X) = (\<lambda>nm m. give (True, pad 32 m))"
  "EVP_PKEY_is_a (toy_x509_with X) = (\<lambda>k nm. nm = ''SM2'')"
  "EVP_PKEY_get_pub_key (toy_x509_with X) = (\<lambda>k n. (1, k))"
  "OPENSSL_malloc (toy_x509_with X) = (\<lambda>n. give True)"
  by (simp_all add: toy_x509_with_def toy_with_def)

lemma ascii_append [simp]: "ascii (a @ b) = ascii a @ ascii b"
  by (simp add: ascii_def)

lemma ascii_length_neq: "length a \<noteq> length b \<Longrightarrow> ascii a \<noteq> ascii b"
  by (auto dest: arg_cong[where f = length])

lemma toy_nid_oid: "toy_oid n \<noteq> [] \<Longrightarrow> toy_nid (toy_oid n) = n"
  by (cases n) (simp_all add: toy_nid_def)

lemma toy_nid_cases: "toy_nid s = NID_other 0 \<or> toy_oid (toy_nid s) = s"
proof (cases "filter (\<lambda>n. toy_oid n = s)
        [NID_basic_constraints, NID_key_usage, NID_ext_key_usage, NID_subject_alt_name,
         NID_subject_key_identifier, NID_authority_key_identifier, NID_server_auth]")
  case Nil
  then show ?thesis unfolding toy_nid_def by (simp only: list.case simp_thms)
next
  case (Cons n ns)
  then have "toy_oid n = s" by (metis (mono_tags, lifting) filter_eq_ConsD)
  then show ?thesis unfolding toy_nid_def Cons by simp
qed

lemma toy_nid_eq:
  assumes "n \<in> set [NID_basic_constraints, NID_key_usage, NID_ext_key_usage, NID_subject_alt_name,
    NID_subject_key_identifier, NID_authority_key_identifier]"
  shows "toy_nid s = n \<longleftrightarrow> s = toy_oid n"
proof
  assume "toy_nid s = n"
  moreover have "n \<noteq> NID_other 0" using assms by auto
  ultimately show "s = toy_oid n" using toy_nid_cases[of s] by simp
next
  have "toy_oid n \<noteq> []" using assms by auto
  moreover assume "s = toy_oid n"
  ultimately show "toy_nid s = n" by (simp add: toy_nid_oid)
qed

lemma toy_object_law: "object_law (toy_x509_with X)"
  unfolding object_law_def
  by (simp add: toy_x509_eval COMPOSITE_SM2_DILITHIUM_EXPERIMENTAL_OID_def
      HYBRID_PQC_EXTENSION_OID_def toy_nid_def)

lemma toy_conf_ext: "conf_ext (toy_x509_with X) n v e \<longleftrightarrow>
    n \<in> set [NID_basic_constraints, NID_key_usage, NID_ext_key_usage, NID_subject_alt_name] \<and>
    e = toy_ext n (ascii v)"
  by (auto simp: conf_ext_def toy_x509_eval)

lemma toy_ski_ext: "ski_ext (toy_x509_with X) d e \<longleftrightarrow> e = toy_ext NID_subject_key_identifier d"
  by (auto simp: ski_ext_def toy_x509_eval)

lemma toy_aki_ext: "aki_ext (toy_x509_with X) d e \<longleftrightarrow> e = toy_ext NID_authority_key_identifier d"
  by (auto simp: aki_ext_def toy_x509_eval)

lemma toy_ext_nid: "ext_nid (toy_x509_with X) e = toy_nid (ext_object e)"
  by (simp add: ext_nid_def toy_x509_eval)

lemma toy_extension_law: "extension_law (toy_x509_with X)"
  unfolding extension_law_def toy_conf_ext toy_ski_ext toy_aki_ext toy_ext_nid
  by (auto simp: toy_ext_def toy_nid_oid simp del: toy_oid.simps)
    (auto simp: toy_x509_eval toy_nid_def)

lemma toy_name_law: "name_law (toy_x509_with X)"
  by (simp add: name_law_def single_valued_prog_def toy_x509_eval)

lemma toy_spki_law: "spki_law (toy_x509_with X)"
  by (auto simp: spki_law_def toy_x509_eval)

lemma toy_digest_law: "digest_law (toy_x509_with X)"
  by (auto simp: digest_law_def toy_x509_eval)

lemma toy_lookup_Some: "toy_lookup f a = Some c \<Longrightarrow> f c = a"
  by (auto simp: toy_lookup_def split: if_splits)

lemma toy_code_inj [simp]: "toy_code c = toy_code d \<longleftrightarrow> c = d"
  by (cases c; cases d; simp)

lemma toy_lookup_inj [simp]: "inj f \<Longrightarrow> toy_lookup f (f c) = Some c"
  by (cases c) (auto simp: toy_lookup_def inj_eq)

lemma toy_inj [simp]: "inj toy_code" "inj toy_tbs" "inj toy_certificate"
proof -
  show "inj toy_code" by (rule injI) simp
  have serial: "c = d" if "toy_tbs c = toy_tbs d" for c d
    using arg_cong[OF that, of serial_number] by (cases c; cases d) (simp_all add: toy_tbs_def)
  then show "inj toy_tbs" by (rule injI)
  show "inj toy_certificate" by (rule injI) (auto simp: toy_certificate_def dest: serial)
qed

lemma toy_certificate_d2i [simp]:
  "toy_certificate_d2i (toy_code c # bs) = Some (c, 1)"
  "toy_certificate_d2i (48 # toy_code c # bs) = Some (c, 2)"
proof -
  have "toy_lookup toy_code 48 = None" by (simp add: toy_lookup_def)
  then show "toy_certificate_d2i (toy_code c # bs) = Some (c, 1)"
    "toy_certificate_d2i (48 # toy_code c # bs) = Some (c, 2)"
    by (simp_all add: toy_certificate_d2i_def)
qed

lemma toy_fields [simp]:
  "tbs_certificate (toy_certificate c) = toy_tbs c" "signature_algorithm (toy_certificate c) = toy_algor"
  "signature_value (toy_certificate c) = toy_signature c" "subject (toy_tbs c) = toy_subject c"
  "issuer (toy_tbs c) = toy_name ''Root Hybrid CA''" "signature (toy_tbs c) = toy_algor"
  "subject_public_key_info (toy_tbs c) = toy_spki_of c" "extensions (toy_tbs c) = Some (toy_exts c)"
  "flags (toy_signature c) = 8"
  by (simp_all add: toy_certificate_def toy_tbs_def toy_signature_def)

lemma toy_reads_fields: "reads_fields (toy_x509_with X) c (toy_certificate c)"
  unfolding reads_fields_def toy_fields by (simp add: toy_x509_eval toy_encode_def)

lemma toy_carries: "carries (toy_x509_with X) c (toy_exts c)"
proof -
  have hit: "(\<lambda>e. OBJ_cmp (toy_x509_with X) (ext_object e) obj = 0) = (\<lambda>e. ext_object e = obj)" for obj
    by (auto simp: toy_x509_eval)
  show ?thesis unfolding carries_def hit by (simp add: toy_x509_eval)
qed

text \<open>An extension that is unique in a certificate is the one its reader finds.\<close>

lemma toy_read_unique:
  assumes "unique_ext (toy_x509_with X) (toy_exts c) n e"
    and "n \<in> set [NID_basic_constraints, NID_key_usage, NID_ext_key_usage, NID_subject_alt_name,
      NID_subject_key_identifier, NID_authority_key_identifier]"
  shows "toy_read n c = ext_data e"
proof -
  have "(\<lambda>e :: string x509_extension. toy_nid (ext_object e) = n) = (\<lambda>e. ext_object e = toy_oid n)"
    using toy_nid_eq[OF assms(2)] by blast
  with assms(1) show ?thesis by (simp add: unique_ext_def toy_ext_nid toy_read_def)
qed

lemma toy_reads_basic_constraints: "reads_basic_constraints (toy_x509_with X) c (toy_exts c)"
proof -
  have "ascii ''critical,CA:FALSE'' \<noteq> ascii ''critical,CA:TRUE''" by (rule ascii_length_neq) simp
  then show ?thesis
    unfolding reads_basic_constraints_def toy_conf_ext
    by (auto dest!: toy_read_unique simp: toy_ext_def) (simp_all add: toy_x509_eval)
qed

lemma toy_usage_values:
  "toy_usage (ascii ''critical,keyCertSign,cRLSign'') = [5, 6]"
  "toy_usage (ascii ''critical,digitalSignature'') = [0]"
  "toy_usage (ascii ''critical,keyEncipherment,keyAgreement'') = [2, 4]"
  by (simp_all add: toy_usage_def)

lemma toy_usage_bits: "usage_bits (toy_x509_with X) \<lparr>flags = 8, bit_data = d\<rparr> = filter (\<lambda>n. n \<in> set (toy_usage d)) [0, 2, 3, 4, 5, 6]"
  by (simp add: usage_bits_def toy_x509_eval)

lemma toy_reads_key_usage: "reads_key_usage (toy_x509_with X) c (toy_exts c)"
  unfolding reads_key_usage_def
proof (intro allI impI)
  fix e v bits
  assume "unique_ext (toy_x509_with X) (toy_exts c) NID_key_usage e" and conf: "conf_ext (toy_x509_with X) NID_key_usage v e"
    and v: "(v, bits) \<in> set [(''critical,keyCertSign,cRLSign'', [5, 6]), (''critical,digitalSignature'', [0]),
                        (''critical,keyEncipherment,keyAgreement'', [2, 4 :: nat])]"
  then have "toy_read NID_key_usage c = Some (ascii v)"
    by (auto dest!: toy_read_unique simp: toy_conf_ext toy_ext_def)
  then have "always (ext_d2i_key_usage (toy_x509_with X) c) (Some \<lparr>flags = 8, bit_data = ascii v\<rparr>, 1)"
    by (simp add: toy_x509_eval)
  moreover have "usage_bits (toy_x509_with X) \<lparr>flags = 8, bit_data = ascii v\<rparr> = bits"
    using v unfolding toy_usage_bits list.set insert_iff empty_iff prod.inject
    by (elim disjE conjE FalseE) (simp_all only: toy_usage_values, simp_all)
  ultimately show "\<exists>u. always (ext_d2i_key_usage (toy_x509_with X) c) (Some u, 1) \<and> usage_bits (toy_x509_with X) u = bits"
    by blast
qed

lemma toy_reads_server_names: "reads_server_names (toy_x509_with X) c (toy_exts c)"
  unfolding reads_server_names_def toy_conf_ext
  by (auto dest!: toy_read_unique simp: toy_ext_def)
    (simp_all add: toy_x509_eval toy_nid_def ascii_def)

lemma toy_reads_key_ids: "reads_key_ids (toy_x509_with X) c (toy_exts c)"
  unfolding reads_key_ids_def toy_ski_ext toy_aki_ext
  by (auto dest!: toy_read_unique simp: toy_ext_def) (simp_all add: toy_x509_eval)

lemma toy_codec_law: "codec_law (toy_x509_with X)"
  unfolding codec_law_def
proof (intro allI impI)
  fix cert n der x exts
  assume enc: "outcome (ASN1_item_i2d_certificate (toy_x509_with X) rfc5280_certificate rfc5280_tbs cert) (n, der)" "0 < n"
    and dec: "outcome (d2i_X509 (toy_x509_with X) der) (Some (x, length der))"
    and exts: "extensions (tbs_certificate cert) = Some exts"
  from enc obtain c where c: "toy_lookup toy_certificate cert = Some c" "der = [toy_code c]"
    by (auto simp: toy_x509_eval toy_encode_def split: option.splits)
  from toy_lookup_Some[OF c(1)] have cert: "cert = toy_certificate c" ..
  from dec c(2) have "x = c" by (simp add: toy_x509_eval)
  moreover from cert exts have "exts = toy_exts c" by simp
  ultimately show "reads_fields (toy_x509_with X) x cert \<and> carries (toy_x509_with X) x exts \<and>
      reads_basic_constraints (toy_x509_with X) x exts \<and> reads_key_usage (toy_x509_with X) x exts \<and>
      reads_server_names (toy_x509_with X) x exts \<and> reads_key_ids (toy_x509_with X) x exts"
    using cert by (simp add: toy_reads_fields toy_carries toy_reads_basic_constraints toy_reads_key_usage
        toy_reads_server_names toy_reads_key_ids)
qed

lemma toy_x509_laws [simp]: "x509_laws (toy_x509_with X)"
  by (simp add: x509_laws_def toy_object_law toy_extension_law toy_name_law toy_spki_law toy_digest_law
      toy_codec_law)

section \<open>Concrete runs\<close>

lemma toy_public_octets [simp]: "public_key_octets (toy_x509_with X) toy_public = toy_octets"
  by (simp add: public_key_octets_def toy_octets_def toy_x509_eval)

lemma toy_issuing_keys [simp]: "issuing_keys (toy_x509_with X) toy_private toy_public toy_point"
proof -
  have "drop DILITHIUM_PUBLIC_KEY_BYTES toy_octets = toy_point" by (simp add: toy_octets_def sizes)
  then show ?thesis
    unfolding issuing_keys_def toy_public_octets by (simp only:) (simp add: toy_x509_with_def)
qed

lemma toy_stays_valid [simp]: "stays_valid (toy_x509_with X) c"
  by (simp add: stays_valid_def toy_x509_eval)

lemma toy_time_valid [simp]: "always (certificate_time_valid (toy_x509_with X) (Some c)) True"
  by (simp add: certificate_time_valid_def toy_x509_eval)

lemma toy_serialize_key:
  "composite_serialize_public_key (toy_x509_with X) (Some toy_public) True = give (Some toy_octets)"
  unfolding toy_octets_def toy_x509_with_def
  by (rule always_unit) (auto simp: always_def toy_serialize_key_run)

lemma toy_with_sign:
  "composite_sign (toy_with e) (Some toy_private) (Buf m) (Null 0) True = give (Some (toy_composite_signature m []))"
  using toy_sign_null[of e m] by (intro always_unit) (simp add: always_def run_def)

lemma toy_composite_sign:
  "composite_sign (toy_x509_with X) (Some toy_private) (Buf m) (Null 0) True = give (Some (toy_composite_signature m []))"
  unfolding toy_x509_with_def by (rule toy_with_sign)

lemma toy_make_name: "cn \<noteq> [] \<Longrightarrow> make_name (toy_x509_with X) (Some cn) = give (Some (toy_name cn))"
  by (simp add: make_name_def attempt_def toy_x509_eval toy_name_def)

lemma toy_algorithm: "set_composite_algorithm (toy_x509_with X) = give (Some toy_algor)"
  by (simp add: set_composite_algorithm_def attempt_def toy_algor_def toy_x509_eval)

lemma toy_conf: "n \<in> set [NID_basic_constraints, NID_key_usage, NID_ext_key_usage, NID_subject_alt_name] \<Longrightarrow>
    add_conf_extension (toy_x509_with X) n v exts = give (Some (exts @ [toy_ext n (ascii v)]))"
  by (simp add: add_conf_extension_def push_extension_def ensure_def toy_x509_eval)

lemma toy_mark: "add_pqc_marker (toy_x509_with X) exts = give (Some (exts @ [toy_marker]))"
  by (simp add: add_pqc_marker_def push_extension_def ensure_def attempt_def toy_x509_eval toy_marker_def)

lemma toy_ski: "add_subject_key_identifier (toy_x509_with X) (Some toy_public) exts =
    give (Some (exts @ [toy_ext NID_subject_key_identifier (pad 32 toy_octets)]))"
  by (simp add: add_subject_key_identifier_def compute_key_identifier_def push_key_identifier_def
      push_extension_def attempt_def ensure_def toy_serialize_key) (simp add: toy_x509_eval)

lemma toy_aki: "add_authority_key_identifier (toy_x509_with X) (Some toy_public) exts =
    give (Some (exts @ [toy_ext NID_authority_key_identifier (pad 32 toy_octets)]))"
  by (simp add: add_authority_key_identifier_def compute_key_identifier_def
      push_extension_def attempt_def ensure_def toy_serialize_key) (simp add: toy_x509_eval)

lemma toy_sm2_ski: "add_sm2_subject_key_identifier (toy_x509_with X) (Some toy_point) exts =
    give (Some (exts @ [toy_ext NID_subject_key_identifier (pad 32 toy_point)]))"
proof -
  have "sm2_octets (toy_x509_with X) toy_point toy_point" by (simp add: toy_x509_with_def)
  then have "serialize_sm2_public_key (toy_x509_with X) (Some toy_point) (replicate SM2_UNCOMPRESSED_PUBLIC_KEY_BYTES 0)
      = (True, toy_point)"
    by (simp add: serialize_sm2_public_key_fst)
  then show ?thesis
    by (simp add: add_sm2_subject_key_identifier_def compute_sm2_key_identifier_def
        push_key_identifier_def push_extension_def attempt_def ensure_def) (simp add: toy_x509_eval)
qed

lemma toy_spki: "make_composite_spki (toy_x509_with X) (Some toy_public) =
    give (Some (COMPOSITE_SM2_DILITHIUM_EXPERIMENTAL_OID, V_ASN1_UNDEF, toy_octets))"
proof -
  have "length toy_octets \<le> INT_MAX" by (simp add: toy_octets_def INT_MAX_def)
  then show ?thesis
    by (simp add: make_composite_spki_def attempt_def ensure_def toy_serialize_key not_less)
      (simp add: toy_x509_eval)
qed

lemma toy_sm2_spki: "make_sm2_spki (toy_x509_with X) (Some toy_point) =
    give (Some (toy_spki_of Toy_Encryption))"
proof -
  have "sm2_octets (toy_x509_with X) toy_point toy_point" by (simp add: toy_x509_with_def)
  then have "serialize_sm2_public_key (toy_x509_with X) (Some toy_point) (replicate SM2_UNCOMPRESSED_PUBLIC_KEY_BYTES 0)
      = (True, toy_point)"
    by (simp add: serialize_sm2_public_key_fst)
  then show ?thesis by (simp add: make_sm2_spki_def) (simp add: toy_x509_eval)
qed

lemma toy_sign_tbs: "sign_tbs (toy_x509_with X) (Some (toy_tbs c)) (Some toy_private) = give (Some c)"
proof -
  have len: "length (toy_composite_signature [toy_code c] []) \<le> INT_MAX"
    by (simp add: toy_composite_signature_def toy_dilithium_signature_def toy_sm2_signature_def
        toy_der_def INT_MAX_def)
  have flags: "set_no_unused_bits 0 = 8" by (simp add: set_no_unused_bits_def)
  have cert: "\<lparr>tbs_certificate = toy_tbs c, signature_algorithm = toy_algor,
      signature_value = \<lparr>flags = 8, bit_data = toy_composite_signature [toy_code c] []\<rparr>\<rparr> = toy_certificate c"
    by (simp add: toy_certificate_def toy_signature_def)
  have tbs: "i2d_COMPOSITE_TBS_CERTIFICATE (toy_x509_with X) (toy_tbs c) = give (1, [toy_code c])"
    and enc: "i2d_COMPOSITE_CERTIFICATE (toy_x509_with X) (toy_certificate c) = give (1, [toy_code c])"
    and dec: "d2i_X509 (toy_x509_with X) [toy_code c] = give (Some (c, 1))"
    and new: "COMPOSITE_CERTIFICATE_new (toy_x509_with X) = give (Some 0)" "asn1_call (toy_x509_with X) s = give True" for s
    by (simp_all add: encoders_rfc5280 toy_x509_eval toy_encode_def)
  show ?thesis
    using len by (simp add: sign_tbs_def tbs toy_composite_sign attempt_def ensure_def new toy_algorithm
        flags cert enc dec not_less)
qed

lemma option_done: "case_option fail (\<lambda>y. done_with (f y)) = (\<lambda>x. give (map_option f x))"
  by (rule ext) (auto split: option.splits)

lemma toy_frame:
  "fill_tbs (toy_x509_with X) t (toy_name ''Root Hybrid CA'') n spki serial build =
     do { exts \<leftarrow> build;
          give (map_option (\<lambda>exts. t\<lparr>issuer := toy_name ''Root Hybrid CA'', subject := n,
            subject_public_key_info := spki, version := Some 2, serial_number := serial,
            signature := toy_algor, not_before := -60, not_after := 31536000,
            extensions := Some exts\<rparr>) exts) }"
  by (simp add: fill_tbs_def ensure_def attempt_def toy_algorithm toy_x509_eval option_done)

lemma toy_tbs_update:
  "toy_tbs Toy_Root\<lparr>issuer := toy_name ''Root Hybrid CA'', subject := toy_subject c,
      subject_public_key_info := toy_spki_of c, version := Some 2,
      serial_number := (case c of Toy_Root \<Rightarrow> 1 | Toy_Server \<Rightarrow> 2 | Toy_Encryption \<Rightarrow> 3),
      signature := toy_algor, not_before := -60, not_after := 31536000,
      extensions := Some (toy_exts c)\<rparr> = toy_tbs c"
  by (simp add: toy_tbs_def)

lemma toy_root_exts: "build_root_extensions (toy_x509_with X) (Some toy_public) = give (Some (toy_exts Toy_Root))"
  by (simp add: build_root_extensions_def attempt_def ensure_def toy_conf toy_ski toy_mark toy_x509_eval(1))

lemma toy_server_exts:
  "build_server_extensions (toy_x509_with X) (Some toy_public) (Some toy_public) (Some ''server.local'')
     = give (Some (toy_exts Toy_Server))"
  by (simp add: build_server_extensions_def attempt_def ensure_def toy_conf toy_ski toy_aki toy_mark
      toy_x509_eval(1))

lemma toy_encryption_exts:
  "build_encryption_server_extensions (toy_x509_with X) (Some toy_public) (Some toy_point)
     = give (Some (toy_exts Toy_Encryption))"
  by (simp add: build_encryption_server_extensions_def attempt_def ensure_def toy_conf toy_sm2_ski toy_aki
      toy_mark toy_x509_eval(1))

lemma toy_news: "COMPOSITE_TBS_CERTIFICATE_new (toy_x509_with X) = give (Some (toy_tbs Toy_Root))"
    "X509_NAME_dup (toy_x509_with X) n = give (Some n)" "X509_get_subject_name (toy_x509_with X) c = Some (toy_subject c)"
  by (simp_all add: toy_x509_eval)

lemma toy_create_root:
  "hybrid_x509_create_root (toy_x509_with X) (Some toy_private) (Some toy_public) (Some ''Root Hybrid CA'') = give (Some Toy_Root)"
proof -
  have "make_tbs (toy_x509_with X) (Some toy_public) (toy_name ''Root Hybrid CA'') (Some ''Root Hybrid CA'') 1 True (Some toy_public) None
      = give (Some (toy_tbs Toy_Root))"
    using toy_tbs_update[of Toy_Root]
    by (simp add: make_tbs_def toy_news toy_make_name toy_spki toy_frame toy_root_exts)
  then show ?thesis by (simp add: hybrid_x509_create_root_def toy_make_name toy_sign_tbs)
qed

lemma toy_create_server:
  "hybrid_x509_create_server (toy_x509_with X) (Some toy_private) (Some toy_public) (Some toy_public) (Some Toy_Root)
     (Some ''server.local'') (Some ''server.local'') = give (Some Toy_Server)"
proof -
  have "make_tbs (toy_x509_with X) (Some toy_public) (toy_name ''Root Hybrid CA'') (Some ''server.local'') 2 False (Some toy_public)
      (Some ''server.local'') = give (Some (toy_tbs Toy_Server))"
    using toy_tbs_update[of Toy_Server]
    by (simp add: make_tbs_def toy_news toy_make_name toy_spki toy_frame toy_server_exts)
  then show ?thesis by (simp add: hybrid_x509_create_server_def toy_news toy_sign_tbs)
qed

lemma toy_create_encryption:
  "hybrid_x509_create_sm2_encryption (toy_x509_with X) (Some toy_private) (Some toy_public) (Some toy_point)
     (Some Toy_Root) (Some ''server.local'') = give (Some Toy_Encryption)"
proof -
  have "make_sm2_encryption_tbs (toy_x509_with X) (Some toy_point) (toy_name ''Root Hybrid CA'') (Some ''server.local'') (Some toy_public)
      = give (Some (toy_tbs Toy_Encryption))"
    using toy_tbs_update[of Toy_Encryption]
    by (simp add: make_sm2_encryption_tbs_def toy_news toy_make_name toy_sm2_spki toy_frame
        toy_encryption_exts del: toy_spki_of.simps)
  then show ?thesis by (simp add: hybrid_x509_create_sm2_encryption_def toy_news toy_sign_tbs)
qed

lemma toy_issued:
  obtains tbs cert tbs' cert' where "root_profile (toy_x509_with X) toy_public ''Root Hybrid CA'' tbs"
    and "issued_as (toy_x509_with X) toy_private tbs cert Toy_Root"
    and "server_profile (toy_x509_with X) Toy_Root toy_public toy_public ''server.local'' ''server.local'' tbs'"
    and "issued_as (toy_x509_with X) toy_private tbs' cert' Toy_Server"
proof -
  have "outcome (hybrid_x509_create_root (toy_x509_with X) (Some toy_private) (Some toy_public) (Some ''Root Hybrid CA''))
      (Some Toy_Root)"
    by (simp add: toy_create_root)
  then obtain tbs cert where root: "root_profile (toy_x509_with X) toy_public ''Root Hybrid CA'' tbs"
      "issued_as (toy_x509_with X) toy_private tbs cert Toy_Root"
    by (rule outcome_create_root) simp
  have "outcome (hybrid_x509_create_server (toy_x509_with X) (Some toy_private) (Some toy_public) (Some toy_public)
     (Some Toy_Root) (Some ''server.local'') (Some ''server.local'')) (Some Toy_Server)"
    by (simp add: toy_create_server)
  then obtain tbs' cert' where
      "server_profile (toy_x509_with X) Toy_Root toy_public toy_public ''server.local'' ''server.local'' tbs'"
      "issued_as (toy_x509_with X) toy_private tbs' cert' Toy_Server"
    by (rule outcome_create_server) simp
  with root show thesis by (rule that)
qed

lemma toy_composite_key:
  assumes "c \<noteq> Toy_Encryption"
  shows "hybrid_x509_get_composite_public_key (toy_x509_with X) (Some c) (Some blank_public_key) = give (True, Some toy_public)"
proof (rule always_unit)
  have law: "object_law (toy_x509_with X)" "spki_law (toy_x509_with X)"
    by (rule toy_object_law toy_spki_law)+
  have spki: "composite_spki (toy_x509_with X) toy_public (toy_spki_of c)"
  proof -
    have "exportable (toy_x509_with X) toy_public"
      unfolding exportable_def by (rule exI[of _ toy_point], rule exI[of _ toy_point]) (simp add: toy_x509_with_def)
    moreover have "composite_object (toy_x509_with X) COMPOSITE_SM2_DILITHIUM_EXPERIMENTAL_OID"
      by (simp add: composite_object_def toy_x509_eval)
    moreover have "toy_spki_of c = (COMPOSITE_SM2_DILITHIUM_EXPERIMENTAL_OID, V_ASN1_UNDEF, toy_octets)"
      using assms by (cases c) simp_all
    ultimately show ?thesis
      unfolding composite_spki_def toy_public_octets
      by (intro conjI exI[of _ COMPOSITE_SM2_DILITHIUM_EXPERIMENTAL_OID]) (simp_all add: toy_x509_eval)
  qed
  have k: "\<lparr>sm2_public_key = Some toy_point, dilithium_public_key = dilithium_public_key toy_public\<rparr> = toy_public"
    by (simp add: toy_public_def)
  have x: "X509_get_X509_PUBKEY (toy_x509_with X) c = Some (toy_spki_of c)"
      "X509_get0_pubkey_bitstr (toy_x509_with X) c = Some \<lparr>flags = 8, bit_data = []\<rparr>"
      "flags (\<lparr>flags = 8, bit_data = []\<rparr> :: asn1_bit_string) AND 7 = 0"
    by (simp_all add: toy_x509_eval)
  show "always (hybrid_x509_get_composite_public_key (toy_x509_with X) (Some c) (Some blank_public_key))
      (True, Some toy_public)"
    using always_get_composite_public_key[OF law spki toy_issuing_keys x] by (simp only: k)
qed

lemma toy_chain: "\<exists>r. always (hybrid_verify_chain (toy_x509_with X) (Some Toy_Root) (Some Toy_Server)) (True, r)"
proof -
  obtain tbs cert tbs' cert' where root: "root_profile (toy_x509_with X) toy_public ''Root Hybrid CA'' tbs"
      "issued_as (toy_x509_with X) toy_private tbs cert Toy_Root"
      and server: "server_profile (toy_x509_with X) Toy_Root toy_public toy_public ''server.local'' ''server.local'' tbs'"
      "issued_as (toy_x509_with X) toy_private tbs' cert' Toy_Server"
    by (rule toy_issued)
  from always_verify_root[OF toy_x509_laws root toy_issuing_keys toy_time_valid] obtain r where
    r: "always (hybrid_verify_root_self_signature (toy_x509_with X) (Some Toy_Root)) (True, r)" ..
  have "plain_dns ''server.local''" by (simp add: plain_dns_def)
  from always_verify_server[OF toy_x509_laws root server this toy_issuing_keys toy_time_valid] obtain s where
    "always (hybrid_verify_certificate (toy_x509_with X) (Some Toy_Server) (Some Toy_Root)) (True, s)" ..
  with r show ?thesis by (rule always_verify_chain)
qed

lemma toy_encryption_sm2: "always (hybrid_x509_subject_public_key_is_sm2 (toy_x509_with X) (Some Toy_Encryption)) True"
  by (simp add: hybrid_x509_subject_public_key_is_sm2_def toy_x509_eval)

lemma toy_encryption_verified:
  obtains r where "hybrid_verify_encryption_certificate (toy_x509_with X) (Some Toy_Encryption) (Some Toy_Root) = give (True, r)"
proof -
  obtain tbs cert where root: "root_profile (toy_x509_with X) toy_public ''Root Hybrid CA'' tbs"
      "issued_as (toy_x509_with X) toy_private tbs cert Toy_Root"
    by (rule toy_issued)
  have "outcome (hybrid_x509_create_sm2_encryption (toy_x509_with X) (Some toy_private) (Some toy_public) (Some toy_point)
     (Some Toy_Root) (Some ''server.local'')) (Some Toy_Encryption)"
    by (simp add: toy_create_encryption)
  then obtain tbs' cert' where
      enc: "encryption_profile (toy_x509_with X) Toy_Root toy_public toy_point ''server.local'' tbs'"
      "issued_as (toy_x509_with X) toy_private tbs' cert' Toy_Encryption"
    by (rule outcome_create_sm2_encryption) simp
  from always_verify_encryption[OF toy_x509_laws root enc toy_issuing_keys toy_time_valid toy_encryption_sm2]
  obtain r where
    "always (hybrid_verify_encryption_certificate (toy_x509_with X) (Some Toy_Encryption) (Some Toy_Root)) (True, r)" ..
  then show thesis by (intro that always_unit)
qed

lemma toy_serialize_point:
  "serialize_sm2_public_key (toy_x509_with X) (Some toy_point) (replicate 65 0) = (True, toy_point)"
proof -
  have "sm2_octets (toy_x509_with X) toy_point toy_point" by (simp add: toy_x509_with_def)
  then show ?thesis
    using serialize_sm2_public_key_fst[of "replicate 65 0" "toy_x509_with X" toy_point toy_point]
    by (simp add: sizes)
qed

end
