(* ===== verification/Chain_Theorems.thy ===== *)
theory Chain_Theorems
  imports Toy_X509
begin

text \<open>
  The properties of certificate issuing and of the chain verifier, with witnesses over the concrete
  library of \<open>Toy_X509\<close>.
\<close>

section \<open>Verification\<close>

text \<open>
  C19: Chain verification is sound: when \<open>hybrid_verify_chain\<close> accepts, the root names itself as
  issuer, is within its validity, is a certification authority by critical constraints and signs
  itself with the composite key it carries; and the server certificate is linked to that root by
  name and by key identifier, has exactly the leaf usage, the server purpose and a DNS name, carries
  the marker exactly once, and its encoded body is signed in both components under the root's key.
\<close>

theorem chain_accept_sound:
  assumes "run (hybrid_verify_chain L root server) w = (True, r)"
  shows "\<exists>ix x k k'. root = Some ix \<and> server = Some x \<and> root_accepted L ix k' \<and>
           server_accepted L x ix k \<and> dilithium_public_key k = dilithium_public_key k' \<and> chain_valid r"
proof -
  note out = run_outcome[OF assms]
  from outcome_hybrid_verify_chain(1)[OF out] have "chain_valid r" by simp
  with out show ?thesis by (elim outcome_hybrid_verify_chain_True) blast
qed

theorem chain_accept_sound_witness:
  "\<exists>(r :: hybrid_chain_verify_result) ix x k k'. Some Toy_Root = Some ix \<and> Some Toy_Server = Some x \<and> root_accepted toy_x509 ix k' \<and>
     server_accepted toy_x509 x ix k \<and> dilithium_public_key k = dilithium_public_key k' \<and> chain_valid r"
proof -
  obtain r where "always (hybrid_verify_chain toy_x509 (Some Toy_Root) (Some Toy_Server)) (True, r)"
    using toy_chain ..
  from chain_accept_sound[OF always_run[OF this, of "()"]] show ?thesis by (rule exI[of _ r])
qed

text \<open>
  Every verifier's report is strict on every path: the return code is the report's overall
  flag, that flag is the conjunction of all the flags required of this kind of certificate, and the
  composite flag is the AND of format, Dilithium2 and SM2; the chain's flag is the AND of both
  certificates' flags.
\<close>

theorem verifier_reports_strict:
  "(case run (hybrid_verify_root_self_signature L root) w of (v, r) \<Rightarrow>
      v = certificate_valid r \<and> certificate_valid r = root_required r \<and> strict_report r) \<and>
   (case run (hybrid_verify_certificate L server root) w of (v, r) \<Rightarrow>
      v = certificate_valid r \<and> certificate_valid r = server_required r \<and> strict_report r) \<and>
   (case run (hybrid_verify_encryption_certificate L server root) w of (v, r) \<Rightarrow>
      v = certificate_valid r \<and> certificate_valid r = encryption_required r \<and> strict_report r) \<and>
   (case run (hybrid_verify_chain L root server) w of (v, r) \<Rightarrow>
      v = chain_valid r \<and> (trust_anchor_configured r \<longleftrightarrow> root \<noteq> None) \<and>
      (chain_valid r \<longleftrightarrow> certificate_valid (chain_root r) \<and> certificate_valid (chain_server r)))"
proof (intro conjI)
  show "case run (hybrid_verify_chain L root server) w of (v, r) \<Rightarrow>
      v = chain_valid r \<and> (trust_anchor_configured r \<longleftrightarrow> root \<noteq> None) \<and>
      (chain_valid r \<longleftrightarrow> certificate_valid (chain_root r) \<and> certificate_valid (chain_server r))"
  proof (cases "run (hybrid_verify_chain L root server) w")
    case (Pair v r)
    note facts = outcome_hybrid_verify_chain(1-3)[OF run_outcome[OF Pair]]
    show ?thesis unfolding Pair prod.case by (intro conjI facts)
  qed
qed (rule root_verifier.report_run server_verifier.report_run encryption_verifier.report_run)+

text \<open>
  The three profiles exclude each other: no certificate passes two of the authority, leaf and
  encryption constraint checks, if decoding its two constraint extensions always gives one answer.
\<close>

theorem profiles_disjoint:
  assumes "steady (ext_d2i_basic_constraints L x)" and "steady (ext_d2i_key_usage L x)"
  shows "\<not> (run (certificate_constraints_valid L x True) w \<and> run (certificate_constraints_valid L x False) w') \<and>
         \<not> (run (certificate_constraints_valid L x True) w \<and> run (encryption_certificate_constraints_valid L x) w') \<and>
         \<not> (run (certificate_constraints_valid L x False) w \<and> run (encryption_certificate_constraints_valid L x) w')"
proof -
  have one: "\<not> (constrained L x a us \<and> constrained L x b vs)" if "set us \<inter> set vs = {}" for a b us vs
  proof
    assume "constrained L x a us \<and> constrained L x b vs"
    then obtain u v where "outcome (ext_d2i_key_usage L x) (Some u, 1)" "usage_bits L u \<in> set us"
        "outcome (ext_d2i_key_usage L x) (Some v, 1)" "usage_bits L v \<in> set vs"
      by (auto simp: constrained_def)
    moreover from this steady_unique[OF assms(2)] have "u = v" by blast
    ultimately show False using that by auto
  qed
  have "run (certificate_constraints_valid L x ca) v \<Longrightarrow>
      constrained L x ca (if ca then ca_usages else leaf_usages)" for ca v
    by (rule outcome_certificate_constraints_valid[OF run_outcome]) auto
  moreover have "run (encryption_certificate_constraints_valid L x) v \<Longrightarrow>
      constrained L x False encryption_usages" for v
    by (rule outcome_encryption_constraints_valid[OF run_outcome]) auto
  moreover have "set ca_usages \<inter> set leaf_usages = {}" "set ca_usages \<inter> set encryption_usages = {}"
      "set leaf_usages \<inter> set encryption_usages = {}"
    by (simp_all add: ca_usages_def leaf_usages_def encryption_usages_def)
  ultimately show ?thesis using one by (metis (full_types))
qed

theorem profiles_disjoint_witness:
  "\<not> (run (certificate_constraints_valid toy_x509 Toy_Root True) () \<and>
       run (certificate_constraints_valid toy_x509 Toy_Root False) ()) \<and>
   \<not> (run (certificate_constraints_valid toy_x509 Toy_Root True) () \<and>
       run (encryption_certificate_constraints_valid toy_x509 Toy_Root) ()) \<and>
   \<not> (run (certificate_constraints_valid toy_x509 Toy_Root False) () \<and>
       run (encryption_certificate_constraints_valid toy_x509 Toy_Root) ())"
  by (rule profiles_disjoint) (simp_all add: toy_x509_eval)

section \<open>The accessors\<close>

text \<open>
  \<open>hybrid_x509_public_key_matches\<close> only accepts a certificate whose public-key bits, under the
  composite algorithm without parameters, are exactly the encoding of the supplied key, when
  OpenSSL exports the points it imports.
\<close>

theorem public_key_matches_sound:
  assumes "run (hybrid_x509_public_key_matches L (Some x) (Some pk)) w" and "sm2_import_law L"
  shows "\<exists>spki alg. X509_get_X509_PUBKEY L x = Some spki \<and>
           X509_PUBKEY_get0_param L spki = Some (public_key_octets L pk, alg) \<and>
           algorithm_is_composite_and_absent L alg \<and> exportable L pk"
proof -
  from assms(1) have "outcome (hybrid_x509_public_key_matches L (Some x) (Some pk)) True"
    by (intro run_outcome) simp
  then obtain key b where
      "outcome (hybrid_x509_get_composite_public_key L (Some x) (Some blank_public_key)) (True, key)"
      and ser: "outcome (composite_serialize_public_key L key True) (Some b)"
        "outcome (composite_serialize_public_key L (Some pk) True) (Some b)"
    unfolding hybrid_x509_public_key_matches_def
    by (auto elim!: outcome_bind split: if_splits option.splits)
  then obtain k where k: "key = Some k" "certifies_key L x k"
    by (auto elim: outcome_get_composite_public_key)
  from ser k(1) have "public_key_octets L k = public_key_octets L pk" "exportable L pk"
    by (auto elim!: outcome_serialize_octets)
  moreover from k(2) assms(2) obtain spki octets alg where
      "X509_get_X509_PUBKEY L x = Some spki" "X509_PUBKEY_get0_param L spki = Some (octets, alg)"
      "algorithm_is_composite_and_absent L alg" "public_key_octets L k = octets"
    by (rule certifies_key_octets)
  ultimately show ?thesis by auto
qed

theorem public_key_matches_sound_witness:
  "\<exists>spki alg. X509_get_X509_PUBKEY toy_x509 Toy_Root = Some spki \<and>
     X509_PUBKEY_get0_param toy_x509 spki = Some (public_key_octets toy_x509 toy_public, alg) \<and>
     algorithm_is_composite_and_absent toy_x509 alg \<and> exportable toy_x509 toy_public"
proof (rule public_key_matches_sound[where w = "()"])
  show "run (hybrid_x509_public_key_matches toy_x509 (Some Toy_Root) (Some toy_public)) ()"
    by (simp add: hybrid_x509_public_key_matches_def toy_composite_key toy_serialize_key)
  show "sm2_import_law toy_x509" by (simp add: toy_x509_with_def)
qed

text \<open>
  C20: The marker check holds exactly when one, and only one, of the certificate's extensions has
  the marker's object identifier, and that one is not critical and holds an ASN.1 NULL, when
  OpenSSL's search walks the extensions in order.
\<close>

theorem pqc_extension_exactly_once:
  assumes "always (OBJ_txt2obj L HYBRID_PQC_EXTENSION_OID) (Some obj)" and "carries L x exts"
  shows "run (hybrid_x509_has_pqc_extension L (Some x)) w \<longleftrightarrow>
    (\<exists>e. filter (\<lambda>e. OBJ_cmp L (ext_object e) obj = 0) exts = [e] \<and> \<not> ext_critical e \<and>
         ext_data e = Some der_null)"
  using always_run[OF has_pqc_extension_exactly_once[OF assms]] by simp

theorem pqc_extension_exactly_once_witness:
  "run (hybrid_x509_has_pqc_extension toy_x509 (Some Toy_Root)) () \<longleftrightarrow>
    (\<exists>e. filter (\<lambda>e. OBJ_cmp toy_x509 (ext_object e) HYBRID_PQC_EXTENSION_OID = 0) (toy_exts Toy_Root) = [e] \<and>
         \<not> ext_critical e \<and> ext_data e = Some der_null)"
  by (rule pqc_extension_exactly_once[OF _ toy_carries]) (simp add: toy_x509_eval)

section \<open>Issuing\<close>

text \<open>
  C21: What \<open>hybrid_x509_create_root\<close> returns is the decoding of a certificate whose body has the
  root profile (version 3, serial number 1, one self-chosen name as issuer and subject, the given
  composite key, the four extensions in order) and whose signature, in a bit string without unused
  bits under the composite algorithm, is \<open>composite_sign\<close> of that body's encoding.
\<close>

theorem root_certificate_profile:
  assumes "run (hybrid_x509_create_root L sk pk cn) w = Some x"
  shows "\<exists>s k c tbs cert. sk = Some s \<and> pk = Some k \<and> cn = Some c \<and> c \<noteq> [] \<and>
           root_profile L k c tbs \<and> issued_as L s tbs cert x"
proof -
  from run_outcome[OF assms] obtain s k c tbs cert where "sk = Some s" "pk = Some k" "cn = Some c"
      "root_profile L k c tbs" "issued_as L s tbs cert x"
    by (rule outcome_create_root)
  moreover from this have "c \<noteq> []" by (auto simp: root_profile_def built_name_def)
  ultimately show ?thesis by blast
qed

theorem root_certificate_profile_witness:
  "\<exists>s k c tbs cert. Some toy_private = Some s \<and> Some toy_public = Some k \<and> Some ''Root Hybrid CA'' = Some c \<and> c \<noteq> [] \<and>
     root_profile toy_x509 k c tbs \<and> issued_as toy_x509 s tbs cert Toy_Root"
  by (rule root_certificate_profile[where w = "()"]) (simp add: toy_create_root)

text \<open>
  C22: What \<open>hybrid_x509_create_server\<close> returns has the server profile: serial number 2, the
  issuer's subject as issuer, the server's composite key, the DNS name (shorter than 296
  characters) and the two key identifiers among its seven extensions; and it is signed with the
  authority's key. The encryption certificate of \<open>hybrid_x509_create_sm2_encryption\<close> has its own
  profile: serial number 3, the plain SM2 key, and no server purpose.
\<close>

theorem leaf_certificate_profiles:
  "(run (hybrid_x509_create_server L sk pk key ic cn dns) w = Some x \<longrightarrow>
      (\<exists>s ca k ix c d tbs cert. sk = Some s \<and> pk = Some ca \<and> key = Some k \<and> ic = Some ix \<and>
         cn = Some c \<and> dns = Some d \<and> server_profile L ix ca k c d tbs \<and> issued_as L s tbs cert x)) \<and>
   (run (hybrid_x509_create_sm2_encryption L sk pk ekey ic cn) w = Some x \<longrightarrow>
      (\<exists>s ca k ix c tbs cert. sk = Some s \<and> pk = Some ca \<and> ekey = Some k \<and> ic = Some ix \<and>
         cn = Some c \<and> encryption_profile L ix ca k c tbs \<and> issued_as L s tbs cert x))"
proof (intro conjI impI)
  assume "run (hybrid_x509_create_server L sk pk key ic cn dns) w = Some x"
  from run_outcome[OF this] show "\<exists>s ca k ix c d tbs cert. sk = Some s \<and> pk = Some ca \<and> key = Some k \<and>
      ic = Some ix \<and> cn = Some c \<and> dns = Some d \<and> server_profile L ix ca k c d tbs \<and> issued_as L s tbs cert x"
    by (elim outcome_create_server) blast
next
  assume "run (hybrid_x509_create_sm2_encryption L sk pk ekey ic cn) w = Some x"
  from run_outcome[OF this] show "\<exists>s ca k ix c tbs cert. sk = Some s \<and> pk = Some ca \<and> ekey = Some k \<and>
      ic = Some ix \<and> cn = Some c \<and> encryption_profile L ix ca k c tbs \<and> issued_as L s tbs cert x"
    by (elim outcome_create_sm2_encryption) blast
qed

theorem leaf_certificate_profiles_witness:
  "(run (hybrid_x509_create_server toy_x509 (Some toy_private) (Some toy_public) (Some toy_public)
        (Some Toy_Root) (Some ''server.local'') (Some ''server.local'')) () = Some Toy_Server) \<and>
   (\<exists>s ca k ix c d tbs cert. Some toy_private = Some s \<and> Some toy_public = Some ca \<and>
      Some toy_public = Some k \<and> Some Toy_Root = Some ix \<and> Some ''server.local'' = Some c \<and>
      Some ''server.local'' = Some d \<and> server_profile toy_x509 ix ca k c d tbs \<and>
      issued_as toy_x509 s tbs cert Toy_Server)"
proof -
  have made: "run (hybrid_x509_create_server toy_x509 (Some toy_private) (Some toy_public) (Some toy_public)
        (Some Toy_Root) (Some ''server.local'') (Some ''server.local'')) () = Some Toy_Server"
    by (simp add: toy_create_server)
  from leaf_certificate_profiles[THEN conjunct1, rule_format, OF this] made show ?thesis by (intro conjI)
qed

text \<open>
  C23: The issuer and the verifier agree: a server certificate that \<open>hybrid_x509_create_server\<close>
  issued under a root that \<open>hybrid_x509_create_root\<close> made with the same composite key pair is
  accepted by \<open>hybrid_verify_chain\<close> in every later state, while both certificates are within
  their validity, if the DNS name has no character that OpenSSL's configuration syntax treats
  specially. The laws of the library speak of certificates encoded by the templates of RFC 5280 and
  of bit strings marked as having no unused bits; that the code's templates and its signature are
  such is proved.
\<close>

theorem issued_chain_verifies:
  assumes "run (hybrid_x509_create_root L (Some sk) (Some pk) cn) w1 = Some root"
    and "run (hybrid_x509_create_server L (Some sk) (Some pk) key (Some root) cn' dns) w2 = Some server"
    and "x509_laws L" and "issuing_keys L sk pk k"
    and valid: "stays_valid L root" "stays_valid L server" and "plain_dns (the dns)"
  shows "fst (run (hybrid_verify_chain L (Some root) (Some server)) w3)"
proof -
  from run_outcome[OF assms(1)] obtain c tbs cert where root: "root_profile L pk c tbs"
      "issued_as L sk tbs cert root"
    by (elim outcome_create_root) auto
  from run_outcome[OF assms(2)] obtain spk c' d tbs' cert' where
      server: "server_profile L root pk spk c' d tbs'" "issued_as L sk tbs' cert' server" "plain_dns d"
    using assms(7) by (elim outcome_create_server) auto
  from always_verify_root[OF assms(3) root assms(4) always_certificate_time_valid[OF valid(1)]] obtain r where
      r: "always (hybrid_verify_root_self_signature L (Some root)) (True, r)" ..
  from always_verify_server[OF assms(3) root server assms(4) always_certificate_time_valid[OF valid(2)]] obtain s where
      "always (hybrid_verify_certificate L (Some server) (Some root)) (True, s)" ..
  from always_verify_chain[OF r this] obtain v where
      "always (hybrid_verify_chain L (Some root) (Some server)) (True, v)" ..
  then show ?thesis by (simp add: always_run)
qed

theorem issued_chain_verifies_witness:
  "fst (run (hybrid_verify_chain toy_x509 (Some Toy_Root) (Some Toy_Server)) ())"
  by (rule issued_chain_verifies[where sk = toy_private and pk = toy_public and cn = "Some ''Root Hybrid CA''" and
        cn' = "Some ''server.local''" and dns = "Some ''server.local''" and key = "Some toy_public" and k = toy_point])
    (simp_all add: toy_create_root toy_create_server plain_dns_def)

text \<open>
  Likewise for the encryption certificate: what \<open>hybrid_x509_create_sm2_encryption\<close> issued under
  that root is accepted by \<open>hybrid_verify_encryption_certificate\<close>, while it is within its validity and
  OpenSSL recognises its key as an SM2 key.
\<close>

theorem issued_encryption_verifies:
  assumes "run (hybrid_x509_create_root L (Some sk) (Some pk) cn) w1 = Some root"
    and "run (hybrid_x509_create_sm2_encryption L (Some sk) (Some pk) key (Some root) cn') w2 = Some enc"
    and "x509_laws L" and "issuing_keys L sk pk k"
    and valid: "stays_valid L enc"
    and "always (hybrid_x509_subject_public_key_is_sm2 L (Some enc)) True"
  shows "fst (run (hybrid_verify_encryption_certificate L (Some enc) (Some root)) w3)"
proof -
  from run_outcome[OF assms(1)] obtain c tbs cert where root: "root_profile L pk c tbs"
      "issued_as L sk tbs cert root"
    by (elim outcome_create_root) auto
  from run_outcome[OF assms(2)] obtain epk c' tbs' cert' where
      enc: "encryption_profile L root pk epk c' tbs'" "issued_as L sk tbs' cert' enc"
    by (elim outcome_create_sm2_encryption) auto
  from always_verify_encryption[OF assms(3) root enc assms(4) always_certificate_time_valid[OF valid] assms(6)] obtain v where
      "always (hybrid_verify_encryption_certificate L (Some enc) (Some root)) (True, v)" ..
  then show ?thesis by (simp add: always_run)
qed

theorem issued_encryption_verifies_witness:
  "fst (run (hybrid_verify_encryption_certificate toy_x509 (Some Toy_Encryption) (Some Toy_Root)) ())"
  by (rule issued_encryption_verifies[where sk = toy_private and pk = toy_public and cn = "Some ''Root Hybrid CA''" and
        cn' = "Some ''server.local''" and key = "Some toy_point" and k = toy_point])
    (simp_all add: toy_create_root toy_create_encryption toy_encryption_sm2)

end
