(* ===== verification/Adapter_Facts.thy ===== *)
theory Adapter_Facts
  imports Chain_Facts
begin

text \<open>
  What the functions of \<open>Tlcp_Adapter\<close> establish: the byte search finds a contiguous occurrence, a
  strict decoding consumes its whole input, and the results of the verification of one certificate
  and of the dual certificate.
\<close>

lemma oid_scan_iff:
  "oid_scan der i \<longleftrightarrow>
     (\<exists>j\<ge>i. j \<le> length der - length composite_oid_der \<and>
            take (length composite_oid_der) (drop j der) = composite_oid_der)"
proof (induction der i rule: oid_scan.induct)
  case (1 der i)
  show ?case
  proof (cases "i \<le> length der - length composite_oid_der \<and>
      take (length composite_oid_der) (drop i der) \<noteq> composite_oid_der")
    case True
    with 1 have "oid_scan der i \<longleftrightarrow> (\<exists>j\<ge>i + 1. j \<le> length der - length composite_oid_der \<and>
        take (length composite_oid_der) (drop j der) = composite_oid_der)"
      by (subst oid_scan.simps) simp
    also have "\<dots> \<longleftrightarrow> (\<exists>j\<ge>i. j \<le> length der - length composite_oid_der \<and>
        take (length composite_oid_der) (drop j der) = composite_oid_der)"
      using True by (metis Suc_eq_plus1 le_SucI not_less_eq_eq le_antisym)
    finally show ?thesis .
  next
    case False
    then show ?thesis by (subst oid_scan.simps) auto
  qed
qed

lemma contains_composite_oid_iff:
  "contains_composite_oid der \<longleftrightarrow> (\<exists>pre post. der = Buf (pre @ composite_oid_der @ post))"
proof (cases der)
  case (Null n)
  then show ?thesis by (simp add: contains_composite_oid_def)
next
  case (Buf b)
  show ?thesis
  proof
    assume "contains_composite_oid der"
    with Buf obtain j where "take (length composite_oid_der) (drop j b) = composite_oid_der"
      by (auto simp: contains_composite_oid_def oid_scan_iff split: if_splits)
    then have "b = take j b @ composite_oid_der @ drop (length composite_oid_der) (drop j b)"
      by (metis append_take_drop_id)
    with Buf show "\<exists>pre post. der = Buf (pre @ composite_oid_der @ post)" by blast
  next
    assume "\<exists>pre post. der = Buf (pre @ composite_oid_der @ post)"
    with Buf obtain pre post where b: "b = pre @ composite_oid_der @ post" by auto
    have "oid_scan b 0"
      unfolding oid_scan_iff b by (intro exI[of _ "length pre"]) simp
    with Buf b show "contains_composite_oid der" by (simp add: contains_composite_oid_def)
  qed
qed

lemma outcome_decode_der_strict [outcome_elims]:
  assumes "outcome (decode_der_strict L der) (Some x)"
  obtains b where "der = Buf b" and "b \<noteq> []" and "outcome (d2i_X509 L b) (Some (x, length b))"
  using assms unfolding decode_der_strict_def
  by (cases der) (auto elim!: outcome_elims split: if_splits)

lemma outcome_decode_next_certificate:
  assumes "outcome (decode_next_certificate L der) (c, der')"
  obtains "c = None" and "der' = der"
  | b x n where "der = Buf b" and "c = Some x" and "der' = Buf (drop n b)" and "0 < n"
    and "n \<le> length b" and "outcome (d2i_X509 L b) (Some (x, n))"
  using assms unfolding decode_next_certificate_def
  by (cases der) (auto elim!: outcome_bind split: if_splits option.splits)

lemma outcome_get_octets:
  assumes "composite_get_sm2_public_key_octets L key output = (True, output')"
    and "output = Some out" and "length out = SM2_UNCOMPRESSED_PUBLIC_KEY_BYTES"
  obtains k sm2 p where "key = Some k" and "sm2_public_key k = Some sm2" and "sm2_octets L sm2 p"
    and "output' = Some p"
  using assms unfolding composite_get_sm2_public_key_octets_def
  by (auto split: option.splits prod.splits elim!: serialize_sm2_public_key_True)

lemma outcome_get_sm2_sign_public_key:
  assumes "outcome (tlcp_hybrid_cert_get_sm2_sign_public_key L der (Some out)) (True, out')"
    and "length out = SM2_UNCOMPRESSED_PUBLIC_KEY_BYTES"
  obtains b x k sm2 p where "der = Buf b" and "outcome (d2i_X509 L b) (Some (x, length b))"
    and "hybrid_x509_composite_algorithms_valid L (Some x)" and "certifies_key L x k"
    and "sm2_public_key k = Some sm2" and "sm2_octets L sm2 p" and "out' = Some p"
proof -
  from assms(1) obtain cert key where dec: "outcome (decode_der_strict L der) cert"
      and cert: "cert \<noteq> None" "hybrid_x509_composite_algorithms_valid L cert"
      and key: "outcome (hybrid_x509_get_composite_public_key L cert (Some blank_public_key)) (True, key)"
      and oct: "composite_get_sm2_public_key_octets L key (Some out) = (True, out')"
    unfolding tlcp_hybrid_cert_get_sm2_sign_public_key_def
    by (auto elim!: outcome_bind split: if_splits)
  from key obtain x k where x: "cert = Some x" "key = Some k" "certifies_key L x k"
    by (rule outcome_get_composite_public_key)
  from dec x(1) obtain b where b: "der = Buf b" "outcome (d2i_X509 L b) (Some (x, length b))"
    by (auto elim: outcome_decode_der_strict)
  from oct refl assms(2) obtain k' sm2 p where "key = Some k'" "sm2_public_key k' = Some sm2"
      "sm2_octets L sm2 p" "out' = Some p"
    by (rule outcome_get_octets)
  with that[OF b _ x(3)] cert(2) x(1,2) show thesis by auto
qed

section \<open>One certificate\<close>

text \<open>
  What VALID means for the bytes \<open>b\<close> of a signing certificate: they are one certificate that a trust
  anchor's chain accepts, for the host asked for, and the key handed out is the SM2 half of its key.
\<close>

definition signing_accepted ::
  "('w, 'k, 'x, 'n, 'o, 'p, 'e) x509_lib_scheme \<Rightarrow> buf \<Rightarrow> buf \<Rightarrow> string option \<Rightarrow> bytes \<Rightarrow> bool" where
  "signing_accepted L der anchor hostname p \<longleftrightarrow>
     (\<exists>b t x r k k'. der = Buf b \<and> outcome (d2i_X509 L b) (Some (x, length b)) \<and>
        anchor = Buf t \<and> outcome (d2i_X509 L t) (Some (r, length t)) \<and>
        root_accepted L r k' \<and> server_accepted L x r k \<and>
        dilithium_public_key k = dilithium_public_key k' \<and>
        (hostname = None \<or> hostname = Some [] \<or> outcome (X509_check_host L x (the hostname)) 1)) \<and>
     (\<exists>b x k sm2. der = Buf b \<and> outcome (d2i_X509 L b) (Some (x, length b)) \<and>
        certifies_key L x k \<and> sm2_public_key k = Some sm2 \<and> sm2_octets L sm2 p)"

lemma outcome_verify_der:
  assumes "outcome (tlcp_hybrid_cert_verify_der L der anchor hostname out) (res, out', rep)"
  shows "res = TLCP_HYBRID_CERT_NOT_APPLICABLE \<longleftrightarrow> \<not> recognized_composite rep"
    and "res = TLCP_HYBRID_CERT_NOT_APPLICABLE \<Longrightarrow>
         out' = map_option (cleanse SM2_UNCOMPRESSED_PUBLIC_KEY_BYTES) out"
    and "encryption_certificate_ok rep = False" and "tlcp_dual_certificate_ok rep = False"
  using assms unfolding tlcp_hybrid_cert_verify_der_def
  by (auto elim!: outcome_bind simp: Let_def empty_report_def split: option.splits if_splits)

lemma outcome_verify_der_valid:
  assumes "outcome (tlcp_hybrid_cert_verify_der L der anchor hostname out)
      (TLCP_HYBRID_CERT_VALID, out', rep)"
    and "\<And>o'. out = Some o' \<Longrightarrow> length o' = SM2_UNCOMPRESSED_PUBLIC_KEY_BYTES"
  obtains p where "out' = Some p" and "length p = SM2_UNCOMPRESSED_PUBLIC_KEY_BYTES"
    and "signing_accepted L der anchor hostname p" and "composite_ok rep"
proof -
  from assms(1) obtain sc anchor_cert chain arr where
      dec: "outcome (decode_der_strict L der) (Some sc)"
      and root: "outcome (decode_der_strict L anchor) (Some anchor_cert)"
      and chain: "outcome (hybrid_verify_chain L (Some anchor_cert) (Some sc)) (True, chain)"
      and host: "hostname = None \<or> hostname = Some [] \<or> outcome (X509_check_host L sc (the hostname)) 1"
      and arr: "out = Some arr"
      and key: "outcome (tlcp_hybrid_cert_get_sm2_sign_public_key L der
          (Some (cleanse SM2_UNCOMPRESSED_PUBLIC_KEY_BYTES arr))) (True, out')"
      and rep: "composite_ok rep = composite_valid (chain_server chain)"
    unfolding tlcp_hybrid_cert_verify_der_def Let_def
    by (auto elim!: outcome_bind split: option.splits if_splits) blast+
  have len: "length (cleanse SM2_UNCOMPRESSED_PUBLIC_KEY_BYTES arr) = SM2_UNCOMPRESSED_PUBLIC_KEY_BYTES"
    using assms(2)[OF arr] by (simp add: cleanse_def overwrite_def)
  from key len obtain b x k sm2 p where p: "der = Buf b" "outcome (d2i_X509 L b) (Some (x, length b))"
      "certifies_key L x k" "sm2_public_key k = Some sm2" "sm2_octets L sm2 p" "out' = Some p"
    by (rule outcome_get_sm2_sign_public_key)
  from dec obtain b' where b': "der = Buf b'" "outcome (d2i_X509 L b') (Some (sc, length b'))"
    by (rule outcome_decode_der_strict)
  from root obtain t where t: "anchor = Buf t" "outcome (d2i_X509 L t) (Some (anchor_cert, length t))"
    by (rule outcome_decode_der_strict)
  from chain obtain k1 k2 where "root_accepted L anchor_cert k2" "server_accepted L sc anchor_cert k1"
      "dilithium_public_key k1 = dilithium_public_key k2"
    by (rule outcome_hybrid_verify_chain_True) auto
  with p b' t host have "signing_accepted L der anchor hostname p"
    unfolding signing_accepted_def by blast
  moreover have "composite_ok rep"
  proof -
    from outcome_hybrid_verify_chain[OF chain]
    have out: "outcome (hybrid_verify_certificate L (Some sc) (Some anchor_cert)) (True, chain_server chain)"
      by simp
    have "server_required (chain_server chain)"
      using server_verifier.returned[OF out] server_verifier.conjunction[OF out] by simp
    then show ?thesis using rep by (simp add: server_required_def)
  qed
  moreover have "length p = SM2_UNCOMPRESSED_PUBLIC_KEY_BYTES" using p(5) by (simp add: sm2_octets_def)
  ultimately show thesis using that p(6) by blast
qed

section \<open>The dual certificate\<close>

text \<open>What the callback checks of the second certificate \<open>e\<close>, beside the signing certificate \<open>s\<close>.\<close>

definition dual_accepted ::
  "('w, 'k, 'x, 'n, 'o, 'p, 'e) x509_lib_scheme \<Rightarrow> 'x \<Rightarrow> 'x \<Rightarrow> buf \<Rightarrow> bool" where
  "dual_accepted L s e anchor \<longleftrightarrow>
     (\<exists>t r k. anchor = Buf t \<and> outcome (d2i_X509 L t) (Some (r, length t)) \<and> encryption_accepted L e r k) \<and>
     X509_NAME_cmp L (X509_get_subject_name L s) (X509_get_subject_name L e) = 0 \<and>
     X509_NAME_cmp L (X509_get_issuer_name L s) (X509_get_issuer_name L e) = 0"

lemma outcome_verify_dual:
  assumes "outcome (verify_dual_certificate L signing encryption anchor local) (res, rep)"
  shows "res = (if tlcp_dual_certificate_ok rep then TLCP_HYBRID_CERT_VALID else TLCP_HYBRID_CERT_INVALID)"
    and "res = TLCP_HYBRID_CERT_VALID \<Longrightarrow> \<exists>s e. signing = Some s \<and> encryption = Some e \<and> dual_accepted L s e anchor"
proof -
  from assms obtain root ok result where root: "outcome (decode_der_strict L anchor) root"
      and enc: "outcome (hybrid_verify_encryption_certificate L encryption root) (ok, result)"
      and res: "res = (if tlcp_dual_certificate_ok rep then TLCP_HYBRID_CERT_VALID else TLCP_HYBRID_CERT_INVALID)"
      and flag: "tlcp_dual_certificate_ok rep \<longleftrightarrow> composite_ok local \<and> ok \<and>
         (case (signing, encryption) of
            (Some s, Some e) \<Rightarrow>
              X509_NAME_cmp L (X509_get_subject_name L s) (X509_get_subject_name L e) = 0 \<and>
              X509_NAME_cmp L (X509_get_issuer_name L s) (X509_get_issuer_name L e) = 0
          | _ \<Rightarrow> False)"
    unfolding verify_dual_certificate_def Let_def by (auto elim!: outcome_bind)
  show "res = (if tlcp_dual_certificate_ok rep then TLCP_HYBRID_CERT_VALID else TLCP_HYBRID_CERT_INVALID)"
    by (rule res)
  assume "res = TLCP_HYBRID_CERT_VALID"
  with res flag obtain s e where se: "signing = Some s" "encryption = Some e" "ok"
      "X509_NAME_cmp L (X509_get_subject_name L s) (X509_get_subject_name L e) = 0"
      "X509_NAME_cmp L (X509_get_issuer_name L s) (X509_get_issuer_name L e) = 0"
    by (auto split: if_splits option.splits)
  from enc se(2,3) obtain r k where r: "root = Some r" "encryption_accepted L e r k"
    by (auto elim: outcome_verify_encryption)
  with root obtain t where "anchor = Buf t" "outcome (d2i_X509 L t) (Some (r, length t))"
    by (auto elim: outcome_decode_der_strict)
  with r(2) se show "\<exists>s e. signing = Some s \<and> encryption = Some e \<and> dual_accepted L s e anchor"
    unfolding dual_accepted_def by blast
qed

section \<open>The callback\<close>

lemma outcome_bind_pair:
  assumes "outcome (m \<bind> (\<lambda>(a, b). f a b)) y"
  obtains a b where "outcome m (a, b)" and "outcome (f a b) y"
  using assms by (auto elim!: outcome_bind)

lemma outcome_bind_triple:
  assumes "outcome (m \<bind> (\<lambda>(a, b, c). f a b c)) y"
  obtains a b c where "outcome m (a, b, c)" and "outcome (f a b c) y"
  using assms by (auto elim!: outcome_bind)

lemma outcome_give_quadruple:
  assumes "outcome (give (a, b, c, d)) (a', b', c', d')"
  obtains "a' = a" and "b' = b" and "c' = c" and "d' = d"
  using assms by simp

lemma outcome_callback:
  assumes "outcome (tlcp_hybrid_cert_gmssl_verify_callback L der out (Some cfg) verbose)
      (res, out', cfg', printed)"
  obtains signing encryption cursor rest sder r0 rep0 rep where
    "outcome (decode_next_certificate L der) (signing, cursor)"
    and "outcome (decode_next_certificate L cursor) (encryption, rest)"
    and "sder = (let n = if signing \<noteq> None then buf_len der - buf_len cursor else 0
                 in if buf_null der then Null n else Buf (take n (buf_bytes der)))"
    and "outcome (tlcp_hybrid_cert_verify_der L sder (trust_anchor cfg) (expected_hostname cfg) out)
           (r0, out', rep0)"
    and "if r0 = TLCP_HYBRID_CERT_VALID
         then outcome (verify_dual_certificate L signing encryption (trust_anchor cfg) rep0) (res, rep)
         else res = r0 \<and> rep = rep0"
    and "cfg' = Some (if last_report cfg \<noteq> None then cfg\<lparr>last_report := Some rep\<rparr> else cfg)"
    and "printed = (if verbose \<and> res \<noteq> TLCP_HYBRID_CERT_NOT_APPLICABLE
           then tlcp_hybrid_cert_report_print (Some rep) else [])"
proof -
  from assms obtain signing cursor encryption rest r0 rep0 rep where
      a: "outcome (decode_next_certificate L der) (signing, cursor)"
        "outcome (decode_next_certificate L cursor) (encryption, rest)"
      and b: "outcome (tlcp_hybrid_cert_verify_der L
          (let n = if signing \<noteq> None then buf_len der - buf_len cursor else 0
           in if buf_null der then Null n else Buf (take n (buf_bytes der)))
          (trust_anchor cfg) (expected_hostname cfg) out) (r0, out', rep0)"
      and c: "outcome (if r0 = TLCP_HYBRID_CERT_VALID
             then verify_dual_certificate L signing encryption (trust_anchor cfg) rep0
             else give (r0, rep0)) (res, rep)"
      and d: "cfg' = Some (if last_report cfg \<noteq> None then cfg\<lparr>last_report := Some rep\<rparr> else cfg)"
        "printed = (if verbose \<and> res \<noteq> TLCP_HYBRID_CERT_NOT_APPLICABLE
           then tlcp_hybrid_cert_report_print (Some rep) else [])"
    unfolding tlcp_hybrid_cert_gmssl_verify_callback_def Let_def option.case
    apply (elim outcome_bind_triple outcome_bind_pair)
    apply (erule outcome_give_quadruple, hypsubst)
    subgoal premises p by (rule p(1)[OF p(2-5) refl refl])
    done
  show thesis
    by (rule that[OF a refl b _ d]) (use c in \<open>auto split: if_splits\<close>)
qed

lemma outcome_callback_valid:
  assumes "outcome (tlcp_hybrid_cert_gmssl_verify_callback L der (Some out) config verbose)
      (TLCP_HYBRID_CERT_VALID, out', cfg', printed)"
    and "length out = SM2_UNCOMPRESSED_PUBLIC_KEY_BYTES"
  obtains cfg b s e n m p where "config = Some cfg" and "der = Buf b"
    and "outcome (d2i_X509 L b) (Some (s, n))" and "0 < n" and "n \<le> length b"
    and "outcome (d2i_X509 L (drop n b)) (Some (e, m))" and "0 < m" and "m \<le> length b - n"
    and "out' = Some p" and "length p = SM2_UNCOMPRESSED_PUBLIC_KEY_BYTES"
    and "signing_accepted L (Buf (take n b)) (trust_anchor cfg) (expected_hostname cfg) p"
    and "dual_accepted L s e (trust_anchor cfg)"
proof (cases config)
  case None
  with assms(1) show ?thesis by (simp add: tlcp_hybrid_cert_gmssl_verify_callback_def)
next
  case (Some cfg)
  with assms(1) have "outcome (tlcp_hybrid_cert_gmssl_verify_callback L der (Some out)
      (Some cfg) verbose) (TLCP_HYBRID_CERT_VALID, out', cfg', printed)" by simp
  then show ?thesis
  proof (cases rule: outcome_callback)
    case (1 signing encryption cursor rest sder r0 rep0 rep)
    then have r0: "r0 = TLCP_HYBRID_CERT_VALID" by (auto split: if_splits)
    with 1(5) obtain s e where se: "signing = Some s" "encryption = Some e"
        "dual_accepted L s e (trust_anchor cfg)"
      by (auto dest: outcome_verify_dual(2))
    from 1(1) se(1) obtain b n where b: "der = Buf b" "cursor = Buf (drop n b)" "0 < n" "n \<le> length b"
        "outcome (d2i_X509 L b) (Some (s, n))"
      by (auto elim: outcome_decode_next_certificate)
    from 1(2) se(2) b(2) obtain m where m: "outcome (d2i_X509 L (drop n b)) (Some (e, m))" "0 < m"
        "m \<le> length b - n"
      by (auto elim: outcome_decode_next_certificate)
    have sder: "sder = Buf (take n b)" using 1(3) se(1) b by simp
    from 1(4) r0 assms(2) obtain p where "out' = Some p"
        "length p = SM2_UNCOMPRESSED_PUBLIC_KEY_BYTES"
        "signing_accepted L sder (trust_anchor cfg) (expected_hostname cfg) p"
      by (auto elim: outcome_verify_der_valid)
    from that[OF Some b(1,5,3,4) m this(1,2) this(3)[unfolded sder] se(3)] show ?thesis .
  qed
qed

end
