(* ===== verification/Adapter_Theorems.thy ===== *)
theory Adapter_Theorems
  imports Adapter_Facts Chain_Theorems
begin

text \<open>
  The properties of the TLCP certificate callback, with witnesses over the concrete library of
  \<open>Toy_X509\<close>, whose certificates are encoded in one or two bytes each.
\<close>

text \<open>
  The byte search recognises a composite certificate exactly when the twelve octets of the
  encoded object identifier occur somewhere in it, contiguously.
\<close>

theorem composite_oid_search_correct:
  "contains_composite_oid der \<longleftrightarrow> (\<exists>pre post. der = Buf (pre @ composite_oid_der @ post))"
  by (rule contains_composite_oid_iff)

text \<open>
  C24: A certificate list that the callback calls VALID is one: it starts with a signing
  certificate that the trust anchor's chain accepts for the configured host, followed by an
  encryption certificate that the same anchor accepts with the same subject and issuer, and the
  65 octets handed back are the SM2 half of the signing certificate's composite key.
\<close>

theorem callback_valid_sound:
  assumes "run (tlcp_hybrid_cert_gmssl_verify_callback L der (Some out) config verbose) w =
      (TLCP_HYBRID_CERT_VALID, out', cfg', printed)"
    and "length out = SM2_UNCOMPRESSED_PUBLIC_KEY_BYTES"
  shows "\<exists>cfg b s e n m p. config = Some cfg \<and> der = Buf b \<and>
           outcome (d2i_X509 L b) (Some (s, n)) \<and> 0 < n \<and> n \<le> length b \<and>
           outcome (d2i_X509 L (drop n b)) (Some (e, m)) \<and>
           out' = Some p \<and> length p = SM2_UNCOMPRESSED_PUBLIC_KEY_BYTES \<and>
           signing_accepted L (Buf (take n b)) (trust_anchor cfg) (expected_hostname cfg) p \<and>
           dual_accepted L s e (trust_anchor cfg)"
  by (rule outcome_callback_valid[OF run_outcome[OF assms(1)] assms(2)]) blast

definition toy_config :: tlcp_hybrid_cert_adapter_config where
  "toy_config = \<lparr>trust_anchor = Buf [1], expected_hostname = Some ''server.local'',
     last_report = Some empty_report\<rparr>"

text \<open>The encodings that the concrete library decodes.\<close>

definition toy_encodes :: "bytes \<Rightarrow> toy_cert \<Rightarrow> bool" where
  "toy_encodes b c \<longleftrightarrow> b = [toy_code c] \<or> b = [48, toy_code c]"

lemma toy_decode: "toy_encodes b c \<Longrightarrow> decode_der_strict toy_x509 (Buf b) = give (Some c)"
  by (auto simp: toy_encodes_def decode_der_strict_def attempt_def toy_x509_eval LONG_MAX_def)

lemma toy_decode_next:
  "toy_encodes b c \<Longrightarrow> length r \<le> 10 \<Longrightarrow> decode_next_certificate toy_x509 (Buf (b @ r)) = give (Some c, Buf r)"
  by (auto simp: toy_encodes_def decode_next_certificate_def toy_x509_eval LONG_MAX_def)

lemma toy_algorithms:
  "c \<noteq> Toy_Encryption \<Longrightarrow> hybrid_x509_composite_algorithms_valid toy_x509 (Some c)"
  by (cases c) (simp_all add: hybrid_x509_composite_algorithms_valid_def
      hybrid_x509_composite_signature_algorithms_valid_def hybrid_x509_subject_public_key_is_composite_def
      algorithm_is_composite_and_absent_def toy_x509_eval toy_algor_def
      COMPOSITE_SM2_DILITHIUM_EXPERIMENTAL_OID_def)

lemma toy_sign_key:
  "toy_encodes b c \<Longrightarrow> c \<noteq> Toy_Encryption \<Longrightarrow>
   tlcp_hybrid_cert_get_sm2_sign_public_key toy_x509 (Buf b) (Some (replicate 65 0))
     = give (True, Some toy_point)"
  by (simp add: tlcp_hybrid_cert_get_sm2_sign_public_key_def toy_decode toy_algorithms toy_composite_key
      composite_get_sm2_public_key_octets_def toy_serialize_point)

lemma toy_root_code: "toy_encodes [1] Toy_Root"
  by (simp add: toy_encodes_def)

lemma toy_verify_der:
  assumes "toy_encodes b Toy_Server"
  obtains rep where "tlcp_hybrid_cert_verify_der toy_x509 (Buf b) (Buf [1]) (Some ''server.local'')
      (Some (replicate 65 0)) = give (TLCP_HYBRID_CERT_VALID, Some toy_point, rep)"
proof -
  from toy_chain obtain r where
    "always (hybrid_verify_chain toy_x509 (Some Toy_Root) (Some Toy_Server)) (True, r)" ..
  then have chain: "hybrid_verify_chain toy_x509 (Some Toy_Root) (Some Toy_Server) = give (True, r)"
    by (rule always_unit)
  have marker: "hybrid_x509_has_pqc_extension toy_x509 (Some Toy_Server) = give True"
    using has_pqc_extension_exactly_once[OF _ toy_carries[of "()" Toy_Server], of HYBRID_PQC_EXTENSION_OID]
    by (intro always_unit) (simp add: toy_x509_eval toy_marker_def toy_ext_def HYBRID_PQC_EXTENSION_OID_def)
  have mention: "certificate_mentions_composite toy_x509 (Some Toy_Server) = give True"
    by (simp add: certificate_mentions_composite_def toy_x509_eval toy_algor_def)
  have clean: "cleanse SM2_UNCOMPRESSED_PUBLIC_KEY_BYTES (replicate 65 0) = replicate 65 0"
    by (simp add: cleanse_def overwrite_def sizes)
  show thesis
    by (rule that, simp add: tlcp_hybrid_cert_verify_der_def toy_decode[OF assms] toy_decode[OF toy_root_code]
        mention marker chain toy_algorithms toy_sign_key[OF assms] clean toy_x509_eval Let_def)
qed

lemma toy_callback:
  assumes "toy_encodes b Toy_Server" and "toy_encodes c Toy_Encryption"
  obtains cfg' printed where "tlcp_hybrid_cert_gmssl_verify_callback toy_x509 (Buf (b @ c))
      (Some (replicate 65 0)) (Some toy_config) verbose =
      give (TLCP_HYBRID_CERT_VALID, Some toy_point, cfg', printed)"
proof -
  obtain rep where der: "tlcp_hybrid_cert_verify_der toy_x509 (Buf b) (Buf [1]) (Some ''server.local'')
      (Some (replicate 65 0)) = give (TLCP_HYBRID_CERT_VALID, Some toy_point, rep)"
    by (rule toy_verify_der[OF assms(1)])
  then have "outcome (tlcp_hybrid_cert_verify_der toy_x509 (Buf b) (Buf [1]) (Some ''server.local'')
      (Some (replicate 65 0))) (TLCP_HYBRID_CERT_VALID, Some toy_point, rep)" by simp
  then have comp: "composite_ok rep" by (rule outcome_verify_der_valid) (auto simp: sizes)
  obtain r where enc: "hybrid_verify_encryption_certificate toy_x509 (Some Toy_Encryption) (Some Toy_Root) = give (True, r)"
    by (rule toy_encryption_verified)
  have "length c \<le> 10" using assms(2) by (auto simp: toy_encodes_def)
  note dec = toy_decode_next[OF assms(1) this] toy_decode_next[OF assms(2), of "[]", simplified]
    toy_decode[OF toy_root_code]
  have dual: "\<exists>rep'. verify_dual_certificate toy_x509 (Some Toy_Server) (Some Toy_Encryption) (Buf [1]) rep
      = give (TLCP_HYBRID_CERT_VALID, rep')"
    by (intro exI, simp add: verify_dual_certificate_def dec enc comp Let_def toy_x509_eval)
  then obtain rep' where "verify_dual_certificate toy_x509 (Some Toy_Server) (Some Toy_Encryption) (Buf [1]) rep
      = give (TLCP_HYBRID_CERT_VALID, rep')" ..
  then show thesis
    by (intro that) (simp add: tlcp_hybrid_cert_gmssl_verify_callback_def dec der toy_config_def Let_def)
qed

theorem callback_valid_sound_witness:
  "\<exists>cfg b s e n m p. Some toy_config = Some cfg \<and> Buf [2, 3] = Buf b \<and>
     outcome (d2i_X509 toy_x509 b) (Some (s, n)) \<and> 0 < n \<and> n \<le> length b \<and>
     outcome (d2i_X509 toy_x509 (drop n b)) (Some (e, m)) \<and>
     Some toy_point = Some p \<and> length p = SM2_UNCOMPRESSED_PUBLIC_KEY_BYTES \<and>
     signing_accepted toy_x509 (Buf (take n b)) (trust_anchor cfg) (expected_hostname cfg) p \<and>
     dual_accepted toy_x509 s e (trust_anchor cfg)"
proof -
  obtain cfg' printed where "tlcp_hybrid_cert_gmssl_verify_callback toy_x509 (Buf ([2] @ [3]))
      (Some (replicate 65 0)) (Some toy_config) True = give (TLCP_HYBRID_CERT_VALID, Some toy_point, cfg', printed)"
    by (rule toy_callback[of "[2]" "[3]"]) (simp_all add: toy_encodes_def)
  then have "run (tlcp_hybrid_cert_gmssl_verify_callback toy_x509 (Buf [2, 3])
      (Some (replicate 65 0)) (Some toy_config) True) () =
      (TLCP_HYBRID_CERT_VALID, Some toy_point, cfg', printed)" by simp
  from callback_valid_sound[OF this] show ?thesis by (simp add: sizes)
qed

text \<open>
  The result of the verification of one certificate is three-valued by recognition: it is
  NOT_APPLICABLE exactly when the certificate was not recognised as composite, and then the key
  array has been zeroed; a recognised certificate is VALID or INVALID.
\<close>

theorem adapter_classification:
  "case run (tlcp_hybrid_cert_verify_der L der anchor hostname out) w of (res, out', rep) \<Rightarrow>
     if recognized_composite rep then res \<noteq> TLCP_HYBRID_CERT_NOT_APPLICABLE
     else res = TLCP_HYBRID_CERT_NOT_APPLICABLE \<and>
          out' = map_option (cleanse SM2_UNCOMPRESSED_PUBLIC_KEY_BYTES) out"
proof (cases "run (tlcp_hybrid_cert_verify_der L der anchor hostname out) w")
  case (fields res out' rep)
  from outcome_verify_der(1,2)[OF run_outcome[OF fields]] fields show ?thesis by auto
qed

text \<open>
  The checks of the second certificate can only lower the verdict, in the order
  INVALID < NOT_APPLICABLE < VALID: the callback's result is that of the signing certificate, or
  INVALID where that was VALID; the report is stored exactly when the configuration has room for
  it, and lines are printed exactly when asked for and the policy applies.
\<close>

theorem callback_never_upgrades:
  "case run (tlcp_hybrid_cert_gmssl_verify_callback L der out (Some cfg) verbose) w of
     (res, out', cfg', printed) \<Rightarrow>
       (\<exists>sder r0 rep0 rep.
          outcome (tlcp_hybrid_cert_verify_der L sder (trust_anchor cfg) (expected_hostname cfg) out)
            (r0, out', rep0) \<and>
          res \<le> r0 \<and> res \<in> {r0, TLCP_HYBRID_CERT_INVALID} \<and>
          cfg' = Some (cfg\<lparr>last_report := map_option (\<lambda>old. rep) (last_report cfg)\<rparr>) \<and>
          (printed = [] \<longleftrightarrow> \<not> (verbose \<and> res \<noteq> TLCP_HYBRID_CERT_NOT_APPLICABLE)))"
proof (cases "run (tlcp_hybrid_cert_gmssl_verify_callback L der out (Some cfg) verbose) w")
  case (fields res out' cfg' printed)
  from run_outcome[OF fields] show ?thesis
  proof (cases rule: outcome_callback)
    case (1 signing encryption cursor rest sder r0 rep0 rep)
    have "res \<le> r0 \<and> res \<in> {r0, TLCP_HYBRID_CERT_INVALID}"
    proof (cases "r0 = TLCP_HYBRID_CERT_VALID")
      case True
      with 1(5) have "outcome (verify_dual_certificate L signing encryption (trust_anchor cfg) rep0) (res, rep)"
        by simp
      from outcome_verify_dual(1)[OF this] True show ?thesis by (simp split: if_splits)
    next
      case False
      with 1(5) show ?thesis by simp
    qed
    moreover have "cfg' = Some (cfg\<lparr>last_report := map_option (\<lambda>old. rep) (last_report cfg)\<rparr>)"
      using 1(6) by (cases "last_report cfg") auto
    moreover have "printed = [] \<longleftrightarrow> \<not> (verbose \<and> res \<noteq> TLCP_HYBRID_CERT_NOT_APPLICABLE)"
      using 1(7) by (simp add: tlcp_hybrid_cert_report_print_def)
    ultimately show ?thesis unfolding fields prod.case using 1(4) by blast
  qed
qed

section \<open>Lists that do not decode\<close>

lemma undecodable_strict:
  "always (d2i_X509 L b) None \<Longrightarrow> always (decode_der_strict L (Buf b)) None"
  unfolding decode_der_strict_def attempt_def by (auto intro: always_bind)

lemma undecodable_next:
  "always (d2i_X509 L b) None \<Longrightarrow> always (decode_next_certificate L (Buf b)) (None, Buf b)"
  unfolding decode_next_certificate_def by (auto intro: always_bind)

lemma undecodable_verify_der:
  "always (decode_der_strict L der) None \<Longrightarrow>
   always (tlcp_hybrid_cert_verify_der L der anchor hostname out)
     (if contains_composite_oid der then TLCP_HYBRID_CERT_INVALID else TLCP_HYBRID_CERT_NOT_APPLICABLE,
      map_option (cleanse SM2_UNCOMPRESSED_PUBLIC_KEY_BYTES) out,
      empty_report\<lparr>recognized_composite := contains_composite_oid der\<rparr>)"
  unfolding tlcp_hybrid_cert_verify_der_def Let_def by (rule always_bind) (auto simp: empty_report_def)

text \<open>
  C25: A signing certificate that does not decode is judged by its bytes when it is verified alone:
  if the composite object identifier occurs in them the result is INVALID. The callback does not
  see those bytes: when the first certificate of the list does not decode, the length it passes on
  is zero, the result is NOT_APPLICABLE and nothing is printed, whatever the list holds.
\<close>

theorem malformed_signing_not_applicable:
  assumes "always (d2i_X509 L b) None" and "b = pre @ composite_oid_der @ post"
  shows "fst (run (tlcp_hybrid_cert_verify_der L (Buf b) anchor hostname out) w) = TLCP_HYBRID_CERT_INVALID \<and>
    (\<exists>cfg'. run (tlcp_hybrid_cert_gmssl_verify_callback L (Buf b) out (Some cfg) verbose) w =
        (TLCP_HYBRID_CERT_NOT_APPLICABLE, map_option (cleanse SM2_UNCOMPRESSED_PUBLIC_KEY_BYTES) out, cfg', []))"
proof
  have "contains_composite_oid (Buf b)" using assms(2) by (auto simp: contains_composite_oid_iff)
  with always_run[OF undecodable_verify_der[OF undecodable_strict[OF assms(1)]]]
  show "fst (run (tlcp_hybrid_cert_verify_der L (Buf b) anchor hostname out) w) = TLCP_HYBRID_CERT_INVALID"
    by simp
  have "always (decode_der_strict L (Buf [])) None" by (simp add: decode_der_strict_def)
  note der = undecodable_verify_der[OF this, of "trust_anchor cfg" "expected_hostname cfg" out]
  have "\<not> contains_composite_oid (Buf [])" by (simp add: contains_composite_oid_def)
  with der have "\<exists>cfg'. always (tlcp_hybrid_cert_gmssl_verify_callback L (Buf b) out (Some cfg) verbose)
      (TLCP_HYBRID_CERT_NOT_APPLICABLE, map_option (cleanse SM2_UNCOMPRESSED_PUBLIC_KEY_BYTES) out, cfg', [])"
    unfolding tlcp_hybrid_cert_gmssl_verify_callback_def Let_def option.case
    by (intro exI, intro always_bind[OF undecodable_next[OF assms(1)]], unfold prod.case,
        intro always_bind[OF undecodable_next[OF assms(1)]], unfold prod.case)
      (rule always_bind, simp, simp)
  then show "\<exists>cfg'. run (tlcp_hybrid_cert_gmssl_verify_callback L (Buf b) out (Some cfg) verbose) w =
        (TLCP_HYBRID_CERT_NOT_APPLICABLE, map_option (cleanse SM2_UNCOMPRESSED_PUBLIC_KEY_BYTES) out, cfg', [])"
    by (auto simp: always_def)
qed

theorem malformed_signing_not_applicable_witness:
  "fst (run (tlcp_hybrid_cert_verify_der toy_x509 (Buf composite_oid_der) (Buf [1]) None None) ())
     = TLCP_HYBRID_CERT_INVALID \<and>
   (\<exists>cfg'. run (tlcp_hybrid_cert_gmssl_verify_callback toy_x509 (Buf composite_oid_der) None
        (Some toy_config) True) () = (TLCP_HYBRID_CERT_NOT_APPLICABLE, None, cfg', []))"
proof -
  have d: "always (d2i_X509 toy_x509 composite_oid_der) None"
    by (simp add: toy_x509_eval composite_oid_der_def toy_certificate_d2i_def toy_lookup_def)
  have b: "composite_oid_der = [] @ composite_oid_der @ []" by simp
  from malformed_signing_not_applicable[OF d b, of "Buf [1]" None None "()" toy_config True]
  show ?thesis by simp
qed

end
