(* ===== verification/Pqkex.thy ===== *)
theory Pqkex
  imports Prelude
begin

text \<open>
  The TLCP capability extension that \<open>patches/gmssl/0001-add-experimental-tlcp-pqkex-capability.patch\<close>
  adds to GmSSL: the five functions of \<open>src/tls_ext.c\<close>, the two places of \<open>src/tlcp.c\<close> that call
  them and \<open>tools/pqkex_demo.c\<close>. GmSSL's own wire functions are the parameter \<open>gm_codec\<close>; of its two
  structs only the fields the patch uses appear.

  An array of identifiers is a list, None for a null pointer; the count is a separate argument, as
  in the prototypes, and the code reads that many entries.
\<close>

section \<open>State and parameters\<close>

type_synonym kem_id = "16 word"

definition TLS_extension_pqkex :: int where "TLS_extension_pqkex = 65282"
definition TLS_PQKEX_MAX_KEMS :: nat where "TLS_PQKEX_MAX_KEMS = 8"
definition TLS_PQKEX_KEM_NONE :: kem_id where "TLS_PQKEX_KEM_NONE = 0x0000"
definition TLS_PQKEX_KEM_MLKEM768 :: kem_id where "TLS_PQKEX_KEM_MLKEM768 = 0x0001"

lemmas pqkex_constants =
  TLS_extension_pqkex_def TLS_PQKEX_MAX_KEMS_def TLS_PQKEX_KEM_NONE_def TLS_PQKEX_KEM_MLKEM768_def

record tls_ctx =
  ctx_protocol :: int
  pqkex_kems :: "kem_id list" \<comment> \<open>eight entries\<close>
  pqkex_kems_cnt :: nat

record tls_connect =
  conn_protocol :: int
  conn_ctx :: "tls_ctx option"
  pqkex_offered :: bool
  pqkex_negotiated :: bool
  pqkex_selected_kem :: kem_id

record gm_codec =
  TLS_protocol_tlcp :: int
  tls_uint16_to_bytes :: "kem_id \<Rightarrow> bytes" \<comment> \<open>what is appended\<close>
  tls_uint16_from_bytes :: "bytes \<Rightarrow> (kem_id \<times> bytes) option" \<comment> \<open>the value and the rest\<close>
  tls_uint16array_from_bytes :: "bytes \<Rightarrow> (bytes \<times> bytes) option"
    \<comment> \<open>the array behind its two length bytes, and the rest\<close>
  tls_ext_to_bytes :: "int \<Rightarrow> bytes \<Rightarrow> int \<times> bytes" \<comment> \<open>return code and what is appended\<close>
  tls_ext_from_bytes :: "bytes \<Rightarrow> (int \<times> bytes \<times> bytes) option" \<comment> \<open>type, data and the rest\<close>

text \<open>\<open>memset(&ctx, 0, sizeof ctx)\<close> and the same for a connection.\<close>

definition zero_ctx :: tls_ctx where
  "zero_ctx = \<lparr>ctx_protocol = 0, pqkex_kems = replicate 8 0, pqkex_kems_cnt = 0\<rparr>"

definition zero_connect :: tls_connect where
  "zero_connect = \<lparr>conn_protocol = 0, conn_ctx = None, pqkex_offered = False,
     pqkex_negotiated = False, pqkex_selected_kem = 0\<rparr>"

section \<open>The functions of \<open>tls_ext.c\<close>\<close>

definition tls_ctx_set_pqkex_kems ::
  "'e gm_codec_scheme \<Rightarrow> tls_ctx option \<Rightarrow> kem_id list option \<Rightarrow> nat \<Rightarrow> int \<times> tls_ctx option" where
  "tls_ctx_set_pqkex_kems G ctx kems kems_cnt =
     (case (ctx, kems) of
        (Some c, Some ks) \<Rightarrow>
          if ctx_protocol c \<noteq> TLS_protocol_tlcp G \<or> kems_cnt = 0 \<or> kems_cnt > TLS_PQKEX_MAX_KEMS
          then (-1, ctx)
          else if list_ex (\<lambda>k. k \<noteq> TLS_PQKEX_KEM_MLKEM768) (take kems_cnt ks) then (-1, ctx)
          else (1, Some (c\<lparr>pqkex_kems := take kems_cnt ks @ drop kems_cnt (pqkex_kems c),
                           pqkex_kems_cnt := kems_cnt\<rparr>))
      | _ \<Rightarrow> (-1, ctx))"

text \<open>The loop that appends the identifiers.\<close>

fun kems_to_bytes :: "'e gm_codec_scheme \<Rightarrow> kem_id list \<Rightarrow> bytes" where
  "kems_to_bytes G [] = []"
| "kems_to_bytes G (k # ks) = tls_uint16_to_bytes G k @ kems_to_bytes G ks"

text \<open>\<open>output\<close> is what \<open>out\<close> and \<open>outlen\<close> hold so far, None when \<open>outlen\<close> is null.\<close>

definition tls_pqkex_ext_to_bytes ::
  "'e gm_codec_scheme \<Rightarrow> kem_id list option \<Rightarrow> nat \<Rightarrow> bytes option \<Rightarrow> int \<times> bytes option" where
  "tls_pqkex_ext_to_bytes G kems kems_cnt output =
     (case (kems, output) of
        (Some ks, Some out) \<Rightarrow>
          if kems_cnt = 0 \<or> kems_cnt > TLS_PQKEX_MAX_KEMS then (-1, output)
          else
            let ext_data = tls_uint16_to_bytes G (word_of_nat (kems_cnt * 2)) @ kems_to_bytes G (take kems_cnt ks);
                (ret, appended) = tls_ext_to_bytes G TLS_extension_pqkex ext_data
            in (ret, Some (out @ appended))
      | _ \<Rightarrow> (-1, output))"

text \<open>
  The loop that reads \<open>n\<close> identifiers into the array from index \<open>i\<close> on: the array and the rest of
  the list, or the array so far when a read fails.
\<close>

fun read_kems :: "'e gm_codec_scheme \<Rightarrow> kem_id list \<Rightarrow> nat \<Rightarrow> nat \<Rightarrow> bytes \<Rightarrow> kem_id list + kem_id list \<times> bytes" where
  "read_kems G kems i 0 list = Inr (kems, list)"
| "read_kems G kems i (Suc n) list =
     (case tls_uint16_from_bytes G list of
        None \<Rightarrow> Inl kems
      | Some (k, rest) \<Rightarrow> read_kems G (kems[i := k]) (i + 1) n rest)"

text \<open>The caller's array has \<open>max_kems\<close> entries, at most eight. Results: code, array, count.\<close>

definition tls_pqkex_from_bytes ::
  "'e gm_codec_scheme \<Rightarrow> kem_id list option \<Rightarrow> nat option \<Rightarrow> nat \<Rightarrow> buf \<Rightarrow> int \<times> kem_id list option \<times> nat option" where
  "tls_pqkex_from_bytes G kems kems_cnt max_kems ext_data =
     (case (kems, kems_cnt, ext_data) of
        (Some ks, Some cnt, Buf data) \<Rightarrow>
          if max_kems = 0 \<or> max_kems > TLS_PQKEX_MAX_KEMS then (-1, kems, kems_cnt)
          else (case tls_uint16array_from_bytes G data of
              None \<Rightarrow> (-1, kems, Some 0)
            | Some (list, rest) \<Rightarrow>
                if length rest \<noteq> 0 \<or> length list < 2 \<or> odd (length list) then (-1, kems, Some 0)
                else
                  let count = length list div 2
                  in if count > max_kems then (-1, kems, Some 0)
                     else (case read_kems G ks 0 count list of
                         Inl ks' \<Rightarrow> (-1, Some ks', Some 0)
                       | Inr (ks', left) \<Rightarrow>
                           if length left \<noteq> 0 then (-1, Some ks', Some 0)
                           else (1, Some ks', Some count)))
      | _ \<Rightarrow> (-1, kems, kems_cnt))"

text \<open>The inner and the outer loop of the selection.\<close>

fun offered_by :: "kem_id list \<Rightarrow> kem_id \<Rightarrow> bool" where
  "offered_by [] k = False"
| "offered_by (s # ss) k = (if k = s then True else offered_by ss k)"

fun select_loop :: "kem_id list \<Rightarrow> kem_id list \<Rightarrow> kem_id option" where
  "select_loop [] ss = None"
| "select_loop (c # cs) ss = (if offered_by ss c then Some c else select_loop cs ss)"

definition tls_pqkex_select_kem ::
  "kem_id list option \<Rightarrow> nat \<Rightarrow> kem_id list option \<Rightarrow> nat \<Rightarrow> kem_id option \<Rightarrow> int \<times> kem_id option" where
  "tls_pqkex_select_kem client_kems client_kems_cnt server_kems server_kems_cnt selected_kem =
     (if selected_kem = None \<or> client_kems = None \<or> client_kems_cnt = 0 \<or>
         client_kems_cnt > TLS_PQKEX_MAX_KEMS \<or> (server_kems = None \<and> server_kems_cnt \<noteq> 0) \<or>
         server_kems_cnt > TLS_PQKEX_MAX_KEMS
      then (-1, selected_kem)
      else (case select_loop (take client_kems_cnt (the client_kems))
                    (case server_kems of None \<Rightarrow> [] | Some ss \<Rightarrow> take server_kems_cnt ss) of
          Some k \<Rightarrow> (1, Some k)
        | None \<Rightarrow> (0, Some TLS_PQKEX_KEM_NONE)))"

text \<open>The local array's initial contents are not read: only the parsed entries are.\<close>

definition tlcp_process_client_pqkex ::
  "'e gm_codec_scheme \<Rightarrow> tls_connect option \<Rightarrow> buf \<Rightarrow> int \<times> tls_connect option" where
  "tlcp_process_client_pqkex G conn ext_data =
     (case conn of
        None \<Rightarrow> (-1, conn)
      | Some c \<Rightarrow>
          if conn_ctx c = None \<or> conn_protocol c \<noteq> TLS_protocol_tlcp G \<or> pqkex_offered c
          then (-1, conn)
          else (case tls_pqkex_from_bytes G (Some (replicate 8 0)) (Some 0) TLS_PQKEX_MAX_KEMS ext_data of
              (parsed, client_kems, client_kems_cnt) \<Rightarrow>
                if parsed \<noteq> 1 then (-1, conn)
                else (case tls_pqkex_select_kem client_kems (the client_kems_cnt)
                          (Some (pqkex_kems (the (conn_ctx c)))) (pqkex_kems_cnt (the (conn_ctx c)))
                          (Some (pqkex_selected_kem c)) of
                    (ret, selected) \<Rightarrow>
                      let c = c\<lparr>pqkex_selected_kem := the selected\<rparr>
                      in if ret < 0 then (-1, Some c)
                         else (1, Some (c\<lparr>pqkex_offered := True, pqkex_negotiated := (ret = 1)\<rparr>)))))"

section \<open>The calls in \<open>tlcp.c\<close> and the demonstration\<close>

text \<open>
  The client's part of \<open>tlcp_send_client_hello\<close>: the extensions so far, extended when the context
  has identifiers. None is the return of \<open>-1\<close>.
\<close>

definition client_hello_pqkex :: "'e gm_codec_scheme \<Rightarrow> tls_connect \<Rightarrow> tls_ctx \<Rightarrow> bytes \<Rightarrow> (bytes \<times> tls_connect) option" where
  "client_hello_pqkex G conn ctx exts =
     (if pqkex_kems_cnt ctx \<noteq> 0 then
        (case tls_pqkex_ext_to_bytes G (Some (pqkex_kems ctx)) (pqkex_kems_cnt ctx) (Some exts) of
           (ret, exts') \<Rightarrow> if ret \<noteq> 1 then None else Some (the exts', conn\<lparr>pqkex_offered := True\<rparr>))
      else Some (exts, conn))"

datatype tls_alert = TLS_alert_illegal_parameter | TLS_alert_decode_error

text \<open>The server's case of \<open>tlcp_recv_client_hello\<close>: the alert sent, or the connection.\<close>

definition recv_pqkex :: "'e gm_codec_scheme \<Rightarrow> tls_connect \<Rightarrow> buf \<Rightarrow> tls_alert + tls_connect" where
  "recv_pqkex G conn ext_data =
     (case tlcp_process_client_pqkex G (Some conn) ext_data of
        (ret, conn') \<Rightarrow>
          if ret \<noteq> 1
          then Inl (if pqkex_offered (the conn') then TLS_alert_illegal_parameter else TLS_alert_decode_error)
          else Inr (the conn'))"

text \<open>The exit code of the demonstration and the connection it prints.\<close>

definition pqkex_demo_main :: "'e gm_codec_scheme \<Rightarrow> int \<times> tls_connect option" where
  "pqkex_demo_main G =
     (let mlkem768 = [TLS_PQKEX_KEM_MLKEM768];
          server_ctx = zero_ctx\<lparr>ctx_protocol := TLS_protocol_tlcp G\<rparr>;
          (set, server_ctx') = tls_ctx_set_pqkex_kems G (Some server_ctx) (Some mlkem768) 1;
          (ext, extension) = tls_pqkex_ext_to_bytes G (Some mlkem768) 1 (Some [])
      in if set \<noteq> 1 \<or> ext \<noteq> 1 then (1, None)
         else
           let server_conn = zero_connect\<lparr>conn_protocol := TLS_protocol_tlcp G, conn_ctx := server_ctx'\<rparr>
           in if length (the extension) \<noteq> 8 then (1, None)
              else (case tlcp_process_client_pqkex G (Some server_conn) (Buf (drop 4 (the extension))) of
                  (ret, conn) \<Rightarrow>
                    if ret \<noteq> 1 then (1, None)
                    else (if pqkex_negotiated (the conn) then 0 else 1, conn)))"

end
