(* ===== verification/Pqkex_Facts.thy ===== *)
theory Pqkex_Facts
  imports Pqkex
begin

text \<open>
  The documented wire format of GmSSL's functions (the presentation language of TLS: big-endian
  16-bit numbers, arrays behind a 16-bit length), and what the extension's parser, serialiser and
  selection do over it. The parser's locale states what any reader of 16-bit numbers must satisfy for
  the loop to be exact; it is interpreted on the code's own writer of the list.
\<close>

section \<open>The wire format\<close>

definition wire_law :: "'e gm_codec_scheme \<Rightarrow> bool" where
  "wire_law G \<longleftrightarrow>
     (\<forall>v. tls_uint16_to_bytes G v = [ucast (drop_bit 8 v), ucast v]) \<and>
     (\<forall>b. tls_uint16_from_bytes G b =
        (case b of h # l # rest \<Rightarrow> Some (word_cat h l, rest) | _ \<Rightarrow> None)) \<and>
     (\<forall>b. tls_uint16array_from_bytes G b =
        (case tls_uint16_from_bytes G b of None \<Rightarrow> None
         | Some (n, rest) \<Rightarrow>
             if unat n \<le> length rest then Some (take (unat n) rest, drop (unat n) rest) else None)) \<and>
     (\<forall>t d. 0 \<le> t \<longrightarrow> t < 65536 \<longrightarrow> length d < 65536 \<longrightarrow> tls_ext_to_bytes G t d =
        (1, tls_uint16_to_bytes G (word_of_int t) @ tls_uint16_to_bytes G (word_of_nat (length d)) @ d)) \<and>
     (\<forall>b. tls_ext_from_bytes G b =
        (case tls_uint16_from_bytes G b of None \<Rightarrow> None
         | Some (t, rest) \<Rightarrow>
             (case tls_uint16array_from_bytes G rest of None \<Rightarrow> None
              | Some (d, rest') \<Rightarrow> Some (uint t, d, rest'))))"

lemma cat_halves: "word_cat (ucast (drop_bit 8 v) :: byte) (ucast v :: byte) = (v :: 16 word)"
  by (rule bit_word_eqI) (auto simp: bit_simps)

lemma halves_cat:
  "ucast (drop_bit 8 (word_cat h l :: 16 word)) = (h :: byte)" "ucast (word_cat h l :: 16 word) = (l :: byte)"
  by (rule bit_word_eqI, auto simp: bit_simps)+

lemma uint16_bytes: "wire_law G \<Longrightarrow> tls_uint16_to_bytes G v = [ucast (drop_bit 8 v), ucast v]"
  unfolding wire_law_def by blast

lemma length_uint16 [simp]: "wire_law G \<Longrightarrow> length (tls_uint16_to_bytes G v) = 2"
  by (simp add: uint16_bytes)

lemma uint16_read [simp]:
  "wire_law G \<Longrightarrow> tls_uint16_from_bytes G (tls_uint16_to_bytes G v @ rest) = Some (v, rest)"
  by (simp add: wire_law_def cat_halves)

lemma uint16_exact:
  "wire_law G \<Longrightarrow> tls_uint16_from_bytes G b = Some (v, rest) \<longleftrightarrow> b = tls_uint16_to_bytes G v @ rest"
  by (auto simp: wire_law_def halves_cat cat_halves split: list.splits)

lemma uint16array_exact:
  assumes "wire_law G"
  shows "tls_uint16array_from_bytes G b = Some (d, rest) \<longleftrightarrow>
     length d < 65536 \<and> b = tls_uint16_to_bytes G (word_of_nat (length d)) @ d @ rest" (is "?l \<longleftrightarrow> ?r")
proof
  have read: "tls_uint16array_from_bytes G b =
      (case tls_uint16_from_bytes G b of None \<Rightarrow> None
       | Some (n, r) \<Rightarrow> if unat n \<le> length r then Some (take (unat n) r, drop (unat n) r) else None)"
    using assms unfolding wire_law_def by blast
  { assume ?l
    with read obtain n r where n: "tls_uint16_from_bytes G b = Some (n, r)" "unat n \<le> length r"
        "d = take (unat n) r" "rest = drop (unat n) r"
      by (auto split: option.splits if_splits)
    moreover from n(2,3) have "length d = unat n" by simp
    moreover have "unat n < 65536" using unsigned_less[of n] by simp
    moreover from n(1) assms have "b = tls_uint16_to_bytes G n @ r" by (simp add: uint16_exact)
    ultimately show ?r by simp }
  { assume r: ?r
    then have "unat (word_of_nat (length d) :: 16 word) = length d" by (simp add: unat_of_nat)
    with r assms read show ?l by simp }
qed

lemma ext_write:
  assumes "wire_law G" and "0 \<le> t" and "t < 65536" and "length d < 65536"
  shows "tls_ext_to_bytes G t d =
    (1, tls_uint16_to_bytes G (word_of_int t) @ tls_uint16_to_bytes G (word_of_nat (length d)) @ d)"
  using assms unfolding wire_law_def by blast

lemma ext_exact:
  assumes "wire_law G"
  shows "tls_ext_from_bytes G b = Some (t, d, rest) \<longleftrightarrow>
     0 \<le> t \<and> t < 65536 \<and> length d < 65536 \<and>
     b = tls_uint16_to_bytes G (word_of_int t) @ tls_uint16_to_bytes G (word_of_nat (length d)) @ d @ rest"
    (is "?l \<longleftrightarrow> ?r")
proof
  have read: "tls_ext_from_bytes G b = (case tls_uint16_from_bytes G b of None \<Rightarrow> None
      | Some (v, r) \<Rightarrow> (case tls_uint16array_from_bytes G r of None \<Rightarrow> None
          | Some (d, r') \<Rightarrow> Some (uint v, d, r')))"
    using assms unfolding wire_law_def by blast
  { assume ?l
    with read obtain v r where v: "tls_uint16_from_bytes G b = Some (v, r)" "t = uint v"
        "tls_uint16array_from_bytes G r = Some (d, rest)"
      by (auto split: option.splits)
    moreover have "uint v < 65536" using uint_bounded[of v] by simp
    ultimately show ?r using assms by (simp add: uint16_exact uint16array_exact) }
  { assume r: ?r
    moreover from r have "uint (word_of_int t :: 16 word) = t" by (simp add: uint_word_of_int)
    moreover from r have "tls_uint16array_from_bytes G
        (tls_uint16_to_bytes G (word_of_nat (length d)) @ d @ rest) = Some (d, rest)"
      using assms by (simp add: uint16array_exact)
    ultimately show ?l using assms read by simp }
qed

section \<open>The list of identifiers\<close>

lemma length_kems_to_bytes [simp]: "wire_law G \<Longrightarrow> length (kems_to_bytes G ks) = 2 * length ks"
  by (induction ks) simp_all

lemma read_kems_exact:
  assumes "wire_law G" and "i + n \<le> length arr"
  shows "read_kems G arr i n list = Inr (arr', left) \<longleftrightarrow>
     (\<exists>vs. length vs = n \<and> list = kems_to_bytes G vs @ left \<and> arr' = take i arr @ vs @ drop (i + n) arr)"
  using assms(2)
proof (induction n arbitrary: arr i list)
  case 0
  then show ?case by auto
next
  case (Suc n)
  show ?case
  proof (cases "tls_uint16_from_bytes G list")
    case None
    moreover have "list \<noteq> kems_to_bytes G vs @ left" if "length vs = Suc n" for vs
    proof
      assume "list = kems_to_bytes G vs @ left"
      with that obtain v where "list = tls_uint16_to_bytes G v @ kems_to_bytes G (tl vs) @ left"
        by (cases vs) auto
      with None assms(1) show False by simp
    qed
    ultimately show ?thesis by auto
  next
    case (Some p)
    then obtain k rest where k: "tls_uint16_from_bytes G list = Some (k, rest)" by (cases p) auto
    then have list: "list = tls_uint16_to_bytes G k @ rest" using assms(1) by (simp add: uint16_exact)
    from Suc.prems have len: "i + 1 + n \<le> length (arr[i := k])" and i: "i < length arr" by simp_all
    have arr: "take (i + 1) (arr[i := k]) = take i arr @ [k]" "drop (i + 1 + n) (arr[i := k]) = drop (i + Suc n) arr"
      using i by (simp_all add: take_Suc_conv_app_nth take_update_cancel)
    have split: "list = kems_to_bytes G vs @ left \<and> length vs = Suc n \<longleftrightarrow>
        (\<exists>ws. vs = k # ws \<and> length ws = n \<and> rest = kems_to_bytes G ws @ left)" for vs
    proof
      assume vs: "list = kems_to_bytes G vs @ left \<and> length vs = Suc n"
      then obtain v ws where ws: "vs = v # ws" "length ws = n" by (cases vs) auto
      with vs list have eq: "tls_uint16_to_bytes G k @ rest = tls_uint16_to_bytes G v @ kems_to_bytes G ws @ left"
        by simp
      then have "Some (k, rest) = Some (v, kems_to_bytes G ws @ left)"
        using uint16_read[OF assms(1), of k rest] uint16_read[OF assms(1), of v "kems_to_bytes G ws @ left"]
        by (simp only: eq)
      with ws show "\<exists>ws. vs = k # ws \<and> length ws = n \<and> rest = kems_to_bytes G ws @ left" by auto
    next
      assume "\<exists>ws. vs = k # ws \<and> length ws = n \<and> rest = kems_to_bytes G ws @ left"
      with list show "list = kems_to_bytes G vs @ left \<and> length vs = Suc n" by auto
    qed
    have "(\<exists>vs. length vs = Suc n \<and> list = kems_to_bytes G vs @ left \<and> arr' = take i arr @ vs @ drop (i + Suc n) arr)
        \<longleftrightarrow> (\<exists>ws. length ws = n \<and> rest = kems_to_bytes G ws @ left \<and>
               arr' = take i arr @ (k # ws) @ drop (i + Suc n) arr)"
      (is "?a \<longleftrightarrow> ?b")
    proof
      assume ?a
      then obtain vs where "list = kems_to_bytes G vs @ left \<and> length vs = Suc n"
          "arr' = take i arr @ vs @ drop (i + Suc n) arr" by auto
      with split[of vs] show ?b by auto
    next
      assume ?b
      then obtain ws where "length ws = n" "rest = kems_to_bytes G ws @ left"
          "arr' = take i arr @ (k # ws) @ drop (i + Suc n) arr" by auto
      with split[of "k # ws"] show ?a by auto
    qed
    moreover from Suc.IH[OF len] k have "read_kems G arr i (Suc n) list = Inr (arr', left) \<longleftrightarrow>
        (\<exists>ws. length ws = n \<and> rest = kems_to_bytes G ws @ left \<and>
               arr' = take i arr @ (k # ws) @ drop (i + Suc n) arr)"
      unfolding arr by simp
    ultimately show ?thesis by blast
  qed
qed

lemma kems_split:
  assumes "wire_law G" and "length list = 2 * n"
  obtains vs where "length vs = n" and "list = kems_to_bytes G vs"
  using assms(2)
proof (induction n arbitrary: list thesis)
  case 0
  then show ?case by simp
next
  case (Suc n)
  from Suc.prems(2) obtain h l rest where list: "list = h # l # rest" "length rest = 2 * n"
    by (cases list; cases "tl list") auto
  from Suc.IH[OF _ list(2)] obtain vs where "length vs = n" "rest = kems_to_bytes G vs" by blast
  with list assms(1) show ?case
    by (intro Suc.prems(1)[of "word_cat h l # vs"]) (simp_all add: uint16_bytes halves_cat)
qed

end
