(* ===== verification/C_Stdlib.thy ===== *)
theory C_Stdlib
  imports Prelude
begin

text \<open>
  The functions of the C library that the tools call on strings. A C string is a \<open>string\<close> without
  its terminating zero; a pointer into it is the rest it points to.
\<close>

definition isspace :: "char \<Rightarrow> bool" where
  "isspace c \<longleftrightarrow> c \<in> {CHR '' '', CHR 0x09, CHR 0x0A, CHR 0x0B, CHR 0x0C, CHR 0x0D}"

definition digit_value :: "char \<Rightarrow> nat" where
  "digit_value c = of_char c - 48"

definition isdigit :: "char \<Rightarrow> bool" where
  "isdigit c \<longleftrightarrow> 48 \<le> (of_char c :: nat) \<and> (of_char c :: nat) \<le> 57"

fun read_digits :: "nat \<Rightarrow> string \<Rightarrow> nat \<times> string" where
  "read_digits v [] = (v, [])"
| "read_digits v (c # cs) = (if isdigit c then read_digits (10 * v + digit_value c) cs else (v, c # cs))"

text \<open>
  \<open>strtoul(text, &end, 10)\<close> for the largest value \<open>limit\<close>: white space, one optional sign, digits. The
  results are the value, \<open>end\<close> (all of \<open>text\<close> when there is no number), and whether \<open>errno\<close> is set. A
  minus sign negates the value modulo \<open>limit + 1\<close>.
\<close>

definition read_sign :: "string \<Rightarrow> bool \<times> string" where
  "read_sign s =
     (case s of [] \<Rightarrow> (False, s)
      | c # cs \<Rightarrow> if c = CHR ''-'' then (True, cs) else if c = CHR ''+'' then (False, cs) else (False, s))"

definition strtoul :: "nat \<Rightarrow> string \<Rightarrow> nat \<times> string \<times> bool" where
  "strtoul limit text =
     (let (negative, s) = read_sign (dropWhile isspace text);
          (v, rest) = read_digits 0 s
      in if s = [] \<or> \<not> isdigit (hd s) then (0, text, False)
         else if v > limit then (limit, rest, True)
         else (if negative then (limit + 1 - v) mod (limit + 1) else v, rest, False))"

section \<open>Decimal numbers\<close>

definition digit_char :: "nat \<Rightarrow> char" where
  "digit_char d = ''0123456789'' ! d"

fun decimal :: "nat \<Rightarrow> string" where
  "decimal n = (if n < 10 then [digit_char n] else decimal (n div 10) @ [digit_char (n mod 10)])"

declare decimal.simps [simp del]

lemma digit_char_facts:
  assumes "d < 10"
  shows "isdigit (digit_char d)" and "digit_value (digit_char d) = d" and "\<not> isspace (digit_char d)"
    and "digit_char d \<noteq> CHR ''-''" and "digit_char d \<noteq> CHR ''+''"
proof -
  have "d \<in> {0, 1, 2, 3, 4, 5, 6, 7, 8, 9}" using assms by auto
  then show "isdigit (digit_char d)" "digit_value (digit_char d) = d" "\<not> isspace (digit_char d)"
      "digit_char d \<noteq> CHR ''-''" "digit_char d \<noteq> CHR ''+''"
    by (auto simp: isdigit_def digit_value_def digit_char_def isspace_def)
qed

lemma read_digits_append:
  "list_all isdigit ds \<Longrightarrow> read_digits v (ds @ s) = read_digits (fst (read_digits v ds)) s"
  by (induction ds arbitrary: v) auto

lemma read_digits_all: "list_all isdigit ds \<Longrightarrow> snd (read_digits v ds) = []"
  by (induction ds arbitrary: v) auto

lemma decimal_digits: "list_all isdigit (decimal n)" "decimal n \<noteq> []"
proof (induction n rule: decimal.induct)
  case (1 n)
  { case 1 show ?case using \<open>\<not> n < 10 \<Longrightarrow> list_all isdigit (decimal (n div 10))\<close>
      by (subst decimal.simps) (simp add: digit_char_facts) }
  { case 2 show ?case by (subst decimal.simps) simp }
qed

lemma read_decimal: "read_digits 0 (decimal n) = (n, [])"
proof -
  have "fst (read_digits 0 (decimal n)) = n"
  proof (induction n rule: decimal.induct)
    case (1 n)
    show ?case
    proof (cases "n < 10")
      case True
      then show ?thesis by (subst decimal.simps) (simp add: digit_char_facts)
    next
      case False
      then have "decimal n = decimal (n div 10) @ [digit_char (n mod 10)]" by (subst decimal.simps) simp
      then show ?thesis
        using 1[OF False] by (simp add: read_digits_append[OF decimal_digits(1)] digit_char_facts)
    qed
  qed
  then show ?thesis using read_digits_all[OF decimal_digits(1)] by (metis prod.collapse)
qed

lemma decimal_head: "\<exists>d s. d < 10 \<and> decimal n = digit_char d # s"
proof (induction n rule: decimal.induct)
  case (1 n)
  then show ?case by (subst decimal.simps) (cases "n < 10", auto)
qed

text \<open>The decimal of a number that fits is read back.\<close>

lemma strtoul_decimal: "n \<le> limit \<Longrightarrow> strtoul limit (decimal n) = (n, [], False)"
proof -
  assume n: "n \<le> limit"
  from decimal_head obtain d s where d: "d < 10" "decimal n = digit_char d # s" by blast
  then have "dropWhile isspace (decimal n) = decimal n" by (simp add: digit_char_facts)
  moreover have "read_sign (decimal n) = (False, decimal n)"
    using d by (simp add: read_sign_def digit_char_facts)
  moreover have "isdigit (hd (decimal n))" "decimal n \<noteq> []" using d by (simp_all add: digit_char_facts)
  ultimately show ?thesis using n by (simp add: strtoul_def read_decimal)
qed

end
