(* ===== verification/Pqkex_Capture.thy ===== *)
theory Pqkex_Capture
  imports Pqkex C_Stdlib
begin

text \<open>
  \<open>tools/pqkex_capture_demo.c\<close>: a client process sends a TLCP ClientHello over a loopback socket and
  the server process parses its extensions with the functions of \<open>Pqkex\<close>. GmSSL's connection
  functions and the socket and process calls are parameters. The lines printed are not modelled,
  except for the exit codes they go with. A cleaned-up connection or socket is not used again, so
  clean-up has no model either.
\<close>

definition DEFAULT_CAPTURE_PORT :: "16 word" where "DEFAULT_CAPTURE_PORT = 44330"

record 'w gm_tls = gm_codec +
  TLS_cipher_ecc_sm4_cbc_sm3 :: int
  tls_ctx_init :: "tls_ctx \<Rightarrow> int \<Rightarrow> bool \<Rightarrow> ('w, int \<times> tls_ctx) prog"
  tls_ctx_set_cipher_suites :: "tls_ctx \<Rightarrow> int list \<Rightarrow> ('w, int \<times> tls_ctx) prog"
  tls_init :: "tls_connect \<Rightarrow> tls_ctx \<Rightarrow> ('w, int \<times> tls_connect) prog"
  tls_set_socket :: "tls_connect \<Rightarrow> int \<Rightarrow> ('w, int \<times> tls_connect) prog"
  tls_recv_record :: "tls_connect \<Rightarrow> ('w, int \<times> tls_connect \<times> bytes) prog"
    \<comment> \<open>with the record received\<close>
  tls_record_get_handshake_client_hello :: "bytes \<Rightarrow> int \<times> int \<times> bytes"
    \<comment> \<open>return code, protocol and extensions of the record\<close>
  tlcp_send_client_hello :: "tls_connect \<Rightarrow> ('w, int) prog"

record 'w sock_lib =
  sock_socket :: "('w, int) prog"
  sock_setsockopt :: "int \<Rightarrow> ('w, int) prog"
  sock_bind :: "int \<Rightarrow> 16 word \<Rightarrow> ('w, int) prog" \<comment> \<open>to the loopback address\<close>
  sock_listen :: "int \<Rightarrow> ('w, int) prog"
  sock_connect :: "int \<Rightarrow> 16 word \<Rightarrow> ('w, int) prog"
  sock_accept :: "int \<Rightarrow> ('w, int) prog"
  proc_fork :: "('w, int) prog"
  proc_waitpid :: "int \<Rightarrow> ('w, int \<times> int) prog" \<comment> \<open>return code and status\<close>
  WIFEXITED :: "int \<Rightarrow> bool"
  WEXITSTATUS :: "int \<Rightarrow> int"

definition ULONG_MAX :: nat where "ULONG_MAX = 18446744073709551615"

text \<open>The port on success. \<open>port\<close> is never null here.\<close>

definition parse_port :: "string option \<Rightarrow> (16 word) option" where
  "parse_port text =
     (case text of
        None \<Rightarrow> None
      | Some s \<Rightarrow>
          if s = [] then None
          else (case strtoul ULONG_MAX s of (v, rest, erange) \<Rightarrow>
            if erange \<or> rest = s \<or> rest \<noteq> [] \<or> v = 0 \<or> v > 65535 then None
            else Some (word_of_nat v)))"

definition configure_pqkex_context ::
  "('w, 'e) gm_tls_scheme \<Rightarrow> tls_ctx \<Rightarrow> bool \<Rightarrow> ('w, bool \<times> tls_ctx) prog" where
  "configure_pqkex_context T ctx is_client = do {
     (ret, ctx) \<leftarrow> tls_ctx_init T ctx (TLS_protocol_tlcp T) is_client;
     if ret \<noteq> 1 then give (False, ctx)
     else do {
       (ret, ctx) \<leftarrow> tls_ctx_set_cipher_suites T ctx [TLS_cipher_ecc_sm4_cbc_sm3 T];
       if ret \<noteq> 1 then give (False, ctx)
       else give (case tls_ctx_set_pqkex_kems T (Some ctx) (Some [TLS_PQKEX_KEM_MLKEM768]) 1 of
                    (ret, ctx') \<Rightarrow> (ret = 1, the ctx')) } }"

definition connect_to_loopback :: "('w, 's) sock_lib_scheme \<Rightarrow> 16 word \<Rightarrow> ('w, int) prog" where
  "connect_to_loopback S port = do {
     sock \<leftarrow> sock_socket S;
     if sock < 0 then give (-1)
     else do {
       ret \<leftarrow> sock_connect S sock port;
       if ret \<noteq> 0 then give (-1) else give sock } }"

definition send_client_hello ::
  "('w, 'e) gm_tls_scheme \<Rightarrow> ('w, 's) sock_lib_scheme \<Rightarrow> 16 word \<Rightarrow> ('w, bool) prog" where
  "send_client_hello T S port = do {
     (ok, ctx) \<leftarrow> configure_pqkex_context T zero_ctx True;
     if \<not> ok then give False
     else do {
       sock \<leftarrow> connect_to_loopback S port;
       if sock < 0 then give False
       else do {
         (ret, conn) \<leftarrow> tls_init T zero_connect ctx;
         if ret \<noteq> 1 then give False
         else do {
           (ret, conn) \<leftarrow> tls_set_socket T conn sock;
           if ret \<noteq> 1 then give False
           else do {
             ret \<leftarrow> tlcp_send_client_hello T conn;
             give (ret = 1) } } } } }"

text \<open>
  The loop over the extensions, with the connection and the number of PQKEX extensions so far.
  Whether it ends is up to GmSSL's \<open>tls_ext_from_bytes\<close>, so the outer option is None when it does
  not; the inner one is None for the \<open>return 0\<close> inside the loop.
\<close>

partial_function (option) scan_extensions ::
  "'e gm_codec_scheme \<Rightarrow> tls_connect \<Rightarrow> nat \<Rightarrow> bytes \<Rightarrow> (tls_connect \<times> nat) option option" where
  "scan_extensions T conn pqkex_count extensions =
     (if length extensions = 0 then Some (Some (conn, pqkex_count))
      else case tls_ext_from_bytes T extensions of
        None \<Rightarrow> Some None
      | Some (extension_type, extension_data, extensions') \<Rightarrow>
          if extension_type = TLS_extension_pqkex then
            if pqkex_count + 1 \<noteq> 1 then Some None
            else (case tlcp_process_client_pqkex T (Some conn) (Buf extension_data) of
                (ret, conn') \<Rightarrow>
                  if ret \<noteq> 1 then Some None
                  else scan_extensions T (the conn') (pqkex_count + 1) extensions')
          else scan_extensions T conn pqkex_count extensions')"

text \<open>The check after the loop.\<close>

definition pqkex_selected :: "(tls_connect \<times> nat) option \<Rightarrow> bool" where
  "pqkex_selected scanned =
     (case scanned of
        None \<Rightarrow> False
      | Some (conn, pqkex_count) \<Rightarrow>
          \<not> (pqkex_count \<noteq> 1 \<or> \<not> pqkex_offered conn \<or> \<not> pqkex_negotiated conn \<or>
             pqkex_selected_kem conn \<noteq> TLS_PQKEX_KEM_MLKEM768))"

text \<open>None when the loop does not end.\<close>

definition process_client_hello_record ::
  "('w, 'e) gm_tls_scheme \<Rightarrow> int \<Rightarrow> tls_ctx \<Rightarrow> ('w, bool option) prog" where
  "process_client_hello_record T sock ctx = do {
     let connection = zero_connect\<lparr>conn_protocol := TLS_protocol_tlcp T, conn_ctx := Some ctx\<rparr>;
     (ret, connection) \<leftarrow> tls_set_socket T connection sock;
     if ret \<noteq> 1 then give (Some False)
     else do {
       (ret, connection, rec) \<leftarrow> tls_recv_record T connection;
       if ret \<noteq> 1 then give (Some False)
       else (case tls_record_get_handshake_client_hello T rec of
           (ret, protocol, extensions) \<Rightarrow>
             if ret \<noteq> 1 \<or> protocol \<noteq> TLS_protocol_tlcp T then give (Some False)
             else give (map_option pqkex_selected (scan_extensions T connection 0 extensions))) } }"

definition create_listener :: "('w, 's) sock_lib_scheme \<Rightarrow> 16 word \<Rightarrow> ('w, int) prog" where
  "create_listener S port = do {
     sock \<leftarrow> sock_socket S;
     if sock < 0 then give (-1)
     else do {
       ret \<leftarrow> sock_setsockopt S sock;
       if ret \<noteq> 0 then give (-1)
       else do {
         ret \<leftarrow> sock_bind S sock port;
         if ret \<noteq> 0 then give (-1)
         else do {
           ret \<leftarrow> sock_listen S sock;
           if ret \<noteq> 0 then give (-1) else give sock } } } }"

text \<open>
  \<open>main\<close>, for either of the two processes it becomes: \<open>fork\<close> returns 0 in the child. The result is the
  exit code (0 for success), None when the server's loop does not end.
\<close>

definition capture_main ::
  "('w, 'e) gm_tls_scheme \<Rightarrow> ('w, 's) sock_lib_scheme \<Rightarrow> string list \<Rightarrow> ('w, int option) prog" where
  "capture_main T S argv =
     (if length argv > 2 \<or> (length argv = 2 \<and> parse_port (Some (argv ! 1)) = None) then give (Some 1)
      else do {
        let port = (if length argv = 2 then the (parse_port (Some (argv ! 1))) else DEFAULT_CAPTURE_PORT);
        (ok, server_ctx) \<leftarrow> configure_pqkex_context T zero_ctx False;
        if \<not> ok then give (Some 1)
        else do {
          listener \<leftarrow> create_listener S port;
          if listener < 0 then give (Some 1)
          else do {
            child \<leftarrow> proc_fork S;
            if child < 0 then give (Some 1)
            else if child = 0 then do {
              client_ok \<leftarrow> send_client_hello T S port;
              give (Some (if client_ok then 0 else 1)) }
            else do {
              peer \<leftarrow> sock_accept S listener;
              server_ok \<leftarrow> (if peer < 0 then give (Some False)
                            else process_client_hello_record T peer server_ctx);
              (waited, status) \<leftarrow> proc_waitpid S child;
              give (case server_ok of
                      None \<Rightarrow> None
                    | Some ok \<Rightarrow>
                        if waited < 0 then Some 1
                        else if \<not> ok \<or> \<not> WIFEXITED S status \<or> WEXITSTATUS S status \<noteq> 0 then Some 1
                        else Some 0) } } } })"

end
