(* ===== verification/Pqkex_Theorems.thy ===== *)
theory Pqkex_Theorems
  imports Pqkex_Facts Pqkex_Capture
begin

text \<open>
  The properties of the PQKEX capability extension: what the server accepts, that it accepts it at
  most once, that it agrees with the client, and that the capture tool's loop over the extensions
  ends with the right verdict. The witnesses use a codec with the documented wire format.
\<close>

section \<open>Parsing and selecting\<close>

definition kem_list_bytes :: "'e gm_codec_scheme \<Rightarrow> kem_id list \<Rightarrow> bytes" where
  "kem_list_bytes G vs = tls_uint16_to_bytes G (word_of_nat (2 * length vs)) @ kems_to_bytes G vs"

lemma from_bytes_exact:
  assumes "wire_law G" and "length ks = max_kems" and "0 < max_kems" and "max_kems \<le> TLS_PQKEX_MAX_KEMS"
  shows "tls_pqkex_from_bytes G (Some ks) (Some c) max_kems (Buf d) = (1, Some ks', Some n) \<longleftrightarrow>
    (\<exists>vs. d = kem_list_bytes G vs \<and> length vs = n \<and> 0 < n \<and> n \<le> max_kems \<and> ks' = vs @ drop n ks)"
    (is "?l \<longleftrightarrow> ?r")
proof
  assume ?l
  with assms obtain list where list: "tls_uint16array_from_bytes G d = Some (list, [])" "2 \<le> length list"
      "even (length list)" "n = length list div 2" "n \<le> max_kems" "read_kems G ks 0 n list = Inr (ks', [])"
    by (auto simp: tls_pqkex_from_bytes_def Let_def split: option.splits if_splits sum.splits)
  then obtain vs where vs: "length vs = n" "list = kems_to_bytes G vs" "ks' = vs @ drop n ks"
    using read_kems_exact[OF assms(1), of 0 n ks list ks' "[]"] assms(2) by auto
  moreover from list(1) vs assms(1) have "d = kem_list_bytes G vs"
    by (simp add: uint16array_exact kem_list_bytes_def)
  ultimately show ?r using list by auto
next
  assume ?r
  then obtain vs where vs: "d = kem_list_bytes G vs" "length vs = n" "0 < n" "n \<le> max_kems" "ks' = vs @ drop n ks"
    by blast
  with assms have arr: "tls_uint16array_from_bytes G d = Some (kems_to_bytes G vs, [])"
    by (simp add: uint16array_exact kem_list_bytes_def TLS_PQKEX_MAX_KEMS_def)
  have "read_kems G ks 0 n (kems_to_bytes G vs) = Inr (ks', [])"
    using read_kems_exact[OF assms(1), of 0 n ks "kems_to_bytes G vs" ks' "[]"] assms(2) vs by auto
  with arr vs assms show ?l
    by (simp add: tls_pqkex_from_bytes_def)
qed

lemma from_bytes_fst: "fst (tls_pqkex_from_bytes G ks cnt m d) \<in> {1, -1}"
  by (auto simp: tls_pqkex_from_bytes_def Let_def split: option.splits buf.splits if_splits sum.splits)

lemma offered_by_set [simp]: "offered_by ss k \<longleftrightarrow> k \<in> set ss"
  by (induction ss) auto

lemma select_loop_find [simp]: "select_loop cs ss = find (\<lambda>k. k \<in> set ss) cs"
  by (induction cs) auto

text \<open>
  A context that accepted the list \<open>ks\<close> of \<open>n\<close> identifiers, and the state of a server connection with
  such a context before the ClientHello.
\<close>

definition configured :: "'e gm_codec_scheme \<Rightarrow> tls_ctx \<Rightarrow> bool" where
  "configured G ctx \<longleftrightarrow>
     (\<exists>ctx0 ks n. n \<le> length ks \<and> tls_ctx_set_pqkex_kems G (Some ctx0) (Some ks) n = (1, Some ctx))"

definition server_start :: "'e gm_codec_scheme \<Rightarrow> tls_ctx \<Rightarrow> tls_connect" where
  "server_start G ctx = zero_connect\<lparr>conn_protocol := TLS_protocol_tlcp G, conn_ctx := Some ctx\<rparr>"

lemma server_start_fields [simp]:
  "conn_protocol (server_start G ctx) = TLS_protocol_tlcp G" "conn_ctx (server_start G ctx) = Some ctx"
  "\<not> pqkex_offered (server_start G ctx)" "\<not> pqkex_negotiated (server_start G ctx)"
  "pqkex_selected_kem (server_start G ctx) = 0"
  by (simp_all add: server_start_def zero_connect_def)

lemma configured_kems:
  assumes "configured G ctx"
  obtains "0 < pqkex_kems_cnt ctx" and "pqkex_kems_cnt ctx \<le> TLS_PQKEX_MAX_KEMS"
    and "take (pqkex_kems_cnt ctx) (pqkex_kems ctx) = replicate (pqkex_kems_cnt ctx) TLS_PQKEX_KEM_MLKEM768"
proof -
  from assms obtain ctx0 ks n where n: "n \<le> length ks" "0 < n" "n \<le> TLS_PQKEX_MAX_KEMS"
      "\<forall>k\<in>set (take n ks). k = TLS_PQKEX_KEM_MLKEM768"
      "ctx = ctx0\<lparr>pqkex_kems := take n ks @ drop n (pqkex_kems ctx0), pqkex_kems_cnt := n\<rparr>"
    by (auto simp: configured_def tls_ctx_set_pqkex_kems_def list_ex_iff split: option.splits if_splits)
  then have "take n ks = replicate n TLS_PQKEX_KEM_MLKEM768"
    by (intro replicate_eqI) auto
  with n that show thesis by simp
qed

text \<open>What one PQKEX extension does to a connection that has seen none.\<close>

definition negotiated_with :: "tls_connect \<Rightarrow> kem_id list \<Rightarrow> tls_connect" where
  "negotiated_with c vs = (let found = TLS_PQKEX_KEM_MLKEM768 \<in> set vs in
     c\<lparr>pqkex_selected_kem := if found then TLS_PQKEX_KEM_MLKEM768 else TLS_PQKEX_KEM_NONE,
       pqkex_offered := True, pqkex_negotiated := found\<rparr>)"

lemma find_replicate: "0 < n \<Longrightarrow>
    find (\<lambda>k. k \<in> set (replicate n a)) vs = (if a \<in> set vs then Some a else None)"
  by (induction vs) auto

lemma select_configured:
  assumes "configured G ctx" and "0 < length vs" and "length vs \<le> TLS_PQKEX_MAX_KEMS"
  shows "tls_pqkex_select_kem (Some (vs @ rest)) (length vs) (Some (pqkex_kems ctx)) (pqkex_kems_cnt ctx)
      (Some old) = (if TLS_PQKEX_KEM_MLKEM768 \<in> set vs then (1, Some TLS_PQKEX_KEM_MLKEM768)
                    else (0, Some TLS_PQKEX_KEM_NONE))"
  using assms(1)
proof (rule configured_kems)
  assume n: "0 < pqkex_kems_cnt ctx" "pqkex_kems_cnt ctx \<le> TLS_PQKEX_MAX_KEMS"
      "take (pqkex_kems_cnt ctx) (pqkex_kems ctx) = replicate (pqkex_kems_cnt ctx) TLS_PQKEX_KEM_MLKEM768"
  then show ?thesis
    using assms(2,3) find_replicate[OF n(1), of TLS_PQKEX_KEM_MLKEM768 vs]
    by (simp add: tls_pqkex_select_kem_def not_less)
qed

lemma process_exact:
  assumes "wire_law G" and "configured G ctx"
  shows "tlcp_process_client_pqkex G (Some (server_start G ctx)) (Buf d) = (1, Some c) \<longleftrightarrow>
    (\<exists>vs. d = kem_list_bytes G vs \<and> 0 < length vs \<and> length vs \<le> TLS_PQKEX_MAX_KEMS \<and>
          c = negotiated_with (server_start G ctx) vs)" (is "?l \<longleftrightarrow> ?r")
proof -
  note exact = from_bytes_exact[OF assms(1), of "replicate 8 0" TLS_PQKEX_MAX_KEMS 0 d]
  have m: "length (replicate 8 (0 :: kem_id)) = TLS_PQKEX_MAX_KEMS" "0 < TLS_PQKEX_MAX_KEMS"
    by (simp_all add: TLS_PQKEX_MAX_KEMS_def)
  show ?thesis
  proof
    assume l: ?l
    obtain r ks n where parse: "tls_pqkex_from_bytes G (Some (replicate 8 0)) (Some 0) TLS_PQKEX_MAX_KEMS (Buf d)
        = (r, ks, n)" by (metis prod_cases3)
    with l have "r = 1" by (auto simp: tlcp_process_client_pqkex_def split: if_splits)
    moreover from parse this obtain ks' n' where "ks = Some ks'" "n = Some n'"
      by (auto simp: tls_pqkex_from_bytes_def Let_def split: option.splits if_splits sum.splits)
    ultimately obtain vs where vs: "d = kem_list_bytes G vs" "length vs = n'" "0 < n'"
        "n' \<le> TLS_PQKEX_MAX_KEMS" "ks' = vs @ drop n' (replicate 8 0)"
      using exact[OF m order.refl, of ks' n'] parse by auto
    with l parse \<open>r = 1\<close> \<open>ks = Some ks'\<close> \<open>n = Some n'\<close> show ?r
      using select_configured[OF assms(2), of vs "drop n' (replicate 8 0)" 0]
      by (auto simp: tlcp_process_client_pqkex_def negotiated_with_def Let_def split: if_splits)
  next
    assume ?r
    then obtain vs where vs: "d = kem_list_bytes G vs" "0 < length vs" "length vs \<le> TLS_PQKEX_MAX_KEMS"
        "c = negotiated_with (server_start G ctx) vs" by blast
    then have "tls_pqkex_from_bytes G (Some (replicate 8 0)) (Some 0) TLS_PQKEX_MAX_KEMS (Buf d)
        = (1, Some (vs @ drop (length vs) (replicate 8 0)), Some (length vs))"
      using exact[OF m order.refl] by auto
    with vs show ?l
      using select_configured[OF assms(2), of vs "drop (length vs) (replicate 8 0)" 0]
      by (simp add: tlcp_process_client_pqkex_def negotiated_with_def Let_def)
  qed
qed

section \<open>A codec for the witnesses\<close>

definition toy_get16 :: "bytes \<Rightarrow> (kem_id \<times> bytes) option" where
  "toy_get16 b = (case b of h # l # rest \<Rightarrow> Some (word_cat h l, rest) | _ \<Rightarrow> None)"

definition toy_array :: "bytes \<Rightarrow> (bytes \<times> bytes) option" where
  "toy_array b = (case toy_get16 b of None \<Rightarrow> None
     | Some (n, rest) \<Rightarrow>
         if unat n \<le> length rest then Some (take (unat n) rest, drop (unat n) rest) else None)"

definition toy_put16 :: "kem_id \<Rightarrow> bytes" where
  "toy_put16 v = [ucast (drop_bit 8 v), ucast v]"

definition toy_codec :: gm_codec where
  "toy_codec = \<lparr>TLS_protocol_tlcp = 257, tls_uint16_to_bytes = toy_put16,
     tls_uint16_from_bytes = toy_get16, tls_uint16array_from_bytes = toy_array,
     tls_ext_to_bytes = \<lambda>t d. (1, toy_put16 (word_of_int t) @ toy_put16 (word_of_nat (length d)) @ d),
     tls_ext_from_bytes = \<lambda>b. (case toy_get16 b of None \<Rightarrow> None
        | Some (t, rest) \<Rightarrow> (case toy_array rest of None \<Rightarrow> None
            | Some (d, rest') \<Rightarrow> Some (uint t, d, rest')))\<rparr>"

lemma toy_codec_eval:
  "TLS_protocol_tlcp toy_codec = 257" "tls_uint16_to_bytes toy_codec = toy_put16"
  "tls_uint16_from_bytes toy_codec = toy_get16" "tls_uint16array_from_bytes toy_codec = toy_array"
  "tls_ext_to_bytes toy_codec =
     (\<lambda>t d. (1, toy_put16 (word_of_int t) @ toy_put16 (word_of_nat (length d)) @ d))"
  "tls_ext_from_bytes toy_codec = (\<lambda>b. (case toy_get16 b of None \<Rightarrow> None
     | Some (t, rest) \<Rightarrow> (case toy_array rest of None \<Rightarrow> None
         | Some (d, rest') \<Rightarrow> Some (uint t, d, rest'))))"
  by (simp_all add: toy_codec_def)

lemma toy_wire_law [simp]: "wire_law toy_codec"
  unfolding wire_law_def toy_codec_eval by (simp add: toy_put16_def toy_get16_def toy_array_def)

definition toy_tls_ctx :: tls_ctx where
  "toy_tls_ctx = \<lparr>ctx_protocol = 257, pqkex_kems = 1 # replicate 7 0, pqkex_kems_cnt = 1\<rparr>"

lemma toy_configured [simp]: "configured toy_codec toy_tls_ctx"
  unfolding configured_def
  by (intro exI[of _ "zero_ctx\<lparr>ctx_protocol := 257\<rparr>"] exI[of _ "[1]"] exI[of _ 1])
    (simp add: tls_ctx_set_pqkex_kems_def zero_ctx_def toy_codec_def toy_tls_ctx_def pqkex_constants)

section \<open>The server connection\<close>

lemma process_cases:
  obtains (accepted) c' where "tlcp_process_client_pqkex G (Some c) data = (1, Some c')"
      and "pqkex_offered c'" and "\<not> pqkex_offered c" and "conn_ctx c' = conn_ctx c"
      and "conn_protocol c' = conn_protocol c"
  | (refused) "tlcp_process_client_pqkex G (Some c) data = (-1, Some c)"
proof -
  obtain r ks n where parse: "tls_pqkex_from_bytes G (Some (replicate 8 0)) (Some 0) TLS_PQKEX_MAX_KEMS data
      = (r, ks, n)" by (metis prod_cases3)
  let ?select = "tls_pqkex_select_kem ks (the n) (Some (pqkex_kems (the (conn_ctx c))))
      (pqkex_kems_cnt (the (conn_ctx c))) (Some (pqkex_selected_kem c))"
  obtain ret sel where select: "?select = (ret, sel)" by fastforce
  then have "ret < 0 \<Longrightarrow> sel = Some (pqkex_selected_kem c)"
    by (auto simp: tls_pqkex_select_kem_def split: if_splits option.splits)
  note sel = this
  define guard where "guard \<longleftrightarrow>
    conn_ctx c = None \<or> conn_protocol c \<noteq> TLS_protocol_tlcp G \<or> pqkex_offered c \<or> r \<noteq> 1 \<or> ret < 0"
  have unchanged: "ret < 0 \<Longrightarrow> c\<lparr>pqkex_selected_kem := the sel\<rparr> = c"
    using sel by simp
  have run: "tlcp_process_client_pqkex G (Some c) data =
     (if guard then (-1, Some c)
      else (1, Some (c\<lparr>pqkex_selected_kem := the sel, pqkex_offered := True, pqkex_negotiated := (ret = 1)\<rparr>)))"
    using parse select unchanged
    by (auto simp: tlcp_process_client_pqkex_def guard_def Let_def)
  show thesis
  proof (cases guard)
    case True
    with run refused show thesis by simp
  next
    case False
    with run have r: "tlcp_process_client_pqkex G (Some c) data = (1, Some (c\<lparr>pqkex_selected_kem := the sel,
        pqkex_offered := True, pqkex_negotiated := (ret = 1)\<rparr>))" by simp
    from False have "\<not> pqkex_offered c" by (simp add: guard_def)
    with accepted[OF r] show thesis by simp
  qed
qed

lemma process_offered: "pqkex_offered c \<Longrightarrow> tlcp_process_client_pqkex G (Some c) data = (-1, Some c)"
  by (simp add: tlcp_process_client_pqkex_def)

text \<open>
  C33: The server negotiates exactly as specified: a PQKEX extension is accepted by a connection
  that has seen none if and only if it is the encoding of a list of one to eight identifiers, and
  then the connection records the offer and selects ML-KEM-768 when it is in the list, nothing
  otherwise; anything else leaves the connection as it was.
\<close>

theorem pqkex_negotiation_exact:
  assumes "wire_law G" and "configured G ctx"
  shows "case tlcp_process_client_pqkex G (Some (server_start G ctx)) (Buf d) of (ret, c) \<Rightarrow>
    (ret = 1 \<and> (\<exists>vs. d = kem_list_bytes G vs \<and> 0 < length vs \<and> length vs \<le> TLS_PQKEX_MAX_KEMS \<and>
                 c = Some (negotiated_with (server_start G ctx) vs))) \<or>
    (ret = -1 \<and> c = Some (server_start G ctx) \<and>
       \<not> (\<exists>vs. d = kem_list_bytes G vs \<and> 0 < length vs \<and> length vs \<le> TLS_PQKEX_MAX_KEMS))"
proof (cases rule: process_cases[of G "server_start G ctx" "Buf d"])
  case (accepted c')
  with process_exact[OF assms, of d c'] show ?thesis by auto
next
  case refused
  then have "\<not> (\<exists>vs. d = kem_list_bytes G vs \<and> 0 < length vs \<and> length vs \<le> TLS_PQKEX_MAX_KEMS)"
    using process_exact[OF assms, of d] by auto
  with refused show ?thesis by simp
qed

theorem pqkex_negotiation_exact_witness:
  "\<exists>vs. [0, 4, 0x99, 0x99, 0, 1] = kem_list_bytes toy_codec vs \<and>
     tlcp_process_client_pqkex toy_codec (Some (server_start toy_codec toy_tls_ctx)) (Buf [0, 4, 0x99, 0x99, 0, 1])
       = (1, Some (negotiated_with (server_start toy_codec toy_tls_ctx) vs))"
proof -
  have "[0, 4, 0x99, 0x99, 0, 1] = kem_list_bytes toy_codec [0x9999, 1]"
    by (simp add: kem_list_bytes_def toy_codec_eval toy_put16_def)
  then have "\<exists>vs. [0, 4, 0x99, 0x99, 0, 1] = kem_list_bytes toy_codec vs \<and> 0 < length vs \<and>
      length vs \<le> TLS_PQKEX_MAX_KEMS"
    by (intro exI[of _ "[0x9999, 1]"]) (simp add: TLS_PQKEX_MAX_KEMS_def)
  with pqkex_negotiation_exact[OF toy_wire_law toy_configured, of "[0, 4, 0x99, 0x99, 0, 1]"]
  show ?thesis by (force split: prod.splits)
qed

section \<open>Histories\<close>

text \<open>The connections a server may get to by processing any sequence of PQKEX extensions.\<close>

inductive pqkex_history :: "'e gm_codec_scheme \<Rightarrow> tls_connect \<Rightarrow> tls_connect \<Rightarrow> bool" for G where
  start: "pqkex_history G c c"
| received: "pqkex_history G c c' \<Longrightarrow> tlcp_process_client_pqkex G (Some c') data = (ret, Some c'') \<Longrightarrow>
    pqkex_history G c c''"

text \<open>
  C34: At most one extension counts: whatever a client sends, a connection is either untouched or in
  the state that one accepted extension left it in; from then on every further extension is refused
  without any change and answered with the illegal-parameter alert.
\<close>

theorem pqkex_at_most_once:
  assumes "pqkex_history G (server_start G ctx) c"
  shows "c = server_start G ctx \<or>
    (pqkex_offered c \<and> (\<exists>data. tlcp_process_client_pqkex G (Some (server_start G ctx)) data = (1, Some c)) \<and>
     (\<forall>data. tlcp_process_client_pqkex G (Some c) data = (-1, Some c) \<and>
             recv_pqkex G c data = Inl TLS_alert_illegal_parameter))"
  using assms
proof (induction "server_start G ctx" c rule: pqkex_history.induct)
  case start
  then show ?case by simp
next
  case (received c' data ret c'')
  show ?case
  proof (cases rule: process_cases[of G c' data])
    case (accepted d)
    with received have "c' = server_start G ctx" "c'' = d" by auto
    with accepted show ?thesis by (auto simp: process_offered recv_pqkex_def)
  next
    case refused
    with received show ?thesis by auto
  qed
qed

theorem pqkex_at_most_once_witness:
  "let c = negotiated_with (server_start toy_codec toy_tls_ctx) [1] in
     pqkex_offered c \<and> recv_pqkex toy_codec c (Buf [0, 2, 0, 1]) = Inl TLS_alert_illegal_parameter"
proof -
  let ?c = "negotiated_with (server_start toy_codec toy_tls_ctx) [1]"
  have "tlcp_process_client_pqkex toy_codec (Some (server_start toy_codec toy_tls_ctx))
      (Buf (kem_list_bytes toy_codec [1])) = (1, Some ?c)"
    using process_exact[OF toy_wire_law toy_configured] by (auto simp: TLS_PQKEX_MAX_KEMS_def)
  then have "pqkex_history toy_codec (server_start toy_codec toy_tls_ctx) ?c"
    by (rule pqkex_history.received[OF pqkex_history.start])
  from pqkex_at_most_once[OF this] show ?thesis
    by (auto simp: negotiated_with_def Let_def dest: arg_cong[where f = pqkex_offered])
qed

section \<open>The loop over the extensions\<close>

definition ext_bytes :: "'e gm_codec_scheme \<Rightarrow> int \<times> bytes \<Rightarrow> bytes" where
  "ext_bytes G x = tls_uint16_to_bytes G (word_of_int (fst x)) @
     tls_uint16_to_bytes G (word_of_nat (length (snd x))) @ snd x"

definition wf_ext :: "int \<times> bytes \<Rightarrow> bool" where
  "wf_ext x \<longleftrightarrow> 0 \<le> fst x \<and> fst x < 65536 \<and> length (snd x) < 65536"

text \<open>The loop on the decoded sequence.\<close>

fun scan_items :: "'e gm_codec_scheme \<Rightarrow> tls_connect \<Rightarrow> nat \<Rightarrow> (int \<times> bytes) list \<Rightarrow> (tls_connect \<times> nat) option" where
  "scan_items G c n [] = Some (c, n)"
| "scan_items G c n ((t, d) # xs) =
     (if t = TLS_extension_pqkex then
        if n \<noteq> 0 then None
        else (case tlcp_process_client_pqkex G (Some c) (Buf d) of
            (ret, c') \<Rightarrow> if ret \<noteq> 1 then None else scan_items G (the c') (n + 1) xs)
      else scan_items G c n xs)"

lemma ext_split:
  "wire_law G \<Longrightarrow> tls_ext_from_bytes G b = Some (t, d, rest) \<longleftrightarrow> wf_ext (t, d) \<and> b = ext_bytes G (t, d) @ rest"
  by (simp add: ext_exact wf_ext_def ext_bytes_def)

lemma ext_bytes_nonempty: "wire_law G \<Longrightarrow> ext_bytes G x \<noteq> []"
  by (simp add: ext_bytes_def uint16_bytes)

lemma scan_concat:
  assumes "wire_law G" and "list_all wf_ext xs"
  shows "scan_extensions G c n (concat (map (ext_bytes G) xs)) = Some (scan_items G c n xs)"
  using assms(2)
proof (induction xs arbitrary: c n)
  case Nil
  then show ?case by (simp add: scan_extensions.simps)
next
  case (Cons x xs)
  obtain t d where x: "x = (t, d)" by (cases x)
  define e where "e = concat (map (ext_bytes G) (x # xs))"
  from Cons.prems x assms(1) have "tls_ext_from_bytes G e = Some (t, d, concat (map (ext_bytes G) xs))"
    by (simp add: ext_split e_def)
  moreover have "length e \<noteq> 0"
    using ext_bytes_nonempty[OF assms(1)] by (simp add: e_def)
  moreover have "scan_extensions G c n (concat (map (ext_bytes G) xs)) = Some (scan_items G c n xs)" for c n
    using Cons by simp
  ultimately have "scan_extensions G c n e = Some (scan_items G c n (x # xs))"
    using x by (subst scan_extensions.simps) (auto split: prod.splits)
  then show ?case by (simp add: e_def)
qed

lemma scan_ends:
  assumes "wire_law G"
  shows "\<exists>r. scan_extensions G c n exts = Some r \<and>
    (r \<noteq> None \<longrightarrow> (\<exists>xs. list_all wf_ext xs \<and> exts = concat (map (ext_bytes G) xs)))"
proof (induction "length exts" arbitrary: c n exts rule: less_induct)
  case less
  show ?case
  proof (cases "exts = []")
    case True
    then show ?thesis by (auto simp: scan_extensions.simps intro: exI[of _ "[]"])
  next
    case nonempty: False
    show ?thesis
    proof (cases "tls_ext_from_bytes G exts")
      case None
      with nonempty show ?thesis by (subst scan_extensions.simps) simp
    next
      case (Some p)
      then obtain t d rest where p: "tls_ext_from_bytes G exts = Some (t, d, rest)" by (cases p) auto
      then have ext: "wf_ext (t, d)" "exts = ext_bytes G (t, d) @ rest" using ext_split[OF assms] by auto
      then have "length rest < length exts" using ext_bytes_nonempty[OF assms, of "(t, d)"] by simp
      note IH = less[OF this]
      have step: "\<exists>r. scan_extensions G c' n' rest = Some r \<and>
          (r \<noteq> None \<longrightarrow> (\<exists>xs. list_all wf_ext xs \<and> exts = concat (map (ext_bytes G) xs)))" for c' n'
      proof -
        from IH[of c' n'] obtain r where r: "scan_extensions G c' n' rest = Some r"
            "r \<noteq> None \<longrightarrow> (\<exists>xs. list_all wf_ext xs \<and> rest = concat (map (ext_bytes G) xs))" by blast
        moreover have "list_all wf_ext xs \<Longrightarrow> rest = concat (map (ext_bytes G) xs) \<Longrightarrow>
            \<exists>ys. list_all wf_ext ys \<and> exts = concat (map (ext_bytes G) ys)" for xs
          using ext by (intro exI[of _ "(t, d) # xs"]) simp
        ultimately show ?thesis by blast
      qed
      with nonempty p show ?thesis by (subst scan_extensions.simps) (auto split: prod.splits)
    qed
  qed
qed

lemma scan_items_seen:
  "0 < n \<Longrightarrow> scan_items G c n xs =
     (if list_all (\<lambda>x. fst x \<noteq> TLS_extension_pqkex) xs then Some (c, n) else None)"
  by (induction xs) auto

lemma scan_items_none:
  "list_all (\<lambda>x. fst x \<noteq> TLS_extension_pqkex) xs \<Longrightarrow> scan_items G c n xs = Some (c, n)"
  by (induction xs) auto

lemma scan_items_accepts:
  "scan_items G c 0 xs = Some (c', 1) \<longleftrightarrow>
     (\<exists>d. filter (\<lambda>x. fst x = TLS_extension_pqkex) xs = [(TLS_extension_pqkex, d)] \<and>
          tlcp_process_client_pqkex G (Some c) (Buf d) = (1, Some c'))"
proof (induction xs)
  case Nil
  then show ?case by simp
next
  case (Cons x xs)
  obtain t d where x: "x = (t, d)" by (cases x)
  show ?case
  proof (cases "t = TLS_extension_pqkex")
    case True
    have "list_all (\<lambda>x. fst x \<noteq> TLS_extension_pqkex) xs \<longleftrightarrow> filter (\<lambda>x. fst x = TLS_extension_pqkex) xs = []"
      by (auto simp: filter_empty_conv list_all_iff)
    with True x show ?thesis
      by (cases rule: process_cases[of G c "Buf d"]) (auto simp: scan_items_seen split: if_splits)
  next
    case False
    with x Cons show ?thesis by simp
  qed
qed

text \<open>
  C38: The capture server's loop over the extensions always ends, and its verdict is exact: it
  accepts a ClientHello if and only if its extensions are a sequence of well-formed extensions of
  which exactly one is PQKEX, and that one encodes one to eight identifiers with ML-KEM-768 among
  them.
\<close>

theorem capture_scan_exact:
  assumes "wire_law G" and "configured G ctx"
  shows "\<exists>scanned. scan_extensions G (server_start G ctx) 0 exts = Some scanned \<and>
    (pqkex_selected scanned \<longleftrightarrow>
       (\<exists>xs vs. list_all wf_ext xs \<and> exts = concat (map (ext_bytes G) xs) \<and>
          filter (\<lambda>x. fst x = TLS_extension_pqkex) xs = [(TLS_extension_pqkex, kem_list_bytes G vs)] \<and>
          length vs \<le> TLS_PQKEX_MAX_KEMS \<and> TLS_PQKEX_KEM_MLKEM768 \<in> set vs))"
proof -
  from scan_ends[OF assms(1)] obtain scanned where scan:
      "scan_extensions G (server_start G ctx) 0 exts = Some scanned"
      "scanned \<noteq> None \<longrightarrow> (\<exists>xs. list_all wf_ext xs \<and> exts = concat (map (ext_bytes G) xs))" by blast
  have selected: "pqkex_selected (scan_items G (server_start G ctx) 0 xs) \<longleftrightarrow>
      (\<exists>vs. filter (\<lambda>x. fst x = TLS_extension_pqkex) xs = [(TLS_extension_pqkex, kem_list_bytes G vs)] \<and>
          length vs \<le> TLS_PQKEX_MAX_KEMS \<and> TLS_PQKEX_KEM_MLKEM768 \<in> set vs)" for xs
  proof -
    have "pqkex_selected (scan_items G (server_start G ctx) 0 xs) \<longleftrightarrow>
        (\<exists>c. scan_items G (server_start G ctx) 0 xs = Some (c, 1) \<and> pqkex_selected (Some (c, 1)))"
      by (auto simp: pqkex_selected_def split: option.splits)
    also have "\<dots> \<longleftrightarrow> (\<exists>vs. filter (\<lambda>x. fst x = TLS_extension_pqkex) xs = [(TLS_extension_pqkex, kem_list_bytes G vs)] \<and>
          0 < length vs \<and> length vs \<le> TLS_PQKEX_MAX_KEMS \<and>
          pqkex_selected (Some (negotiated_with (server_start G ctx) vs, 1)))"
      unfolding scan_items_accepts process_exact[OF assms] by blast
    also have "\<dots> \<longleftrightarrow> (\<exists>vs. filter (\<lambda>x. fst x = TLS_extension_pqkex) xs = [(TLS_extension_pqkex, kem_list_bytes G vs)] \<and>
          length vs \<le> TLS_PQKEX_MAX_KEMS \<and> TLS_PQKEX_KEM_MLKEM768 \<in> set vs)"
      by (auto simp: pqkex_selected_def negotiated_with_def Let_def pqkex_constants)
    finally show ?thesis .
  qed
  have "pqkex_selected scanned \<longleftrightarrow> (\<exists>xs. list_all wf_ext xs \<and> exts = concat (map (ext_bytes G) xs) \<and>
      pqkex_selected (scan_items G (server_start G ctx) 0 xs))"
  proof
    assume sel: "pqkex_selected scanned"
    then have "scanned \<noteq> None" by (cases scanned) (auto simp: pqkex_selected_def)
    with scan obtain xs where "list_all wf_ext xs" "exts = concat (map (ext_bytes G) xs)" by blast
    with scan(1) sel scan_concat[OF assms(1) this(1)] show "\<exists>xs. list_all wf_ext xs \<and>
        exts = concat (map (ext_bytes G) xs) \<and> pqkex_selected (scan_items G (server_start G ctx) 0 xs)"
      by auto
  next
    assume "\<exists>xs. list_all wf_ext xs \<and> exts = concat (map (ext_bytes G) xs) \<and>
        pqkex_selected (scan_items G (server_start G ctx) 0 xs)"
    with scan(1) scan_concat[OF assms(1)] show "pqkex_selected scanned" by auto
  qed
  with scan(1) selected show ?thesis by blast
qed

theorem capture_scan_exact_witness:
  "\<exists>scanned. scan_extensions toy_codec (server_start toy_codec toy_tls_ctx) 0 [0xff, 2, 0, 4, 0, 2, 0, 1]
     = Some scanned \<and> pqkex_selected scanned"
proof -
  have "[0xff, 2, 0, 4, 0, 2, 0, 1] = concat (map (ext_bytes toy_codec)
      [(TLS_extension_pqkex, kem_list_bytes toy_codec [TLS_PQKEX_KEM_MLKEM768])])"
    by (simp add: ext_bytes_def kem_list_bytes_def toy_codec_eval toy_put16_def pqkex_constants)
  moreover have "wf_ext (TLS_extension_pqkex, kem_list_bytes toy_codec [TLS_PQKEX_KEM_MLKEM768])"
    by (simp add: wf_ext_def kem_list_bytes_def toy_codec_eval toy_put16_def pqkex_constants)
  ultimately have "\<exists>xs vs. list_all wf_ext xs \<and> [0xff, 2, 0, 4, 0, 2, 0, 1] = concat (map (ext_bytes toy_codec) xs) \<and>
      filter (\<lambda>x. fst x = TLS_extension_pqkex) xs = [(TLS_extension_pqkex, kem_list_bytes toy_codec vs)] \<and>
      length vs \<le> TLS_PQKEX_MAX_KEMS \<and> TLS_PQKEX_KEM_MLKEM768 \<in> set vs"
    by (intro exI[of _ "[(TLS_extension_pqkex, kem_list_bytes toy_codec [TLS_PQKEX_KEM_MLKEM768])]"]
        exI[of _ "[TLS_PQKEX_KEM_MLKEM768]"]) (simp add: TLS_PQKEX_MAX_KEMS_def)
  with capture_scan_exact[OF toy_wire_law toy_configured, of "[0xff, 2, 0, 4, 0, 2, 0, 1]"]
  show ?thesis by blast
qed

text \<open>
  Client and server agree: a client whose context is configured always sends the extension, and
  a configured server that reads the extensions the client wrote selects ML-KEM-768.
\<close>

theorem pqkex_client_server_agree:
  assumes "wire_law G" and "configured G cctx" and "configured G sctx"
  shows "\<exists>exts cc' c. client_hello_pqkex G cc cctx [] = Some (exts, cc') \<and> pqkex_offered cc' \<and>
    scan_extensions G (server_start G sctx) 0 exts = Some (Some (c, 1)) \<and> pqkex_selected (Some (c, 1))"
  using assms(2)
proof (rule configured_kems)
  let ?n = "pqkex_kems_cnt cctx"
  let ?vs = "replicate ?n TLS_PQKEX_KEM_MLKEM768"
  assume n: "0 < ?n" "?n \<le> TLS_PQKEX_MAX_KEMS" "take ?n (pqkex_kems cctx) = ?vs"
  let ?x = "(TLS_extension_pqkex, kem_list_bytes G ?vs)"
  have len: "length (kem_list_bytes G ?vs) < 65536"
    using n(2) assms(1) by (simp add: kem_list_bytes_def TLS_PQKEX_MAX_KEMS_def)
  have "tls_ext_to_bytes G TLS_extension_pqkex (kem_list_bytes G ?vs) = (1, ext_bytes G ?x)"
    using ext_write[OF assms(1) _ _ len] by (simp add: ext_bytes_def TLS_extension_pqkex_def)
  then have hello: "client_hello_pqkex G cc cctx [] = Some (ext_bytes G ?x, cc\<lparr>pqkex_offered := True\<rparr>)"
    using n by (simp add: client_hello_pqkex_def tls_pqkex_ext_to_bytes_def kem_list_bytes_def mult.commute)
  have wf: "list_all wf_ext [?x]" using len by (simp add: wf_ext_def TLS_extension_pqkex_def)
  have "tlcp_process_client_pqkex G (Some (server_start G sctx)) (Buf (kem_list_bytes G ?vs))
      = (1, Some (negotiated_with (server_start G sctx) ?vs))"
    using process_exact[OF assms(1,3)] n by auto
  then have "scan_items G (server_start G sctx) 0 [?x] = Some (negotiated_with (server_start G sctx) ?vs, 1)"
    by simp
  with scan_concat[OF assms(1) wf, of "server_start G sctx" 0]
  have "scan_extensions G (server_start G sctx) 0 (ext_bytes G ?x)
      = Some (Some (negotiated_with (server_start G sctx) ?vs, 1))" by simp
  moreover have "pqkex_selected (Some (negotiated_with (server_start G sctx) ?vs, 1))"
    using n(1) by (simp add: pqkex_selected_def negotiated_with_def Let_def)
  ultimately show ?thesis using hello by fastforce
qed

theorem pqkex_client_server_agree_witness:
  "\<exists>exts cc' c. client_hello_pqkex toy_codec zero_connect toy_tls_ctx [] = Some (exts, cc') \<and> pqkex_offered cc' \<and>
    scan_extensions toy_codec (server_start toy_codec toy_tls_ctx) 0 exts = Some (Some (c, 1)) \<and>
    pqkex_selected (Some (c, 1))"
  by (rule pqkex_client_server_agree[OF toy_wire_law toy_configured toy_configured])

end
