(* ===== verification/C_Streams.thy ===== *)
theory C_Streams
  imports Posix_FS
begin

text \<open>
  Streams opened for writing, on the file system of \<open>Posix_FS\<close>: stdio may write any part of what was
  put on a stream at once and the rest when it is closed; every step may fail.
\<close>

section \<open>Streams opened for writing\<close>

text \<open>Where a path leads, the last component possibly missing.\<close>

fun resolve :: "nat \<Rightarrow> filesystem \<Rightarrow> string \<Rightarrow> errno + string" where
  "resolve n fs path =
     (case fs path of
        Some (Symlink target) \<Rightarrow> (case n of 0 \<Rightarrow> Inl ELOOP | Suc m \<Rightarrow> resolve m fs target)
      | _ \<Rightarrow> Inr path)"

declare resolve.simps [simp del]

text \<open>\<open>fopen(path, "wb")\<close>: it follows links, creates the file or truncates it.\<close>

definition fopen_write :: "('w, 'e) os_lib_scheme \<Rightarrow> string \<Rightarrow> ('w, errno + string) io" where
  "fopen_write OS path = syscall OS Fopen path (do {
     fs \<leftarrow> get_files;
     case resolve 40 fs path of
       Inl e \<Rightarrow> give (Inl e)
     | Inr p \<Rightarrow>
         (case fs p of
            None \<Rightarrow> do { put_node p (Some (Reg (438 AND NOT (os_umask OS)) [])); give (Inr p) }
          | Some (Reg mode old) \<Rightarrow> do { put_node p (Some (Reg mode [])); give (Inr p) }
          | Some (Dir mode) \<Rightarrow> give (Inl EISDIR)
          | Some _ \<Rightarrow> give (Inr p)) })"

text \<open>Writing bytes at an offset of a regular file, over what is there.\<close>

definition overlay :: "string \<Rightarrow> nat \<Rightarrow> bytes \<Rightarrow> ('w, unit) io" where
  "overlay path offset data = do {
     fs \<leftarrow> get_files;
     case fs path of
       Some (Reg mode old) \<Rightarrow>
         put_node path (Some (Reg mode (take offset old @ data @ drop (offset + length data) old)))
     | _ \<Rightarrow> give () }"

text \<open>
  Putting all of a stream's data: stdio may write any prefix of it at once, and may fail. The result
  is success and how much was written; closing writes the rest or fails.
\<close>

definition stream_put :: "('w, 'e) os_lib_scheme \<Rightarrow> string \<Rightarrow> bytes \<Rightarrow> ('w, bool \<times> nat) io" where
  "stream_put OS path data = do {
     n \<leftarrow> lift (os_transfer OS Fflush (length data));
     overlay path 0 (take n data);
     ok \<leftarrow> plain_call OS Write path;
     give (ok, n) }"

definition stream_close :: "('w, 'e) os_lib_scheme \<Rightarrow> string \<Rightarrow> nat \<Rightarrow> bytes \<Rightarrow> ('w, bool) io" where
  "stream_close OS path n data = do {
     r \<leftarrow> syscall OS Fclose path (do { overlay path n (drop n data); give (Inr ()) });
     give (case r of Inl e \<Rightarrow> False | Inr u \<Rightarrow> True) }"

text \<open>
  \<open>fprintf\<close> on a stream of which \<open>n\<close> bytes of \<open>data\<close> are written: success, and the same of the
  stream afterwards.
\<close>

definition stream_printf ::
  "('w, 'e) os_lib_scheme \<Rightarrow> string \<Rightarrow> nat \<times> bytes \<Rightarrow> string \<Rightarrow> ('w, bool \<times> nat \<times> bytes) io" where
  "stream_printf OS path stream text = (case stream of (n, old) \<Rightarrow> do {
     let data = old @ ascii text;
     k \<leftarrow> lift (os_transfer OS Fflush (length data));
     let m = max n (min k (length data));
     overlay path n (drop n (take m data));
     ok \<leftarrow> plain_call OS Write path;
     give (ok, m, data) })"

section \<open>What the stream operations do to the files\<close>

definition plain_place :: "filesystem \<Rightarrow> string \<Rightarrow> bool" where
  "plain_place fs p \<longleftrightarrow> (\<forall>n. fs p = Some n \<longrightarrow> S_ISREG n)"

lemma resolve_plain: "plain_place fs p \<Longrightarrow> resolve n fs p = Inr p"
  by (cases "fs p"; cases "the (fs p)") (simp_all add: plain_place_def resolve.simps)

lemma ends_fopen_write:
  assumes "ends (fopen_write OS p) s r s'" and "plain_place (files s) p"
  shows "case r of Inr q \<Rightarrow> q = p \<and> (\<exists>m. files s' = (files s)(p \<mapsto> Reg m []))
             | Inl e \<Rightarrow> files s' = files s \<and> faulted OS Fopen p"
  using assms(1) unfolding fopen_write_def
proof (cases rule: ends_syscall)
  case (1 e)
  then show ?thesis by simp
next
  case (2 t)
  with resolve_plain[OF assms(2)] assms(2) show ?thesis
    by (auto simp: ends_bind plain_place_def split: option.splits node.splits)
qed

lemma ends_overlay:
  "files s p = Some (Reg m old) \<Longrightarrow> ends (overlay p n data) s u s' \<Longrightarrow>
   files s' = (files s)(p \<mapsto> Reg m (take n old @ data @ drop (n + length data) old))"
  by (auto simp: overlay_def ends_bind)

lemma ends_stream_put:
  assumes "ends (stream_put OS p data) s (ok, n) s'" and "files s p = Some (Reg m [])"
  shows "files s' = (files s)(p \<mapsto> Reg m (take n data))"
    and "ok \<or> faulted OS Write p" and "outcome (os_transfer OS Fflush (length data)) n"
proof -
  from assms(1) obtain t u v where lift: "ends (lift (os_transfer OS Fflush (length data))) s n t"
      and over: "ends (overlay p 0 (take n data)) t u v"
      and call: "ends (plain_call OS Write p) v ok s'"
    unfolding stream_put_def by (auto simp: ends_bind)
  from lift assms(2) have t: "files t = files s" "files t p = Some (Reg m [])"
    by (auto dest: lift_files)
  from ends_overlay[OF t(2) over] ends_plain_call[OF call] t(1)
  show "files s' = (files s)(p \<mapsto> Reg m (take n data))" "ok \<or> faulted OS Write p" by auto
  from lift show "outcome (os_transfer OS Fflush (length data)) n" by (rule lift_outcome)
qed

lemma ends_syscall_None:
  "ends (syscall OS c p body) s (Inr x) s' \<Longrightarrow> outcome (os_fault OS c p) None"
  unfolding syscall_def by (auto simp: ends_bind dest!: lift_outcome split: option.splits)

lemma ends_stream_close:
  assumes "ends (stream_close OS p n data) s r s'" and "files s p = Some (Reg m (take n data))"
  shows "files s' = (if r then (files s)(p \<mapsto> Reg m data) else files s)" and "r \<or> faulted OS Fclose p"
    and "r \<longrightarrow> outcome (os_fault OS Fclose p) None"
proof -
  from assms(1) obtain a where call: "ends (syscall OS Fclose p (do { overlay p n (drop n data); give (Inr ()) })) s a s'"
      and r: "r = (case a of Inl e \<Rightarrow> False | Inr u \<Rightarrow> True)"
    unfolding stream_close_def by (auto simp: ends_bind)
  have "take n (take n data) @ drop n data @ drop (n + length (drop n data)) (take n data) = data" by simp
  with call r assms(2) have "files s' = (if r then (files s)(p \<mapsto> Reg m data) else files s) \<and> (r \<or> faulted OS Fclose p)"
    by (cases rule: ends_syscall) (auto simp: ends_bind dest!: ends_overlay[rotated])
  then show "files s' = (if r then (files s)(p \<mapsto> Reg m data) else files s)" "r \<or> faulted OS Fclose p"
    by auto
  from call r show "r \<longrightarrow> outcome (os_fault OS Fclose p) None"
    by (auto dest: ends_syscall_None split: sum.splits)
qed

end
