(* ===== verification/Cert_Files.thy ===== *)
theory Cert_Files
  imports Hybrid_X509 C_Streams
begin

text \<open>
  The end of \<open>src/hybrid_x509.c\<close>: writing a certificate to a PEM and a DER file and reading one back,
  on the file system of \<open>Posix_FS\<close> and the streams of \<open>C_Streams\<close>.
\<close>

record ('w, 'k, 'x, 'n, 'o, 'p) cert_lib = "('w, 'k, 'x, 'n, 'o, 'p) x509_lib" +
  PEM_write_X509 :: "'x \<Rightarrow> ('w, bool \<times> bytes) prog" \<comment> \<open>success and what was put on the stream\<close>
  i2d_X509_fp :: "'x \<Rightarrow> ('w, bool \<times> bytes) prog"
  PEM_read_X509 :: "bytes \<Rightarrow> ('w, 'x option) prog" \<comment> \<open>of what the stream delivers\<close>
  X509_NAME_oneline :: "'n option \<Rightarrow> ('w, string option) prog"

section \<open>The functions\<close>

text \<open>The two writes, with what each put on its stream and how much of it is written.\<close>

definition write_both ::
  "('w, 'k, 'x, 'n, 'o, 'p, 'e) cert_lib_scheme \<Rightarrow> ('w, 's) os_lib_scheme \<Rightarrow> 'x \<Rightarrow> string \<Rightarrow> string \<Rightarrow>
   ('w, bool \<times> (nat \<times> bytes) \<times> (nat \<times> bytes)) io" where
  "write_both L OS c pem_file der_file = do {
     (written, text) \<leftarrow> lift (PEM_write_X509 L c);
     (put, n) \<leftarrow> stream_put OS pem_file text;
     if \<not> (written \<and> put) then give (False, (n, text), (0, []))
     else do {
       (written, der) \<leftarrow> lift (i2d_X509_fp L c);
       (put, m) \<leftarrow> stream_put OS der_file der;
       give (written \<and> put, (n, text), (m, der)) } }"

definition hybrid_x509_write_files ::
  "('w, 'k, 'x, 'n, 'o, 'p, 'e) cert_lib_scheme \<Rightarrow> ('w, 's) os_lib_scheme \<Rightarrow> 'x option \<Rightarrow>
   string option \<Rightarrow> string option \<Rightarrow> ('w, bool) io" where
  "hybrid_x509_write_files L OS certificate pem_path der_path =
     (case (certificate, pem_path, der_path) of
        (Some c, Some pp, Some dp) \<Rightarrow> do {
          pem_file \<leftarrow> fopen_write OS pp;
          der_file \<leftarrow> fopen_write OS dp;
          (ok, text, der) \<leftarrow>
            (case (pem_file, der_file) of
               (Inr p, Inr d) \<Rightarrow> write_both L OS c p d
             | _ \<Rightarrow> give (False, (0, []), (0, [])));
          _ \<leftarrow> (case pem_file of Inr p \<Rightarrow> stream_close OS p (fst text) (snd text) | Inl e \<Rightarrow> give False);
          _ \<leftarrow> (case der_file of Inr d \<Rightarrow> stream_close OS d (fst der) (snd der) | Inl e \<Rightarrow> give False);
          give ok }
      | _ \<Rightarrow> give False)"

definition hybrid_x509_read_pem ::
  "('w, 'k, 'x, 'n, 'o, 'p, 'e) cert_lib_scheme \<Rightarrow> ('w, 's) os_lib_scheme \<Rightarrow> string option \<Rightarrow>
   ('w, 'x option) io" where
  "hybrid_x509_read_pem L OS path =
     (case path of
        None \<Rightarrow> fail
      | Some p \<Rightarrow> do {
          input \<leftarrow> fopen_read OS p;
          case input of
            Inl e \<Rightarrow> fail
          | Inr file \<Rightarrow> do {
              fs \<leftarrow> get_files;
              let contents = (case fs file of None \<Rightarrow> [] | Some node \<Rightarrow> node_data node);
              delivered \<leftarrow> lift (os_transfer OS Fopen (length contents));
              certificate \<leftarrow> lift (PEM_read_X509 L (take delivered contents));
              _ \<leftarrow> plain_call OS Fclose file;
              give certificate } })"

end
