(* ===== verification/Demo_Tools.thy ===== *)
theory Demo_Tools
  imports Cert_Files Key_Store Hybrid_Chain Mlkem C_Stdlib
begin

text \<open>
  The tools that use the library as a whole: \<open>tools/generate_demo_chain.c\<close>,
  \<open>tools/verify_chain.c\<close>, \<open>tools/inspect_hybrid_cert.c\<close> and \<open>tools/mlkem_demo.c\<close>. A \<open>main\<close> returns its
  exit code and what it printed, line by line, the error line included. \<open>L\<close> and \<open>K\<close> are the same
  OpenSSL, as seen by the certificate code and by the key store.
\<close>

definition EXIT_SUCCESS :: int where "EXIT_SUCCESS = 0"
definition EXIT_FAILURE :: int where "EXIT_FAILURE = 1"

definition HYBRID_DEFAULT_SERVER_NAME :: string where "HYBRID_DEFAULT_SERVER_NAME = ''server.local''"

definition pass_fail :: "bool \<Rightarrow> string" where
  "pass_fail value = (if value then ''PASS'' else ''FAIL'')"

section \<open>\<open>verify_chain.c\<close>\<close>

definition verify_chain_lines ::
  "string option \<Rightarrow> string option \<Rightarrow> hybrid_chain_verify_result \<Rightarrow> string list" where
  "verify_chain_lines root_subject server_subject result =
     [''=== Hybrid Certificate Chain Verification ==='', '''',
      ''Trust Anchor:'',
      ''  Subject: '' @ (case root_subject of Some s \<Rightarrow> s | None \<Rightarrow> ''<invalid>''),
      ''  Composite Algorithm: '' @ COMPOSITE_SM2_DILITHIUM_EXPERIMENTAL_OID,
      ''  Dilithium component: '' @ dilithium_algorithm_name @ '' ('' @ decimal DILITHIUM_PUBLIC_KEY_BYTES @
        ''-byte public key)'',
      ''  SM2 component: sm2p256v1 uncompressed point'',
      ''  [INFO] Root is configured as trust anchor'', '''',
      ''Root self-signature:'',
      ''  Dilithium: '' @ pass_fail (dilithium_valid (chain_root result)),
      ''  SM2:       '' @ pass_fail (sm2_valid (chain_root result)),
      ''  Composite: '' @ pass_fail (composite_valid (chain_root result)),
      ''  ['' @ (if composite_valid (chain_root result) then ''PASS'' else ''FAIL'') @
        ''] Root composite self-signature cryptographically '' @
        (if composite_valid (chain_root result) then ''valid'' else ''invalid''), '''',
      ''Server Certificate:'',
      ''  Subject:             '' @ (case server_subject of Some s \<Rightarrow> s | None \<Rightarrow> ''<invalid>''),
      ''  Issuer/Subject link: '' @ pass_fail (issuer_subject_link_valid (chain_server result)),
      ''  Validity:            '' @ pass_fail (validity_valid (chain_server result)),
      ''  BasicConstraints:    '' @ pass_fail (subject_constraints_valid (chain_server result)),
      ''  Issuer CA/KeyUsage:  '' @ pass_fail (issuer_ca_constraints_valid (chain_server result)),
      ''  ExtendedKeyUsage:    '' @ pass_fail (eku_valid (chain_server result)),
      ''  SubjectAltName:      '' @ pass_fail (san_valid (chain_server result)),
      ''  SKI/AKI link:        '' @ pass_fail (key_identifiers_valid (chain_server result)),
      ''  Course Dilithium/PQC extension: '' @ pass_fail (pqc_extension_present (chain_server result)),
      ''  Composite OID:       '' @ pass_fail (composite_oids_valid (chain_server result)), '''',
      ''Certificate signature:'',
      ''  Format:     '' @ pass_fail (signature_format_valid (chain_server result)),
      ''  Dilithium:  '' @ pass_fail (dilithium_valid (chain_server result)),
      ''  SM2:        '' @ pass_fail (sm2_valid (chain_server result)),
      ''  Composite:  '' @ pass_fail (composite_valid (chain_server result)), '''',
      ''Chain result:'',
      ''  '' @ (if chain_valid result then ''VALID'' else ''INVALID'')]"

definition verify_chain_main ::
  "('w, 'k, 'x, 'n, 'o, 'p, 'e) cert_lib_scheme \<Rightarrow> ('w, 's) os_lib_scheme \<Rightarrow> string list \<Rightarrow>
   ('w, int \<times> string list) io" where
  "verify_chain_main L OS argv =
     (if length argv \<noteq> 3 then give (EXIT_FAILURE, [''Usage: '' @ hd argv @ '' ROOT.crt SERVER.crt''])
      else do {
        root \<leftarrow> hybrid_x509_read_pem L OS (Some (argv ! 1));
        server \<leftarrow> hybrid_x509_read_pem L OS (Some (argv ! 2));
        case (root, server) of
          (Some r, Some s) \<Rightarrow> do {
            root_subject \<leftarrow> lift (X509_NAME_oneline L (X509_get_subject_name L r));
            server_subject \<leftarrow> lift (X509_NAME_oneline L (X509_get_subject_name L s));
            (_, result) \<leftarrow> lift (hybrid_verify_chain L root server);
            give (if chain_valid result then EXIT_SUCCESS else EXIT_FAILURE,
                  verify_chain_lines root_subject server_subject result) }
        | _ \<Rightarrow> give (EXIT_FAILURE, [''Unable to read certificate chain'']) })"

section \<open>\<open>inspect_hybrid_cert.c\<close>\<close>

definition inspect_main ::
  "('w, 'k, 'x, 'n, 'o, 'p, 'e) cert_lib_scheme \<Rightarrow> ('w, 's) os_lib_scheme \<Rightarrow> string list \<Rightarrow>
   ('w, int \<times> string list) io" where
  "inspect_main L OS argv =
     (if length argv \<noteq> 2 then give (EXIT_FAILURE, [''Usage: '' @ hd argv @ '' CERTIFICATE.crt''])
      else do {
        certificate \<leftarrow> hybrid_x509_read_pem L OS (Some (argv ! 1));
        parsed \<leftarrow> (case certificate of
           None \<Rightarrow> fail
         | Some c \<Rightarrow> do {
             (ok, _) \<leftarrow> lift (hybrid_x509_get_composite_public_key L certificate (Some blank_public_key));
             if \<not> ok then fail
             else (case hybrid_x509_get_signature L certificate True of
                 None \<Rightarrow> fail
               | Some octets \<Rightarrow>
                   attempt (lift (composite_parse_signature L (Buf octets) True)) (\<lambda>(dil, sm2).
                     done_with (c, octets, dil, sm2))) });
        case parsed of
          None \<Rightarrow> give (EXIT_FAILURE, [''Invalid hybrid certificate: '' @ argv ! 1])
        | Some (c, octets, dilithium_signature, sm2_signature) \<Rightarrow> do {
            subject_text \<leftarrow> lift (X509_NAME_oneline L (X509_get_subject_name L c));
            issuer_text \<leftarrow> lift (X509_NAME_oneline L (X509_get_issuer_name L c));
            marker \<leftarrow> lift (hybrid_x509_has_pqc_extension L certificate);
            give (EXIT_SUCCESS,
              [''Subject: '' @ (case subject_text of Some s \<Rightarrow> s | None \<Rightarrow> ''<invalid>''),
               ''Issuer: '' @ (case issuer_text of Some s \<Rightarrow> s | None \<Rightarrow> ''<invalid>''),
               ''Composite Algorithm OID: '' @ COMPOSITE_SM2_DILITHIUM_EXPERIMENTAL_OID @ '' (EXPERIMENTAL)'',
               ''AlgorithmIdentifiers/SPKI: '' @
                 (if hybrid_x509_composite_algorithms_valid L certificate then ''VALID'' else ''INVALID''),
               ''Course Dilithium/PQC X.509v3 identifier '' @ HYBRID_PQC_EXTENSION_OID @ '': '' @
                 (if marker then ''PRESENT'' else ''MISSING''),
               ''Composite public key: '' @ decimal DILITHIUM_PUBLIC_KEY_BYTES @ '' + '' @
                 decimal SM2_UNCOMPRESSED_PUBLIC_KEY_BYTES @ '' = '' @
                 decimal COMPOSITE_PUBLIC_KEY_BYTES @ '' bytes'',
               ''Composite signature: '' @ decimal (length dilithium_signature) @ '' + '' @
                 decimal (length sm2_signature) @ '' = '' @ decimal (length octets) @ '' bytes'',
               ''Dilithium parameter set: '' @ dilithium_algorithm_name,
               ''SM2 public key: 0x04 || X(32) || Y(32)'']) } })"

section \<open>\<open>mlkem_demo.c\<close>\<close>

text \<open>The exit code; the arrays start as zeros where the code initialises them.\<close>

definition mlkem_demo_steps ::
  "'w oqs_lib \<Rightarrow> bytes \<Rightarrow> ('w, bool \<times> bool \<times> bool \<times> bool) prog" where
  "mlkem_demo_steps Q ciphertext = do {
     provider \<leftarrow> mlkem768_provider_check Q;
     (keygen_ok, client) \<leftarrow>
       (let empty = \<lparr>encapsulation_key = Null 0, decapsulation_key = Null 0\<rparr>
        in if provider then mlkem768_keygen Q (Some empty) else give (False, Some empty));
     (encaps_ok, ciphertext, ciphertext_len, server_secret) \<leftarrow>
       (if keygen_ok
        then mlkem768_encaps Q (encapsulation_key (the client)) (Buf ciphertext) (Some 0)
               (Some (replicate MLKEM768_SHARED_SECRET_BYTES 0))
        else give (False, Buf ciphertext, Some 0, Some (replicate MLKEM768_SHARED_SECRET_BYTES 0)));
     (decaps_ok, client_secret) \<leftarrow>
       (if encaps_ok
        then mlkem768_decaps Q (decapsulation_key (the client))
               (Buf (take (the ciphertext_len) (buf_bytes ciphertext)))
               (Some (replicate MLKEM768_SHARED_SECRET_BYTES 0))
        else give (False, Some (replicate MLKEM768_SHARED_SECRET_BYTES 0)));
     let match_ok = (decaps_ok \<and>
       take MLKEM768_SHARED_SECRET_BYTES (the server_secret) =
       take MLKEM768_SHARED_SECRET_BYTES (the client_secret));
     give (keygen_ok, encaps_ok, decaps_ok, match_ok) }"

definition mlkem_demo_main :: "'w oqs_lib \<Rightarrow> bytes \<Rightarrow> ('w, int \<times> string list) prog" where
  "mlkem_demo_main Q ciphertext = do {
     (keygen_ok, encaps_ok, decaps_ok, match_ok) \<leftarrow> mlkem_demo_steps Q ciphertext;
     let passed = (keygen_ok \<and> encaps_ok \<and> decaps_ok \<and> match_ok);
     give (if passed then EXIT_SUCCESS else EXIT_FAILURE,
       [''=== FIPS 203 ML-KEM Demo ==='', '''',
        ''Algorithm:'', ''  '' @ mlkem768_algorithm_name,
        ''Provider:'', ''  '' @ mlkem_provider_name @ '' '' @ mlkem_provider_version Q, '''',
        ''Parameters:'',
        ''  Encapsulation key: '' @ decimal MLKEM768_ENCAPSULATION_KEY_BYTES @ '' bytes'',
        ''  Decapsulation key: '' @ decimal MLKEM768_DECAPSULATION_KEY_BYTES @ '' bytes'',
        ''  Ciphertext:        '' @ decimal MLKEM768_CIPHERTEXT_BYTES @ '' bytes'',
        ''  Shared secret:       '' @ decimal MLKEM768_SHARED_SECRET_BYTES @ '' bytes'', '''',
        ''KeyGen:'', ''  '' @ pass_fail keygen_ok, '''',
        ''Encapsulation:'', ''  '' @ pass_fail encaps_ok, '''',
        ''Decapsulation:'', ''  '' @ pass_fail decaps_ok, '''',
        ''Shared secret:'', ''  '' @ (if match_ok then ''MATCH'' else ''MISMATCH''), '''',
        ''Result:'', ''  ML-KEM-768 '' @ pass_fail passed]) }"

end
