(* ===== verification/Demo_Chain.thy ===== *)
theory Demo_Chain
  imports Demo_Tools
begin

text \<open>
  \<open>tools/generate_demo_chain.c\<close>: it generates or reloads the keys of a root, a server and an
  optional encryption certificate, issues the certificates, verifies what it issued and writes the
  files. A step that prints an error and jumps to \<open>done\<close> returns \<open>Inl\<close> of the line.
\<close>

section \<open>Paths\<close>

definition key_subdirectory ::
  "('w, 'k, 'e) crypto_lib_scheme \<Rightarrow> string option \<Rightarrow> string option \<Rightarrow> ('w, string option) prog" where
  "key_subdirectory L root name =
     (case (root, name) of
        (Some r, Some n) \<Rightarrow>
          if length r = 0 \<or> length n = 0 \<or> length r > SIZE_MAX - length n - 2 then fail
          else ensure (OPENSSL_malloc L (length r + length n + 2)) (done_with (r @ ''/'' @ n))
      | _ \<Rightarrow> fail)"

definition ensure_key_root :: "('w, 's) os_lib_scheme \<Rightarrow> string option \<Rightarrow> ('w, bool) io" where
  "ensure_key_root OS path =
     (case path of
        None \<Rightarrow> give False
      | Some p \<Rightarrow>
          if p = [] then give False
          else do {
            found \<leftarrow> lstat OS p;
            status \<leftarrow>
              (case found of
                 Inr node \<Rightarrow> done_with node
               | Inl e \<Rightarrow>
                   if e \<noteq> ENOENT then fail
                   else do {
                     made \<leftarrow> mkdir OS p 448;
                     case made of
                       Inl e \<Rightarrow> fail
                     | Inr _ \<Rightarrow> do {
                         found \<leftarrow> lstat OS p;
                         give (case found of Inl e \<Rightarrow> None | Inr node \<Rightarrow> Some node) } });
            give (case status of
                    None \<Rightarrow> False
                  | Some node \<Rightarrow> S_ISDIR node \<and> \<not> S_ISLNK node \<and> st_mode node AND 63 = 0) })"

section \<open>The steps of \<open>main\<close>\<close>

definition blank_private_key :: "'k hybrid_private_key" where
  "blank_private_key = \<lparr>sm2_private_key = None, dilithium_secret_key = replicate DILITHIUM_SECRET_KEY_BYTES 0\<rparr>"

record 'k demo_keys =
  ca_private :: "'k hybrid_private_key option"
  ca_public :: "'k hybrid_public_key option"
  server_private :: "'k hybrid_private_key option"
  server_public :: "'k hybrid_public_key option"

text \<open>The directories of the CA, the server and, when wanted, the encryption key.\<close>

definition demo_directories ::
  "('w, 'k, 'e) crypto_lib_scheme \<Rightarrow> ('w, 's) os_lib_scheme \<Rightarrow> string \<Rightarrow> bool \<Rightarrow>
   ('w, (string \<times> string \<times> string option) option) io" where
  "demo_directories L OS key_root generate_encryption =
     ensure (ensure_key_root OS (Some key_root))
       (attempt (lift (key_subdirectory L (Some key_root) (Some ''ca''))) (\<lambda>ca.
        attempt (lift (key_subdirectory L (Some key_root) (Some ''server''))) (\<lambda>server.
          if generate_encryption
          then attempt (lift (key_subdirectory L (Some key_root) (Some ''server-encryption'')))
                 (\<lambda>enc. done_with (ca, server, Some enc))
          else done_with (ca, server, None))))"

text \<open>Both stores are empty: two fresh pairs are generated and saved.\<close>

definition demo_generate_keys ::
  "('w, 'k, 'e) crypto_lib_scheme \<Rightarrow> ('w, 'k, 'f) store_lib_scheme \<Rightarrow> ('w, 's) os_lib_scheme \<Rightarrow>
   string \<Rightarrow> string \<Rightarrow> string option \<Rightarrow> ('w, 'k demo_keys option) io" where
  "demo_generate_keys L K OS ca_directory server_directory passphrase = do {
     (ok, ca_priv, ca_pub) \<leftarrow>
       lift (composite_key_generate L (Some blank_private_key) (Some blank_public_key));
     if \<not> ok then fail
     else do {
       (ok, srv_priv, srv_pub) \<leftarrow>
         lift (composite_key_generate L (Some blank_private_key) (Some blank_public_key));
       if \<not> ok then fail
       else ensure (hybrid_key_store_save K OS (Some ca_directory) ca_priv ca_pub passphrase)
         (ensure (hybrid_key_store_save K OS (Some server_directory) srv_priv srv_pub passphrase)
           (done_with \<lparr>ca_private = ca_priv, ca_public = ca_pub, server_private = srv_priv,
                       server_public = srv_pub\<rparr>)) } }"

text \<open>Both stores are complete: the pairs are loaded.\<close>

definition demo_load_keys ::
  "('w, 'k, 'f) store_lib_scheme \<Rightarrow> ('w, 's) os_lib_scheme \<Rightarrow> string \<Rightarrow> string \<Rightarrow> string option \<Rightarrow>
   ('w, 'k demo_keys option) io" where
  "demo_load_keys K OS ca_directory server_directory passphrase = do {
     (ok, ca_priv, ca_pub) \<leftarrow>
       hybrid_key_store_load K OS (Some ca_directory) passphrase
         (Some blank_private_key) (Some blank_public_key);
     if \<not> ok then fail
     else do {
       (ok, srv_priv, srv_pub) \<leftarrow>
         hybrid_key_store_load K OS (Some server_directory) passphrase
           (Some blank_private_key) (Some blank_public_key);
       if \<not> ok then fail
       else done_with \<lparr>ca_private = ca_priv, ca_public = ca_pub, server_private = srv_priv,
                       server_public = srv_pub\<rparr> } }"

text \<open>The existing root, when both certificates match the loaded keys and form a valid chain.\<close>

definition demo_existing_chain ::
  "('w, 'k, 'x, 'n, 'o, 'p, 'e) cert_lib_scheme \<Rightarrow> ('w, 's) os_lib_scheme \<Rightarrow> 'k demo_keys \<Rightarrow>
   string \<Rightarrow> string \<Rightarrow> ('w, 'x option) io" where
  "demo_existing_chain L OS keys root_path server_path = do {
     existing_root \<leftarrow> hybrid_x509_read_pem L OS (Some root_path);
     existing_server \<leftarrow> hybrid_x509_read_pem L OS (Some server_path);
     if existing_root = None \<or> existing_server = None then fail
     else
       ensure (lift (hybrid_x509_public_key_matches L existing_root (ca_public keys)))
       (ensure (lift (hybrid_x509_public_key_matches L existing_server (server_public keys)))
       (ensure (lift (do { (ok, _) \<leftarrow> hybrid_verify_chain L existing_root existing_server; give ok }))
         (give existing_root))) }"

text \<open>The keys, and the existing root when they were loaded.\<close>

definition demo_hybrid_keys ::
  "('w, 'k, 'x, 'n, 'o, 'p, 'e) cert_lib_scheme \<Rightarrow> ('w, 'k, 'f) store_lib_scheme \<Rightarrow>
   ('w, 's) os_lib_scheme \<Rightarrow> string \<Rightarrow> string \<Rightarrow> string option \<Rightarrow> string list \<Rightarrow>
   ('w, string + 'k demo_keys \<times> 'x option \<times> string list) io" where
  "demo_hybrid_keys L K OS ca_directory server_directory passphrase argv = do {
     ca_status \<leftarrow> hybrid_key_store_status K OS (Some ca_directory);
     server_status \<leftarrow> hybrid_key_store_status K OS (Some server_directory);
     if ca_status = HYBRID_KEY_STORE_MISSING \<and> server_status = HYBRID_KEY_STORE_MISSING then do {
       keys \<leftarrow> demo_generate_keys L K OS ca_directory server_directory passphrase;
       give (case keys of
               None \<Rightarrow> Inl ''Unable to generate and persist Hybrid private keys''
             | Some ks \<Rightarrow> Inr (ks, None,
                 [''Generated and persisted fresh, non-reused CA and Server Hybrid keypairs''])) }
     else if ca_status = HYBRID_KEY_STORE_COMPLETE \<and> server_status = HYBRID_KEY_STORE_COMPLETE then do {
       keys \<leftarrow> demo_load_keys K OS ca_directory server_directory passphrase;
       case keys of
         None \<Rightarrow> give (Inl ''Unable to load persisted Hybrid private keys'')
       | Some ks \<Rightarrow> do {
           existing_root \<leftarrow> demo_existing_chain L OS ks (argv ! 1) (argv ! 3);
           give (case existing_root of
                   None \<Rightarrow> Inl ''Loaded Hybrid private key does not match the existing certificate chain''
                 | Some r \<Rightarrow> Inr (ks, Some r,
                     [''Loaded CA Hybrid private key matches '' @ argv ! 1 @ '' Composite SPKI exactly'',
                      ''Loaded Server Hybrid private key matches '' @ argv ! 3 @ '' Composite SPKI exactly''])) } }
     else give (Inl ''Incomplete CA/Server Hybrid key store; refusing partial fallback'') }"

text \<open>The encryption key; \<open>existing_root\<close> tells whether the keys were loaded.\<close>

definition demo_encryption_key ::
  "('w, 'k, 'x, 'n, 'o, 'p, 'e) cert_lib_scheme \<Rightarrow> ('w, 'k, 'f) store_lib_scheme \<Rightarrow>
   ('w, 's) os_lib_scheme \<Rightarrow> string option \<Rightarrow> string option \<Rightarrow> string \<Rightarrow> 'x option \<Rightarrow>
   ('w, string + 'k \<times> string list) io" where
  "demo_encryption_key L K OS encryption_directory passphrase encryption_pem existing_root = do {
     encryption_status \<leftarrow> hybrid_sm2_key_store_status K OS encryption_directory;
     if encryption_status = HYBRID_KEY_STORE_MISSING then do {
       key \<leftarrow> lift (hybrid_sm2_generate_keypair L);
       saved \<leftarrow> both (give (key \<noteq> None))
                  (hybrid_sm2_key_store_save K OS encryption_directory key passphrase);
       give (if \<not> saved then Inl ''Unable to generate and persist TLCP encryption key''
             else Inr (the key, [''Generated and persisted a distinct TLCP SM2 encryption keypair''])) }
     else if encryption_status = HYBRID_KEY_STORE_COMPLETE \<and> existing_root \<noteq> None then do {
       key \<leftarrow> hybrid_sm2_key_store_load K OS encryption_directory passphrase;
       existing_encryption \<leftarrow> hybrid_x509_read_pem L OS (Some encryption_pem);
       matches \<leftarrow> both (give (key \<noteq> None \<and> existing_encryption \<noteq> None))
         (both (lift (hybrid_x509_sm2_public_key_matches L existing_encryption key))
           (lift (do { (ok, _) \<leftarrow> hybrid_verify_encryption_certificate L existing_encryption existing_root;
                       give ok })));
       give (if \<not> matches
             then Inl ''Loaded TLCP encryption key does not match the existing Hybrid-signed encryption certificate''
             else Inr (the key, [''Loaded TLCP encryption private key matches '' @ encryption_pem @
                                 '' SM2 SPKI exactly''])) }
     else give (Inl ''Incomplete or inconsistent TLCP encryption key store'') }"

text \<open>
  Issuing and verifying. The encryption key is None when no encryption certificate is wanted; so
  is the encryption certificate of the result.
\<close>

definition demo_issue ::
  "('w, 'k, 'x, 'n, 'o, 'p, 'e) cert_lib_scheme \<Rightarrow> 'k demo_keys \<Rightarrow> 'k option \<Rightarrow>
   ('w, ('x \<times> 'x \<times> 'x option) option) prog" where
  "demo_issue L keys encryption_key =
     attempt (hybrid_x509_create_root L (ca_private keys) (ca_public keys) (Some ''Root Hybrid CA'')) (\<lambda>root.
     attempt (hybrid_x509_create_server L (ca_private keys) (ca_public keys) (server_public keys) (Some root)
                (Some HYBRID_DEFAULT_SERVER_NAME) (Some HYBRID_DEFAULT_SERVER_NAME)) (\<lambda>server.
     ensure (hybrid_x509_public_key_matches L (Some server) (server_public keys))
     (ensure (do { (ok, _) \<leftarrow> hybrid_verify_chain L (Some root) (Some server); give ok })
       (case encryption_key of
          None \<Rightarrow> done_with (root, server, None)
        | Some key \<Rightarrow>
            attempt (hybrid_x509_create_sm2_encryption L (ca_private keys) (ca_public keys) encryption_key
                       (Some root) (Some HYBRID_DEFAULT_SERVER_NAME)) (\<lambda>encryption.
            ensure (hybrid_x509_sm2_public_key_matches L (Some encryption) encryption_key)
            (ensure (do { (ok, _) \<leftarrow> hybrid_verify_encryption_certificate L (Some encryption) (Some root);
                          give ok })
              (done_with (root, server, Some encryption))))))))"

text \<open>Writing the two or three pairs of files.\<close>

definition demo_write ::
  "('w, 'k, 'x, 'n, 'o, 'p, 'e) cert_lib_scheme \<Rightarrow> ('w, 's) os_lib_scheme \<Rightarrow> string list \<Rightarrow>
   'x \<Rightarrow> 'x \<Rightarrow> 'x option \<Rightarrow> ('w, bool) io" where
  "demo_write L OS argv root server encryption =
     both (hybrid_x509_write_files L OS (Some root) (Some (argv ! 1)) (Some (argv ! 2)))
     (both (hybrid_x509_write_files L OS (Some server) (Some (argv ! 3)) (Some (argv ! 4)))
       (case encryption of
          None \<Rightarrow> give True
        | Some e \<Rightarrow> hybrid_x509_write_files L OS (Some e) (Some (argv ! 5)) (Some (argv ! 6))))"

text \<open>From issuing to the last line; \<open>lines\<close> are those printed before.\<close>

definition demo_finish ::
  "('w, 'k, 'x, 'n, 'o, 'p, 'e) cert_lib_scheme \<Rightarrow> ('w, 's) os_lib_scheme \<Rightarrow> string list \<Rightarrow>
   'k demo_keys \<Rightarrow> 'k option \<Rightarrow> bool \<Rightarrow> string list \<Rightarrow> ('w, int \<times> string list) io" where
  "demo_finish L OS argv keys encryption_key loaded lines = do {
     issued \<leftarrow> lift (demo_issue L keys encryption_key);
     written \<leftarrow> (case issued of
         None \<Rightarrow> give False
       | Some (root, server, encryption) \<Rightarrow> demo_write L OS argv root server encryption);
     give (if \<not> written
       then (EXIT_FAILURE, lines @ [''Failed to generate and verify demo chain''])
       else (EXIT_SUCCESS, lines @
         [(if loaded then ''Reused validated'' else ''Used new'') @ '' persisted key material'',
          ''Wrote Root certificate: '' @ argv ! 1 @ '', '' @ argv ! 2,
          ''Wrote Server certificate: '' @ argv ! 3 @ '', '' @ argv ! 4] @
         (if encryption_key \<noteq> None
          then [''Wrote TLCP encryption certificate: '' @ argv ! 5 @ '', '' @ argv ! 6]
          else []))) }"

text \<open>From the key stores on.\<close>

definition demo_run ::
  "('w, 'k, 'x, 'n, 'o, 'p, 'e) cert_lib_scheme \<Rightarrow> ('w, 'k, 'f) store_lib_scheme \<Rightarrow>
   ('w, 's) os_lib_scheme \<Rightarrow> string list \<Rightarrow> string option \<Rightarrow> string \<Rightarrow> string \<Rightarrow> string option \<Rightarrow>
   ('w, int \<times> string list) io" where
  "demo_run L K OS argv passphrase ca_directory server_directory encryption_directory = do {
     found \<leftarrow> demo_hybrid_keys L K OS ca_directory server_directory passphrase argv;
     case found of
       Inl line \<Rightarrow> give (EXIT_FAILURE, [line])
     | Inr (keys, existing_root, lines) \<Rightarrow>
         (case encryption_directory of
            None \<Rightarrow> demo_finish L OS argv keys None (existing_root \<noteq> None) lines
          | Some _ \<Rightarrow> do {
              encryption_found \<leftarrow>
                demo_encryption_key L K OS encryption_directory passphrase (argv ! 5) existing_root;
              case encryption_found of
                Inl line \<Rightarrow> give (EXIT_FAILURE, lines @ [line])
              | Inr (key, added) \<Rightarrow>
                  demo_finish L OS argv keys (Some key) (existing_root \<noteq> None) (lines @ added) }) }"

definition demo_chain_main ::
  "('w, 'k, 'x, 'n, 'o, 'p, 'e) cert_lib_scheme \<Rightarrow> ('w, 'k, 'f) store_lib_scheme \<Rightarrow>
   ('w, 's) os_lib_scheme \<Rightarrow> string list \<Rightarrow> string option \<Rightarrow> ('w, int \<times> string list) io" where
  "demo_chain_main L K OS argv passphrase =
     (if length argv \<notin> {5, 6, 7, 8}
      then give (EXIT_FAILURE, [''Usage: '' @ hd argv @
             '' ROOT.crt ROOT.der SIGN.crt SIGN.der [ENC.crt ENC.der] [KEY_ROOT]''])
      else
        let generate_encryption = (length argv = 7 \<or> length argv = 8);
            key_root = (if length argv = 6 then argv ! 5 else if length argv = 8 then argv ! 7 else ''keys'')
        in case passphrase of
          None \<Rightarrow> give (EXIT_FAILURE, [''HYBRID_KEY_PASSPHRASE must contain at least 12 bytes''])
        | Some pass \<Rightarrow>
            if length pass < 12
            then give (EXIT_FAILURE, [''HYBRID_KEY_PASSPHRASE must contain at least 12 bytes''])
            else do {
              directories \<leftarrow> demo_directories L OS key_root generate_encryption;
              case directories of
                None \<Rightarrow> give (EXIT_FAILURE, [''Unable to create secure key directory hierarchy''])
              | Some (ca_directory, server_directory, encryption_directory) \<Rightarrow>
                  demo_run L K OS argv passphrase ca_directory server_directory encryption_directory })"

end
