(* ===== verification/Demo_Keys.thy ===== *)
theory Demo_Keys
  imports Demo_Chain Key_Store_Theorems
begin

text \<open>
  The keys of the chain generator: what it means that a key store holds a pair, and that the pairs
  \<open>demo_hybrid_keys\<close> and the key \<open>demo_encryption_key\<close> return are held by their stores.
\<close>

section \<open>What a store holds\<close>

text \<open>
  A key file holds a key when it is private and its contents were written for that key under the
  passphrase, or read back as that key with it.
\<close>

definition sm2_file_holds ::
  "('w, 'k, 'e) store_lib_scheme \<Rightarrow> filesystem \<Rightarrow> string \<Rightarrow> string option \<Rightarrow> 'k \<Rightarrow> bool" where
  "sm2_file_holds K fs d pass k \<longleftrightarrow>
     (\<exists>pem. private_file fs (key_path d HYBRID_SM2_PRIVATE_KEY_FILE) pem \<and>
        ((\<exists>pw. pass = Some pw \<and> outcome (PEM_write_PKCS8PrivateKey K k ''AES-256-CBC'' pw) (True, pem)) \<or>
         (\<exists>n. outcome (PEM_read_PrivateKey K (take n pem) (password_callback pass False)) (Some k))))"

definition dilithium_file_holds ::
  "('w, 'k, 'e) store_lib_scheme \<Rightarrow> filesystem \<Rightarrow> string \<Rightarrow> string option \<Rightarrow>
   'k hybrid_private_key \<Rightarrow> 'k hybrid_public_key \<Rightarrow> bool" where
  "dilithium_file_holds K fs d pass pr pu \<longleftrightarrow>
     (\<exists>data. private_file fs (key_path d HYBRID_DILITHIUM_PRIVATE_KEY_FILE) data \<and>
        (outcome (encrypt_dilithium_payload K pr pu pass) (Some data) \<or>
         authentic_container K data pass (dilithium_public_key pu) (dilithium_secret_key pr)))"

definition sm2_store_holds ::
  "('w, 'k, 'e) store_lib_scheme \<Rightarrow> filesystem \<Rightarrow> string \<Rightarrow> string option \<Rightarrow> 'k \<Rightarrow> bool" where
  "sm2_store_holds K fs d pass k \<longleftrightarrow> private_directory fs d \<and> sm2_file_holds K fs d pass k"

definition store_holds ::
  "('w, 'k, 'e) store_lib_scheme \<Rightarrow> filesystem \<Rightarrow> string \<Rightarrow> string option \<Rightarrow>
   'k hybrid_private_key \<Rightarrow> 'k hybrid_public_key \<Rightarrow> bool" where
  "store_holds K fs d pass pr pu \<longleftrightarrow> private_directory fs d \<and>
     (\<exists>k. sm2_private_key pr = Some k \<and> sm2_file_holds K fs d pass k) \<and>
     dilithium_file_holds K fs d pass pr pu \<and> outcome (keypair_self_test K pr pu) True"

lemma store_holds_frame:
  assumes "store_holds K fs d pass pr pu" and "\<And>p. p \<in> store_paths d \<Longrightarrow> fs' p = fs p"
  shows "store_holds K fs' d pass pr pu"
  using assms
  by (simp add: store_holds_def sm2_file_holds_def dilithium_file_holds_def private_directory_def private_file_def)

lemma sm2_store_holds_frame:
  assumes "sm2_store_holds K fs d pass k" and "\<And>p. p \<in> store_paths d \<Longrightarrow> fs' p = fs p"
  shows "sm2_store_holds K fs' d pass k"
  using assms by (simp add: sm2_store_holds_def sm2_file_holds_def private_directory_def private_file_def)

lemma untouched:
  assumes "touches_only P s s'" and "p \<in> Q" and "P \<inter> Q = {}"
  shows "files s' p = files s p"
  using assms by (auto simp: touches_only_def)

section \<open>The operations of the store\<close>

lemma ends_save_holds:
  assumes "ends (hybrid_key_store_save K OS (Some d) pr pu pass) s True s'"
  shows "\<exists>a b. pr = Some a \<and> pu = Some b \<and> store_holds K (files s') d pass a b"
proof -
  from ends_store_save[OF assms] obtain a b fs where ab: "pr = Some a" "pu = Some b"
      and test: "outcome (keypair_self_test K a b) True" and dir: "private_directory fs d"
      and files: "saved_files K d a b pass (384 AND NOT (os_umask OS)) fs (files s')" by auto
  then show ?thesis
    by (auto simp: store_holds_def sm2_file_holds_def dilithium_file_holds_def saved_files_def
        private_file_def private_node_def private_directory_def)
qed

lemma ends_load_holds:
  assumes "ends (hybrid_key_store_load K OS (Some d) pass (Some pr0) (Some pu0)) s (True, pr, pu) s'"
  shows "\<exists>a b. pr = Some a \<and> pu = Some b \<and> store_holds K (files s') d pass a b"
proof -
  from assms have "passphrase_valid pass"
    by (cases "passphrase_valid pass") (simp_all add: hybrid_key_store_load_def)
  from ends_load_sound[OF assms this] obtain a b where "pr = Some a" "pu = Some b" "loaded_from K (files s') d pass a b"
    by blast
  then show ?thesis
    by (auto simp: store_holds_def sm2_file_holds_def dilithium_file_holds_def loaded_from_def)
qed

lemma ends_sm2_status_complete:
  assumes "ends (hybrid_sm2_key_store_status K OS (Some d)) s HYBRID_KEY_STORE_COMPLETE s'"
  shows "private_directory (files s') d"
proof -
  from assms obtain p t where p: "ends (join_path K (Some d) HYBRID_SM2_PRIVATE_KEY_FILE) s p t"
      and rest: "ends (case p of
       None \<Rightarrow> give HYBRID_KEY_STORE_INCOMPLETE
     | Some sm2 \<Rightarrow> do {
         accessed \<leftarrow> access OS sm2;
         case accessed of
           Inl e \<Rightarrow> give (if e = ENOENT then HYBRID_KEY_STORE_MISSING else HYBRID_KEY_STORE_INCOMPLETE)
         | Inr _ \<Rightarrow> do {
             secure \<leftarrow> both (ensure_private_directory OS (Some d)) (secure_regular_file OS sm2 (-1));
             give (if secure then HYBRID_KEY_STORE_COMPLETE else HYBRID_KEY_STORE_INCOMPLETE) } }) t
       HYBRID_KEY_STORE_COMPLETE s'"
    unfolding hybrid_sm2_key_store_status_def by (auto simp: ends_bind)
  from rest obtain sm2 a u where "ends (case a of
           Inl e \<Rightarrow> give (if e = ENOENT then HYBRID_KEY_STORE_MISSING else HYBRID_KEY_STORE_INCOMPLETE)
         | Inr (_ :: unit) \<Rightarrow> do {
             secure \<leftarrow> both (ensure_private_directory OS (Some d)) (secure_regular_file OS sm2 (-1));
             give (if secure then HYBRID_KEY_STORE_COMPLETE else HYBRID_KEY_STORE_INCOMPLETE) }) u
       HYBRID_KEY_STORE_COMPLETE s'"
    by (cases p) (auto simp: ends_bind)
  then have "ends (both (ensure_private_directory OS (Some d)) (secure_regular_file OS sm2 (-1))) u True s'"
    by (cases a) (auto simp: ends_bind split: if_splits)
  then obtain v where dir: "ends (ensure_private_directory OS (Some d)) u True v"
      and sec: "ends (secure_regular_file OS sm2 (-1)) v True s'" by (auto elim!: ends_bothE)
  from ends_ensure_private_directory[OF dir] have "private_directory (files v) d" by simp
  moreover have "touches_only {} v s'" by (rule keepsD[OF frame.keeps_secure_regular_file sec])
  ultimately show ?thesis by (simp add: touches_only_def private_directory_def)
qed

lemma ends_sm2_save_holds:
  assumes "ends (hybrid_sm2_key_store_save K OS (Some d) key pass) s True s'"
  shows "\<exists>k. key = Some k \<and> sm2_store_holds K (files s') d pass k"
proof -
  from assms obtain st t u where dir: "ends (ensure_private_directory OS (Some d)) t True u"
      and rest: "ends (do {
              path \<leftarrow> join_path K (Some d) HYBRID_SM2_PRIVATE_KEY_FILE;
              case path of
                None \<Rightarrow> give False
              | Some p \<Rightarrow> save_sm2_private_key K OS p key pass }) u True s'"
    unfolding hybrid_sm2_key_store_save_def
    by (auto simp: ends_bind elim!: ends_bothE split: option.splits if_splits)
  from rest obtain p v where p: "ends (join_path K (Some d) HYBRID_SM2_PRIVATE_KEY_FILE) u (Some p) v"
      and save: "ends (save_sm2_private_key K OS p key pass) v True s'"
    by (auto simp: ends_bind split: option.splits)
  from ends_join_path[OF p] have v: "files v = files u" "p = key_path d HYBRID_SM2_PRIVATE_KEY_FILE" by auto
  from ends_ensure_private_directory[OF dir] v have "private_directory (files v) d" by simp
  with ends_save_sm2_private_key[OF save] v(2) show ?thesis
    by (auto simp: sm2_store_holds_def sm2_file_holds_def private_file_def private_node_def private_directory_def)
qed

lemma ends_sm2_load_holds:
  assumes "ends (hybrid_sm2_key_store_load K OS (Some d) pass) s (Some k) s'"
  shows "sm2_store_holds K (files s') d pass k"
proof -
  from assms obtain t where st: "ends (hybrid_sm2_key_store_status K OS (Some d)) s HYBRID_KEY_STORE_COMPLETE t"
      and rest: "ends (attempt (join_path K (Some d) HYBRID_SM2_PRIVATE_KEY_FILE)
            (\<lambda>path. load_sm2_private_key K OS path pass)) t (Some k) s'"
    unfolding hybrid_sm2_key_store_load_def by (auto simp: ends_bind split: if_splits)
  from rest obtain p u where p: "ends (join_path K (Some d) HYBRID_SM2_PRIVATE_KEY_FILE) t (Some p) u"
      and load: "ends (load_sm2_private_key K OS p pass) u (Some k) s'" by (auto elim!: ends_attemptE)
  from ends_join_path[OF p] have u: "files u = files t" "p = key_path d HYBRID_SM2_PRIVATE_KEY_FILE" by auto
  from ends_sm2_status_complete[OF st] u ends_load_sm2_private_key[OF load] show ?thesis
    by (auto simp: sm2_store_holds_def sm2_file_holds_def private_directory_def)
qed

section \<open>The steps of the generator\<close>

lemma touches_read_pem: "keeps (touches_only P) (hybrid_x509_read_pem L OS p)"
  unfolding hybrid_x509_read_pem_def Let_def by (intro keeps_intros)

lemma touches_existing_chain: "keeps (touches_only P) (demo_existing_chain L OS keys rp sp)"
  unfolding demo_existing_chain_def by (intro keeps_intros touches_read_pem)

text \<open>The stores below one root are different.\<close>

lemmas store_path_simps = store_paths_def key_path_def HYBRID_SM2_PRIVATE_KEY_FILE_def
  HYBRID_DILITHIUM_PRIVATE_KEY_FILE_def

lemma stores_disjoint:
  "store_paths (r @ ''/server'') \<inter> store_paths (r @ ''/ca'') = {}"
  "store_paths (r @ ''/server-encryption'') \<inter> store_paths (r @ ''/ca'') = {}"
  "store_paths (r @ ''/server-encryption'') \<inter> store_paths (r @ ''/server'') = {}"
  by (auto simp: store_path_simps)

text \<open>The pairs of the CA and of the server are the ones their stores hold.\<close>

definition stores_hold_keys ::
  "('w, 'k, 'e) store_lib_scheme \<Rightarrow> filesystem \<Rightarrow> string \<Rightarrow> string option \<Rightarrow> 'k demo_keys \<Rightarrow> bool" where
  "stores_hold_keys K fs r pass keys \<longleftrightarrow>
     (\<exists>ca_priv ca_pub srv_priv srv_pub.
        keys = \<lparr>ca_private = Some ca_priv, ca_public = Some ca_pub,
                server_private = Some srv_priv, server_public = Some srv_pub\<rparr> \<and>
        store_holds K fs (r @ ''/ca'') pass ca_priv ca_pub \<and>
        store_holds K fs (r @ ''/server'') pass srv_priv srv_pub)"

lemma stores_hold_keys_frame:
  assumes "stores_hold_keys K fs r pass keys"
    and "\<And>p. p \<in> store_paths (r @ ''/ca'') \<union> store_paths (r @ ''/server'') \<Longrightarrow> fs' p = fs p"
  shows "stores_hold_keys K fs' r pass keys"
  using assms unfolding stores_hold_keys_def by (auto elim!: store_holds_frame)

lemma ends_demo_generate_keys:
  assumes "ends (demo_generate_keys L K OS (r @ ''/ca'') (r @ ''/server'') pass) s (Some keys) s'"
  shows "stores_hold_keys K (files s') r pass keys"
proof -
  from assms obtain cpr cpu spr spu t u where
      ca: "ends (hybrid_key_store_save K OS (Some (r @ ''/ca'')) cpr cpu pass) t True u"
      and server: "ends (hybrid_key_store_save K OS (Some (r @ ''/server'')) spr spu pass) u True s'"
      and keys: "keys = \<lparr>ca_private = cpr, ca_public = cpu, server_private = spr, server_public = spu\<rparr>"
    unfolding demo_generate_keys_def
    by (auto simp: ends_bind elim!: ends_ensureE split: if_splits prod.splits)
  have frame: "touches_only (store_paths (r @ ''/server'')) u s'"
    by (rule keepsD[OF frame.keeps_save server]) simp
  from ends_save_holds[OF ca] ends_save_holds[OF server] keys show ?thesis
    unfolding stores_hold_keys_def
    by (auto elim!: store_holds_frame intro!: untouched[OF frame _ stores_disjoint(1)])
qed

lemma ends_demo_load_keys:
  assumes "ends (demo_load_keys K OS (r @ ''/ca'') (r @ ''/server'') pass) s (Some keys) s'"
  shows "stores_hold_keys K (files s') r pass keys"
proof -
  from assms obtain cpr cpu spr spu u where
      ca: "ends (hybrid_key_store_load K OS (Some (r @ ''/ca'')) pass (Some blank_private_key)
             (Some blank_public_key)) s (True, cpr, cpu) u"
      and server: "ends (hybrid_key_store_load K OS (Some (r @ ''/server'')) pass (Some blank_private_key)
             (Some blank_public_key)) u (True, spr, spu) s'"
      and keys: "keys = \<lparr>ca_private = cpr, ca_public = cpu, server_private = spr, server_public = spu\<rparr>"
    unfolding demo_load_keys_def
    by (auto simp: ends_bind split: if_splits prod.splits)
  have frame: "touches_only (store_paths (r @ ''/server'')) u s'"
    by (rule keepsD[OF frame.keeps_load server]) simp
  from ends_load_holds[OF ca] ends_load_holds[OF server] keys show ?thesis
    unfolding stores_hold_keys_def
    by (auto elim!: store_holds_frame intro!: untouched[OF frame _ stores_disjoint(1)])
qed

lemma ends_demo_hybrid_keys:
  assumes "ends (demo_hybrid_keys L K OS (r @ ''/ca'') (r @ ''/server'') pass argv) s (Inr (keys, old, ls)) s'"
  shows "stores_hold_keys K (files s') r pass keys"
proof -
  from assms obtain ca server t where
      rest: "ends (if ca = HYBRID_KEY_STORE_MISSING \<and> server = HYBRID_KEY_STORE_MISSING then do {
       keys \<leftarrow> demo_generate_keys L K OS (r @ ''/ca'') (r @ ''/server'') pass;
       give (case keys of
               None \<Rightarrow> Inl ''Unable to generate and persist Hybrid private keys''
             | Some ks \<Rightarrow> Inr (ks, None,
                 [''Generated and persisted fresh, non-reused CA and Server Hybrid keypairs''])) }
     else if ca = HYBRID_KEY_STORE_COMPLETE \<and> server = HYBRID_KEY_STORE_COMPLETE then do {
       keys \<leftarrow> demo_load_keys K OS (r @ ''/ca'') (r @ ''/server'') pass;
       case keys of
         None \<Rightarrow> give (Inl ''Unable to load persisted Hybrid private keys'')
       | Some ks \<Rightarrow> do {
           existing_root \<leftarrow> demo_existing_chain L OS ks (argv ! 1) (argv ! 3);
           give (case existing_root of
                   None \<Rightarrow> Inl ''Loaded Hybrid private key does not match the existing certificate chain''
                 | Some r \<Rightarrow> Inr (ks, Some r,
                     [''Loaded CA Hybrid private key matches '' @ argv ! 1 @ '' Composite SPKI exactly'',
                      ''Loaded Server Hybrid private key matches '' @ argv ! 3 @ '' Composite SPKI exactly''])) } }
     else give (Inl ''Incomplete CA/Server Hybrid key store; refusing partial fallback'')) t (Inr (keys, old, ls)) s'"
    unfolding demo_hybrid_keys_def by (auto simp: ends_bind)
  show ?thesis
  proof (cases "ca = HYBRID_KEY_STORE_MISSING \<and> server = HYBRID_KEY_STORE_MISSING")
    case True
    with rest have "ends (demo_generate_keys L K OS (r @ ''/ca'') (r @ ''/server'') pass) t (Some keys) s'"
      by (auto simp: ends_bind split: option.splits)
    then show ?thesis by (rule ends_demo_generate_keys)
  next
    case False
    with rest obtain u where load: "ends (demo_load_keys K OS (r @ ''/ca'') (r @ ''/server'') pass) t (Some keys) u"
        and chain: "ends (demo_existing_chain L OS keys (argv ! 1) (argv ! 3)) u old s'"
      by (auto simp: ends_bind split: option.splits if_splits)
    have "touches_only {} u s'" by (rule keepsD[OF touches_existing_chain chain])
    with ends_demo_load_keys[OF load] show ?thesis
      by (auto elim!: stores_hold_keys_frame simp: touches_only_def)
  qed
qed

text \<open>So is the encryption key.\<close>

lemma ends_demo_encryption_key:
  assumes "ends (demo_encryption_key L K OS (Some d) pass pem old) s (Inr (key, ls)) s'"
  shows "sm2_store_holds K (files s') d pass key"
proof -
  from assms obtain st t where
      rest: "ends (if st = HYBRID_KEY_STORE_MISSING then do {
       key \<leftarrow> lift (hybrid_sm2_generate_keypair L);
       saved \<leftarrow> both (give (key \<noteq> None)) (hybrid_sm2_key_store_save K OS (Some d) key pass);
       give (if \<not> saved then Inl ''Unable to generate and persist TLCP encryption key''
             else Inr (the key, [''Generated and persisted a distinct TLCP SM2 encryption keypair''])) }
     else if st = HYBRID_KEY_STORE_COMPLETE \<and> old \<noteq> None then do {
       key \<leftarrow> hybrid_sm2_key_store_load K OS (Some d) pass;
       existing_encryption \<leftarrow> hybrid_x509_read_pem L OS (Some pem);
       matches \<leftarrow> both (give (key \<noteq> None \<and> existing_encryption \<noteq> None))
         (both (lift (hybrid_x509_sm2_public_key_matches L existing_encryption key))
           (lift (do { (ok, _) \<leftarrow> hybrid_verify_encryption_certificate L existing_encryption old;
                       give ok })));
       give (if \<not> matches
             then Inl ''Loaded TLCP encryption key does not match the existing Hybrid-signed encryption certificate''
             else Inr (the key, [''Loaded TLCP encryption private key matches '' @ pem @
                                 '' SM2 SPKI exactly''])) }
     else give (Inl ''Incomplete or inconsistent TLCP encryption key store'')) t (Inr (key, ls)) s'"
    unfolding demo_encryption_key_def by (auto simp: ends_bind)
  show ?thesis
  proof (cases "st = HYBRID_KEY_STORE_MISSING")
    case True
    with rest obtain k u where save: "ends (both (give (k \<noteq> None)) (hybrid_sm2_key_store_save K OS (Some d) k pass)) u True s'"
        and k: "key = the k"
      by (auto simp: ends_bind split: if_splits)
    from ends_both_give[OF save] have "ends (hybrid_sm2_key_store_save K OS (Some d) k pass) u True s'"
      by (simp split: if_splits)
    from ends_sm2_save_holds[OF this] k show ?thesis by auto
  next
    case False
    with rest obtain k u x v m w where load: "ends (hybrid_sm2_key_store_load K OS (Some d) pass) t k u"
        and read: "ends (hybrid_x509_read_pem L OS (Some pem)) u x v"
        and checks: "ends (both (give (k \<noteq> None \<and> x \<noteq> None))
         (both (lift (hybrid_x509_sm2_public_key_matches L x k))
           (lift (do { (ok, _) \<leftarrow> hybrid_verify_encryption_certificate L x old; give ok })))) v True s'"
        and k: "key = the k"
      by (auto simp: ends_bind split: if_splits)
    from ends_both_give[OF checks] obtain k' where k': "k = Some k'" and
      rest: "ends (both (lift (hybrid_x509_sm2_public_key_matches L x k))
           (lift (do { (ok, _) \<leftarrow> hybrid_verify_encryption_certificate L x old; give ok }))) v True s'"
      by (auto split: if_splits)
    have "touches_only {} v s'" by (rule keepsD[OF _ rest]) (intro keeps_intros)
    moreover have "touches_only {} u v" by (rule keepsD[OF touches_read_pem read])
    ultimately show ?thesis
      using ends_sm2_load_holds[OF load[unfolded k']] k k'
      by (auto elim!: sm2_store_holds_frame simp: touches_only_def)
  qed
qed

end
