(* ===== verification/Cert_Files_Theorems.thy ===== *)
theory Cert_Files_Theorems
  imports Cert_Files Key_Store_Theorems Toy_X509
begin

text \<open>
  What is in the two certificate files after a successful write, that the PEM file reads back, and
  that success does not cover the closing of the files.
\<close>

section \<open>The two files\<close>

text \<open>
  Everything a successful call did: both files hold what was put on their streams, or only the part
  written before closing failed.
\<close>

lemma ends_write_files:
  assumes "ends (hybrid_x509_write_files L OS (Some c) (Some pp) (Some dp)) s True s'"
    and "pp \<noteq> dp" and "plain_place (files s) pp" and "plain_place (files s) dp"
  obtains pt der n k m m' u v where "outcome (PEM_write_X509 L c) (True, pt)"
    and "outcome (i2d_X509_fp L c) (True, der)"
    and "outcome (os_transfer OS Fflush (length pt)) n" and "outcome (os_transfer OS Fflush (length der)) k"
    and "u \<or> faulted OS Fclose pp" and "v \<or> faulted OS Fclose dp"
    and "u \<longrightarrow> outcome (os_fault OS Fclose pp) None" and "v \<longrightarrow> outcome (os_fault OS Fclose dp) None"
    and "files s' = (files s)(pp \<mapsto> Reg m (if u then pt else take n pt),
           dp \<mapsto> Reg m' (if v then der else take k der))"
proof -
  from assms(1) obtain pf df t1 t2 t3 t4 x tx dx u v where
      f1: "ends (fopen_write OS pp) s pf t1" and f2: "ends (fopen_write OS dp) t1 df t2"
      and w: "ends (case (pf, df) of (Inr p, Inr d) \<Rightarrow> write_both L OS c p d
             | _ \<Rightarrow> give (False, (0, []), (0, []))) t2 (True, tx, dx) t3"
      and c1: "ends (case pf of Inr p \<Rightarrow> stream_close OS p (fst tx) (snd tx) | Inl e \<Rightarrow> give False) t3 u t4"
      and c2: "ends (case df of Inr d \<Rightarrow> stream_close OS d (fst dx) (snd dx) | Inl e \<Rightarrow> give False) t4 v s'"
    unfolding hybrid_x509_write_files_def by (auto simp: ends_bind split: prod.splits)
  from w obtain p d where pd: "pf = Inr p" "df = Inr d" by (auto split: sum.splits)
  from ends_fopen_write[OF f1 assms(3)] pd obtain m where m: "p = pp" "files t1 = (files s)(pp \<mapsto> Reg m [])"
    by auto
  with assms(2,4) have "plain_place (files t1) dp" by (simp add: plain_place_def)
  from ends_fopen_write[OF f2 this] pd obtain m' where
    m': "d = dp" "files t2 = (files s)(pp \<mapsto> Reg m [], dp \<mapsto> Reg m' [])" using m by auto
  from w pd m(1) m'(1) obtain pt n der k r1 r2 r3 where
      pem: "ends (lift (PEM_write_X509 L c)) t2 (True, pt) r1" and p1: "ends (stream_put OS pp pt) r1 (True, n) r2"
      and i2d: "ends (lift (i2d_X509_fp L c)) r2 (True, der) r3" and p2: "ends (stream_put OS dp der) r3 (True, k) t3"
      and tx: "tx = (n, pt)" "dx = (k, der)"
    unfolding write_both_def by (auto simp: ends_bind split: if_splits)
  have r1: "files r1 = (files s)(pp \<mapsto> Reg m [], dp \<mapsto> Reg m' [])" using pem m'(2) by (auto dest: lift_files)
  then have "files r1 pp = Some (Reg m [])" using assms(2) by simp
  note q1 = ends_stream_put[OF p1 this]
  have r3: "files r3 = (files s)(pp \<mapsto> Reg m (take n pt), dp \<mapsto> Reg m' [])"
    using i2d q1(1) r1 assms(2) by (auto dest!: lift_files simp: fun_upd_twist)
  then have "files r3 dp = Some (Reg m' [])" by simp
  note q2 = ends_stream_put[OF p2 this]
  have t3: "files t3 = (files s)(pp \<mapsto> Reg m (take n pt), dp \<mapsto> Reg m' (take k der))"
    using q2(1) r3 by simp
  from c1 pd tx m(1) have c1: "ends (stream_close OS pp n pt) t3 u t4" by simp
  have "files t3 pp = Some (Reg m (take n pt))" using t3 assms(2) by simp
  note e1 = ends_stream_close[OF c1 this]
  have t4: "files t4 = (files s)(pp \<mapsto> Reg m (if u then pt else take n pt), dp \<mapsto> Reg m' (take k der))"
    using e1(1) t3 assms(2) by (auto simp: fun_upd_twist)
  from c2 pd tx m'(1) have c2: "ends (stream_close OS dp k der) t4 v s'" by simp
  have "files t4 dp = Some (Reg m' (take k der))" using t4 by simp
  note e2 = ends_stream_close[OF c2 this]
  have s': "files s' = (files s)(pp \<mapsto> Reg m (if u then pt else take n pt),
      dp \<mapsto> Reg m' (if v then der else take k der))"
    using e2(1) t4 by auto
  show thesis
    by (rule that[OF lift_outcome[OF pem] lift_outcome[OF i2d] q1(3) q2(3) e1(2) e2(2) e1(3) e2(3) s'])
qed

text \<open>When both files close, they hold the two encodings.\<close>

definition holds_encodings ::
  "('w, 'k, 'x, 'n, 'o, 'p, 'e) cert_lib_scheme \<Rightarrow> filesystem \<Rightarrow> 'x \<Rightarrow> string \<Rightarrow> string \<Rightarrow> bool" where
  "holds_encodings L fs c pp dp \<longleftrightarrow>
     (\<exists>pem der m m'. outcome (PEM_write_X509 L c) (True, pem) \<and> outcome (i2d_X509_fp L c) (True, der) \<and>
        fs pp = Some (Reg m pem) \<and> fs dp = Some (Reg m' der))"

lemma ends_write_files_closed:
  assumes "ends (hybrid_x509_write_files L OS (Some c) (Some pp) (Some dp)) s True s'"
    and "pp \<noteq> dp" and "plain_place (files s) pp" and "plain_place (files s) dp"
    and "\<not> faulted OS Fclose pp" and "\<not> faulted OS Fclose dp"
  shows "holds_encodings L (files s') c pp dp \<and> touches_only {pp, dp} s s'"
  using assms(1-4) by (rule ends_write_files) (use assms(2,5,6) in \<open>auto simp: holds_encodings_def touches_only_def\<close>)

text \<open>Reading a PEM file whose node holds the encoding, when it can be opened and is delivered whole.\<close>

definition pem_readable ::
  "('w, 'k, 'x, 'n, 'o, 'p, 'e) cert_lib_scheme \<Rightarrow> ('w, 's) os_lib_scheme \<Rightarrow> string \<Rightarrow> bool" where
  "pem_readable L OS p \<longleftrightarrow> \<not> faulted OS Fopen p \<and>
     (\<forall>n k. outcome (os_transfer OS Fopen n) k \<longrightarrow> n \<le> k) \<and>
     (\<forall>c pem. outcome (PEM_write_X509 L c) (True, pem) \<longrightarrow> always (PEM_read_X509 L pem) (Some c))"

lemma ends_read_encoding:
  assumes "ends (hybrid_x509_read_pem L OS (Some pp)) s r s'" and "pem_readable L OS pp"
    and "holds_encodings L (files s) c pp dp"
  shows "r = Some c \<and> files s' = files s"
proof -
  from assms(3) obtain pem m where pem: "outcome (PEM_write_X509 L c) (True, pem)"
      and pp: "files s pp = Some (Reg m pem)" by (auto simp: holds_encodings_def)
  from assms(1) obtain a t where open_file: "ends (fopen_read OS pp) s a t"
      and rest: "ends (case a of Inl e \<Rightarrow> fail | Inr f \<Rightarrow> do {
              fs \<leftarrow> get_files;
              let contents = (case fs f of None \<Rightarrow> [] | Some node \<Rightarrow> node_data node);
              delivered \<leftarrow> lift (os_transfer OS Fopen (length contents));
              certificate \<leftarrow> lift (PEM_read_X509 L (take delivered contents));
              _ \<leftarrow> plain_call OS Fclose f;
              give certificate }) t r s'"
    unfolding hybrid_x509_read_pem_def by (auto simp: ends_bind)
  from ends_fopen_read[OF open_file] assms(2) follow_regular[of "files s", OF pp] have a: "a = Inr pp"
      and t: "files t = files s" by (auto simp: pem_readable_def split: sum.splits)
  from rest a t pp obtain d where "outcome (os_transfer OS Fopen (length pem)) d"
      and "outcome (PEM_read_X509 L (take d pem)) r" and "files s' = files s"
    by (auto simp: ends_bind Let_def dest!: ends_liftD ends_plain_call)
  with assms(2) pem show ?thesis by (auto simp: pem_readable_def dest!: always_outcome)
qed

section \<open>A library with certificate files\<close>

definition toy_cert_lib :: "(unit, bytes, toy_cert, toy_name, string, toy_spki) cert_lib" where
  "toy_cert_lib = toy_x509_with \<lparr>
     PEM_write_X509 = \<lambda>c. give (True, [45, toy_code c]), i2d_X509_fp = \<lambda>c. give (True, [toy_code c]),
     PEM_read_X509 = \<lambda>d. give (case d of [x, y] \<Rightarrow> if x = 45 then toy_lookup toy_code y else None | _ \<Rightarrow> None),
     X509_NAME_oneline = \<lambda>n. give (Some ''name'')\<rparr>"

lemma toy_cert_lib_eval:
  "PEM_write_X509 toy_cert_lib c = give (True, [45, toy_code c])" "i2d_X509_fp toy_cert_lib c = give (True, [toy_code c])"
  "PEM_read_X509 toy_cert_lib d = give (case d of [x, y] \<Rightarrow> if x = 45 then toy_lookup toy_code y else None | _ \<Rightarrow> None)"
  by (simp_all add: toy_cert_lib_def toy_x509_with_def toy_with_def)

lemma toy_pem_readable: "pem_readable toy_cert_lib toy_os p"
  by (simp add: pem_readable_def toy_cert_lib_eval toy_os_def[THEN arg_cong, of os_transfer])

text \<open>An operating system whose streams only write when they are closed, with the given fault.\<close>

definition lazy_os :: "(syscall \<Rightarrow> string \<Rightarrow> errno option) \<Rightarrow> unit os_lib" where
  "lazy_os f = \<lparr>os_umask = 0, os_fault = \<lambda>c p. give (f c p),
     os_transfer = \<lambda>c n. give (if c = Fflush then 0 else n)\<rparr>"

section \<open>Properties\<close>

text \<open>
  C29: What was written can be read: when \<open>hybrid_x509_write_files\<close> succeeds for two different plain
  paths and the files could be closed, they hold exactly the PEM and the DER encoding, nothing else
  changed, and \<open>hybrid_x509_read_pem\<close> on the first gives the certificate back, when OpenSSL reads
  what it writes and files are delivered whole.
\<close>

theorem certificate_files_roundtrip:
  assumes "ends (hybrid_x509_write_files L OS (Some c) (Some pp) (Some dp)) s True s'"
    and "pp \<noteq> dp" and "plain_place (files s) pp" and "plain_place (files s) dp"
    and "\<not> faulted OS Fclose pp" and "\<not> faulted OS Fclose dp" and "pem_readable L OS pp"
  shows "holds_encodings L (files s') c pp dp \<and> touches_only {pp, dp} s s' \<and>
    run (hybrid_x509_read_pem L OS (Some pp)) s' = Some c"
proof -
  note held = ends_write_files_closed[OF assms(1-6)]
  obtain r t where run: "ends (hybrid_x509_read_pem L OS (Some pp)) s' r t"
    using ends_total[of "hybrid_x509_read_pem L OS (Some pp)" s'] by auto
  from ends_read_encoding[OF this assms(7)] held run show ?thesis by (auto dest: ends_run)
qed

theorem certificate_files_roundtrip_witness:
  "holds_encodings toy_cert_lib (files (toy_world [''a'' \<mapsto> Reg 438 [45, 1], ''b'' \<mapsto> Reg 438 [1]])) Toy_Root ''a'' ''b'' \<and>
   touches_only {''a'', ''b''} (toy_world Map.empty) (toy_world [''a'' \<mapsto> Reg 438 [45, 1], ''b'' \<mapsto> Reg 438 [1]]) \<and>
   run (hybrid_x509_read_pem toy_cert_lib toy_os (Some ''a'')) (toy_world [''a'' \<mapsto> Reg 438 [45, 1], ''b'' \<mapsto> Reg 438 [1]])
     = Some Toy_Root"
proof (rule certificate_files_roundtrip)
  show "ends (hybrid_x509_write_files toy_cert_lib toy_os (Some Toy_Root) (Some ''a'') (Some ''b''))
      (toy_world Map.empty) True (toy_world [''a'' \<mapsto> Reg 438 [45, 1], ''b'' \<mapsto> Reg 438 [1]])"
    by (simp add: ends_def hybrid_x509_write_files_def fopen_write_def write_both_def stream_put_def
        stream_close_def overlay_def resolve.simps lift_def get_files_def put_node_def toy_cert_lib_eval
        toy_os_def[THEN arg_cong, of os_transfer] fun_upd_twist)
qed (simp_all add: plain_place_def toy_pem_readable)

text \<open>
  C30: Success does not cover closing: \<open>fclose\<close>'s result is ignored, so when stdio keeps the data
  until the files are closed and closing fails (a full disk), \<open>hybrid_x509_write_files\<close> reports
  success and leaves two empty files.
\<close>

theorem write_files_ignores_close:
  assumes "\<forall>c p. c \<noteq> Fclose \<longrightarrow> \<not> faulted OS c p" and "always (os_fault OS Fclose pp) (Some e)"
    and "always (os_fault OS Fclose dp) (Some e')" and "\<forall>n. always (os_transfer OS Fflush n) 0"
    and "always (PEM_write_X509 L c) (True, pem)" and "always (i2d_X509_fp L c) (True, der)"
    and "pp \<noteq> dp" and "plain_place (files s) pp" and "plain_place (files s) dp"
  shows "case run_state (hybrid_x509_write_files L OS (Some c) (Some pp) (Some dp)) s of (r, s') \<Rightarrow>
    r \<and> (\<exists>m m'. files s' = (files s)(pp \<mapsto> Reg m [], dp \<mapsto> Reg m' []))"
proof -
  let ?m = "hybrid_x509_write_files L OS (Some c) (Some pp) (Some dp)"
  obtain r s' where run: "ends ?m s r s'" using ends_total[of ?m s] by auto
  obtain pf df t1 t2 t3 tx dx where
      f1: "ends (fopen_write OS pp) s pf t1" and f2: "ends (fopen_write OS dp) t1 df t2"
      and w: "ends (case (pf, df) of (Inr p, Inr d) \<Rightarrow> write_both L OS c p d
             | _ \<Rightarrow> give (False, (0, []), (0, []))) t2 (r, tx, dx) t3"
    using run unfolding hybrid_x509_write_files_def by (auto simp: ends_bind split: prod.splits)
  from ends_fopen_write[OF f1 assms(8)] assms(1) obtain m where m: "pf = Inr pp"
      "files t1 = (files s)(pp \<mapsto> Reg m [])" by (auto split: sum.splits)
  with assms(7,9) have "plain_place (files t1) dp" by (simp add: plain_place_def)
  from ends_fopen_write[OF f2 this] assms(1) m obtain m' where m': "df = Inr dp"
      "files t2 = (files s)(pp \<mapsto> Reg m [], dp \<mapsto> Reg m' [])" by (auto split: sum.splits)
  have r
  proof (rule ccontr)
    assume "\<not> r"
    with w m(1) m'(1) obtain t n ok t' t'' where pem: "ends (lift (PEM_write_X509 L c)) t2 (True, t) t'"
        and put: "ends (stream_put OS pp t) t' (ok, n) t''"
        and rest: "ok \<longrightarrow> (\<exists>u v d k ok'. ends (lift (i2d_X509_fp L c)) t'' (True, d) u \<and>
           ends (stream_put OS dp d) u (ok', k) v \<and> \<not> ok')"
      using always_outcome[OF assms(5) lift_outcome] always_outcome[OF assms(6) lift_outcome]
      unfolding write_both_def by (fastforce simp: ends_bind split: if_splits)
    have t': "files t' pp = Some (Reg m [])" using pem m'(2) assms(7) by (auto dest: lift_files)
    from ends_stream_put(2)[OF put this] assms(1) have ok by auto
    with rest obtain u v d k where i2d: "ends (lift (i2d_X509_fp L c)) t'' (True, d) u"
        and put': "ends (stream_put OS dp d) u (False, k) v" by auto
    have "files u dp = Some (Reg m' [])"
      using lift_files[OF i2d] ends_stream_put(1)[OF put t'] lift_files[OF pem] m'(2) assms(7) by simp
    from ends_stream_put(2)[OF put' this] assms(1) show False by auto
  qed
  with run have "ends ?m s True s'" by simp
  from this assms(7-9) have "\<exists>m m'. files s' = (files s)(pp \<mapsto> Reg m [], dp \<mapsto> Reg m' [])"
  proof (rule ends_write_files)
    fix pt der n k m m' u v
    assume "outcome (os_transfer OS Fflush (length pt)) n" "outcome (os_transfer OS Fflush (length der)) k"
      and "u \<longrightarrow> outcome (os_fault OS Fclose pp) None" "v \<longrightarrow> outcome (os_fault OS Fclose dp) None"
      and s': "files s' = (files s)(pp \<mapsto> Reg m (if u then pt else take n pt), dp \<mapsto> Reg m' (if v then der else take k der))"
    with assms(2-4) have "n = 0" "k = 0" "\<not> u" "\<not> v" by (auto dest: always_outcome)
    with s' show ?thesis by auto
  qed
  with run \<open>r\<close> show ?thesis by (simp add: ends_def)
qed

theorem write_files_ignores_close_witness:
  "case run_state (hybrid_x509_write_files toy_cert_lib
      (lazy_os (\<lambda>c p. if c = Fclose then Some EOTHER else None))
      (Some Toy_Root) (Some ''a'') (Some ''b'')) (toy_world Map.empty) of (r, s') \<Rightarrow>
    r \<and> (\<exists>m m'. files s' = (files (toy_world Map.empty))(''a'' \<mapsto> Reg m [], ''b'' \<mapsto> Reg m' []))"
  by (rule write_files_ignores_close)
    (auto simp: lazy_os_def faulted_def toy_cert_lib_eval plain_place_def)

end
