(* ===== verification/Demo_Facts.thy ===== *)
theory Demo_Facts
  imports Demo_Keys Cert_Files_Theorems Chain_Theorems
begin

text \<open>
  What a run of \<open>demo_chain_main\<close> that ends in success went through: the paths it can have touched
  before writing the certificates, what it checked of the certificates, and the files it wrote.
\<close>

section \<open>Paths\<close>

lemma ends_key_subdirectory:
  assumes "ends (lift (key_subdirectory L (Some r) (Some n))) s d s'"
  shows "files s' = files s \<and> (\<forall>p. d = Some p \<longrightarrow> p = r @ ''/'' @ n)"
proof -
  from assms have "files s' = files s" by (rule lift_files)
  moreover from assms have "outcome (key_subdirectory L (Some r) (Some n)) d" by (rule lift_outcome)
  then have "\<forall>p. d = Some p \<longrightarrow> p = r @ ''/'' @ n"
    by (auto simp: key_subdirectory_def elim!: outcome_ensure_Some split: if_splits)
  ultimately show ?thesis by simp
qed

text \<open>The key root of the command line, and every path below it that the keys may use.\<close>

definition demo_key_root :: "string list \<Rightarrow> string" where
  "demo_key_root argv =
     (if length argv = 6 then argv ! 5 else if length argv = 8 then argv ! 7 else ''keys'')"

definition demo_key_paths :: "string \<Rightarrow> string set" where
  "demo_key_paths r = {r} \<union> store_paths (r @ ''/ca'') \<union> store_paths (r @ ''/server'')
     \<union> store_paths (r @ ''/server-encryption'')"

lemma demo_key_paths_subset [simp]:
  "r \<in> demo_key_paths r" "store_paths (r @ ''/ca'') \<subseteq> demo_key_paths r"
  "store_paths (r @ ''/server'') \<subseteq> demo_key_paths r" "store_paths (r @ ''/server-encryption'') \<subseteq> demo_key_paths r"
  "r @ ''/ca'' \<in> demo_key_paths r" "r @ ''/server'' \<in> demo_key_paths r"
  "r @ ''/server-encryption'' \<in> demo_key_paths r"
  by (auto simp: demo_key_paths_def)

lemma ends_demo_directories:
  assumes "ends (demo_directories L OS r enc) s (Some (ca, server, ed)) s'"
  shows "ca = r @ ''/ca'' \<and> server = r @ ''/server'' \<and> ed = (if enc then Some (r @ ''/server-encryption'') else None)"
  using assms unfolding demo_directories_def
  by (auto elim!: ends_ensureE ends_attemptE dest!: ends_key_subdirectory split: if_splits)

section \<open>What is touched before the certificates are written\<close>

lemma touches_ensure_key_root: "keeps (touches_only (demo_key_paths r)) (ensure_key_root OS (Some r))"
  unfolding ensure_key_root_def option.case
  by (intro keeps_intros touches_writers) simp

lemma touches_demo_directories:
  "keeps (touches_only (demo_key_paths r)) (demo_directories L OS r enc)"
  unfolding demo_directories_def
  by (intro keeps_intros touches_ensure_key_root)

lemma touches_demo_hybrid_keys:
  "keeps (touches_only (demo_key_paths r))
     (demo_hybrid_keys L K OS (r @ ''/ca'') (r @ ''/server'') pass argv)"
  unfolding demo_hybrid_keys_def demo_generate_keys_def demo_load_keys_def
  by (intro keeps_intros touches_existing_chain frame.keeps_status frame.keeps_save frame.keeps_load) auto

lemma touches_encryption_store:
  "keeps (touches_only (store_paths d)) (demo_encryption_key L K OS (Some d) pass pem root)"
  unfolding demo_encryption_key_def
  by (intro keeps_intros touches_read_pem frame.keeps_sm2_status frame.keeps_sm2_save
      frame.keeps_sm2_load) auto

lemma touches_demo_encryption_key:
  "keeps (touches_only (demo_key_paths r))
     (demo_encryption_key L K OS (Some (r @ ''/server-encryption'')) pass pem root)"
  unfolding demo_encryption_key_def
  by (intro keeps_intros touches_read_pem frame.keeps_sm2_status frame.keeps_sm2_save
      frame.keeps_sm2_load) auto

section \<open>What was issued\<close>

text \<open>The certificate carries exactly the encoding of the composite key, or of the SM2 key.\<close>

definition carries_key ::
  "('w, 'k, 'x, 'n, 'o, 'p, 'e) x509_lib_scheme \<Rightarrow> 'x \<Rightarrow> 'k hybrid_public_key \<Rightarrow> bool" where
  "carries_key L x pk \<longleftrightarrow>
     (\<exists>spki alg. X509_get_X509_PUBKEY L x = Some spki \<and>
        X509_PUBKEY_get0_param L spki = Some (public_key_octets L pk, alg) \<and>
        algorithm_is_composite_and_absent L alg \<and> exportable L pk)"

definition carries_sm2_key ::
  "('w, 'k, 'x, 'n, 'o, 'p, 'e) x509_lib_scheme \<Rightarrow> 'x \<Rightarrow> 'k \<Rightarrow> bool" where
  "carries_sm2_key L x key \<longleftrightarrow>
     (\<exists>k p. outcome (X509_get_pubkey L x) (Some k) \<and> sm2_octets L k p \<and> sm2_octets L key p)"

text \<open>
  An acceptable chain for the keys given: the root is built for the CA's public key and signed with
  the CA's private key, the server certificate is built for and carries the server's public key and
  is signed with the CA's private key, and so for the encryption certificate; and all of them are
  what the verifier's specification accepts.
\<close>

definition demo_chain_ok ::
  "('w, 'k, 'x, 'n, 'o, 'p, 'e) x509_lib_scheme \<Rightarrow> 'k demo_keys \<Rightarrow> 'k option \<Rightarrow> 'x \<Rightarrow> 'x \<Rightarrow> 'x option \<Rightarrow> bool" where
  "demo_chain_ok L keys encryption_key root server encryption \<longleftrightarrow>
     (\<exists>ca_priv ca_pub srv_pub.
        ca_private keys = Some ca_priv \<and> ca_public keys = Some ca_pub \<and> server_public keys = Some srv_pub \<and>
        (\<exists>tbs cert. root_profile L ca_pub ''Root Hybrid CA'' tbs \<and> issued_as L ca_priv tbs cert root) \<and>
        (\<exists>tbs cert. server_profile L root ca_pub srv_pub HYBRID_DEFAULT_SERVER_NAME HYBRID_DEFAULT_SERVER_NAME tbs \<and>
           issued_as L ca_priv tbs cert server) \<and>
        carries_key L server srv_pub \<and>
        (\<exists>k k'. root_accepted L root k' \<and> server_accepted L server root k \<and>
           dilithium_public_key k = dilithium_public_key k') \<and>
        (case (encryption_key, encryption) of
           (None, None) \<Rightarrow> True
         | (Some key, Some e) \<Rightarrow>
             (\<exists>tbs cert. encryption_profile L root ca_pub key HYBRID_DEFAULT_SERVER_NAME tbs \<and>
                issued_as L ca_priv tbs cert e) \<and>
             carries_sm2_key L e key \<and> (\<exists>k. encryption_accepted L e root k)
         | _ \<Rightarrow> False))"

lemma outcome_matches_carries_sm2:
  assumes "outcome (hybrid_x509_sm2_public_key_matches L (Some x) (Some key)) True"
  shows "carries_sm2_key L x key"
proof -
  let ?zero = "replicate SM2_UNCOMPRESSED_PUBLIC_KEY_BYTES (0 :: byte)"
  from assms obtain cb ret supplied where k: "EVP_PKEY_is_a L key ''SM2''"
      and get: "outcome (hybrid_x509_get_sm2_public_key_octets L (Some x) (Some ?zero)) (True, cb)"
      and sup: "EVP_PKEY_get_pub_key L key SM2_UNCOMPRESSED_PUBLIC_KEY_BYTES = (ret, supplied)" "0 < ret"
        "length supplied = SM2_UNCOMPRESSED_PUBLIC_KEY_BYTES" "cb = Some supplied"
    unfolding hybrid_x509_sm2_public_key_matches_def by (auto elim!: outcome_bind split: if_splits prod.splits)
  from get obtain r where r: "outcome (X509_get_pubkey L x) r"
      and ser: "serialize_sm2_public_key L r ?zero = (True, supplied)"
    unfolding hybrid_x509_get_sm2_public_key_octets_def sup(4)
    by (auto elim!: outcome_bind split: prod.splits if_splits)
  from ser obtain k' where "r = Some k'" "sm2_octets L k' supplied"
    by (rule serialize_sm2_public_key_True) simp
  moreover from this(2) k sup have "sm2_octets L key supplied" by (simp add: sm2_octets_def)
  ultimately show ?thesis using r by (auto simp: carries_sm2_key_def)
qed

lemma outcome_matches_carries:
  assumes "outcome (hybrid_x509_public_key_matches L (Some x) pk) True" and "sm2_import_law L"
  shows "\<exists>k. pk = Some k \<and> carries_key L x k"
proof (cases pk)
  case None
  with assms(1) show ?thesis by (simp add: hybrid_x509_public_key_matches_def)
next
  case (Some k)
  with assms(1) obtain w where "run (hybrid_x509_public_key_matches L (Some x) (Some k)) w" by (auto simp: outcome_def)
  from public_key_matches_sound[OF this assms(2)] Some show ?thesis by (simp add: carries_key_def)
qed

lemma outcome_verified:
  "outcome (do { (ok, _) \<leftarrow> hybrid_verify_chain L r x; give ok }) True \<Longrightarrow> \<exists>rep. outcome (hybrid_verify_chain L r x) (True, rep)"
  "outcome (do { (ok, _) \<leftarrow> hybrid_verify_encryption_certificate L e r; give ok }) True \<Longrightarrow>
     \<exists>rep. outcome (hybrid_verify_encryption_certificate L e r) (True, rep)"
  by (auto elim!: outcome_bind)

lemma outcome_demo_issue_verified:
  assumes "outcome (demo_issue L keys ekey) (Some (root, server, enc))"
  shows "\<exists>rep. outcome (hybrid_verify_chain L (Some root) (Some server)) (True, rep)"
proof -
  from assms obtain r x where
      chain: "outcome (do { (ok, _) \<leftarrow> hybrid_verify_chain L (Some r) (Some x); give ok }) True"
      and rest: "outcome (case ekey of
          None \<Rightarrow> done_with (r, x, None)
        | Some key \<Rightarrow>
            attempt (hybrid_x509_create_sm2_encryption L (ca_private keys) (ca_public keys) ekey
                       (Some r) (Some HYBRID_DEFAULT_SERVER_NAME)) (\<lambda>encryption.
            ensure (hybrid_x509_sm2_public_key_matches L (Some encryption) ekey)
            (ensure (do { (ok, _) \<leftarrow> hybrid_verify_encryption_certificate L (Some encryption) (Some r);
                          give ok })
              (done_with (r, x, Some encryption))))) (Some (root, server, enc))"
    unfolding demo_issue_def by (elim outcome_attempt_Some outcome_ensure_Some)
  from rest have "r = root \<and> x = server"
    by (auto elim!: outcome_attempt_Some outcome_ensure_Some split: option.splits)
  with outcome_verified(1)[OF chain] show ?thesis by simp
qed

lemma outcome_demo_issue:
  assumes "outcome (demo_issue L keys ekey) (Some (root, server, enc))" and law: "sm2_import_law L"
  shows "demo_chain_ok L keys ekey root server enc"
proof -
  let ?name = "HYBRID_DEFAULT_SERVER_NAME"
  from assms(1) obtain r x where
      made: "outcome (hybrid_x509_create_root L (ca_private keys) (ca_public keys) (Some ''Root Hybrid CA'')) (Some r)"
        "outcome (hybrid_x509_create_server L (ca_private keys) (ca_public keys) (server_public keys) (Some r)
           (Some ?name) (Some ?name)) (Some x)"
      and matches: "outcome (hybrid_x509_public_key_matches L (Some x) (server_public keys)) True"
      and rest: "outcome (case ekey of
          None \<Rightarrow> done_with (r, x, None)
        | Some key \<Rightarrow>
            attempt (hybrid_x509_create_sm2_encryption L (ca_private keys) (ca_public keys) ekey
                       (Some r) (Some ?name)) (\<lambda>encryption.
            ensure (hybrid_x509_sm2_public_key_matches L (Some encryption) ekey)
            (ensure (do { (ok, _) \<leftarrow> hybrid_verify_encryption_certificate L (Some encryption) (Some r);
                          give ok })
              (done_with (r, x, Some encryption))))) (Some (root, server, enc))"
    unfolding demo_issue_def by (elim outcome_attempt_Some outcome_ensure_Some)
  from rest have same: "r = root" "x = server" and e: "case (ekey, enc) of
        (None, None) \<Rightarrow> True
      | (Some key, Some e) \<Rightarrow>
          outcome (hybrid_x509_create_sm2_encryption L (ca_private keys) (ca_public keys) (Some key)
                     (Some root) (Some ?name)) (Some e) \<and>
          outcome (hybrid_x509_sm2_public_key_matches L (Some e) (Some key)) True \<and>
          outcome (do { (ok, _) \<leftarrow> hybrid_verify_encryption_certificate L (Some e) (Some root); give ok }) True
      | _ \<Rightarrow> False"
    by (auto elim!: outcome_attempt_Some outcome_ensure_Some split: option.splits)
  from made(1) obtain cpr cpu tbs cert where ca: "ca_private keys = Some cpr" "ca_public keys = Some cpu"
      and root: "root_profile L cpu ''Root Hybrid CA'' tbs" "issued_as L cpr tbs cert root"
    unfolding same by (elim outcome_create_root) auto
  from made(2) obtain spu tbs' cert' where spu: "server_public keys = Some spu"
      and server: "server_profile L root cpu spu ?name ?name tbs'" "issued_as L cpr tbs' cert' server"
    unfolding same ca by (elim outcome_create_server) auto
  from outcome_matches_carries[OF matches law] spu same have carried: "carries_key L server spu" by simp
  from outcome_demo_issue_verified[OF assms(1)] obtain rep where
    "outcome (hybrid_verify_chain L (Some root) (Some server)) (True, rep)" by blast
  then have ok: "\<exists>k k'. root_accepted L root k' \<and> server_accepted L server root k \<and>
        dilithium_public_key k = dilithium_public_key k'"
    by (elim outcome_hybrid_verify_chain_True) auto
  have enc: "\<exists>k. encryption_accepted L e root k"
    if "outcome (do { (ok, _) \<leftarrow> hybrid_verify_encryption_certificate L (Some e) (Some root); give ok }) True" for e
    using outcome_verified(2)[OF that] by (auto elim: outcome_verify_encryption)
  have profile: "\<exists>tbs cert. encryption_profile L root cpu key ?name tbs \<and> issued_as L cpr tbs cert e"
    if "outcome (hybrid_x509_create_sm2_encryption L (ca_private keys) (ca_public keys) (Some key)
          (Some root) (Some ?name)) (Some e)" for key e
    using that unfolding ca by (elim outcome_create_sm2_encryption) auto
  have third: "case (ekey, enc) of
           (None, None) \<Rightarrow> True
         | (Some key, Some e) \<Rightarrow>
             (\<exists>tbs cert. encryption_profile L root cpu key ?name tbs \<and> issued_as L cpr tbs cert e) \<and>
             carries_sm2_key L e key \<and> (\<exists>k. encryption_accepted L e root k)
         | _ \<Rightarrow> False"
  proof (cases ekey; cases enc)
    fix key c
    assume "ekey = Some key" and "enc = Some c"
    with e profile[of key c] enc[of c] outcome_matches_carries_sm2[of L c key] show ?thesis by simp
  qed (use e in simp_all)
  show ?thesis
    unfolding demo_chain_ok_def
    by (intro exI[of _ cpr] exI[of _ cpu] exI[of _ spu] conjI ca spu ok carried third)
      (use root server in blast)+
qed

section \<open>A successful run\<close>

text \<open>Its last two steps, and what the steps before them can have touched.\<close>

lemma exit_codes [simp]: "EXIT_SUCCESS \<noteq> EXIT_FAILURE" "EXIT_FAILURE \<noteq> EXIT_SUCCESS"
  by (simp_all add: EXIT_SUCCESS_def EXIT_FAILURE_def)

lemma ends_demo_finish:
  assumes "ends (demo_finish L OS argv keys ekey loaded ls) s (EXIT_SUCCESS, lines) s'"
  obtains root server enc t where "outcome (demo_issue L keys ekey) (Some (root, server, enc))"
    and "files t = files s" and "ends (demo_write L OS argv root server enc) t True s'"
proof -
  from assms obtain r t where "ends (lift (demo_issue L keys ekey)) s r t"
      and "ends (case r of None \<Rightarrow> give False
         | Some (root, server, encryption) \<Rightarrow> demo_write L OS argv root server encryption) t True s'"
    unfolding demo_finish_def by (auto simp: ends_bind split: if_splits)
  then show thesis by (cases r) (auto dest!: ends_liftD intro: that)
qed

lemma ends_demo_run:
  assumes "ends (demo_run L K OS argv pass (r @ ''/ca'') (r @ ''/server'') ed) s (EXIT_SUCCESS, lines) s'"
    and "ed = None \<or> ed = Some (r @ ''/server-encryption'')"
  obtains keys ekey loaded ls t where "touches_only (demo_key_paths r) s t"
    and "stores_hold_keys K (files t) r pass keys"
    and "\<forall>key. ekey = Some key \<longrightarrow> sm2_store_holds K (files t) (r @ ''/server-encryption'') pass key"
    and "ekey = None \<longleftrightarrow> ed = None" and "ends (demo_finish L OS argv keys ekey loaded ls) t (EXIT_SUCCESS, lines) s'"
proof -
  from assms(1) obtain found t where
      keys: "ends (demo_hybrid_keys L K OS (r @ ''/ca'') (r @ ''/server'') pass argv) s found t"
      and rest: "ends (case found of Inl line \<Rightarrow> give (EXIT_FAILURE, [line])
        | Inr (keys, existing_root, lines) \<Rightarrow>
         (case ed of
            None \<Rightarrow> demo_finish L OS argv keys None (existing_root \<noteq> None) lines
          | Some _ \<Rightarrow> do {
              encryption_found \<leftarrow> demo_encryption_key L K OS ed pass (argv ! 5) existing_root;
              case encryption_found of
                Inl line \<Rightarrow> give (EXIT_FAILURE, lines @ [line])
              | Inr (key, added) \<Rightarrow>
                  demo_finish L OS argv keys (Some key) (existing_root \<noteq> None) (lines @ added) })) t (EXIT_SUCCESS, lines) s'"
    unfolding demo_run_def by (auto simp: ends_bind)
  note t = keepsD[OF touches_demo_hybrid_keys keys]
  from rest obtain ks old ls where found: "found = Inr (ks, old, ls)" by (auto split: sum.splits)
  note stored = ends_demo_hybrid_keys[OF keys[unfolded found]]
  show thesis
  proof (cases ed)
    case None
    with rest found have "ends (demo_finish L OS argv ks None (old \<noteq> None) ls) t (EXIT_SUCCESS, lines) s'" by simp
    with t stored None show thesis by (intro that[of t ks None]) auto
  next
    case (Some d)
    with rest found assms(2) obtain ef u where
        enc: "ends (demo_encryption_key L K OS (Some (r @ ''/server-encryption'')) pass (argv ! 5) old) t ef u"
        and last: "ends (case ef of Inl line \<Rightarrow> give (EXIT_FAILURE, ls @ [line])
          | Inr (key, added) \<Rightarrow> demo_finish L OS argv ks (Some key) (old \<noteq> None) (ls @ added)) u (EXIT_SUCCESS, lines) s'"
      by (auto simp: ends_bind simp del: not_None_eq)
    from keepsD[OF touches_demo_encryption_key enc] t have "touches_only (demo_key_paths r) s u"
      by (rule touches.R_trans[rotated])
    moreover from last obtain key added where ef: "ef = Inr (key, added)" by (cases ef) auto
    moreover have "stores_hold_keys K (files u) r pass ks"
    proof (rule stores_hold_keys_frame[OF stored])
      have "touches_only (store_paths (r @ ''/server-encryption'')) t u"
        by (rule keepsD[OF touches_encryption_store enc])
      then show "files u p = files t p" if "p \<in> store_paths (r @ ''/ca'') \<union> store_paths (r @ ''/server'')" for p
        using that by (rule untouched) (simp add: Int_Un_distrib stores_disjoint)
    qed
    ultimately show thesis
      using last Some ends_demo_encryption_key[OF enc[unfolded ef]] by (intro that[of u ks "Some key"]) auto
  qed
qed

lemma ends_demo_chain_main:
  assumes "ends (demo_chain_main L K OS argv pass) s (EXIT_SUCCESS, lines) s'"
  obtains keys ekey root server enc t where
    "length argv \<in> {5, 6, 7, 8}" and "\<exists>p. pass = Some p \<and> 12 \<le> length p"
    and "touches_only (demo_key_paths (demo_key_root argv)) s t"
    and "stores_hold_keys K (files t) (demo_key_root argv) pass keys"
    and "\<forall>key. ekey = Some key \<longrightarrow>
      sm2_store_holds K (files t) (demo_key_root argv @ ''/server-encryption'') pass key"
    and "outcome (demo_issue L keys ekey) (Some (root, server, enc))"
    and "ekey = None \<longleftrightarrow> length argv \<in> {5, 6}" and "ends (demo_write L OS argv root server enc) t True s'"
proof -
  let ?enc = "length argv = 7 \<or> length argv = 8" and ?r = "demo_key_root argv"
  from assms have len: "length argv \<in> {5, 6, 7, 8}"
    unfolding demo_chain_main_def by (auto split: if_splits)
  from assms len obtain p where p: "pass = Some p" "12 \<le> length p"
    unfolding demo_chain_main_def Let_def by (auto split: if_splits option.splits)
  from assms len p obtain dirs t1 where d: "ends (demo_directories L OS ?r ?enc) s dirs t1"
      and rest: "ends (case dirs of
          None \<Rightarrow> give (EXIT_FAILURE, [''Unable to create secure key directory hierarchy''])
        | Some (ca, server, ed) \<Rightarrow> demo_run L K OS argv pass ca server ed) t1 (EXIT_SUCCESS, lines) s'"
    unfolding demo_chain_main_def Let_def demo_key_root_def
    by (simp only: if_not_P not_not simp_thms option.case not_le[symmetric] ends_bind) blast
  from rest obtain ca server ed where dirs: "dirs = Some (ca, server, ed)" by (auto split: option.splits)
  with d ends_demo_directories have names: "ca = ?r @ ''/ca''" "server = ?r @ ''/server''"
      "ed = (if ?enc then Some (?r @ ''/server-encryption'') else None)" by blast+
  have "ends (demo_run L K OS argv pass (?r @ ''/ca'') (?r @ ''/server'') ed) t1 (EXIT_SUCCESS, lines) s'"
    using rest dirs names by simp
  then obtain keys ekey loaded ls t where t: "touches_only (demo_key_paths ?r) t1 t"
      and held: "stores_hold_keys K (files t) ?r pass keys"
        "\<forall>key. ekey = Some key \<longrightarrow> sm2_store_holds K (files t) (?r @ ''/server-encryption'') pass key"
      and ekey: "ekey = None \<longleftrightarrow> ed = None"
      and fin: "ends (demo_finish L OS argv keys ekey loaded ls) t (EXIT_SUCCESS, lines) s'"
    by (rule ends_demo_run) (use names in auto)
  from fin obtain root server enc u where issued: "outcome (demo_issue L keys ekey) (Some (root, server, enc))"
      "files u = files t" "ends (demo_write L OS argv root server enc) u True s'"
    by (rule ends_demo_finish)
  from keepsD[OF touches_demo_directories d] t issued(2) have "touches_only (demo_key_paths ?r) s u"
    by (auto simp: touches_only_def)
  with len p ekey names issued held show thesis
    by (intro that[of u keys ekey root server enc]) auto
qed

end
