(* ===== verification/Demo_Toy.thy ===== *)
theory Demo_Toy
  imports Demo_Facts
begin

text \<open>
  A run of the demo chain generator on the concrete libraries, in an empty file system: it creates
  the three key stores and writes six certificate files.
\<close>

lemma toy_cert_toy_with: "\<exists>e. toy_cert_lib = toy_with e"
  unfolding toy_cert_lib_def toy_x509_with_def by blast

section \<open>Generating\<close>

lemma toy_generate_sm2: "hybrid_sm2_generate_keypair (toy_with e) = give (Some toy_point)"
  by (simp add: hybrid_sm2_generate_keypair_def toy_with_def ensure_def attempt_def positive_def toy_point_def)

lemma toy_composite_generate:
  "composite_key_generate (toy_with e) (Some blank_private_key) (Some blank_public_key)
     = give (True, Some toy_private, Some toy_public)"
  by (simp add: composite_key_generate_def toy_generate_sm2 dilithium_generate_keypair_def
      toy_with_def[THEN arg_cong, of ref_keypair] toy_with_def[THEN arg_cong, of EVP_PKEY_up_ref]
      blank_private_key_def blank_public_key_def toy_private_def toy_public_def sizes ensure_def attempt_def)

section \<open>Writing\<close>

definition add_files :: "toy_cert \<Rightarrow> string \<Rightarrow> string \<Rightarrow> filesystem \<Rightarrow> filesystem" where
  "add_files c pp dp fs = fs(pp \<mapsto> Reg 438 [45, toy_code c], dp \<mapsto> Reg 438 [toy_code c])"

lemma toy_write_files:
  assumes "files s pp = None" and "files s dp = None" and "pp \<noteq> dp"
  shows "run_state (hybrid_x509_write_files toy_cert_lib toy_os (Some c) (Some pp) (Some dp)) s
    = (True, s\<lparr>files := add_files c pp dp (files s)\<rparr>)"
  using assms
  by (simp add: hybrid_x509_write_files_def fopen_write_def write_both_def stream_put_def add_files_def
      stream_close_def overlay_def resolve.simps toy_cert_lib_eval
      toy_os_def[THEN arg_cong, of os_transfer] fun_upd_twist)

section \<open>Issuing\<close>

definition toy_keys :: "bytes demo_keys" where
  "toy_keys = \<lparr>ca_private = Some toy_private, ca_public = Some toy_public,
     server_private = Some toy_private, server_public = Some toy_public\<rparr>"

lemma toy_match:
  "hybrid_x509_public_key_matches (toy_x509_with X) (Some Toy_Server) (Some toy_public) = give True"
  by (rule always_unit)
    (simp add: hybrid_x509_public_key_matches_def toy_composite_key toy_serialize_key)

lemma toy_sm2_match:
  "hybrid_x509_sm2_public_key_matches (toy_x509_with X) (Some Toy_Encryption) (Some toy_point) = give True"
  by (rule always_unit)
    (simp add: hybrid_x509_sm2_public_key_matches_def hybrid_x509_get_sm2_public_key_octets_def
       toy_serialize_point toy_x509_eval sizes)

lemma toy_issue:
  "demo_issue (toy_x509_with X) toy_keys (Some toy_point) = give (Some (Toy_Root, Toy_Server, Some Toy_Encryption))"
proof -
  obtain r where chain: "hybrid_verify_chain (toy_x509_with X) (Some Toy_Root) (Some Toy_Server) = give (True, r)"
    using toy_chain[of X] by (auto dest: always_unit)
  obtain r' where enc: "hybrid_verify_encryption_certificate (toy_x509_with X) (Some Toy_Encryption) (Some Toy_Root)
      = give (True, r')"
    by (rule toy_encryption_verified)
  show ?thesis
    by (simp add: demo_issue_def toy_keys_def toy_create_root toy_create_server toy_create_encryption
        HYBRID_DEFAULT_SERVER_NAME_def toy_match toy_sm2_match chain enc attempt_def ensure_def)
qed

section \<open>The run\<close>

definition toy_argv :: "string list" where
  "toy_argv = [''demo'', ''r.crt'', ''r.der'', ''s.crt'', ''s.der'', ''e.crt'', ''e.der'']"

text \<open>The file system after each step.\<close>

definition toy_after_keys :: filesystem where
  "toy_after_keys = add_store ''keys/server'' (add_store ''keys/ca'' [''keys'' \<mapsto> Dir 448])"

definition toy_after_encryption :: filesystem where
  "toy_after_encryption = toy_after_keys(''keys/server-encryption'' \<mapsto> Dir 448,
     key_path ''keys/server-encryption'' HYBRID_SM2_PRIVATE_KEY_FILE \<mapsto> Reg 384 toy_point)"

definition toy_after_demo :: filesystem where
  "toy_after_demo = add_files Toy_Encryption ''e.crt'' ''e.der'' (add_files Toy_Server ''s.crt'' ''s.der''
     (add_files Toy_Root ''r.crt'' ''r.der'' toy_after_encryption))"

lemmas toy_paths = key_path_def HYBRID_SM2_PRIVATE_KEY_FILE_def HYBRID_DILITHIUM_PRIVATE_KEY_FILE_def
  store_paths_def

lemma toy_directories:
  "run_state (demo_directories toy_cert_lib toy_os ''keys'' True) (toy_world Map.empty)
     = (Some (''keys/ca'', ''keys/server'', Some ''keys/server-encryption''), toy_world [''keys'' \<mapsto> Dir 448])"
  by (simp add: demo_directories_def ensure_key_root_def lstat_def mkdir_def key_subdirectory_def
      ensure_def attempt_def SIZE_MAX_def toy_cert_lib_def toy_x509_eval)

lemma toy_generate:
  "run_state (demo_generate_keys toy_cert_lib toy_store toy_os ''keys/ca'' ''keys/server'' toy_pass)
     (toy_world [''keys'' \<mapsto> Dir 448]) = (Some toy_keys, toy_world toy_after_keys)"
proof -
  obtain e where e: "toy_cert_lib = toy_with e"
    using toy_cert_toy_with ..
  let ?save = "\<lambda>d. hybrid_key_store_save toy_store toy_os (Some d) (Some toy_private) (Some toy_public) toy_pass"
  have ca: "run_state (?save ''keys/ca'') (toy_world [''keys'' \<mapsto> Dir 448])
      = (True, toy_world (add_store ''keys/ca'' [''keys'' \<mapsto> Dir 448]))"
    by (subst toy_save_in) (simp_all add: toy_paths)
  have "\<forall>p\<in>store_paths ''keys/server''. add_store ''keys/ca'' [''keys'' \<mapsto> Dir 448] p = None"
    by (simp add: add_store_def toy_paths)
  then have server: "run_state (?save ''keys/server'') (toy_world (add_store ''keys/ca'' [''keys'' \<mapsto> Dir 448]))
      = (True, toy_world toy_after_keys)"
    by (subst toy_save_in) (simp_all add: toy_after_keys_def)
  show ?thesis
    unfolding e demo_generate_keys_def
    by (simp add: toy_composite_generate ensure_def ca server toy_keys_def)
qed

lemma toy_found:
  "run_state (demo_hybrid_keys toy_cert_lib toy_store toy_os ''keys/ca'' ''keys/server'' toy_pass argv)
     (toy_world [''keys'' \<mapsto> Dir 448]) = (Inr (toy_keys, None,
       [''Generated and persisted fresh, non-reused CA and Server Hybrid keypairs'']), toy_world toy_after_keys)"
proof -
  have "run_state (hybrid_key_store_status toy_store toy_os (Some d)) (toy_world [''keys'' \<mapsto> Dir 448])
      = (HYBRID_KEY_STORE_MISSING, toy_world [''keys'' \<mapsto> Dir 448])"
    if "d \<in> {''keys/ca'', ''keys/server''}" for d
    using that by (subst toy_status_missing) (auto simp: toy_paths)
  then show ?thesis
    by (simp add: demo_hybrid_keys_def toy_generate)
qed

lemma toy_after_keys_fresh:
  "toy_after_keys ''keys/server-encryption'' = None"
  "toy_after_keys (key_path ''keys/server-encryption'' HYBRID_SM2_PRIVATE_KEY_FILE) = None"
  by (simp_all add: toy_after_keys_def add_store_def toy_paths)

lemma toy_encryption_found:
  "run_state (demo_encryption_key toy_cert_lib toy_store toy_os (Some ''keys/server-encryption'') toy_pass pem None)
     (toy_world toy_after_keys) = (Inr (toy_point, [''Generated and persisted a distinct TLCP SM2 encryption keypair'']),
       toy_world toy_after_encryption)"
proof -
  obtain e where e: "toy_cert_lib = toy_with e"
    using toy_cert_toy_with ..
  have st: "run_state (hybrid_sm2_key_store_status toy_store toy_os (Some ''keys/server-encryption'')) (toy_world toy_after_keys)
      = (HYBRID_KEY_STORE_MISSING, toy_world toy_after_keys)"
    by (simp add: hybrid_sm2_key_store_status_def access_def follow.simps toy_after_keys_fresh)
  have dir: "run_state (ensure_private_directory toy_os (Some ''keys/server-encryption'')) (toy_world toy_after_keys)
      = (True, toy_world (toy_after_keys(''keys/server-encryption'' \<mapsto> Dir 448)))"
    by (simp add: ensure_private_directory_def lstat_def mkdir_def toy_after_keys_fresh)
  have save: "run_state (hybrid_sm2_key_store_save toy_store toy_os (Some ''keys/server-encryption'') (Some toy_point) toy_pass)
      (toy_world toy_after_keys) = (True, toy_world toy_after_encryption)"
    by (simp add: hybrid_sm2_key_store_save_def both_def st dir toy_store_lib toy_save_sm2 toy_after_keys_fresh
        toy_after_encryption_def)
  show ?thesis
    unfolding e by (simp add: demo_encryption_key_def st toy_generate_sm2 both_def save)
qed

lemma toy_after_encryption_fresh:
  "toy_after_encryption ''r.crt'' = None" "toy_after_encryption ''r.der'' = None"
  "toy_after_encryption ''s.crt'' = None" "toy_after_encryption ''s.der'' = None"
  "toy_after_encryption ''e.crt'' = None" "toy_after_encryption ''e.der'' = None"
  by (simp_all add: toy_after_encryption_def toy_after_keys_def add_store_def toy_paths)

lemma toy_write:
  "run_state (demo_write toy_cert_lib toy_os toy_argv Toy_Root Toy_Server (Some Toy_Encryption))
     (toy_world toy_after_encryption) = (True, toy_world toy_after_demo)"
proof -
  have "run_state (hybrid_x509_write_files toy_cert_lib toy_os (Some Toy_Root) (Some ''r.crt'') (Some ''r.der''))
      (toy_world toy_after_encryption) = (True, toy_world (add_files Toy_Root ''r.crt'' ''r.der'' toy_after_encryption))"
    by (subst toy_write_files) (simp_all add: toy_after_encryption_fresh)
  moreover have "run_state (hybrid_x509_write_files toy_cert_lib toy_os (Some Toy_Server) (Some ''s.crt'') (Some ''s.der''))
      (toy_world (add_files Toy_Root ''r.crt'' ''r.der'' toy_after_encryption))
      = (True, toy_world (add_files Toy_Server ''s.crt'' ''s.der'' (add_files Toy_Root ''r.crt'' ''r.der'' toy_after_encryption)))"
    by (subst toy_write_files) (simp_all add: toy_after_encryption_fresh add_files_def)
  moreover have "run_state (hybrid_x509_write_files toy_cert_lib toy_os (Some Toy_Encryption) (Some ''e.crt'') (Some ''e.der''))
      (toy_world (add_files Toy_Server ''s.crt'' ''s.der'' (add_files Toy_Root ''r.crt'' ''r.der'' toy_after_encryption)))
      = (True, toy_world toy_after_demo)"
    by (subst toy_write_files) (simp_all add: toy_after_encryption_fresh add_files_def toy_after_demo_def)
  ultimately show ?thesis by (simp add: demo_write_def both_def toy_argv_def)
qed

lemma toy_demo_run:
  "\<exists>lines. ends (demo_chain_main toy_cert_lib toy_store toy_os toy_argv toy_pass) (toy_world Map.empty)
     (EXIT_SUCCESS, lines) (toy_world toy_after_demo)"
proof -
  have argv: "length toy_argv = 7" "toy_argv ! 5 = ''e.crt''" by (simp_all add: toy_argv_def)
  have issue: "demo_issue toy_cert_lib toy_keys (Some toy_point)
      = give (Some (Toy_Root, Toy_Server, Some Toy_Encryption))"
    unfolding toy_cert_lib_def by (rule toy_issue)
  have fin: "\<exists>lines. run_state (demo_finish toy_cert_lib toy_os toy_argv toy_keys (Some toy_point) loaded ls)
      (toy_world toy_after_encryption) = ((EXIT_SUCCESS, lines), toy_world toy_after_demo)" for loaded ls
    by (simp add: demo_finish_def issue toy_write)
  then obtain lines where fin: "run_state (demo_finish toy_cert_lib toy_os toy_argv toy_keys (Some toy_point) False
      [''Generated and persisted fresh, non-reused CA and Server Hybrid keypairs'',
       ''Generated and persisted a distinct TLCP SM2 encryption keypair'']) (toy_world toy_after_encryption)
      = ((EXIT_SUCCESS, lines), toy_world toy_after_demo)" by blast
  show ?thesis
    unfolding ends_def demo_chain_main_def Let_def argv
    by (rule exI[of _ lines])
      (simp add: argv toy_directories demo_run_def toy_found toy_encryption_found fin)
qed

end
