(* ===== verification/Chain_Steady.thy ===== *)
theory Chain_Steady
  imports Chain_Facts
begin

text \<open>
  When the library functions the chain verifier calls are functions of their arguments, so is the
  verifier: the state of the environment enters it only through the clock.
\<close>

text \<open>
  Decoding a certificate, hashing, importing a public key and checking a signature return the same
  whenever they are called: in particular no call fails at one time for want of memory and succeeds
  at another.
\<close>

definition decoding_steady :: "('w, 'k, 'x, 'n, 'o, 'p, 'e) x509_lib_scheme \<Rightarrow> bool" where
  "decoding_steady L \<longleftrightarrow>
     (\<forall>x. steady (ext_d2i_basic_constraints L x) \<and> steady (ext_d2i_key_usage L x) \<and>
        steady (ext_d2i_ext_key_usage L x) \<and> steady (ext_d2i_subject_alt_name L x) \<and>
        steady (ext_d2i_subject_key_identifier L x) \<and> steady (ext_d2i_authority_key_identifier L x) \<and>
        steady (i2d_re_X509_tbs L x)) \<and>
     (\<forall>oid. steady (OBJ_txt2obj L oid))"

definition checking_steady :: "('w, 'k, 'e) crypto_lib_scheme \<Rightarrow> bool" where
  "checking_steady L \<longleftrightarrow> der_law L \<and> (\<forall>n. steady (OPENSSL_malloc L n)) \<and> (\<forall>m. steady (EVP_Digest L ''SM3'' m)) \<and>
     steady (EVP_PKEY_CTX_new_from_name L ''SM2'') \<and> steady (EVP_PKEY_fromdata_init L) \<and>
     (\<forall>p. steady (EVP_PKEY_fromdata L ''SM2'' p)) \<and>
     (\<forall>k. steady (EVP_PKEY_CTX_new_from_pkey L k) \<and> steady (EVP_PKEY_public_check L k)) \<and>
     steady (EVP_MD_CTX_new L) \<and> (\<forall>k. steady (EVP_DigestVerifyInit_ex L ''SM3'' k)) \<and>
     steady (EVP_PKEY_CTX_set1_id L SM2_DEFAULT_USER_ID) \<and>
     (\<forall>k s m. steady (EVP_DigestVerify L ''SM3'' k SM2_DEFAULT_USER_ID s m))"

text \<open>The clock gives the same answer about both ends of the certificate's validity.\<close>

definition validity_steady :: "('w, 'k, 'x, 'n, 'o, 'p, 'e) x509_lib_scheme \<Rightarrow> 'x \<Rightarrow> bool" where
  "validity_steady L x \<longleftrightarrow> steady (X509_cmp_current_time L (X509_get0_notBefore L x)) \<and>
     steady (X509_cmp_current_time L (X509_get0_notAfter L x))"

section \<open>Checking a signature\<close>

lemma checking_calls [steady_intros]:
  assumes "checking_steady L"
  shows "steady (d2i_ECDSA_SIG L d)" "steady (i2d_ECDSA_SIG L sig)" "steady (OPENSSL_malloc L n)"
    "steady (EVP_Digest L ''SM3'' m)" "steady (EVP_PKEY_CTX_new_from_name L ''SM2'')"
    "steady (EVP_PKEY_fromdata_init L)" "steady (EVP_PKEY_fromdata L ''SM2'' p)"
    "steady (EVP_PKEY_CTX_new_from_pkey L k)" "steady (EVP_PKEY_public_check L k)"
    "steady (EVP_MD_CTX_new L)" "steady (EVP_DigestVerifyInit_ex L ''SM3'' k)"
    "steady (EVP_PKEY_CTX_set1_id L SM2_DEFAULT_USER_ID)"
    "steady (EVP_DigestVerify L ''SM3'' k SM2_DEFAULT_USER_ID s m)"
  using assms by (simp_all add: checking_steady_def der_law_def)

lemma steady_sm2_signature_der_is_valid [steady_intros]:
  "checking_steady L \<Longrightarrow> steady (sm2_signature_der_is_valid L d)"
  unfolding sm2_signature_der_is_valid_def by (intro steady_intros)

lemma steady_composite_build_message [steady_intros]:
  "checking_steady L \<Longrightarrow> steady (composite_build_message L m c outs)"
  unfolding composite_build_message_def Let_def by (intro steady_intros)

lemma steady_composite_parse_signature [steady_intros]:
  "checking_steady L \<Longrightarrow> steady (composite_parse_signature L s outs)"
  unfolding composite_parse_signature_def Let_def by (intro steady_intros)

lemma steady_hybrid_sm2_verify [steady_intros]:
  "checking_steady L \<Longrightarrow> steady (hybrid_sm2_verify L pk m s)"
  unfolding hybrid_sm2_verify_def by (intro steady_intros)

lemma steady_composite_verify_detailed [steady_intros]:
  "checking_steady L \<Longrightarrow> steady (composite_verify_detailed L pk m c s)"
  unfolding composite_verify_detailed_def Let_def by (intro steady_intros)

lemma steady_composite_parse_public_key [steady_intros]:
  "checking_steady L \<Longrightarrow> steady (composite_parse_public_key L b k)"
  unfolding composite_parse_public_key_def parse_sm2_public_key_def by (intro steady_intros)

section \<open>Checking a certificate\<close>

lemma decoding_calls [steady_intros]:
  assumes "decoding_steady L"
  shows "steady (ext_d2i_basic_constraints L x)" "steady (ext_d2i_key_usage L x)"
    "steady (ext_d2i_ext_key_usage L x)" "steady (ext_d2i_subject_alt_name L x)"
    "steady (ext_d2i_subject_key_identifier L x)" "steady (ext_d2i_authority_key_identifier L x)"
    "steady (i2d_re_X509_tbs L x)" "steady (OBJ_txt2obj L oid)"
  using assms by (simp_all add: decoding_steady_def)

lemma steady_certificate_time_valid [steady_intros]:
  "validity_steady L x \<Longrightarrow> steady (certificate_time_valid L (Some x))"
  unfolding certificate_time_valid_def validity_steady_def option.case by (intro steady_intros) simp_all

lemma steady_checks [steady_intros]:
  assumes "decoding_steady L"
  shows "steady (certificate_constraints_valid L x ca)" "steady (server_eku_valid L x)"
    "steady (server_san_valid L x)" "steady (subject_key_identifier_present L x)"
    "steady (server_key_identifiers_valid L x ix)" "steady (hybrid_x509_has_pqc_extension L c)"
    "steady (hybrid_x509_get_tbs_der L c outs)"
  unfolding certificate_constraints_valid_def server_eku_valid_def server_san_valid_def Let_def
    subject_key_identifier_present_def server_key_identifiers_valid_def hybrid_x509_has_pqc_extension_def
    hybrid_x509_get_tbs_der_def
  by (intro steady_intros assms)+

lemma steady_get_composite_public_key [steady_intros]:
  "checking_steady L \<Longrightarrow> steady (hybrid_x509_get_composite_public_key L c k)"
  unfolding hybrid_x509_get_composite_public_key_def by (intro steady_intros)

lemma steady_verify_certificate_signature [steady_intros]:
  "decoding_steady L \<Longrightarrow> checking_steady L \<Longrightarrow> steady (verify_certificate_signature L c k r)"
  unfolding verify_certificate_signature_def Let_def by (intro steady_intros)

lemma steady_verify_root [steady_intros]:
  "decoding_steady L \<Longrightarrow> checking_steady L \<Longrightarrow> validity_steady L x \<Longrightarrow>
     steady (hybrid_verify_root_self_signature L (Some x))"
  unfolding hybrid_verify_root_self_signature_def Let_def option.case by (intro steady_intros)

lemma steady_verify_certificate [steady_intros]:
  "decoding_steady L \<Longrightarrow> checking_steady L \<Longrightarrow> validity_steady L x \<Longrightarrow>
     steady (hybrid_verify_certificate L (Some x) (Some ix))"
  unfolding hybrid_verify_certificate_def Let_def option.case prod.case by (intro steady_intros)

lemma steady_verify_chain:
  "decoding_steady L \<Longrightarrow> checking_steady L \<Longrightarrow> validity_steady L root \<Longrightarrow> validity_steady L server \<Longrightarrow>
     steady (hybrid_verify_chain L (Some root) (Some server))"
  unfolding hybrid_verify_chain_def Let_def by (intro steady_intros)

lemma unit_steady_laws:
  "decoding_steady (L :: (unit, 'k, 'x, 'n, 'o, 'p, 'e) x509_lib_scheme)"
  "checking_steady (L :: (unit, 'k, 'x, 'n, 'o, 'p, 'e) x509_lib_scheme)"
  "validity_steady (L :: (unit, 'k, 'x, 'n, 'o, 'p, 'e) x509_lib_scheme) x"
  by (simp_all add: decoding_steady_def checking_steady_def validity_steady_def der_law_def steady_unit)

end
