(* ===== verification/Demo_Theorems.thy ===== *)
theory Demo_Theorems
  imports Demo_Toy Mlkem_Theorems Chain_Steady
begin

text \<open>
  The properties of the tools: what success of the chain generator means for the certificates and
  the files, that the verification tool then accepts them, and what the tools report.
\<close>

section \<open>The files\<close>

definition demo_outputs :: "string list \<Rightarrow> string list" where
  "demo_outputs argv = take (if length argv \<in> {7, 8} then 6 else 4) (tl argv)"

text \<open>
  The output paths can be written: they are different, lead to regular files or nothing, are not
  among the paths of the keys, and their files can be closed.
\<close>

definition demo_writable :: "('w, 's) os_lib_scheme \<Rightarrow> filesystem \<Rightarrow> string list \<Rightarrow> bool" where
  "demo_writable OS fs argv \<longleftrightarrow> distinct (demo_outputs argv) \<and>
     (\<forall>p\<in>set (demo_outputs argv). plain_place fs p \<and> p \<notin> demo_key_paths (demo_key_root argv) \<and>
        \<not> faulted OS Fclose p)"

lemma demo_outputs_simps:
  "length argv \<in> {5, 6} \<Longrightarrow> demo_outputs argv = [argv ! 1, argv ! 2, argv ! 3, argv ! 4]"
  "length argv \<in> {7, 8} \<Longrightarrow>
     demo_outputs argv = [argv ! 1, argv ! 2, argv ! 3, argv ! 4, argv ! 5, argv ! 6]"
  by (auto simp: demo_outputs_def length_Suc_conv numeral_eq_Suc)

lemma holds_encodings_frame:
  "holds_encodings L fs c pp dp \<Longrightarrow> fs' pp = fs pp \<Longrightarrow> fs' dp = fs dp \<Longrightarrow> holds_encodings L fs' c pp dp"
  by (simp add: holds_encodings_def)

definition demo_files ::
  "('w, 'k, 'x, 'n, 'o, 'p, 'e) cert_lib_scheme \<Rightarrow> filesystem \<Rightarrow> string list \<Rightarrow> 'x \<Rightarrow> 'x \<Rightarrow> 'x option \<Rightarrow> bool" where
  "demo_files L fs argv root server encryption \<longleftrightarrow>
     holds_encodings L fs root (argv ! 1) (argv ! 2) \<and> holds_encodings L fs server (argv ! 3) (argv ! 4) \<and>
     (\<forall>e. encryption = Some e \<longrightarrow> holds_encodings L fs e (argv ! 5) (argv ! 6))"

lemma touches_mono: "touches_only P s s' \<Longrightarrow> P \<subseteq> Q \<Longrightarrow> touches_only Q s s'"
  by (auto simp: touches_only_def)

lemma ends_demo_write:
  assumes "ends (demo_write L OS argv root server enc) t True s'" and w: "demo_writable OS fs argv"
    and len: "length argv \<in> {5, 6, 7, 8}" "enc = None \<longleftrightarrow> length argv \<in> {5, 6}"
    and "touches_only (demo_key_paths (demo_key_root argv)) s t" and "fs = files s"
  shows "demo_files L (files s') argv root server enc \<and> touches_only (set (demo_outputs argv)) t s'"
proof -
  have plain: "plain_place (files t) p" if "p \<in> set (demo_outputs argv)" for p
    using w that assms(5,6) by (auto simp: demo_writable_def plain_place_def touches_only_def)
  have d: "distinct (demo_outputs argv)" and closed: "\<forall>p\<in>set (demo_outputs argv). \<not> faulted OS Fclose p"
    using w by (auto simp: demo_writable_def)
  have sub: "set [argv ! 1, argv ! 2, argv ! 3, argv ! 4] \<subseteq> set (demo_outputs argv)"
      "distinct [argv ! 1, argv ! 2, argv ! 3, argv ! 4]"
    using len(1) d by (auto simp: demo_outputs_simps)
  have same: "plain_place (files v) p" if "touches_only Q u v" "p \<notin> Q" "plain_place (files u) p" for Q u v p
    using that by (simp add: touches_only_def plain_place_def)
  from assms(1) obtain a b where
      wr: "ends (hybrid_x509_write_files L OS (Some root) (Some (argv ! 1)) (Some (argv ! 2))) t True a"
      and ws: "ends (hybrid_x509_write_files L OS (Some server) (Some (argv ! 3)) (Some (argv ! 4))) a True b"
      and we: "ends (case enc of None \<Rightarrow> give True
          | Some e \<Rightarrow> hybrid_x509_write_files L OS (Some e) (Some (argv ! 5)) (Some (argv ! 6))) b True s'"
    unfolding demo_write_def by (auto elim!: ends_bothE)
  have r: "holds_encodings L (files a) root (argv ! 1) (argv ! 2) \<and> touches_only {argv ! 1, argv ! 2} t a"
    by (rule ends_write_files_closed[OF wr]) (use sub plain closed in auto)
  have s: "holds_encodings L (files b) server (argv ! 3) (argv ! 4) \<and> touches_only {argv ! 3, argv ! 4} a b"
    by (rule ends_write_files_closed[OF ws])
      (use sub closed in \<open>auto intro!: same[OF conjunct2[OF r]] plain\<close>)
  have rb: "holds_encodings L (files b) root (argv ! 1) (argv ! 2)"
    using conjunct1[OF r] by (rule holds_encodings_frame) (use s sub in \<open>auto simp: touches_only_def\<close>)
  let ?W = "set (demo_outputs argv)"
  have "touches_only ?W t a" "touches_only ?W a b"
    using touches_mono[OF conjunct2[OF r]] touches_mono[OF conjunct2[OF s]] sub(1) by simp_all
  then have tb: "touches_only ?W t b" by (rule touches.R_trans)
  show ?thesis
  proof (cases enc)
    case None
    with we s rb tb show ?thesis by (simp add: demo_files_def)
  next
    case (Some e)
    then have out: "demo_outputs argv = [argv ! 1, argv ! 2, argv ! 3, argv ! 4, argv ! 5, argv ! 6]"
      using len by (intro demo_outputs_simps) auto
    have "holds_encodings L (files s') e (argv ! 5) (argv ! 6) \<and> touches_only {argv ! 5, argv ! 6} b s'"
    proof (rule ends_write_files_closed)
      show "ends (hybrid_x509_write_files L OS (Some e) (Some (argv ! 5)) (Some (argv ! 6))) b True s'"
        using we Some by simp
    qed (use out d closed in \<open>auto intro!: same[OF conjunct2[OF s]] same[OF conjunct2[OF r]] plain\<close>)
    moreover from this s rb out d have "holds_encodings L (files s') server (argv ! 3) (argv ! 4)"
        "holds_encodings L (files s') root (argv ! 1) (argv ! 2)"
      by (auto simp: touches_only_def intro: holds_encodings_frame)
    moreover from calculation(1) out have "touches_only ?W b s'" by (auto intro: touches_mono)
    ultimately show ?thesis
      using Some touches.R_trans[OF tb] by (auto simp: demo_files_def)
  qed
qed

section \<open>Generating a chain\<close>

text \<open>
  C31: When the chain generator ends with \<open>EXIT_SUCCESS\<close>, the passphrase had at least 12 characters
  and the files then found are consistent: the stores \<open>ca\<close> and \<open>server\<close> below the key root, private
  directories with private files, hold two self-tested composite pairs, the root certificate is
  built for the CA's public key and signed with the CA's private key, the server certificate carries
  exactly the server's public key and is signed with the CA's private key, both are what the
  verifier's specification accepts, and the output files hold exactly their PEM and DER encodings.
  With seven or eight arguments the same holds of an encryption certificate that carries exactly the
  SM2 key of the store \<open>server-encryption\<close>.
\<close>

theorem demo_success_sound:
  assumes "ends (demo_chain_main L K OS argv passphrase) s (EXIT_SUCCESS, lines) s'"
    and "sm2_import_law L" and "demo_writable OS (files s) argv" and "r = demo_key_root argv"
  shows "(\<exists>p. passphrase = Some p \<and> 12 \<le> length p) \<and>
    (\<exists>keys encryption_key root server encryption.
       stores_hold_keys K (files s') r passphrase keys \<and>
       (\<forall>key. encryption_key = Some key \<longrightarrow>
          sm2_store_holds K (files s') (r @ ''/server-encryption'') passphrase key) \<and>
       demo_chain_ok L keys encryption_key root server encryption \<and>
       (encryption \<noteq> None \<longleftrightarrow> length argv \<in> {7, 8}) \<and> demo_files L (files s') argv root server encryption)"
proof -
  from assms(1) obtain t keys ekey root server enc where run: "length argv \<in> {5, 6, 7, 8}"
      "\<exists>p. passphrase = Some p \<and> 12 \<le> length p" "touches_only (demo_key_paths (demo_key_root argv)) s t"
      "stores_hold_keys K (files t) (demo_key_root argv) passphrase keys"
      "\<forall>key. ekey = Some key \<longrightarrow>
         sm2_store_holds K (files t) (demo_key_root argv @ ''/server-encryption'') passphrase key"
      "outcome (demo_issue L keys ekey) (Some (root, server, enc))"
      "ekey = None \<longleftrightarrow> length argv \<in> {5, 6}" "ends (demo_write L OS argv root server enc) t True s'"
    by (rule ends_demo_chain_main)
  from outcome_demo_issue[OF run(6) assms(2)] have ok: "demo_chain_ok L keys ekey root server enc" .
  then have "enc = None \<longleftrightarrow> ekey = None" by (auto simp: demo_chain_ok_def split: option.splits)
  with run(7) have enc: "enc = None \<longleftrightarrow> length argv \<in> {5, 6}" by simp
  from ends_demo_write[OF run(8) assms(3) run(1) enc run(3) refl]
  have files: "demo_files L (files s') argv root server enc" and wrote: "touches_only (set (demo_outputs argv)) t s'"
    by simp_all
  have "set (demo_outputs argv) \<inter> demo_key_paths r = {}"
    using assms(3,4) by (auto simp: demo_writable_def)
  then have same: "files s' p = files t p" if "p \<in> demo_key_paths r" for p
    using wrote that untouched by blast
  from run(4) have "stores_hold_keys K (files s') r passphrase keys"
    unfolding assms(4)[symmetric]
    by (rule stores_hold_keys_frame) (auto intro!: same simp: demo_key_paths_def)
  moreover from run(5) have "\<forall>key. ekey = Some key \<longrightarrow>
      sm2_store_holds K (files s') (r @ ''/server-encryption'') passphrase key"
    unfolding assms(4)[symmetric]
    by (auto elim!: sm2_store_holds_frame intro!: same simp: demo_key_paths_def)
  ultimately show ?thesis
    using run(1,2) ok enc files by (intro conjI exI[of _ keys] exI[of _ ekey] exI[of _ root]
        exI[of _ server] exI[of _ enc]) auto
qed

lemma toy_writable: "demo_writable toy_os Map.empty toy_argv"
  by (simp add: demo_writable_def demo_outputs_def toy_argv_def plain_place_def demo_key_root_def
      demo_key_paths_def toy_paths)

lemma toy_cert_import: "sm2_import_law toy_cert_lib"
  unfolding toy_cert_lib_def toy_x509_with_def by (rule toy_sm2_import_law)

theorem demo_success_sound_witness:
  "(\<exists>p. toy_pass = Some p \<and> 12 \<le> length p) \<and>
    (\<exists>keys encryption_key root server encryption.
       stores_hold_keys toy_store (files (toy_world toy_after_demo)) ''keys'' toy_pass keys \<and>
       (\<forall>key. encryption_key = Some key \<longrightarrow>
          sm2_store_holds toy_store (files (toy_world toy_after_demo)) (''keys'' @ ''/server-encryption'') toy_pass key) \<and>
       demo_chain_ok toy_cert_lib keys encryption_key root server encryption \<and>
       (encryption \<noteq> None \<longleftrightarrow> length toy_argv \<in> {7, 8}) \<and>
       demo_files toy_cert_lib (files (toy_world toy_after_demo)) toy_argv root server encryption)"
proof -
  obtain lines where run: "ends (demo_chain_main toy_cert_lib toy_store toy_os toy_argv toy_pass)
      (toy_world Map.empty) (EXIT_SUCCESS, lines) (toy_world toy_after_demo)"
    using toy_demo_run ..
  have root: "''keys'' = demo_key_root toy_argv" by (simp add: demo_key_root_def toy_argv_def)
  show ?thesis by (rule demo_success_sound[OF run toy_cert_import _ root]) (simp add: toy_writable)
qed

section \<open>Verifying what was generated\<close>

text \<open>The last line of the report.\<close>

lemma last_verify_chain_lines:
  "last (verify_chain_lines rs ss result) = ''  '' @ (if chain_valid result then ''VALID'' else ''INVALID'')"
  by (simp add: verify_chain_lines_def)

text \<open>
  C32: What the generator wrote, the verification tool accepts: after a successful run of the
  generator, running the verification tool on the root and the server file exits with
  \<open>EXIT_SUCCESS\<close> and prints that the chain is valid. Assumed is that OpenSSL reads the PEM files it
  wrote, that its decoding, hashing, key import and signature checks are functions of their
  arguments, and that no certificate in the two files becomes valid or expires in the time
  considered.
\<close>

theorem demo_chain_verifies:
  assumes "ends (demo_chain_main L K OS argv passphrase) s (EXIT_SUCCESS, lines) s'"
    and "sm2_import_law L" and "demo_writable OS (files s) argv"
    and "pem_readable L OS (argv ! 1)" and "pem_readable L OS (argv ! 3)"
    and "decoding_steady L" and "checking_steady L"
    and validity: "\<forall>c. holds_encodings L (files s') c (argv ! 1) (argv ! 2) \<or>
      holds_encodings L (files s') c (argv ! 3) (argv ! 4) \<longrightarrow> validity_steady L c"
  shows "case run (verify_chain_main L OS [program, argv ! 1, argv ! 3]) s' of (code, out) \<Rightarrow>
    code = EXIT_SUCCESS \<and> last out = ''  VALID''"
proof -
  from assms(1) obtain t keys ekey root server enc where gen: "length argv \<in> {5, 6, 7, 8}"
      "touches_only (demo_key_paths (demo_key_root argv)) s t"
      "outcome (demo_issue L keys ekey) (Some (root, server, enc))"
      "ekey = None \<longleftrightarrow> length argv \<in> {5, 6}" "ends (demo_write L OS argv root server enc) t True s'"
    by (rule ends_demo_chain_main)
  from outcome_demo_issue[OF gen(3) assms(2)] gen(4) have enc: "enc = None \<longleftrightarrow> length argv \<in> {5, 6}"
    by (auto simp: demo_chain_ok_def split: option.splits)
  from ends_demo_write[OF gen(5) assms(3) gen(1) enc gen(2) refl]
  have held: "holds_encodings L (files s') root (argv ! 1) (argv ! 2)"
      "holds_encodings L (files s') server (argv ! 3) (argv ! 4)" by (simp_all add: demo_files_def)
  from outcome_demo_issue_verified[OF gen(3)] obtain rep where
    accepted: "outcome (hybrid_verify_chain L (Some root) (Some server)) (True, rep)" ..
  have "steady (hybrid_verify_chain L (Some root) (Some server))"
    by (rule steady_verify_chain[OF assms(6,7)]) (use held validity in blast)+
  note lasts = steady_outcome[OF this accepted]
  obtain code out u where run: "ends (verify_chain_main L OS [program, argv ! 1, argv ! 3]) s' (code, out) u"
    using ends_total[of "verify_chain_main L OS [program, argv ! 1, argv ! 3]" s'] by auto
  then obtain r x v w where read: "ends (hybrid_x509_read_pem L OS (Some (argv ! 1))) s' r v"
      "ends (hybrid_x509_read_pem L OS (Some (argv ! 3))) v x w"
      and rest: "ends (case (r, x) of
          (Some a, Some b) \<Rightarrow> do {
            root_subject \<leftarrow> lift (X509_NAME_oneline L (X509_get_subject_name L a));
            server_subject \<leftarrow> lift (X509_NAME_oneline L (X509_get_subject_name L b));
            (_, result) \<leftarrow> lift (hybrid_verify_chain L r x);
            give (if chain_valid result then EXIT_SUCCESS else EXIT_FAILURE,
                  verify_chain_lines root_subject server_subject result) }
        | _ \<Rightarrow> give (EXIT_FAILURE, [''Unable to read certificate chain''])) w (code, out) u"
    unfolding verify_chain_main_def by (auto simp: ends_bind)
  from ends_read_encoding[OF read(1) assms(4) held(1)] have r: "r = Some root" "files v = files s'" by auto
  from ends_read_encoding[OF read(2) assms(5)] held(2) r(2) have x: "x = Some server" by auto
  from rest r x obtain rs ss ok result where
      verify: "outcome (hybrid_verify_chain L (Some root) (Some server)) (ok, result)"
      and out: "code = (if chain_valid result then EXIT_SUCCESS else EXIT_FAILURE)"
        "out = verify_chain_lines rs ss result"
    by (auto simp: ends_bind dest!: ends_liftD)
  from lasts verify have "(ok, result) = (True, rep)" by (rule always_outcome)
  with outcome_hybrid_verify_chain(1)[OF verify] have "chain_valid result" by auto
  with out run show ?thesis by (simp add: ends_run last_verify_chain_lines)
qed

theorem demo_chain_verifies_witness:
  "case run (verify_chain_main toy_cert_lib toy_os [''verify'', toy_argv ! 1, toy_argv ! 3]) (toy_world toy_after_demo) of
    (code, out) \<Rightarrow> code = EXIT_SUCCESS \<and> last out = ''  VALID''"
proof -
  obtain lines where run: "ends (demo_chain_main toy_cert_lib toy_store toy_os toy_argv toy_pass)
      (toy_world Map.empty) (EXIT_SUCCESS, lines) (toy_world toy_after_demo)"
    using toy_demo_run ..
  show ?thesis
    by (intro demo_chain_verifies[OF run toy_cert_import] unit_steady_laws toy_pem_readable)
      (simp_all add: toy_writable unit_steady_laws)
qed

text \<open>
  The verification tool is sound: it exits with \<open>EXIT_SUCCESS\<close> only for two arguments whose
  files it could read as certificates that the verifier's specification accepts as a root and a
  server certificate under that root's key, and it changes no file.
\<close>

theorem verify_tool_sound:
  assumes "ends (verify_chain_main L OS argv) s (EXIT_SUCCESS, out) s'"
  shows "length argv = 3 \<and> files s' = files s \<and>
    (\<exists>root server k k'. root_accepted L root k' \<and> server_accepted L server root k \<and>
       dilithium_public_key k = dilithium_public_key k' \<and>
       outcome (hybrid_x509_read_pem L OS (Some (argv ! 1))) (Some root) \<and>
       outcome (hybrid_x509_read_pem L OS (Some (argv ! 2))) (Some server))"
proof -
  from assms have len: "length argv = 3" by (auto simp: verify_chain_main_def split: if_splits)
  from assms len obtain r x v w where read: "ends (hybrid_x509_read_pem L OS (Some (argv ! 1))) s r v"
      "ends (hybrid_x509_read_pem L OS (Some (argv ! 2))) v x w"
      and rest: "ends (case (r, x) of
          (Some a, Some b) \<Rightarrow> do {
            root_subject \<leftarrow> lift (X509_NAME_oneline L (X509_get_subject_name L a));
            server_subject \<leftarrow> lift (X509_NAME_oneline L (X509_get_subject_name L b));
            (_, result) \<leftarrow> lift (hybrid_verify_chain L r x);
            give (if chain_valid result then EXIT_SUCCESS else EXIT_FAILURE,
                  verify_chain_lines root_subject server_subject result) }
        | _ \<Rightarrow> give (EXIT_FAILURE, [''Unable to read certificate chain''])) w (EXIT_SUCCESS, out) s'"
    unfolding verify_chain_main_def by (auto simp: ends_bind)
  from rest obtain a b ok rep where ab: "r = Some a" "x = Some b"
      and verify: "outcome (hybrid_verify_chain L r x) (ok, rep)" "chain_valid rep" "files s' = files w"
    by (cases r; cases x) (auto simp: ends_bind dest!: ends_liftD split: if_splits)
  from outcome_hybrid_verify_chain(1)[OF verify(1)] verify(1,2) ab
  have "outcome (hybrid_verify_chain L (Some a) (Some b)) (True, rep)" by simp
  then have "\<exists>k k'. root_accepted L a k' \<and> server_accepted L b a k \<and>
      dilithium_public_key k = dilithium_public_key k'"
    by (elim outcome_hybrid_verify_chain_True) auto
  moreover from keepsD[OF touches_read_pem[where P = "{}"] read(1)] keepsD[OF touches_read_pem[where P = "{}"] read(2)] verify(3)
  have "touches_only {} s s'" by (simp add: touches_only_def)
  then have "files s' = files s" by (auto simp: touches_only_def)
  ultimately show ?thesis
    using len ends_outcome[OF read(1)] ends_outcome[OF read(2)] ab by auto
qed

section \<open>The ML-KEM demonstration\<close>

text \<open>
  The ML-KEM demonstration reports a decapsulation and a matching secret exactly when
  encapsulation passed, so it exits with \<open>EXIT_SUCCESS\<close> exactly then, when liboqs is a correct KEM
  whose checked object is always available.
\<close>

theorem mlkem_demo_never_mismatches:
  assumes "length ct = MLKEM768_CIPHERTEXT_BYTES" and "kem_law Q" and "kem_ready Q"
  shows "case run (mlkem_demo_steps Q ct) w of (keygen_ok, encaps_ok, decaps_ok, match_ok) \<Rightarrow>
    (encaps_ok \<longrightarrow> keygen_ok) \<and> decaps_ok = encaps_ok \<and> match_ok = encaps_ok \<and>
    fst (run (mlkem_demo_main Q ct) w) = (if encaps_ok then EXIT_SUCCESS else EXIT_FAILURE)"
proof (cases "run (mlkem_demo_steps Q ct) w")
  case (fields k e d m)
  let ?zero = "replicate MLKEM768_SHARED_SECRET_BYTES (0 :: byte)"
  from run_outcome[OF fields] obtain client ct' n ss cs where
      gen: "k \<longrightarrow> outcome (mlkem768_keygen Q (Some \<lparr>encapsulation_key = Null 0, decapsulation_key = Null 0\<rparr>)) (True, client)"
      and enc: "if k then outcome (mlkem768_encaps Q (encapsulation_key (the client)) (Buf ct) (Some 0) (Some ?zero)) (e, ct', n, ss)
         else \<not> e"
      and dec: "if e then outcome (mlkem768_decaps Q (decapsulation_key (the client))
               (Buf (take (the n) (buf_bytes ct'))) (Some ?zero)) (d, cs) else \<not> d"
      and m: "m \<longleftrightarrow> d \<and> take MLKEM768_SHARED_SECRET_BYTES (the ss) = take MLKEM768_SHARED_SECRET_BYTES (the cs)"
    unfolding mlkem_demo_steps_def Let_def
    by (auto elim!: outcome_bind split: if_splits prod.splits)
  have "e \<longrightarrow> k \<and> d \<and> m"
  proof
    assume e
    with enc have k by (auto split: if_splits)
    with gen have "outcome (mlkem768_keygen Q (Some \<lparr>encapsulation_key = Null 0, decapsulation_key = Null 0\<rparr>)) (True, client)" ..
    then obtain kem ek dk where
        client: "client = Some \<lparr>encapsulation_key = Buf ek, decapsulation_key = Buf dk\<rparr>"
        and kem: "mlkem768_fips203 Q kem" "outcome (OQS_KEM_keypair Q kem) (OQS_SUCCESS Q, ek, dk)"
      by (rule outcome_mlkem768_keygen) auto
    from enc \<open>k\<close> \<open>e\<close> client obtain kem' c s where kem': "mlkem768_fips203 Q kem'"
        and encs: "outcome (OQS_KEM_encaps Q kem' ek) (OQS_SUCCESS Q, c, s)"
        and out: "ct' = Buf (overwrite ct c)" "n = Some MLKEM768_CIPHERTEXT_BYTES"
          "ss = Some (overwrite (cleanse MLKEM768_SHARED_SECRET_BYTES ?zero) s)"
      by (auto elim!: outcome_mlkem768_encaps_True)
    note law = assms(2)[unfolded kem_law_def, rule_format, OF kem(1) kem' _ kem(2) encs]
    from law[OF kem(1)] have len: "length dk = MLKEM768_DECAPSULATION_KEY_BYTES"
        "length c = MLKEM768_CIPHERTEXT_BYTES" "length s = MLKEM768_SHARED_SECRET_BYTES" by simp_all
    with assms(1) out have "Buf (take (the n) (buf_bytes ct')) = Buf c" by (simp add: overwrite_def)
    moreover have "always (mlkem768_decaps Q (Buf dk) (Buf c) (Some ?zero))
        (True, Some (overwrite (cleanse MLKEM768_SHARED_SECRET_BYTES ?zero) s))"
      using law by (intro always_mlkem768_decaps[OF assms(3) len(1,2)]) simp
    ultimately have "d \<and> cs = Some (overwrite (cleanse MLKEM768_SHARED_SECRET_BYTES ?zero) s)"
      using dec \<open>e\<close> client by (auto dest: always_outcome)
    with m out(3) \<open>k\<close> show "k \<and> d \<and> m" by simp
  qed
  moreover from dec m have "\<not> e \<longrightarrow> \<not> d \<and> \<not> m" by auto
  moreover have "fst (run (mlkem_demo_main Q ct) w) = (if k \<and> e \<and> d \<and> m then EXIT_SUCCESS else EXIT_FAILURE)"
    using fields by (cases "run_state (mlkem_demo_steps Q ct) w")
      (auto simp: mlkem_demo_main_def run_def Let_def split: prod.splits)
  ultimately show ?thesis unfolding fields by auto
qed

theorem mlkem_demo_never_mismatches_witness:
  "case run (mlkem_demo_steps toy_oqs (replicate 1088 0)) () of (keygen_ok, encaps_ok, decaps_ok, match_ok) \<Rightarrow>
    (encaps_ok \<longrightarrow> keygen_ok) \<and> decaps_ok = encaps_ok \<and> match_ok = encaps_ok \<and>
    fst (run (mlkem_demo_main toy_oqs (replicate 1088 0)) ()) = (if encaps_ok then EXIT_SUCCESS else EXIT_FAILURE)"
  by (rule mlkem_demo_never_mismatches) (simp_all add: mlkem_sizes)

end
