(* ===== verification/C_Float.thy ===== *)
theory C_Float
  imports C_Stdlib Complex_Main
begin

text \<open>
  Floating-point numbers as the benchmark uses them: every operation is the exact one on the
  rationals, rounded by the format's rounding function. The formats of \<open>double\<close> and \<open>long double\<close>
  are implementation-defined, so the two rounding functions are parameters, as is what \<open>printf\<close>
  prints for a NaN. Values stay far from overflow, so an infinity only comes from a division by zero.
\<close>

record float_format =
  round_double :: "rat \<Rightarrow> rat"
  round_long :: "rat \<Rightarrow> rat"
  nan_text :: string

datatype c_double = Finite rat | Infinite bool | NaN

definition double_div :: "'e float_format_scheme \<Rightarrow> rat \<Rightarrow> rat \<Rightarrow> c_double" where
  "double_div F a b =
     (if b = 0 then (if a = 0 then NaN else Infinite (a < 0)) else Finite (round_double F (a / b)))"

definition double_sub :: "'e float_format_scheme \<Rightarrow> rat \<Rightarrow> rat \<Rightarrow> rat" where
  "double_sub F a b = round_double F (a - b)"

section \<open>Printing\<close>

text \<open>\<open>%.pf\<close>: the exact value to \<open>p\<close> decimals, halves to even.\<close>

definition round_scaled :: "nat \<Rightarrow> rat \<Rightarrow> nat" where
  "round_scaled p x =
     (let q = \<bar>x\<bar> * 10 ^ p; n = nat \<lfloor>q\<rfloor>; r = q - of_nat n
      in if r < 1 / 2 then n else if r > 1 / 2 then n + 1 else if even n then n else n + 1)"

definition pad_left :: "char \<Rightarrow> nat \<Rightarrow> string \<Rightarrow> string" where
  "pad_left c w s = replicate (w - length s) c @ s"

definition pad_right :: "nat \<Rightarrow> string \<Rightarrow> string" where
  "pad_right w s = s @ replicate (w - length s) CHR '' ''"

definition fixed :: "nat \<Rightarrow> rat \<Rightarrow> string" where
  "fixed p x =
     (let n = round_scaled p x
      in (if x < 0 then ''-'' else '''') @ decimal (n div 10 ^ p) @
         (if p = 0 then '''' else ''.'' @ pad_left CHR ''0'' p (decimal (n mod 10 ^ p))))"

definition format_double :: "'e float_format_scheme \<Rightarrow> nat \<Rightarrow> c_double \<Rightarrow> string" where
  "format_double F p x =
     (case x of Finite r \<Rightarrow> fixed p r
      | Infinite negative \<Rightarrow> (if negative then ''-inf'' else ''inf'')
      | NaN \<Rightarrow> nan_text F)"

section \<open>What the properties assume of the formats\<close>

text \<open>
  Rounding is monotone, and \<open>long double\<close> has a 64-bit mantissa, so that it holds every
  \<open>uint64_t\<close> exactly.
\<close>

definition float_law :: "'e float_format_scheme \<Rightarrow> bool" where
  "float_law F \<longleftrightarrow> mono (round_double F) \<and> mono (round_long F) \<and>
     (\<forall>n :: nat. n < 2 ^ 64 \<longrightarrow> round_long F (of_nat n) = of_nat n)"

lemma float_lawD:
  assumes "float_law F"
  shows "x \<le> y \<Longrightarrow> round_double F x \<le> round_double F y" and "x \<le> y \<Longrightarrow> round_long F x \<le> round_long F y"
    and "n < 2 ^ 64 \<Longrightarrow> round_long F (of_nat n) = of_nat n"
  using assms by (auto simp: float_law_def mono_def)

text \<open>Exact arithmetic satisfies it.\<close>

definition exact_format :: float_format where
  "exact_format = \<lparr>round_double = (\<lambda>x. x), round_long = (\<lambda>x. x), nan_text = ''nan''\<rparr>"

lemma exact_float_law [simp]: "float_law exact_format"
  by (simp add: float_law_def exact_format_def mono_def)

end
