(* ===== verification/Benchmark_Stats.thy ===== *)
theory Benchmark_Stats
  imports C_Float "HOL-Library.Multiset"
begin

text \<open>
  The arithmetic of \<open>tools/benchmark_composite_verify.c\<close>: counts on the command line, the clock, and
  the order statistics, with 64-bit words where the C code has \<open>uint64_t\<close> and \<open>size_t\<close>. \<open>qsort\<close> is the C
  library's: any sorting procedure; its specification is the locale \<open>comparator\<close>.
\<close>

type_synonym uint64 = "64 word"

definition BENCHMARK_MESSAGE_BYTES :: nat where "BENCHMARK_MESSAGE_BYTES = 1024"
definition DEFAULT_WARMUP_ITERATIONS :: nat where "DEFAULT_WARMUP_ITERATIONS = 1000"
definition DEFAULT_TIMED_ITERATIONS :: nat where "DEFAULT_TIMED_ITERATIONS = 10000"
definition COMPOSITE_REQUIREMENT_MS :: rat where "COMPOSITE_REQUIREMENT_MS = 50"

definition UINT64_MAX :: uint64 where "UINT64_MAX = 18446744073709551615"

section \<open>Counts\<close>

text \<open>\<open>uintmax_t\<close> and \<open>size_t\<close> have the same range; a null \<open>text\<close> is None.\<close>

definition parse_count :: "string option \<Rightarrow> nat option" where
  "parse_count text =
     (case text of
        None \<Rightarrow> None
      | Some t \<Rightarrow>
          if t = [] \<or> hd t = CHR ''-'' then None
          else case strtoul SIZE_MAX t of (parsed, end_pointer, error) \<Rightarrow>
            if error \<or> end_pointer = t \<or> end_pointer \<noteq> [] \<or> parsed > SIZE_MAX then None
            else Some parsed)"

section \<open>The clock\<close>

text \<open>The result of \<open>clock_gettime\<close>, None when it fails: seconds and nanoseconds.\<close>

definition now_ns :: "(int \<times> int) option \<Rightarrow> uint64" where
  "now_ns timestamp =
     (case timestamp of
        None \<Rightarrow> UINT64_MAX
      | Some (sec, nsec) \<Rightarrow>
          if sec < 0 \<or> nsec < 0 then UINT64_MAX
          else word_of_int sec * 1000000000 + word_of_int nsec)"

section \<open>Order statistics\<close>

definition compare_u64 :: "uint64 \<Rightarrow> uint64 \<Rightarrow> int" where
  "compare_u64 a b = of_bool (a > b) - of_bool (a < b)"

fun insert_by :: "('a \<Rightarrow> 'a \<Rightarrow> int) \<Rightarrow> 'a \<Rightarrow> 'a list \<Rightarrow> 'a list" where
  "insert_by cmp x [] = [x]"
| "insert_by cmp x (y # ys) = (if cmp x y \<le> 0 then x # y # ys else y # insert_by cmp x ys)"

definition qsort :: "('a \<Rightarrow> 'a \<Rightarrow> int) \<Rightarrow> 'a list \<Rightarrow> 'a list" where
  "qsort cmp xs = foldr (insert_by cmp) xs []"

definition nearest_rank :: "uint64 list \<Rightarrow> uint64 \<Rightarrow> uint64 \<Rightarrow> uint64 \<Rightarrow> uint64" where
  "nearest_rank ordered n numerator denominator =
     (let rank = n div denominator * numerator;
          rank = (if n mod denominator \<noteq> 0
                  then rank + (n mod denominator * numerator + denominator - 1) div denominator
                  else rank);
          rank = (if rank = 0 then 1 else rank)
      in ordered ! unat (rank - 1))"

text \<open>The median of the sorted samples.\<close>

definition median_ns :: "uint64 list \<Rightarrow> nat \<Rightarrow> uint64" where
  "median_ns samples iterations =
     (if iterations mod 2 \<noteq> 0 then samples ! (iterations div 2)
      else samples ! (iterations div 2 - 1) div 2 + samples ! (iterations div 2) div 2 +
           ((samples ! (iterations div 2 - 1) AND 1) + (samples ! (iterations div 2) AND 1)) div 2)"

definition ns_to_ms :: "'e float_format_scheme \<Rightarrow> rat \<Rightarrow> rat" where
  "ns_to_ms F nanoseconds = round_double F (round_long F (nanoseconds / 1000000))"

text \<open>\<open>uint64_t\<close> to \<open>long double\<close>.\<close>

definition long_of_u64 :: "'e float_format_scheme \<Rightarrow> uint64 \<Rightarrow> rat" where
  "long_of_u64 F n = round_long F (of_nat (unat n))"

section \<open>Sorting by a comparison function\<close>

text \<open>What \<open>qsort\<close> asks of its comparison function.\<close>

locale comparator =
  fixes cmp :: "'a \<Rightarrow> 'a \<Rightarrow> int"
  assumes total: "cmp x y \<le> 0 \<or> cmp y x \<le> 0"
    and trans: "cmp x y \<le> 0 \<Longrightarrow> cmp y z \<le> 0 \<Longrightarrow> cmp x z \<le> 0"
begin

lemma mset_insert_by: "mset (insert_by cmp x ys) = add_mset x (mset ys)"
  by (induction ys) auto

lemma sorted_insert_by:
  "sorted_wrt (\<lambda>x y. cmp x y \<le> 0) ys \<Longrightarrow> sorted_wrt (\<lambda>x y. cmp x y \<le> 0) (insert_by cmp x ys)"
proof (induction ys)
  case (Cons y ys)
  have "set (insert_by cmp x ys) = insert x (set ys)"
    using mset_insert_by[of x ys] by (metis set_mset_add_mset_insert set_mset_mset)
  with Cons total[of x y] show ?case by (auto intro: trans)
qed simp

lemma mset_qsort: "mset (qsort cmp xs) = mset xs"
  by (induction xs) (simp_all add: qsort_def mset_insert_by)

lemma sorted_qsort: "sorted_wrt (\<lambda>x y. cmp x y \<le> 0) (qsort cmp xs)"
  by (induction xs) (simp_all add: qsort_def sorted_insert_by)

lemma length_qsort: "length (qsort cmp xs) = length xs"
  using mset_qsort[of xs] by (metis size_mset)

end

lemma compare_u64_le: "compare_u64 a b \<le> 0 \<longleftrightarrow> a \<le> b"
  by (auto simp: compare_u64_def)

interpretation u64: comparator compare_u64
  by unfold_locales (auto simp: compare_u64_le)

lemma qsort_u64: "qsort compare_u64 xs = sort xs"
proof (rule properties_for_sort[symmetric])
  show "mset (qsort compare_u64 xs) = mset xs" by (rule u64.mset_qsort)
  show "sorted (qsort compare_u64 xs)"
    using u64.sorted_qsort[of xs] by (simp add: compare_u64_le)
qed

section \<open>The statistics are the exact ones\<close>

text \<open>The median never overflows: it is the rounded-down mean of the two middle samples.\<close>

lemma halves_exact: "unat ((a :: uint64) div 2 + b div 2 + ((a AND 1) + (b AND 1)) div 2) = (unat a + unat b) div 2"
proof -
  let ?x = "unat a" and ?y = "unat b"
  have mod: "unat (a AND 1) = ?x mod 2" "unat (b AND 1) = ?y mod 2"
    by (simp_all add: and_one_eq unat_mod)
  have lt: "?x < 2 ^ 64" "?y < 2 ^ 64" using unsigned_less[of a] unsigned_less[of b] by simp_all
  have s: "unat ((a AND 1) + (b AND 1)) = ?x mod 2 + ?y mod 2"
    by (subst unat_add_lem[THEN iffD1]) (simp_all add: mod)
  have "unat (a div 2 + b div 2) = ?x div 2 + ?y div 2"
    by (subst unat_add_lem[THEN iffD1]) (use lt in \<open>simp_all add: unat_div\<close>)
  moreover have "unat (((a AND 1) + (b AND 1)) div 2) = (?x mod 2 + ?y mod 2) div 2"
    by (simp add: unat_div s)
  moreover have "?x div 2 + ?y div 2 + (?x mod 2 + ?y mod 2) div 2 = (?x + ?y) div 2" by presburger
  moreover have "(?x + ?y) div 2 < 2 ^ 64" using lt by (simp add: div_less_iff_less_mult)
  ultimately show ?thesis
    by (subst unat_add_lem[THEN iffD1]) simp_all
qed

lemma unat_plus: "unat a + unat b < 2 ^ 64 \<Longrightarrow> unat (a + b :: uint64) = unat a + unat b"
  by (simp add: unat_add_lem[THEN iffD1])

lemma unat_times: "unat a * unat b < 2 ^ 64 \<Longrightarrow> unat (a * b :: uint64) = unat a * unat b"
  by (simp add: unat_mult_lem[THEN iffD1])

text \<open>
  The rank is the least whole number that is at least \<open>n * numerator / denominator\<close>, but one at
  least, and stays in range; no intermediate result wraps around for percentiles.
\<close>

definition rank_of :: "nat \<Rightarrow> nat \<Rightarrow> nat \<Rightarrow> nat" where
  "rank_of n numerator denominator = max 1 ((n * numerator + denominator - 1) div denominator)"

lemma div_whole: "0 < (d :: nat) \<Longrightarrow> (a + c * d) div d = c + a div d"
  by simp

lemma ceiling_split:
  "0 < (d :: nat) \<Longrightarrow> (n * p + d - 1) div d = n div d * p + (if n mod d = 0 then 0 else (n mod d * p + d - 1) div d)"
proof -
  assume d: "0 < d"
  have "n * p = d * (n div d * p) + n mod d * p"
    by (metis add_mult_distrib mult.assoc mult_div_mod_eq)
  then have "n * p + (d - 1) = n mod d * p + (d - 1) + n div d * p * d" by (simp add: ac_simps)
  then have "(n * p + (d - 1)) div d = n div d * p + (n mod d * p + (d - 1)) div d"
    by (simp only: div_whole[OF d])
  moreover have "n * p + (d - 1) = n * p + d - 1" "n mod d * p + (d - 1) = n mod d * p + d - 1"
    using d by simp_all
  ultimately have "(n * p + d - 1) div d = n div d * p + (n mod d * p + d - 1) div d" by simp
  then show ?thesis using d by simp
qed

lemma nearest_rank_exact:
  assumes "0 < n" and "n < 2 ^ 62" and "p \<le> d" and "0 < d" and "d < 2 ^ 30"
  shows "nearest_rank xs (of_nat n) (of_nat p) (of_nat d) = xs ! (rank_of n p d - 1)"
    and "1 \<le> rank_of n p d" and "rank_of n p d \<le> n"
proof -
  let ?q = "n div d" and ?r = "n mod d" and ?up = "(n mod d * p + d - 1) div d"
  let ?n = "of_nat n :: uint64" and ?p = "of_nat p :: uint64" and ?d = "of_nat d :: uint64"
  have u: "unat ?n = n" "unat ?p = p" "unat ?d = d"
    using assms by (simp_all add: unat_of_nat)
  have "?q * p \<le> ?q * d" using assms(3) by (rule mult_le_mono2)
  then have qp: "?q * p \<le> n" using div_mult_mod_eq[of n d] by linarith
  have "?r * p \<le> d * d" using assms(3,4) by (intro mult_le_mono) (simp_all add: less_imp_le)
  also have "\<dots> < 2 ^ 30 * 2 ^ 30" using assms(5) by (intro mult_strict_mono) simp_all
  finally have rp: "?r * p < 2 ^ 60" by simp
  have up: "?up \<le> ?r" if "?r \<noteq> 0"
  proof -
    have "?r * p \<le> ?r * d" using assms(3) by (rule mult_le_mono2)
    then have "?r * p + d - 1 \<le> (d - 1) + ?r * d" by linarith
    then have "?up \<le> ((d - 1) + ?r * d) div d" by (rule div_le_mono)
    also have "\<dots> = ?r" by (simp only: div_whole[OF assms(4)]) (use assms(4) in simp)
    finally show ?thesis .
  qed
  have ceil: "(n * p + d - 1) div d = ?q * p + (if ?r = 0 then 0 else ?up)" by (rule ceiling_split[OF assms(4)])
  have "?q * p \<le> ?q * d" using assms(3) by (rule mult_le_mono2)
  then have le: "(n * p + d - 1) div d \<le> n"
  proof (cases "?r = 0")
    case True
    with ceil qp show ?thesis by simp
  next
    case False
    have "?q * p + ?up \<le> ?q * d + ?r" using \<open>?q * p \<le> ?q * d\<close> up[OF False] by (rule add_mono)
    with ceil False div_mult_mod_eq[of n d] show ?thesis by simp
  qed
  show "1 \<le> rank_of n p d" "rank_of n p d \<le> n" using le assms(1) by (simp_all add: rank_of_def)
  have w1: "unat (?n div ?d * ?p) = ?q * p"
    by (subst unat_times) (use qp assms(2) in \<open>simp_all add: unat_div u\<close>)
  have wr: "unat (?n mod ?d) = ?r" by (simp add: unat_mod u)
  have w2: "unat (?n mod ?d * ?p) = ?r * p"
    by (subst unat_times) (use rp in \<open>simp_all add: wr u\<close>)
  have w3: "unat (?n mod ?d * ?p + ?d) = ?r * p + d"
    by (subst unat_plus) (use rp assms(5) in \<open>simp_all add: w2 u\<close>)
  have "(1 :: uint64) \<le> ?n mod ?d * ?p + ?d" using assms(4) w3 by (simp add: word_le_nat_alt)
  then have w4: "unat ((?n mod ?d * ?p + ?d - 1) div ?d) = ?up"
    by (simp add: unat_div unat_sub w3 u)
  have w5: "unat (?n div ?d * ?p + (?n mod ?d * ?p + ?d - 1) div ?d) = ?q * p + ?up" if "?r \<noteq> 0"
    by (subst unat_plus) (use le[unfolded ceil] that assms(2) in \<open>simp_all add: w1 w4\<close>)
  have z: "?n mod ?d = 0 \<longleftrightarrow> ?r = 0" using wr by (metis unat_eq_zero)
  define rank where "rank = (if ?n mod ?d \<noteq> 0 then ?n div ?d * ?p + (?n mod ?d * ?p + ?d - 1) div ?d else ?n div ?d * ?p)"
  have rank: "unat rank = (n * p + d - 1) div d"
    unfolding rank_def ceil using z w1 w5 by simp
  have "unat ((if rank = 0 then 1 else rank) - 1) = rank_of n p d - 1"
  proof (cases "rank = 0")
    case True
    with rank show ?thesis by (simp add: rank_of_def)
  next
    case False
    then have "1 \<le> rank" by (simp add: word_le_nat_alt unat_gt_0 Suc_leI)
    with False rank show ?thesis by (simp add: unat_sub rank_of_def unat_gt_0)
  qed
  then show "nearest_rank xs (of_nat n) (of_nat p) (of_nat d) = xs ! (rank_of n p d - 1)"
    unfolding nearest_rank_def Let_def rank_def by simp
qed

end
