(* ===== verification/Benchmark.thy ===== *)
theory Benchmark
  imports Benchmark_Stats Composite_Sig C_Streams
begin

text \<open>
  \<open>tools/benchmark_composite_verify.c\<close>: it times the four verification functions and writes a report.
  The clock, the compiler's predefined macros and the system's name are parameters; the arithmetic
  is in \<open>Benchmark_Stats\<close>. \<open>verify_sink\<close> is left out: it is written and never read.
\<close>

record utsname =
  sysname :: string
  release :: string
  machine :: string

record ('w, 'k) bench_lib = "('w, 'k) crypto_lib" +
  clock_gettime :: "('w, (int \<times> int) option) prog" \<comment> \<open>seconds and nanoseconds\<close>
  EVP_PKEY_CTX_set_group_name :: "string \<Rightarrow> ('w, int) prog"
  EVP_PKEY_generate_in_group :: "string \<Rightarrow> string \<Rightarrow> ('w, int \<times> 'k option) prog"
    \<comment> \<open>\<open>EVP_PKEY_generate\<close> after a group was set: algorithm and group\<close>
  ERR_print_errors_fp :: "('w, string list) prog"
  OpenSSL_version :: string
  uname :: "('w, utsname option) prog"
  strerror :: "errno \<Rightarrow> string"
  clang_version :: "string option" \<comment> \<open>\<open>__clang_version__\<close>, when \<open>__clang__\<close> is defined\<close>
  gnuc_version :: "string option" \<comment> \<open>\<open>__VERSION__\<close>, when \<open>__GNUC__\<close> is defined\<close>
  HYBRID_BENCH_BUILD_TYPE :: string

text \<open>The result of one benchmark; \<open>sample_count\<close> is the field \<open>count\<close>.\<close>

record benchmark_result =
  bench_algorithm :: string
  sample_count :: nat
  mean_ms :: rat
  median_ms :: rat
  p95_ms :: rat
  p99_ms :: rat
  min_ms :: rat
  max_ms :: rat

definition usage :: "string \<Rightarrow> string" where
  "usage program = ''usage: '' @ program @ '' [--warmup N] [--iterations N] [--csv PATH]''"

section \<open>One benchmark\<close>

text \<open>The warm-up loop from iteration \<open>i\<close>, \<open>n\<close> to go: the line printed when a verification fails.\<close>

primrec warm_up :: "string \<Rightarrow> ('w, bool) prog \<Rightarrow> nat \<Rightarrow> nat \<Rightarrow> ('w, string option) prog" where
  "warm_up name verify i 0 = give None"
| "warm_up name verify i (Suc n) = do {
     verified \<leftarrow> verify;
     if \<not> verified
     then give (Some (''FAIL: '' @ name @ '' warm-up verification '' @ decimal (i + 1) @ '' failed''))
     else warm_up name verify (i + 1) n }"

text \<open>The timed loop, with the samples so far and their sum: a line printed, or all of them.\<close>

primrec timed ::
  "('w, 'k, 'e) bench_lib_scheme \<Rightarrow> 'f float_format_scheme \<Rightarrow> string \<Rightarrow> ('w, bool) prog \<Rightarrow>
   nat \<Rightarrow> uint64 list \<Rightarrow> rat \<Rightarrow> nat \<Rightarrow> ('w, string + uint64 list \<times> rat) prog" where
  "timed L F name verify i samples total_ns 0 = give (Inr (samples, total_ns))"
| "timed L F name verify i samples total_ns (Suc n) = do {
     started \<leftarrow> clock_gettime L;
     verified \<leftarrow> verify;
     stopped \<leftarrow> clock_gettime L;
     let start = now_ns started;
     let stop = now_ns stopped;
     if start = UINT64_MAX \<or> stop = UINT64_MAX \<or> stop < start
     then give (Inl (''FAIL: monotonic clock failed for '' @ name))
     else if \<not> verified
     then give (Inl (''FAIL: '' @ name @ '' timed verification '' @ decimal (i + 1) @ '' failed''))
     else timed L F name verify (i + 1) (samples @ [stop - start])
            (round_long F (total_ns + long_of_u64 F (stop - start))) n }"

text \<open>The summary of the samples in the order taken.\<close>

definition summarise ::
  "'f float_format_scheme \<Rightarrow> string \<Rightarrow> nat \<Rightarrow> uint64 list \<Rightarrow> rat \<Rightarrow> benchmark_result" where
  "summarise F name iterations unsorted total_ns =
     (let samples = qsort compare_u64 unsorted
      in \<lparr>bench_algorithm = name, sample_count = iterations,
          mean_ms = ns_to_ms F (round_long F (total_ns / round_long F (of_nat iterations))),
          median_ms = ns_to_ms F (long_of_u64 F (median_ns samples iterations)),
          p95_ms = ns_to_ms F (long_of_u64 F (nearest_rank samples (of_nat iterations) 95 100)),
          p99_ms = ns_to_ms F (long_of_u64 F (nearest_rank samples (of_nat iterations) 99 100)),
          min_ms = ns_to_ms F (long_of_u64 F (samples ! 0)),
          max_ms = ns_to_ms F (long_of_u64 F (samples ! (iterations - 1)))\<rparr>)"

text \<open>The lines printed and the result; the pointers are never null.\<close>

definition run_benchmark ::
  "('w, 'k, 'e) bench_lib_scheme \<Rightarrow> 'f float_format_scheme \<Rightarrow> string \<Rightarrow> ('w, bool) prog \<Rightarrow> nat \<Rightarrow> nat \<Rightarrow>
   ('w, string list + benchmark_result) prog" where
  "run_benchmark L F name verify warmup_iterations iterations =
     (if iterations = 0 \<or> iterations > SIZE_MAX div 8 then give (Inl [])
      else do {
        allocated \<leftarrow> libc_malloc L (iterations * 8);
        if \<not> allocated then give (Inl [''FAIL: unable to allocate samples for '' @ name])
        else do {
          warm \<leftarrow> warm_up name verify 0 warmup_iterations;
          case warm of
            Some line \<Rightarrow> give (Inl [line])
          | None \<Rightarrow> do {
              measured \<leftarrow> timed L F name verify 0 [] 0 iterations;
              give (case measured of
                  Inl line \<Rightarrow> Inl [line]
                | Inr (samples, total_ns) \<Rightarrow> Inr (summarise F name iterations samples total_ns)) } } })"

section \<open>What is timed\<close>

definition generate_ecdsa_p256_key :: "('w, 'k, 'e) bench_lib_scheme \<Rightarrow> ('w, 'k option) prog" where
  "generate_ecdsa_p256_key L =
     ensure (EVP_PKEY_CTX_new_from_name L ''EC'')
       (ensure (positive (EVP_PKEY_keygen_init L ''EC''))
         (ensure (positive (EVP_PKEY_CTX_set_group_name L ''prime256v1'')) (do {
            (ret, key) \<leftarrow> EVP_PKEY_generate_in_group L ''EC'' ''prime256v1'';
            if ret \<le> 0 then fail else give key })))"

text \<open>The output pointers and the message are never null; ECDSA has no user id.\<close>

definition ecdsa_p256_sha256_sign ::
  "('w, 'k, 'e) bench_lib_scheme \<Rightarrow> 'k option \<Rightarrow> bytes \<Rightarrow> ('w, bytes option) prog" where
  "ecdsa_p256_sha256_sign L key message =
     (case key of
        None \<Rightarrow> fail
      | Some k \<Rightarrow>
          ensure (EVP_MD_CTX_new L)
            (ensure (positive (EVP_DigestSignInit_ex L ''SHA256'' k)) (do {
               (ret, room) \<leftarrow> EVP_DigestSign_length L ''SHA256'' k [] message;
               if ret \<le> 0 then fail
               else ensure (OPENSSL_malloc L room) (do {
                 (ret, output) \<leftarrow> EVP_DigestSign L ''SHA256'' k [] room message;
                 if ret \<le> 0 then fail else done_with output }) })))"

definition ecdsa_p256_sha256_verify ::
  "('w, 'k, 'e) bench_lib_scheme \<Rightarrow> 'k \<Rightarrow> bytes \<Rightarrow> bytes \<Rightarrow> ('w, bool) prog" where
  "ecdsa_p256_sha256_verify L key message signature =
     both (EVP_MD_CTX_new L)
       (both (positive (EVP_DigestVerifyInit_ex L ''SHA256'' key)) (do {
          ret \<leftarrow> EVP_DigestVerify L ''SHA256'' key [] signature message;
          give (ret = 1) }))"

definition sm2_verify ::
  "('w, 'k, 'e) bench_lib_scheme \<Rightarrow> 'k option \<Rightarrow> bytes \<Rightarrow> bytes \<Rightarrow> ('w, bool) prog" where
  "sm2_verify L key message signature = hybrid_sm2_verify L key (Buf message) (Buf signature)"

definition dilithium2_verify ::
  "('w, 'k, 'e) bench_lib_scheme \<Rightarrow> bytes \<Rightarrow> bytes \<Rightarrow> bytes \<Rightarrow> ('w, bool) prog" where
  "dilithium2_verify L public_key message signature =
     give (dilithium_verify L (Buf public_key) (Buf message) (Buf signature))"

definition composite_signature_verify ::
  "('w, 'k, 'e) bench_lib_scheme \<Rightarrow> 'k hybrid_public_key \<Rightarrow> bytes \<Rightarrow> bytes \<Rightarrow> ('w, bool) prog" where
  "composite_signature_verify L public_key message signature =
     composite_verify L (Some public_key) (Buf message) (Null 0) (Buf signature)"

section \<open>The platform\<close>

definition compiler_name :: "('w, 'k, 'e) bench_lib_scheme \<Rightarrow> string" where
  "compiler_name L =
     (case clang_version L of
        Some v \<Rightarrow> ''Clang '' @ v
      | None \<Rightarrow> (case gnuc_version L of Some v \<Rightarrow> ''GCC '' @ v | None \<Rightarrow> ''unknown''))"

text \<open>\<open>fgets\<close> with a buffer of \<open>n + 1\<close> characters: the line, cut after \<open>n\<close>, and the rest of the stream.\<close>

fun fgets :: "nat \<Rightarrow> string \<Rightarrow> string \<times> string" where
  "fgets n [] = ([], [])"
| "fgets 0 s = ([], s)"
| "fgets (Suc n) (c # cs) =
     (if c = CHR 0x0A then ([c], cs) else case fgets n cs of (line, rest) \<Rightarrow> (c # line, rest))"

lemma fgets_append: "fst (fgets n s) @ snd (fgets n s) = s"
  by (induction n s rule: fgets.induct) (auto split: prod.splits)

lemma fgets_shorter: "s \<noteq> [] \<Longrightarrow> length (snd (fgets (Suc n) s)) < length s"
proof (cases s)
  case (Cons c cs)
  have "length (fst (fgets n cs) @ snd (fgets n cs)) = length cs" by (simp only: fgets_append)
  then have "length (snd (fgets n cs)) \<le> length cs" by simp
  with Cons show ?thesis by (auto split: prod.splits)
qed simp

lemma fgets_below: "stream \<noteq> [] \<Longrightarrow> (line, rest) = fgets 511 stream \<Longrightarrow> length rest < length stream"
  using fgets_shorter[of stream 510] by (cases "fgets 511 stream") simp

text \<open>A buffer as the string functions see it: up to its first zero.\<close>

definition c_string :: "string \<Rightarrow> string" where
  "c_string buffer = takeWhile (\<lambda>c. c \<noteq> CHR 0x00) buffer"

text \<open>The value of the first \<open>model name\<close> line with a colon.\<close>

function find_cpu_model :: "string \<Rightarrow> string option" where
  "find_cpu_model stream =
     (if stream = [] then None
      else case fgets 511 stream of (line, rest) \<Rightarrow>
        (let text = c_string line; colon = dropWhile (\<lambda>c. c \<noteq> CHR '':'') text
         in if take 10 text \<noteq> ''model name'' then find_cpu_model rest
            else if colon = [] then find_cpu_model rest
            else Some (takeWhile (\<lambda>c. c \<noteq> CHR 0x0D \<and> c \<noteq> CHR 0x0A)
                        (dropWhile (\<lambda>c. c = CHR '' '' \<or> c = CHR 0x09) (tl colon)))))"
  by pat_completeness auto
termination
  by (relation "measure length") (simp_all add: fgets_below)

declare find_cpu_model.simps [simp del]

text \<open>The text left in an array of \<open>output_size\<close> characters.\<close>

definition read_cpu_model :: "('w, 's) os_lib_scheme \<Rightarrow> nat \<Rightarrow> ('w, string) io" where
  "read_cpu_model OS output_size = do {
     let default = take (output_size - 1) ''unavailable (record with lscpu)'';
     opened \<leftarrow> fopen_read OS ''/proc/cpuinfo'';
     case opened of
       Inl e \<Rightarrow> give default
     | Inr file \<Rightarrow> do {
         fs \<leftarrow> get_files;
         let contents = (case fs file of None \<Rightarrow> [] | Some node \<Rightarrow> node_data node);
         delivered \<leftarrow> lift (os_transfer OS Fopen (length contents));
         _ \<leftarrow> plain_call OS Fclose file;
         give (case find_cpu_model (map (\<lambda>b. char_of (unat b)) (take delivered contents)) of
                 None \<Rightarrow> default
               | Some value \<Rightarrow> take (output_size - 1) value) } }"

end
