(* ===== verification/Benchmark_Report.thy ===== *)
theory Benchmark_Report
  imports Benchmark
begin

text \<open>
  The rest of \<open>tools/benchmark_composite_verify.c\<close>: the printed table, the CSV and Markdown files and
  \<open>main\<close>. A list of results stands for the array; the code always passes four.
\<close>

definition mean_ratio :: "'f float_format_scheme \<Rightarrow> benchmark_result \<Rightarrow> rat \<Rightarrow> c_double" where
  "mean_ratio F r baseline = double_div F (mean_ms r) baseline"

definition requirement_met :: "benchmark_result list \<Rightarrow> bool" where
  "requirement_met results \<longleftrightarrow> mean_ms (results ! 3) < COMPOSITE_REQUIREMENT_MS"

section \<open>The table\<close>

definition result_line :: "benchmark_result \<Rightarrow> string" where
  "result_line r =
     pad_right 30 (bench_algorithm r) @ '' '' @ pad_left CHR '' '' 10 (decimal (sample_count r)) @
     concat (map (\<lambda>x. '' '' @ pad_left CHR '' '' 8 (fixed 3 x) @ '' ms'')
       [mean_ms r, median_ms r, p95_ms r, p99_ms r, min_ms r, max_ms r])"

definition print_results ::
  "('w, 'k, 'e) bench_lib_scheme \<Rightarrow> 'f float_format_scheme \<Rightarrow> benchmark_result list \<Rightarrow> nat \<Rightarrow> string \<Rightarrow>
   utsname \<Rightarrow> string list" where
  "print_results L F results warmup_iterations cpu system =
     (let baseline = mean_ms (results ! 0);
          ratio = mean_ratio F (results ! 3) baseline;
          overhead = double_sub F (mean_ms (results ! 3)) (mean_ms (results ! 0));
          framework_overhead = double_sub F (double_sub F (mean_ms (results ! 3)) (mean_ms (results ! 1)))
                                 (mean_ms (results ! 2))
      in [replicate 60 CHR ''='', ''Composite Signature Verification Benchmark'', replicate 60 CHR ''='',
          ''Platform:'',
          ''  CPU: '' @ cpu,
          ''  OS: '' @ sysname system @ '' '' @ release system,
          ''  Architecture: '' @ machine system,
          ''  Compiler: '' @ compiler_name L,
          ''  Build: '' @ HYBRID_BENCH_BUILD_TYPE L,
          ''  OpenSSL: '' @ OpenSSL_version L,
          ''  Dilithium parameter set: '' @ dilithium_algorithm_name @ '' (DILITHIUM_MODE=2)'',
          ''  Message: '' @ decimal BENCHMARK_MESSAGE_BYTES @ '' bytes'',
          ''  Warm-up iterations: '' @ decimal warmup_iterations,
          ''  Timed iterations: '' @ decimal (sample_count (results ! 0)), '''',
          pad_right 30 ''Algorithm'' @
            concat (map (\<lambda>h. '' '' @ pad_left CHR '' '' 10 h) [''Count'', ''Mean'', ''P50'', ''P95'', ''P99'', ''Min'', ''Max'']),
          replicate 106 CHR ''-''] @
         map result_line results @
         ['''', ''Composite / P-256: '' @ format_double F 2 ratio @ ''x'',
          ''Composite - P-256 overhead: '' @ fixed 3 overhead @ '' ms'',
          ''Approximate Composite framework overhead: '' @ fixed 3 framework_overhead @ '' ms'',
          ''  (Composite - SM2 - Dilithium2; approximate comparison only)'',
          '''', ''Requirement:'', ''  Composite verify mean < '' @ fixed 3 COMPOSITE_REQUIREMENT_MS @ '' ms'',
          '''', ''Result:'', ''  '' @ (if requirement_met results then ''PASS'' else ''FAIL''),
          replicate 60 CHR ''=''])"

section \<open>The CSV file\<close>

definition newline :: string where "newline = [CHR 0x0A]"

definition csv_line :: "'f float_format_scheme \<Rightarrow> rat \<Rightarrow> benchmark_result \<Rightarrow> string" where
  "csv_line F baseline r =
     bench_algorithm r @ '','' @ decimal (sample_count r) @
     concat (map (\<lambda>x. '','' @ fixed 9 x) [mean_ms r, median_ms r, p95_ms r, p99_ms r, min_ms r, max_ms r]) @
     '','' @ format_double F 9 (mean_ratio F r baseline) @ newline"

text \<open>Several \<open>fprintf\<close> calls, up to the first that fails.\<close>

primrec print_all ::
  "('w, 's) os_lib_scheme \<Rightarrow> string \<Rightarrow> nat \<times> bytes \<Rightarrow> string list \<Rightarrow> ('w, bool \<times> nat \<times> bytes) io" where
  "print_all OS path stream [] = give (True, stream)"
| "print_all OS path stream (t # ts) = do {
     (ok, stream) \<leftarrow> stream_printf OS path stream t;
     if ok then print_all OS path stream ts else give (False, stream) }"

text \<open>The line printed when it fails, if any, and the result.\<close>

definition write_csv ::
  "('w, 'k, 'e) bench_lib_scheme \<Rightarrow> 'f float_format_scheme \<Rightarrow> ('w, 's) os_lib_scheme \<Rightarrow> string \<Rightarrow>
   benchmark_result list \<Rightarrow> ('w, string list \<times> bool) io" where
  "write_csv L F OS path results = do {
     let baseline = mean_ms (results ! 0);
     opened \<leftarrow> fopen_write OS path;
     case opened of
       Inl e \<Rightarrow> give ([''FAIL: cannot open CSV '' @ path @ '': '' @ strerror L e], False)
     | Inr file \<Rightarrow> do {
         (ok, n, data) \<leftarrow> print_all OS file (0, [])
           ((''algorithm,iterations,mean_ms,median_ms,p95_ms,p99_ms,min_ms,max_ms,baseline_ratio'' @ newline)
            # map (csv_line F baseline) results);
         closed \<leftarrow> stream_close OS file n data;
         give (if \<not> ok then ([], False)
               else if \<not> closed then ([''FAIL: cannot finish CSV '' @ path], False)
               else ([], True)) } }"

text \<open>None when the path does not fit or memory is short.\<close>

definition markdown_path_for_csv :: "('w, 'e) dil_lib_scheme \<Rightarrow> string \<Rightarrow> ('w, string option) prog" where
  "markdown_path_for_csv L csv_path =
     (if length csv_path > SIZE_MAX - 4 then fail
      else ensure (libc_malloc L (length csv_path + 4))
        (done_with
          (if 4 \<le> length csv_path \<and> drop (length csv_path - 4) csv_path = ''.csv''
           then take (length csv_path - 4) csv_path @ ''.md''
           else csv_path @ ''.md'')))"

section \<open>The Markdown file\<close>

definition markdown_line :: "'f float_format_scheme \<Rightarrow> rat \<Rightarrow> benchmark_result \<Rightarrow> string" where
  "markdown_line F baseline r =
     ''| '' @ bench_algorithm r @ '' | '' @ decimal (sample_count r) @
     concat (map (\<lambda>x. '' | '' @ fixed 6 x) [mean_ms r, median_ms r, p95_ms r, p99_ms r, min_ms r, max_ms r]) @
     '' | '' @ format_double F 3 (mean_ratio F r baseline) @ ''x |'' @ newline"

definition markdown_text ::
  "('w, 'k, 'e) bench_lib_scheme \<Rightarrow> 'f float_format_scheme \<Rightarrow> benchmark_result list \<Rightarrow> nat \<Rightarrow> string \<Rightarrow>
   utsname \<Rightarrow> string list" where
  "markdown_text L F results warmup_iterations cpu system =
     [''# Composite Verification Benchmark'' @ newline @ newline,
      ''- CPU: '' @ cpu @ newline,
      ''- OS: '' @ sysname system @ '' '' @ release system @ '' ('' @ machine system @ '')'' @ newline,
      ''- Compiler: '' @ compiler_name L @ newline,
      ''- Build type: '' @ HYBRID_BENCH_BUILD_TYPE L @ newline,
      ''- OpenSSL: '' @ OpenSSL_version L @ newline,
      ''- Message size: '' @ decimal BENCHMARK_MESSAGE_BYTES @ '' bytes'' @ newline,
      ''- Warm-up iterations: '' @ decimal warmup_iterations @ newline,
      ''- Timed iterations: '' @ decimal (sample_count (results ! 0)) @ newline @ newline,
      ''| Algorithm | Count | Mean (ms) | P50 (ms) | P95 (ms) | P99 (ms) | Min (ms) | Max (ms) | Relative to P-256 |''
        @ newline,
      ''|---|---:|---:|---:|---:|---:|---:|---:|---:|'' @ newline] @
     map (markdown_line F (mean_ms (results ! 0))) results @
     [newline @ ''Requirement: Composite verify mean < '' @ fixed 3 COMPOSITE_REQUIREMENT_MS @ '' ms'' @
        newline @ newline @ ''Result: **'' @ (if requirement_met results then ''PASS'' else ''FAIL'') @ ''**'' @
        newline @ newline,
      ''ECDSA-P256-SHA256 is the performance baseline only. The primary metric is the public '' @
        ''`composite_verify()` call.'' @ newline]"

text \<open>Here the results of \<open>fprintf\<close> are ignored.\<close>

primrec print_ignoring ::
  "('w, 's) os_lib_scheme \<Rightarrow> string \<Rightarrow> nat \<times> bytes \<Rightarrow> string list \<Rightarrow> ('w, nat \<times> bytes) io" where
  "print_ignoring OS path stream [] = give stream"
| "print_ignoring OS path stream (t # ts) = do {
     (_, stream) \<leftarrow> stream_printf OS path stream t;
     print_ignoring OS path stream ts }"

definition write_markdown ::
  "('w, 'k, 'e) bench_lib_scheme \<Rightarrow> 'f float_format_scheme \<Rightarrow> ('w, 's) os_lib_scheme \<Rightarrow> string \<Rightarrow>
   benchmark_result list \<Rightarrow> nat \<Rightarrow> string \<Rightarrow> utsname \<Rightarrow> ('w, string list \<times> bool) io" where
  "write_markdown L F OS path results warmup_iterations cpu system = do {
     opened \<leftarrow> fopen_write OS path;
     case opened of
       Inl e \<Rightarrow> give ([''FAIL: cannot open Markdown summary '' @ path @ '': '' @ strerror L e], False)
     | Inr file \<Rightarrow> do {
         (n, data) \<leftarrow> print_ignoring OS file (0, []) (markdown_text L F results warmup_iterations cpu system);
         closed \<leftarrow> stream_close OS file n data;
         give (if \<not> closed then ([''FAIL: cannot finish Markdown summary '' @ path], False) else ([], True)) } }"

section \<open>\<open>main\<close>\<close>

record bench_options =
  opt_warmup :: nat
  opt_iterations :: nat
  opt_csv :: "string option"

definition default_options :: bench_options where
  "default_options = \<lparr>opt_warmup = DEFAULT_WARMUP_ITERATIONS, opt_iterations = DEFAULT_TIMED_ITERATIONS,
     opt_csv = None\<rparr>"

text \<open>The argument loop; None stands for the usage line.\<close>

fun parse_arguments :: "bench_options \<Rightarrow> string list \<Rightarrow> bench_options option" where
  "parse_arguments opts [] = Some opts"
| "parse_arguments opts [argument] = None"
| "parse_arguments opts (argument # value # rest) =
     (if argument = ''--warmup'' then
        (case parse_count (Some value) of
           None \<Rightarrow> None
         | Some n \<Rightarrow> parse_arguments (opts\<lparr>opt_warmup := n\<rparr>) rest)
      else if argument = ''--iterations'' then
        (case parse_count (Some value) of
           None \<Rightarrow> None
         | Some n \<Rightarrow> if n = 0 then None else parse_arguments (opts\<lparr>opt_iterations := n\<rparr>) rest)
      else if argument = ''--csv'' then
        (if value = [] then None else parse_arguments (opts\<lparr>opt_csv := Some value\<rparr>) rest)
      else None)"

definition bench_message :: bytes where
  "bench_message = map (\<lambda>i. of_nat i AND 255) [0..<BENCHMARK_MESSAGE_BYTES]"

text \<open>The keys and the four signatures.\<close>

record 'k bench_setup =
  ecdsa_key :: "'k option"
  ecdsa_sig_bytes :: bytes
  bench_public :: "'k hybrid_public_key"
  sm2_sig_bytes :: bytes
  dilithium_sig_bytes :: bytes
  composite_sig_bytes :: bytes

definition bench_prepare :: "('w, 'k, 'e) bench_lib_scheme \<Rightarrow> ('w, 'k bench_setup option) prog" where
  "bench_prepare L = do {
     ecdsa \<leftarrow> generate_ecdsa_p256_key L;
     attempt (case ecdsa of None \<Rightarrow> fail | Some _ \<Rightarrow> ecdsa_p256_sha256_sign L ecdsa bench_message) (\<lambda>ecdsa_bytes. do {
       (ok, priv, pub) \<leftarrow> composite_key_generate L
          (Some \<lparr>sm2_private_key = None, dilithium_secret_key = replicate DILITHIUM_SECRET_KEY_BYTES 0\<rparr>)
          (Some \<lparr>sm2_public_key = None, dilithium_public_key = replicate DILITHIUM_PUBLIC_KEY_BYTES 0\<rparr>);
       if \<not> ok then fail
       else
         attempt (hybrid_sm2_sign L (sm2_private_key (the priv)) (Buf bench_message) True) (\<lambda>sm2_bytes.
         attempt (dilithium_sign L (Buf (dilithium_secret_key (the priv))) (Buf bench_message) True) (\<lambda>dil_bytes.
         attempt (composite_sign L priv (Buf bench_message) (Null 0) True) (\<lambda>composite_bytes.
           done_with \<lparr>ecdsa_key = ecdsa, ecdsa_sig_bytes = ecdsa_bytes, bench_public = the pub,
             sm2_sig_bytes = sm2_bytes, dilithium_sig_bytes = dil_bytes,
             composite_sig_bytes = composite_bytes\<rparr>))) }) }"

text \<open>The four functions to be timed, with their names.\<close>

definition bench_verifiers ::
  "('w, 'k, 'e) bench_lib_scheme \<Rightarrow> 'k bench_setup \<Rightarrow> (string \<times> ('w, bool) prog) list" where
  "bench_verifiers L s =
     [(''ECDSA-P256-SHA256'', ecdsa_p256_sha256_verify L (the (ecdsa_key s)) bench_message (ecdsa_sig_bytes s)),
      (''SM2-SM3'', sm2_verify L (sm2_public_key (bench_public s)) bench_message (sm2_sig_bytes s)),
      (''CRYSTALS-Dilithium2'',
         dilithium2_verify L (dilithium_public_key (bench_public s)) bench_message (dilithium_sig_bytes s)),
      (''SM2+Dilithium2 Composite'',
         composite_signature_verify L (bench_public s) bench_message (composite_sig_bytes s))]"

text \<open>\<open>m1() && m2() && \<dots>\<close>.\<close>

primrec all_of :: "('w, bool) prog list \<Rightarrow> ('w, bool) prog" where
  "all_of [] = give True"
| "all_of (m # ms) = both m (all_of ms)"

text \<open>The benchmarks in order, up to the first that fails.\<close>

primrec run_all ::
  "('w, 'k, 'e) bench_lib_scheme \<Rightarrow> 'f float_format_scheme \<Rightarrow> nat \<Rightarrow> nat \<Rightarrow>
   (string \<times> ('w, bool) prog) list \<Rightarrow> ('w, string list + benchmark_result list) prog" where
  "run_all L F warmup iterations [] = give (Inr [])"
| "run_all L F warmup iterations (v # vs) = do {
     first \<leftarrow> run_benchmark L F (fst v) (snd v) warmup iterations;
     case first of
       Inl lines \<Rightarrow> give (Inl lines)
     | Inr r \<Rightarrow> do {
         others \<leftarrow> run_all L F warmup iterations vs;
         give (case others of Inl lines \<Rightarrow> Inl lines | Inr rs \<Rightarrow> Inr (r # rs)) } }"

text \<open>Printing the table and writing the files: the lines and whether it succeeded.\<close>

definition bench_report ::
  "('w, 'k, 'e) bench_lib_scheme \<Rightarrow> 'f float_format_scheme \<Rightarrow> ('w, 's) os_lib_scheme \<Rightarrow> bench_options \<Rightarrow>
   benchmark_result list \<Rightarrow> ('w, string list \<times> bool) io" where
  "bench_report L F OS opts results = do {
     named \<leftarrow> lift (uname L);
     let system = (case named of
         Some u \<Rightarrow> u
       | None \<Rightarrow> \<lparr>sysname = ''unavailable'', release = ''unavailable'', machine = ''unavailable''\<rparr>);
     cpu \<leftarrow> read_cpu_model OS 256;
     let table = print_results L F results (opt_warmup opts) cpu system;
     case opt_csv opts of
       None \<Rightarrow> give (table, True)
     | Some csv_path \<Rightarrow> do {
         markdown_path \<leftarrow> lift (markdown_path_for_csv L csv_path);
         case markdown_path of
           None \<Rightarrow> give (table, False)
         | Some md \<Rightarrow> do {
             (lines, ok) \<leftarrow> write_csv L F OS csv_path results;
             if \<not> ok then give (table @ lines, False)
             else do {
               (lines, ok) \<leftarrow> write_markdown L F OS md results (opt_warmup opts) cpu system;
               give (if \<not> ok then (table @ lines, False)
                     else (table @ [''CSV: '' @ csv_path, ''Markdown: '' @ md], True)) } } } }"

text \<open>The exit code is given as whether it is \<open>EXIT_SUCCESS\<close>.\<close>

definition benchmark_main ::
  "('w, 'k, 'e) bench_lib_scheme \<Rightarrow> 'f float_format_scheme \<Rightarrow> ('w, 's) os_lib_scheme \<Rightarrow> string list \<Rightarrow>
   ('w, bool \<times> string list) io" where
  "benchmark_main L F OS argv =
     (case parse_arguments default_options (tl argv) of
        None \<Rightarrow> give (False, [usage (hd argv)])
      | Some opts \<Rightarrow> do {
          prepared \<leftarrow> lift (bench_prepare L);
          case prepared of
            None \<Rightarrow> do {
              errors \<leftarrow> lift (ERR_print_errors_fp L);
              give (False, ''FAIL: benchmark setup failed'' # errors) }
          | Some s \<Rightarrow> do {
              verified \<leftarrow> lift (all_of (map snd (bench_verifiers L s)));
              if \<not> verified then give (False, [''FAIL: setup verification failed''])
              else do {
                measured \<leftarrow> lift (run_all L F (opt_warmup opts) (opt_iterations opts) (bench_verifiers L s));
                case measured of
                  Inl lines \<Rightarrow> give (False, lines)
                | Inr results \<Rightarrow> do {
                    (lines, ok) \<leftarrow> bench_report L F OS opts results;
                    give (ok, lines) } } } })"

end
