(* ===== verification/Benchmark_Facts.thy ===== *)
theory Benchmark_Facts
  imports Benchmark_Report Reference_Facts
begin

text \<open>
  What the properties of the benchmark tool rest on: the samples and their sum after the timed loop,
  the order of the statistics, and that the four signatures of the set-up verify.
\<close>

section \<open>The timed loop\<close>

lemma u64_bound: "unat (x :: uint64) < 2 ^ 64"
proof -
  have "unat x < 2 ^ LENGTH(64)" by (rule unsigned_less)
  then show ?thesis by simp
qed

lemma long_of_u64_exact: "float_law F \<Longrightarrow> long_of_u64 F x = of_nat (unat x)"
  unfolding long_of_u64_def by (rule float_lawD(3)[OF _ u64_bound])

text \<open>
  The clock as an observer of the run sees it: before and after each of \<open>n\<close> verifications, with
  their results. A \<open>lap\<close> is one of them.
\<close>

type_synonym lap = "uint64 \<times> bool \<times> uint64"

primrec laps :: "('w, 'k, 'e) bench_lib_scheme \<Rightarrow> ('w, bool) prog \<Rightarrow> nat \<Rightarrow> ('w, lap list) prog" where
  "laps L verify 0 = give []"
| "laps L verify (Suc n) = do {
     started \<leftarrow> clock_gettime L;
     verified \<leftarrow> verify;
     stopped \<leftarrow> clock_gettime L;
     rest \<leftarrow> laps L verify n;
     give ((now_ns started, verified, now_ns stopped) # rest) }"

definition elapsed :: "lap \<Rightarrow> uint64" where
  "elapsed l = (case l of (started, _, stopped) \<Rightarrow> stopped - started)"

definition good_lap :: "lap \<Rightarrow> bool" where
  "good_lap l \<longleftrightarrow> (case l of (started, verified, stopped) \<Rightarrow>
     verified \<and> started \<le> stopped \<and> started \<noteq> UINT64_MAX \<and> stopped \<noteq> UINT64_MAX)"

text \<open>The state in which the timed loop starts: after the allocation and the warm-up.\<close>

definition timing_start :: "('w, 'k, 'e) bench_lib_scheme \<Rightarrow> string \<Rightarrow> ('w, bool) prog \<Rightarrow> nat \<Rightarrow> nat \<Rightarrow> 'w \<Rightarrow> 'w" where
  "timing_start L name verify warmup n w =
     snd (run_state (warm_up name verify 0 warmup) (snd (run_state (libc_malloc L (n * 8)) w)))"

lemma elapsed_exact: "good_lap l \<Longrightarrow> unat (elapsed l) = unat (snd (snd l)) - unat (fst l)"
  by (auto simp: good_lap_def elapsed_def unat_sub)

lemma run_state_bind:
  "run_state (State_Monad.bind m f) w = (case run_state m w of (a, w') \<Rightarrow> run_state (f a) w')"
  by (simp add: State_Monad.bind_def)

lemma run_state_give: "run_state (give a) w = (a, w)"
  by (simp add: State_Monad.return_def)

lemma timed_laps:
  assumes "run_state (timed L F name verify i samples sum0 n) w = (Inr (ss, t), w')"
  shows "\<exists>ls. run_state (laps L verify n) w = (ls, w') \<and> length ls = n \<and> list_all good_lap ls \<and>
    ss = samples @ map elapsed ls"
  using assms
proof (induction n arbitrary: i samples sum0 w)
  case 0
  then show ?case by (simp add: run_state_give)
next
  case (Suc n)
  obtain a w1 where 1: "run_state (clock_gettime L) w = (a, w1)" by fastforce
  obtain v w2 where 2: "run_state verify w1 = (v, w2)" by fastforce
  obtain b w3 where 3: "run_state (clock_gettime L) w2 = (b, w3)" by fastforce
  let ?lap = "(now_ns a, v, now_ns b)"
  from Suc.prems 1 2 3 have good: "good_lap ?lap"
      and rest: "run_state (timed L F name verify (i + 1) (samples @ [elapsed ?lap])
        (round_long F (sum0 + long_of_u64 F (elapsed ?lap))) n) w3 = (Inr (ss, t), w')"
    by (auto simp: run_state_bind run_state_give Let_def good_lap_def elapsed_def not_less split: if_splits)
  from Suc.IH[OF rest] obtain ls where "run_state (laps L verify n) w3 = (ls, w')" "length ls = n"
      "list_all good_lap ls" "ss = (samples @ [elapsed ?lap]) @ map elapsed ls" by blast
  with good 1 2 3 show ?case by (simp add: run_state_bind run_state_give)
qed

text \<open>The running total is exact while it fits 64 bits.\<close>

lemma timed_total:
  assumes "outcome (timed L F name verify i samples sum0 n) (Inr (ss, t))" and "float_law F"
  shows "(\<exists>new. ss = samples @ new) \<and>
    (sum0 = of_nat (\<Sum>x\<leftarrow>samples. unat x) \<longrightarrow> (\<Sum>x\<leftarrow>ss. unat x) < 2 ^ 64 \<longrightarrow> t = of_nat (\<Sum>x\<leftarrow>ss. unat x))"
  using assms(1)
proof (induction n arbitrary: i samples sum0)
  case 0
  then show ?case by auto
next
  case (Suc n)
  then obtain a b where rest: "outcome (timed L F name verify (i + 1) (samples @ [b - a])
        (round_long F (sum0 + long_of_u64 F (b - a))) n) (Inr (ss, t))"
    unfolding timed.simps Let_def by (auto elim!: outcome_bind split: if_splits)
  from Suc.IH[OF rest] obtain new where new: "ss = (samples @ [b - a]) @ new"
      and sum: "round_long F (sum0 + long_of_u64 F (b - a)) = of_nat (\<Sum>x\<leftarrow>samples @ [b - a]. unat x) \<Longrightarrow>
        (\<Sum>x\<leftarrow>ss. unat x) < 2 ^ 64 \<Longrightarrow> t = of_nat (\<Sum>x\<leftarrow>ss. unat x)" by blast
  have "t = of_nat (\<Sum>x\<leftarrow>ss. unat x)"
    if sum0: "sum0 = of_nat (\<Sum>x\<leftarrow>samples. unat x)" and lt: "(\<Sum>x\<leftarrow>ss. unat x) < 2 ^ 64"
  proof (rule sum[OF _ lt])
    have "(\<Sum>x\<leftarrow>samples @ [b - a]. unat x) < 2 ^ 64" using lt new by simp
    note float_lawD(3)[OF assms(2) this]
    moreover have "long_of_u64 F (b - a) = of_nat (unat (b - a))" by (rule long_of_u64_exact[OF assms(2)])
    ultimately show "round_long F (sum0 + long_of_u64 F (b - a)) = of_nat (\<Sum>x\<leftarrow>samples @ [b - a]. unat x)"
      using sum0 by simp
  qed
  with new show ?case by auto
qed

text \<open>What a successful benchmark measured: the laps from the state in which timing starts.\<close>

lemma run_benchmark_measured:
  assumes "run (run_benchmark L F name verify warmup n) w = Inr r" and "float_law F"
  obtains ls t where "0 < n" and "n < 2 ^ 62"
    and "run (laps L verify n) (timing_start L name verify warmup n w) = ls"
    and "length ls = n" and "list_all good_lap ls" and "r = summarise F name n (map elapsed ls) t"
    and "(\<Sum>l\<leftarrow>ls. unat (elapsed l)) < 2 ^ 64 \<Longrightarrow> t = of_nat (\<Sum>l\<leftarrow>ls. unat (elapsed l))"
proof -
  obtain ok w1 where 1: "run_state (libc_malloc L (n * 8)) w = (ok, w1)" by fastforce
  obtain line w2 where 2: "run_state (warm_up name verify 0 warmup) w1 = (line, w2)" by fastforce
  obtain m w3 where 3: "run_state (timed L F name verify 0 [] 0 n) w2 = (m, w3)" by fastforce
  from assms(1) 1 2 3 have n: "n \<noteq> 0" "n \<le> SIZE_MAX div 8" and m: "case m of Inl _ \<Rightarrow> False
      | Inr (samples, t) \<Rightarrow> r = summarise F name n samples t"
    unfolding run_benchmark_def run_def
    by (auto simp: run_state_bind run_state_give split: if_splits option.splits sum.splits)
  from m obtain samples t where m: "m = Inr (samples, t)" "r = summarise F name n samples t"
    by (auto split: sum.splits)
  from timed_laps[OF 3[unfolded m(1)]] obtain ls where ls: "run_state (laps L verify n) w2 = (ls, w3)"
      "length ls = n" "list_all good_lap ls" "samples = map elapsed ls" by auto
  have "outcome (timed L F name verify 0 [] 0 n) (Inr (samples, t))"
    using 3 m(1) by (intro run_outcome[of _ w2]) (simp add: run_def)
  from timed_total[OF this assms(2)] have t: "(\<Sum>l\<leftarrow>ls. unat (elapsed l)) < 2 ^ 64 \<Longrightarrow>
      t = of_nat (\<Sum>l\<leftarrow>ls. unat (elapsed l))"
    by (simp add: ls(4) o_def)
  have start: "timing_start L name verify warmup n w = w2" by (simp add: timing_start_def 1 2)
  from n have "0 < n" "n < 2 ^ 62" by (simp_all add: SIZE_MAX_def)
  then show thesis
    using ls m(2) t start by (intro that[of ls t]) (simp_all add: run_def)
qed

section \<open>Order\<close>

text \<open>What is reported for a number of nanoseconds.\<close>

abbreviation reported :: "'f float_format_scheme \<Rightarrow> uint64 \<Rightarrow> rat" where
  "reported F x \<equiv> ns_to_ms F (long_of_u64 F x)"

lemma ns_to_ms_mono: "float_law F \<Longrightarrow> x \<le> y \<Longrightarrow> ns_to_ms F x \<le> ns_to_ms F y"
  unfolding ns_to_ms_def by (intro float_lawD(1,2)) (simp_all add: divide_right_mono)

lemma reported_mono: "float_law F \<Longrightarrow> x \<le> y \<Longrightarrow> reported F x \<le> reported F y"
  unfolding long_of_u64_def
  by (intro ns_to_ms_mono float_lawD(2) of_nat_mono) (simp_all add: word_le_nat_alt)

lemma median_exact:
  assumes "0 < n"
  shows "unat (median_ns xs n) = (unat (xs ! ((n - 1) div 2)) + unat (xs ! (n div 2))) div 2"
proof (cases "n mod 2 = 0")
  case True
  then have c: "(n mod 2 \<noteq> 0) = False" and i: "n div 2 - 1 = (n - 1) div 2" using assms by presburger+
  show ?thesis unfolding median_ns_def c if_False i[symmetric] by (rule halves_exact)
next
  case False
  then have "(n - 1) div 2 = n div 2" by presburger
  with False show ?thesis by (simp add: median_ns_def)
qed

text \<open>The median lies between the first sample and the one at the rank of the 95th percentile.\<close>

lemma median_between:
  assumes "length xs = n" and "0 < n" and "sorted xs"
  shows "xs ! 0 \<le> median_ns xs n" and "median_ns xs n \<le> xs ! (n div 2)"
proof -
  have "n div 2 < n" "(n - 1) div 2 < n" "(n - 1) div 2 \<le> n div 2" using assms(2) by auto
  with assms have "xs ! 0 \<le> xs ! ((n - 1) div 2)" "xs ! ((n - 1) div 2) \<le> xs ! (n div 2)"
    by (auto intro!: sorted_nth_mono)
  with median_exact[OF assms(2), of xs] show "xs ! 0 \<le> median_ns xs n" "median_ns xs n \<le> xs ! (n div 2)"
    unfolding word_le_nat_alt by linarith+
qed

lemma ranks_ordered:
  assumes "0 < n" and "n < 2 ^ 62"
  shows "n div 2 \<le> rank_of n 95 100 - 1" and "rank_of n 95 100 \<le> rank_of n 99 100" and "rank_of n 99 100 \<le> n"
proof -
  have "n div 2 + 1 \<le> (n * 95 + 100 - 1) div 100" using assms(1) by simp
  then show "n div 2 \<le> rank_of n 95 100 - 1" by (simp add: rank_of_def)
  have "(n * 95 + 100 - 1) div 100 \<le> (n * 99 + 100 - 1) div 100" by (rule div_le_mono) simp
  then show "rank_of n 95 100 \<le> rank_of n 99 100" by (simp add: rank_of_def)
  show "rank_of n 99 100 \<le> n" by (rule nearest_rank_exact(3)) (use assms in simp_all)
qed

lemma sum_between:
  assumes "sorted xs" and "length xs = n" and "0 < n"
  shows "n * unat (xs ! 0) \<le> (\<Sum>x\<leftarrow>xs. unat x)" and "(\<Sum>x\<leftarrow>xs. unat x) \<le> n * unat (xs ! (n - 1))"
proof -
  have lo: "unat (xs ! 0) \<le> unat x" and hi: "unat x \<le> unat (xs ! (n - 1))" if "x \<in> set xs" for x
  proof -
    from that obtain i where "i < n" "x = xs ! i" using assms(2) by (auto simp: in_set_conv_nth)
    with assms show "unat (xs ! 0) \<le> unat x" "unat x \<le> unat (xs ! (n - 1))"
      unfolding word_le_nat_alt[symmetric] by (auto intro!: sorted_nth_mono)
  qed
  have "(\<Sum>x\<leftarrow>xs. unat (xs ! 0)) \<le> (\<Sum>x\<leftarrow>xs. unat x)" by (rule sum_list_mono) (rule lo)
  then show "n * unat (xs ! 0) \<le> (\<Sum>x\<leftarrow>xs. unat x)" using assms(2) by (simp add: sum_list_triv)
  have "(\<Sum>x\<leftarrow>xs. unat x) \<le> (\<Sum>x\<leftarrow>xs. unat (xs ! (n - 1)))" by (rule sum_list_mono) (rule hi)
  then show "(\<Sum>x\<leftarrow>xs. unat x) \<le> n * unat (xs ! (n - 1))" using assms(2) by (simp add: sum_list_triv)
qed

lemma statistics_ordered:
  assumes "float_law F" and "0 < n" and "n < 2 ^ 62" and "sorted xs" and "length xs = n"
  shows "reported F (xs ! 0) \<le> reported F (median_ns xs n)"
    and "reported F (median_ns xs n) \<le> reported F (xs ! (rank_of n 95 100 - 1))"
    and "reported F (xs ! (rank_of n 95 100 - 1)) \<le> reported F (xs ! (rank_of n 99 100 - 1))"
    and "reported F (xs ! (rank_of n 99 100 - 1)) \<le> reported F (xs ! (n - 1))"
proof -
  note ranks = ranks_ordered[OF assms(2,3)]
  have up: "reported F (xs ! i) \<le> reported F (xs ! j)" if "i \<le> j" "j < n" for i j
    using that assms(4,5) by (intro reported_mono[OF assms(1)] sorted_nth_mono) simp_all
  show "reported F (xs ! 0) \<le> reported F (median_ns xs n)"
    by (rule reported_mono[OF assms(1) median_between(1)[OF assms(5,2,4)]])
  have "reported F (median_ns xs n) \<le> reported F (xs ! (n div 2))"
    by (rule reported_mono[OF assms(1) median_between(2)[OF assms(5,2,4)]])
  also have "\<dots> \<le> reported F (xs ! (rank_of n 95 100 - 1))" using ranks assms(2) by (intro up) linarith+
  finally show "reported F (median_ns xs n) \<le> reported F (xs ! (rank_of n 95 100 - 1))" .
  show "reported F (xs ! (rank_of n 95 100 - 1)) \<le> reported F (xs ! (rank_of n 99 100 - 1))"
    and "reported F (xs ! (rank_of n 99 100 - 1)) \<le> reported F (xs ! (n - 1))"
    using ranks assms(2) by (auto intro!: up)
qed

lemma mean_between:
  assumes "float_law F" and "0 < n" and "sorted xs" and "length xs = n"
  defines "mean \<equiv> ns_to_ms F (round_long F (of_nat (\<Sum>x\<leftarrow>xs. unat x) / of_nat n))"
  shows "reported F (xs ! 0) \<le> mean \<and> mean \<le> reported F (xs ! (n - 1))"
proof -
  define S where "S = (\<Sum>x\<leftarrow>xs. unat x)"
  note b = sum_between[OF assms(3,4,2), folded S_def]
  have np: "(0 :: rat) < of_nat n" using assms(2) by (simp only: of_nat_0_less_iff)
  have lo: "(of_nat (unat (xs ! 0)) :: rat) \<le> of_nat S / of_nat n"
    unfolding pos_le_divide_eq[OF np] of_nat_mult[symmetric] of_nat_le_iff using b(1) by (simp only: mult.commute)
  have hi: "of_nat S / of_nat n \<le> (of_nat (unat (xs ! (n - 1))) :: rat)"
    unfolding pos_divide_le_eq[OF np] of_nat_mult[symmetric] of_nat_le_iff using b(2) by (simp only: mult.commute)
  show ?thesis
    unfolding mean_def S_def[symmetric] long_of_u64_def
    by (intro conjI ns_to_ms_mono[OF assms(1)] float_lawD(2)[OF assms(1)] lo hi)
qed

section \<open>What is timed verifies\<close>

text \<open>
  Documented behaviour of ECDSA and of the generators: what signs under a key verifies under it, the
  calls that prepare a verification succeed, and a generated pair is a pair.
\<close>

definition ecdsa_pair :: "('w, 'k, 'e) crypto_lib_scheme \<Rightarrow> 'k \<Rightarrow> bool" where
  "ecdsa_pair L k \<longleftrightarrow>
     always (EVP_MD_CTX_new L) True \<and> always (EVP_DigestVerifyInit_ex L ''SHA256'' k) 1 \<and>
     (\<forall>m room ret s. 0 < ret \<longrightarrow> outcome (EVP_DigestSign L ''SHA256'' k [] room m) (ret, s) \<longrightarrow>
        always (EVP_DigestVerify L ''SHA256'' k [] s m) 1)"

definition generator_laws :: "('w, 'k, 'e) bench_lib_scheme \<Rightarrow> bool" where
  "generator_laws L \<longleftrightarrow>
     (\<forall>ret k. 0 < ret \<longrightarrow> outcome (EVP_PKEY_generate_in_group L ''EC'' ''prime256v1'') (ret, Some k) \<longrightarrow> ecdsa_pair L k) \<and>
     (\<forall>ret k. 0 < ret \<longrightarrow> outcome (EVP_PKEY_generate L ''SM2'') (ret, Some k) \<longrightarrow> sm2_pair L k k \<and> verifier_ready L k) \<and>
     (\<forall>pk sk. outcome (ref_keypair L) (0, pk, sk) \<longrightarrow> dilithium_pair L sk pk)"

lemma outcome_generate_ecdsa [outcome_elims]:
  assumes "outcome (generate_ecdsa_p256_key L) (Some k)"
  obtains ret where "0 < ret" and "outcome (EVP_PKEY_generate_in_group L ''EC'' ''prime256v1'') (ret, Some k)"
  using assms unfolding generate_ecdsa_p256_key_def
  by (auto elim!: outcome_elims simp: not_le split: if_splits)

lemma outcome_ecdsa_sign [outcome_elims]:
  assumes "outcome (ecdsa_p256_sha256_sign L key m) (Some s)"
  obtains k room ret where "key = Some k" and "0 < ret"
    and "outcome (EVP_DigestSign L ''SHA256'' k [] room m) (ret, s)"
  using assms unfolding ecdsa_p256_sha256_sign_def
  by (auto elim!: outcome_elims simp: not_le split: if_splits option.splits)

lemma always_ecdsa_verify:
  assumes "ecdsa_pair L k" and "0 < ret" and "outcome (EVP_DigestSign L ''SHA256'' k [] room m) (ret, s)"
  shows "always (ecdsa_p256_sha256_verify L k m s) True"
proof -
  have v: "always (EVP_DigestVerify L ''SHA256'' k [] s m) 1" using assms by (auto simp: ecdsa_pair_def)
  show ?thesis
    using assms(1) unfolding ecdsa_p256_sha256_verify_def ecdsa_pair_def
    by (auto intro!: always_intros always_bind[OF v])
qed

lemma outcome_bench_prepare:
  assumes "outcome (bench_prepare L) (Some s)"
  obtains e priv room ret room' ret' sm2 pk sk ret2 ret1 where "ecdsa_key s = Some e" and "0 < ret1"
    and "outcome (EVP_PKEY_generate_in_group L ''EC'' ''prime256v1'') (ret1, Some e)"
    and "0 < ret" and "outcome (EVP_DigestSign L ''SHA256'' e [] room bench_message) (ret, ecdsa_sig_bytes s)"
    and "0 < ret2" and "outcome (EVP_PKEY_generate L ''SM2'') (ret2, Some sm2)"
    and "outcome (ref_keypair L) (0, pk, sk)"
    and "bench_public s = \<lparr>sm2_public_key = Some sm2, dilithium_public_key = pk\<rparr>"
    and "0 < ret'"
    and "outcome (EVP_DigestSign L ''SM3'' sm2 SM2_DEFAULT_USER_ID room' bench_message) (ret', sm2_sig_bytes s)"
    and "length (dilithium_sig_bytes s) = DILITHIUM_SIGNATURE_BYTES"
    and "outcome (ref_signature L bench_message [] sk) (0, dilithium_sig_bytes s)"
    and "outcome (composite_sign L (Some \<lparr>sm2_private_key = Some sm2, dilithium_secret_key = sk\<rparr>)
           (Buf bench_message) (Null 0) True) (Some (composite_sig_bytes s))"
proof -
  from assms obtain ecdsa e_bytes priv pub where gen: "outcome (generate_ecdsa_p256_key L) ecdsa"
      and sign: "outcome (case ecdsa of None \<Rightarrow> fail | Some _ \<Rightarrow> ecdsa_p256_sha256_sign L ecdsa bench_message) (Some e_bytes)"
      and keys: "outcome (composite_key_generate L
          (Some \<lparr>sm2_private_key = None, dilithium_secret_key = replicate DILITHIUM_SECRET_KEY_BYTES 0\<rparr>)
          (Some \<lparr>sm2_public_key = None, dilithium_public_key = replicate DILITHIUM_PUBLIC_KEY_BYTES 0\<rparr>)) (True, priv, pub)"
      and rest: "outcome (attempt (hybrid_sm2_sign L (sm2_private_key (the priv)) (Buf bench_message) True) (\<lambda>sm2_bytes.
         attempt (dilithium_sign L (Buf (dilithium_secret_key (the priv))) (Buf bench_message) True) (\<lambda>dil_bytes.
         attempt (composite_sign L priv (Buf bench_message) (Null 0) True) (\<lambda>composite_bytes.
           done_with \<lparr>ecdsa_key = ecdsa, ecdsa_sig_bytes = e_bytes, bench_public = the pub,
             sm2_sig_bytes = sm2_bytes, dilithium_sig_bytes = dil_bytes,
             composite_sig_bytes = composite_bytes\<rparr>)))) (Some s)"
    unfolding bench_prepare_def
    by (elim outcome_bind outcome_attempt_Some) (auto elim!: outcome_bind split: prod.splits if_splits)
  from sign obtain e room ret where e: "ecdsa = Some e" "0 < ret"
      "outcome (EVP_DigestSign L ''SHA256'' e [] room bench_message) (ret, e_bytes)"
    by (auto split: option.splits elim!: outcome_ecdsa_sign)
  from gen e(1) obtain ret1 where ret1: "0 < ret1"
      "outcome (EVP_PKEY_generate_in_group L ''EC'' ''prime256v1'') (ret1, Some e)"
    by (auto elim: outcome_generate_ecdsa)
  from keys obtain sm2 pk sk ret2 where pair: "0 < ret2" "outcome (EVP_PKEY_generate L ''SM2'') (ret2, Some sm2)"
      "outcome (ref_keypair L) (0, pk, sk)"
      "priv = Some \<lparr>sm2_private_key = Some sm2, dilithium_secret_key = sk\<rparr>"
      "pub = Some \<lparr>sm2_public_key = Some sm2, dilithium_public_key = pk\<rparr>"
    by (rule outcome_composite_key_generate)
  from rest obtain sb db cb where
      sb: "outcome (hybrid_sm2_sign L (Some sm2) (Buf bench_message) True) (Some sb)"
      and db: "outcome (dilithium_sign L (Buf sk) (Buf bench_message) True) (Some db)"
      and cb: "outcome (composite_sign L priv (Buf bench_message) (Null 0) True) (Some cb)"
      and s: "s = \<lparr>ecdsa_key = ecdsa, ecdsa_sig_bytes = e_bytes, bench_public = the pub,
             sm2_sig_bytes = sb, dilithium_sig_bytes = db, composite_sig_bytes = cb\<rparr>"
    unfolding pair by (elim outcome_attempt_Some) auto
  from sb obtain room' ret' where "0 < ret'"
      "outcome (EVP_DigestSign L ''SM3'' sm2 SM2_DEFAULT_USER_ID room' bench_message) (ret', sb)"
    by (elim outcome_hybrid_sm2_sign) auto
  moreover from db have "length db = DILITHIUM_SIGNATURE_BYTES" "outcome (ref_signature L bench_message [] sk) (0, db)"
    by (auto elim: outcome_dilithium_sign)
  ultimately show thesis using e ret1 pair cb by (intro that[of e ret1]) (simp_all add: s)
qed

lemma always_bench_verifiers:
  assumes "outcome (bench_prepare L) (Some s)" and laws: "generator_laws L"
  shows "\<forall>v\<in>set (bench_verifiers L s). always (snd v) True"
  using assms(1)
proof (rule outcome_bench_prepare)
  fix e room ret room' ret' sm2 pk sk ret2 ret1
  assume e: "ecdsa_key s = Some e" and gen: "0 < ret1"
      "outcome (EVP_PKEY_generate_in_group L ''EC'' ''prime256v1'') (ret1, Some e)"
    and es: "0 < ret" "outcome (EVP_DigestSign L ''SHA256'' e [] room bench_message) (ret, ecdsa_sig_bytes s)"
    and sgen: "0 < ret2" "outcome (EVP_PKEY_generate L ''SM2'') (ret2, Some sm2)"
    and dgen: "outcome (ref_keypair L) (0, pk, sk)"
    and pub: "bench_public s = \<lparr>sm2_public_key = Some sm2, dilithium_public_key = pk\<rparr>"
    and ss: "0 < ret'" "outcome (EVP_DigestSign L ''SM3'' sm2 SM2_DEFAULT_USER_ID room' bench_message) (ret', sm2_sig_bytes s)"
    and ds: "length (dilithium_sig_bytes s) = DILITHIUM_SIGNATURE_BYTES"
      "outcome (ref_signature L bench_message [] sk) (0, dilithium_sig_bytes s)"
    and cs: "outcome (composite_sign L (Some \<lparr>sm2_private_key = Some sm2, dilithium_secret_key = sk\<rparr>)
           (Buf bench_message) (Null 0) True) (Some (composite_sig_bytes s))"
  from laws gen have ecdsa: "ecdsa_pair L e" unfolding generator_laws_def by blast
  from laws sgen have sm2: "sm2_pair L sm2 sm2 \<and> verifier_ready L sm2" unfolding generator_laws_def by blast
  from laws dgen have dil: "dilithium_pair L sk pk" unfolding generator_laws_def by blast
  note pairs = ecdsa sm2[THEN conjunct1] sm2[THEN conjunct2] dil
  have "always (ecdsa_p256_sha256_verify L e bench_message (ecdsa_sig_bytes s)) True"
    by (rule always_ecdsa_verify[OF pairs(1) es])
  moreover have "always (sm2_verify L (Some sm2) bench_message (sm2_sig_bytes s)) True"
    unfolding sm2_verify_def using pairs(2,3) ss
    by (intro always_hybrid_sm2_verify) (auto simp: verifier_ready_def sm2_pair_def)
  moreover have "always (dilithium2_verify L pk bench_message (dilithium_sig_bytes s)) True"
    using pairs(4) ds by (simp add: dilithium2_verify_def dilithium_verify_iff dilithium_pair_def)
  moreover have "always (composite_signature_verify L (bench_public s) bench_message (composite_sig_bytes s)) True"
    unfolding composite_signature_verify_def
    by (rule always_verify_after_sign[OF cs, where s2k = sm2 and p2k = sm2]) (simp_all add: pub pairs)
  ultimately show ?thesis by (simp add: bench_verifiers_def e pub)
qed

text \<open>A benchmark of a verification that always succeeds fails only for want of memory or a clock.\<close>

definition benchmark_excuse :: "string \<Rightarrow> string list \<Rightarrow> bool" where
  "benchmark_excuse name lines \<longleftrightarrow>
     lines = [''FAIL: unable to allocate samples for '' @ name] \<or>
     lines = [''FAIL: monotonic clock failed for '' @ name]"

lemma warm_up_silent: "always verify True \<Longrightarrow> outcome (warm_up name verify i n) r \<Longrightarrow> r = None"
  by (induction n arbitrary: i) (auto elim!: outcome_bind dest: always_outcome split: if_splits)

lemma timed_excuse:
  "always verify True \<Longrightarrow> outcome (timed L F name verify i samples t n) (Inl line) \<Longrightarrow>
   line = ''FAIL: monotonic clock failed for '' @ name"
  by (induction n arbitrary: i samples t)
    (auto simp: Let_def elim!: outcome_bind dest: always_outcome split: if_splits)

lemma run_benchmark_excuse:
  assumes "always verify True" and "outcome (run_benchmark L F name verify warmup n) (Inl lines)"
    and "0 < n" and "n \<le> SIZE_MAX div 8"
  shows "benchmark_excuse name lines"
proof -
  from assms(3,4) have c: "(n = 0 \<or> n > SIZE_MAX div 8) = False" by simp
  from assms(2) obtain allocated where "allocated \<or> lines = [''FAIL: unable to allocate samples for '' @ name]"
      and rest: "allocated \<Longrightarrow> outcome (do {
          warm \<leftarrow> warm_up name verify 0 warmup;
          case warm of
            Some line \<Rightarrow> give (Inl [line])
          | None \<Rightarrow> do {
              measured \<leftarrow> timed L F name verify 0 [] 0 n;
              give (case measured of
                  Inl line \<Rightarrow> Inl [line]
                | Inr (samples, total_ns) \<Rightarrow> Inr (summarise F name n samples total_ns)) } }) (Inl lines)"
    unfolding run_benchmark_def c if_False by (elim outcome_bind) (rule that, auto split: if_splits)
  moreover from rest have "allocated \<Longrightarrow> \<exists>line. lines = [line] \<and> outcome (timed L F name verify 0 [] 0 n) (Inl line)"
    by (auto elim!: outcome_bind dest: warm_up_silent[OF assms(1)] split: option.splits sum.splits)
  ultimately show ?thesis unfolding benchmark_excuse_def using timed_excuse[OF assms(1)] by blast
qed

lemma run_all_excuse:
  assumes "\<forall>v\<in>set vs. always (snd v) True" and "outcome (run_all L F warmup n vs) (Inl lines)"
    and "0 < n" and "n \<le> SIZE_MAX div 8"
  shows "\<exists>v\<in>set vs. benchmark_excuse (fst v) lines"
  using assms(1,2)
proof (induction vs)
  case (Cons v vs)
  from Cons.prems(2) consider "outcome (run_benchmark L F (fst v) (snd v) warmup n) (Inl lines)"
      | "outcome (run_all L F warmup n vs) (Inl lines)"
    by (auto elim!: outcome_bind split: sum.splits)
  then show ?case
  proof cases
    case 1
    with Cons.prems(1) have "benchmark_excuse (fst v) lines"
      by (intro run_benchmark_excuse[OF _ 1 assms(3,4)]) simp
    then show ?thesis by simp
  next
    case 2
    from Cons.IH[OF _ this] Cons.prems(1) show ?thesis by simp
  qed
qed simp

end
