(* ===== verification/Benchmark_Theorems.thy ===== *)
theory Benchmark_Theorems
  imports Benchmark_Facts
begin

text \<open>
  The properties of the benchmark tool: the statistics it reports are the exact order statistics of
  its samples and come in the right order, what is timed verifies, what the command line accepts as
  a count, and the report never overwrites the CSV file.
\<close>

section \<open>Properties\<close>

text \<open>
  C39: The statistics of a benchmark are those of what the clock showed: when \<open>run_benchmark\<close>
  succeeds, take the readings of the clock around the \<open>n\<close> timed verifications, in the state that the
  allocation and the warm-up left. Every verification succeeded, between readings that do not
  decrease, and with the differences of the readings as samples, the reported minimum, median (the
  rounded-down mean of the two middle samples for an even number), percentiles (at the rounded-up
  rank) and maximum are those of the sorted samples, in ascending order. Unless the sum of the
  samples exceeds 64 bits, the reported mean is their sum divided by their number, rounded once, and
  lies between minimum and maximum.
\<close>

theorem benchmark_statistics:
  assumes "run (run_benchmark L F name verify warmup n) w = Inr r" and "float_law F"
  defines "clock \<equiv> run (laps L verify n) (timing_start L name verify warmup n w)"
  defines "samples \<equiv> map elapsed clock"
  shows "sample_count r = n \<and> 0 < n \<and> length clock = n \<and> list_all good_lap clock \<and>
    min_ms r = reported F (sort samples ! 0) \<and>
    median_ms r = reported F (median_ns (sort samples) n) \<and>
    unat (median_ns (sort samples) n) =
      (unat (sort samples ! ((n - 1) div 2)) + unat (sort samples ! (n div 2))) div 2 \<and>
    p95_ms r = reported F (sort samples ! (rank_of n 95 100 - 1)) \<and>
    p99_ms r = reported F (sort samples ! (rank_of n 99 100 - 1)) \<and>
    max_ms r = reported F (sort samples ! (n - 1)) \<and>
    min_ms r \<le> median_ms r \<and> median_ms r \<le> p95_ms r \<and> p95_ms r \<le> p99_ms r \<and> p99_ms r \<le> max_ms r \<and>
    ((\<Sum>x\<leftarrow>samples. unat x) < 2 ^ 64 \<longrightarrow>
       mean_ms r = ns_to_ms F (round_long F (of_nat (\<Sum>x\<leftarrow>samples. unat x) / of_nat n)) \<and>
       min_ms r \<le> mean_ms r \<and> mean_ms r \<le> max_ms r)"
proof -
  from run_benchmark_measured[OF assms(1,2)] obtain ls t where n: "0 < n" "n < 2 ^ 62"
      and ls: "clock = ls" "length ls = n" "list_all good_lap ls" and r: "r = summarise F name n samples t"
      and t: "(\<Sum>l\<leftarrow>ls. unat (elapsed l)) < 2 ^ 64 \<Longrightarrow> t = of_nat (\<Sum>l\<leftarrow>ls. unat (elapsed l))"
    unfolding samples_def clock_def by metis
  have total: "(\<Sum>x\<leftarrow>samples. unat x) = (\<Sum>l\<leftarrow>ls. unat (elapsed l))" by (simp add: samples_def ls(1) o_def)
  define o' where "o' = sort samples"
  have o': "sorted o'" "length o' = n" "mset o' = mset samples"
    by (simp_all add: o'_def samples_def ls)
  have stats: "sample_count r = n" "min_ms r = reported F (o' ! 0)" "median_ms r = reported F (median_ns o' n)"
      "max_ms r = reported F (o' ! (n - 1))" "p95_ms r = reported F (o' ! (rank_of n 95 100 - 1))"
      "p99_ms r = reported F (o' ! (rank_of n 99 100 - 1))"
      and mean: "mean_ms r = ns_to_ms F (round_long F (t / round_long F (of_nat n)))"
    using nearest_rank_exact(1)[OF n, of 95 100 o'] nearest_rank_exact(1)[OF n, of 99 100 o']
    by (simp_all add: r summarise_def Let_def qsort_u64 o'_def)
  note order = statistics_ordered[OF assms(2) n o'(1,2), folded stats]
  have rn: "round_long F (of_nat n) = of_nat n" using n(2) by (intro float_lawD(3)[OF assms(2)]) simp
  have means: "mean_ms r = ns_to_ms F (round_long F (of_nat (\<Sum>x\<leftarrow>samples. unat x) / of_nat n)) \<and>
      min_ms r \<le> mean_ms r \<and> mean_ms r \<le> max_ms r" if lt: "(\<Sum>x\<leftarrow>samples. unat x) < 2 ^ 64"
  proof -
    have t': "t = of_nat (\<Sum>x\<leftarrow>samples. unat x)" using t lt by (simp add: total)
    have "(\<Sum>x\<leftarrow>samples. unat x) = (\<Sum>x\<leftarrow>o'. unat x)" using o'(3) by (metis mset_map sum_mset_sum_list)
    from mean_between[OF assms(2) n(1) o'(1,2), folded this] show ?thesis
      unfolding stats(2,4) mean rn t' by blast
  qed
  have "unat (median_ns o' n) = (unat (o' ! ((n - 1) div 2)) + unat (o' ! (n div 2))) div 2"
    by (rule median_exact[OF n(1)])
  moreover have "length clock = n" "list_all good_lap clock" using ls by simp_all
  ultimately show ?thesis unfolding o'_def[symmetric] using n(1) stats order means by (intro conjI impI) blast+
qed

section \<open>A concrete run\<close>

text \<open>The library of \<open>Reference_Lib\<close> with a clock that stands still.\<close>

definition toy_bench_lib :: "(unit, bytes) bench_lib" where
  "toy_bench_lib = toy_with \<lparr>
     clock_gettime = give (Some (0, 5)),
     EVP_PKEY_CTX_set_group_name = \<lambda>g. give 1,
     EVP_PKEY_generate_in_group = \<lambda>a g. give (1, Some toy_point),
     ERR_print_errors_fp = give [],
     OpenSSL_version = ''OpenSSL 3.5'',
     uname = give None,
     strerror = \<lambda>e. '''',
     clang_version = None,
     gnuc_version = Some ''13.2'',
     HYBRID_BENCH_BUILD_TYPE = ''Release''\<rparr>"

theorem benchmark_statistics_witness:
  "min_ms (summarise exact_format ''x'' 3 [0, 0, 0] 0) \<le> median_ms (summarise exact_format ''x'' 3 [0, 0, 0] 0)"
proof -
  have lib: "clock_gettime toy_bench_lib = give (Some (0, 5))" "libc_malloc toy_bench_lib n = give True" for n
    by (simp_all add: toy_bench_lib_def toy_with_def)
  have now: "now_ns (Some (0, 5)) = 5" by (simp add: now_ns_def)
  have zero: "round_long exact_format r = r" "long_of_u64 exact_format 0 = 0" for r
    by (simp_all add: long_of_u64_def exact_format_def)
  have "timed toy_bench_lib exact_format ''x'' (give True) i xs 0 (Suc n) =
      timed toy_bench_lib exact_format ''x'' (give True) (Suc i) (xs @ [0]) 0 n" for i xs n
    by (simp add: lib now zero UINT64_MAX_def)
  then have "timed toy_bench_lib exact_format ''x'' (give True) 0 [] 0 3 = give (Inr ([0, 0, 0], 0))"
    by (simp only: numeral_3_eq_3) simp
  moreover have "warm_up ''x'' (give True) 0 1 = (give None :: (unit, string option) prog)" by simp
  ultimately have "run (run_benchmark toy_bench_lib exact_format ''x'' (give True) 1 3) () =
      Inr (summarise exact_format ''x'' 3 [0, 0, 0] 0)"
    by (simp add: run_benchmark_def lib SIZE_MAX_def)
  from benchmark_statistics[OF this exact_float_law] show ?thesis by blast
qed

lemma always_all_of: "\<forall>m\<in>set ms. always m True \<Longrightarrow> always (all_of ms) True"
  by (induction ms) (auto intro: always_both)

text \<open>
  C40: What the benchmark times is what it claims to time: when the set-up succeeds and the
  generators return matching pairs, all four signatures verify in every later state, so the check
  before the warm-up passes, and a benchmark then fails only for want of memory or a clock, never
  with a verification failure.
\<close>

theorem benchmark_setup_verifies:
  assumes "run (bench_prepare L) w = Some s" and "generator_laws L"
  shows "run (all_of (map snd (bench_verifiers L s))) w' \<and>
    (\<forall>lines. run (run_all L F warmup n (bench_verifiers L s)) w'' = Inl lines \<longrightarrow> 0 < n \<longrightarrow> n \<le> SIZE_MAX div 8 \<longrightarrow>
       (\<exists>v\<in>set (bench_verifiers L s). benchmark_excuse (fst v) lines))"
proof -
  note ok = always_bench_verifiers[OF run_outcome[OF assms(1)] assms(2)]
  then have "always (all_of (map snd (bench_verifiers L s))) True" by (intro always_all_of) simp
  with ok show ?thesis by (blast intro: run_all_excuse run_outcome dest: always_run)
qed

text \<open>The set-up on that library.\<close>

definition toy_setup :: "bytes bench_setup" where
  "toy_setup = \<lparr>ecdsa_key = Some toy_point, ecdsa_sig_bytes = toy_sm2_signature toy_point bench_message,
     bench_public = toy_public, sm2_sig_bytes = toy_sm2_signature toy_point bench_message,
     dilithium_sig_bytes = toy_dilithium_signature 7 bench_message,
     composite_sig_bytes = toy_composite_signature bench_message []\<rparr>"

lemma toy_bench_prepare: "always (bench_prepare toy_bench_lib) (Some toy_setup)"
proof -
  let ?L = toy_bench_lib
  have key: "always (generate_ecdsa_p256_key ?L) (Some toy_point)"
    by (simp add: generate_ecdsa_p256_key_def toy_bench_lib_def toy_with_def ensure_def Prelude.positive_def)
  have ecdsa: "always (ecdsa_p256_sha256_sign ?L (Some toy_point) bench_message)
      (Some (toy_sm2_signature toy_point bench_message))"
    by (simp add: ecdsa_p256_sha256_sign_def toy_bench_lib_def toy_with_def ensure_def Prelude.positive_def)
  have keys: "always (composite_key_generate ?L (Some p) (Some q)) (True, Some toy_private, Some toy_public)" for p q
    by (simp add: composite_key_generate_def hybrid_sm2_generate_keypair_def dilithium_generate_keypair_def
        toy_bench_lib_def toy_with_def ensure_def Prelude.positive_def attempt_def sizes toy_private_def toy_public_def
        toy_point_def)
  have sm2: "always (hybrid_sm2_sign ?L (Some toy_point) (Buf m) True) (Some (toy_sm2_signature toy_point m))" for m
    by (simp add: hybrid_sm2_sign_def toy_bench_lib_def toy_with_def ensure_def Prelude.positive_def)
  have dil: "always (dilithium_sign ?L (Buf (replicate 2560 7)) (Buf m) True) (Some (toy_dilithium_signature 7 m))" for m
    by (simp add: dilithium_sign_def toy_bench_lib_def toy_with_def sizes toy_dilithium_signature_def ensure_def)
  have comp: "always (composite_sign ?L (Some toy_private) (Buf m) (Null 0) True) (Some (toy_composite_signature m []))" for m
    unfolding toy_bench_lib_def always_def run_def by (auto simp: toy_sign_null)
  show ?thesis
    unfolding bench_prepare_def toy_setup_def using key ecdsa keys sm2 dil comp
    by (auto intro!: always_bind[OF key] always_attempt[OF ecdsa] always_bind[OF keys] always_attempt[OF sm2]
        always_attempt[OF dil] always_attempt[OF comp])
qed

lemma toy_generator_laws: "generator_laws toy_bench_lib"
proof -
  have "ecdsa_pair toy_bench_lib toy_point"
    by (auto simp: ecdsa_pair_def toy_bench_lib_def toy_with_def)
  moreover have "sm2_pair toy_bench_lib toy_point toy_point" "verifier_ready toy_bench_lib toy_point"
    "dilithium_pair toy_bench_lib (replicate 2560 7) (replicate 1312 7)"
    unfolding toy_bench_lib_def by simp_all
  ultimately show ?thesis
    by (simp add: generator_laws_def) (simp add: toy_bench_lib_def toy_with_def toy_point_def)
qed

theorem benchmark_setup_verifies_witness:
  "run (all_of (map snd (bench_verifiers toy_bench_lib toy_setup))) ()"
  using benchmark_setup_verifies[OF always_run[OF toy_bench_prepare] toy_generator_laws, where F = exact_format]
  by blast

section \<open>The command line and the file names\<close>

text \<open>
  What \<open>parse_count\<close> accepts: the decimal of every number that fits, as meant; the guard against a
  minus sign looks at the first character only, so a space before it lets \<open>-1\<close> through as the
  largest number.
\<close>

lemma parse_count_decimal: "n \<le> SIZE_MAX \<Longrightarrow> parse_count (Some (decimal n)) = Some n"
proof -
  assume n: "n \<le> SIZE_MAX"
  from decimal_head[of n] obtain d s where d: "d < 10" "decimal n = digit_char d # s" by blast
  then have "hd (decimal n) \<noteq> CHR ''-''" "decimal n \<noteq> []" by (simp_all add: digit_char_facts)
  with n show ?thesis by (simp add: parse_count_def strtoul_decimal)
qed

theorem parse_count_minus:
  "parse_count (Some ''-1'') = None \<and> parse_count (Some '' -1'') = Some SIZE_MAX"
  by (simp add: parse_count_def strtoul_def read_sign_def isspace_def isdigit_def digit_value_def SIZE_MAX_def Let_def)

text \<open>The report never has the name of the CSV file, and the name fits the memory allocated.\<close>

theorem markdown_path_fits:
  assumes "run (markdown_path_for_csv L p) w = Some md"
  shows "md \<noteq> p \<and> length md + 1 \<le> length p + 4 \<and> (\<exists>s. md = s @ ''.md'')"
proof -
  from run_outcome[OF assms] have md: "md = (if 4 \<le> length p \<and> drop (length p - 4) p = ''.csv''
      then take (length p - 4) p @ ''.md'' else p @ ''.md'')"
    unfolding markdown_path_for_csv_def by (auto elim!: outcome_elims split: if_splits)
  show ?thesis
  proof (cases "4 \<le> length p \<and> drop (length p - 4) p = ''.csv''")
    case True
    then have len: "length md = length p - 1" unfolding md by simp linarith
    with True have "md \<noteq> p" by auto
    moreover have "length md + 1 \<le> length p + 4" using len by simp
    ultimately show ?thesis unfolding md using True by auto
  next
    case False
    then have "md = p @ ''.md''" unfolding md by (rule if_not_P)
    then show ?thesis by simp
  qed
qed

theorem markdown_path_fits_witness:
  "(''out.md'' :: string) \<noteq> ''out.csv''"
proof -
  have "run (markdown_path_for_csv toy_bench_lib ''out.csv'') () = Some ''out.md''"
    by (simp add: markdown_path_for_csv_def toy_bench_lib_def toy_with_def ensure_def SIZE_MAX_def)
  from markdown_path_fits[OF this] show ?thesis by blast
qed

end
