(* ===== verification/Gmssl_Hybrid.thy ===== *)
theory Gmssl_Hybrid
  imports Tlcp_Adapter Pqkex
begin

text \<open>
  What patches 0002 and 0003 under \<open>patches/gmssl\<close> add to GmSSL's TLCP handshake: the certificate
  callback and the choice of the keys that the handshake uses afterwards. The new functions are
  modelled whole; of the GmSSL functions that the patches change, whose code is not in this
  repository, a definition holds the changed lines. GmSSL's own functions are fields of a record
  that extends the one of \<open>Pqkex\<close>; the verbose trace is left out.
\<close>

section \<open>Parameters and state\<close>

record ('pk, 'f) gm_tls = gm_codec +
  ASN1_TAG_SEQUENCE :: byte
  asn1_any_from_der :: "bytes \<Rightarrow> (bytes \<times> bytes) option" \<comment> \<open>one element and the rest\<close>
  OID_ec_public_key :: int
  OID_sm2 :: int
  x509_public_key_from_bytes :: "int \<Rightarrow> int \<Rightarrow> bytes \<Rightarrow> ('pk \<times> bytes) option" \<comment> \<open>key and rest\<close>
  x509_cert_get_subject_public_key :: "bytes \<Rightarrow> 'pk option"
  x509_certs_get_cert_by_index :: "bytes \<Rightarrow> nat \<Rightarrow> bytes option"
  pem_read :: "'f \<Rightarrow> nat \<Rightarrow> int \<times> bytes \<times> 'f"
    \<comment> \<open>from a stream, at most so many bytes: return code, what was written, the stream\<close>
  X509_verify_ok :: int
  X509_verify_err_certificate :: int
  TLS_sig_sm2sig_sm3 :: int

definition TLCP_HYBRID_CERT_SM2_PUBLIC_KEY_SIZE :: nat where
  "TLCP_HYBRID_CERT_SM2_PUBLIC_KEY_SIZE = 65"

definition GMSSL_TLCP_HYBRID_CERT_INVALID :: int where "GMSSL_TLCP_HYBRID_CERT_INVALID = -1"
definition GMSSL_TLCP_HYBRID_CERT_NOT_APPLICABLE :: int where "GMSSL_TLCP_HYBRID_CERT_NOT_APPLICABLE = 0"
definition GMSSL_TLCP_HYBRID_CERT_VALID :: int where "GMSSL_TLCP_HYBRID_CERT_VALID = 1"

lemmas gmssl_hybrid_constants = TLCP_HYBRID_CERT_SM2_PUBLIC_KEY_SIZE_def
  GMSSL_TLCP_HYBRID_CERT_INVALID_def GMSSL_TLCP_HYBRID_CERT_NOT_APPLICABLE_def
  GMSSL_TLCP_HYBRID_CERT_VALID_def

text \<open>
  \<open>TLS_TLCP_HYBRID_CERT_VERIFY_CB\<close>: the list, the caller's key array, what \<open>arg\<close> points to, and
  \<open>verbose\<close>; the results are the return value and what is then in the array and behind \<open>arg\<close>.
\<close>

type_synonym ('w, 'a) cert_verify_cb = "buf \<Rightarrow> bytes \<Rightarrow> 'a \<Rightarrow> bool \<Rightarrow> ('w, int \<times> bytes \<times> 'a) prog"

text \<open>The fields of \<open>TLS_CTX\<close> and \<open>TLS_CONNECT\<close> that the patches use.\<close>

record ('w, 'a) hybrid_ctx =
  hctx_protocol :: int
  hctx_is_client :: bool
  hctx_verbose :: bool
  cert_chains_len :: nat
  x509_keys_cnt :: nat
  tlcp_hybrid_cert_expected :: bool
  tlcp_hybrid_cert_verify_cb :: "('w, 'a) cert_verify_cb option"
  tlcp_hybrid_cert_verify_arg :: 'a

record ('w, 'a) hybrid_conn =
  hconn_ctx :: "('w, 'a) hybrid_ctx"
  hconn_verbose :: bool
  hconn_verify_result :: int
  peer_cert_chain :: bytes
  tlcp_hybrid_sign_cert :: bool
  tlcp_hybrid_sm2_public_key :: bytes

section \<open>Certificate lists\<close>

definition tls_raw_certificate_from_der ::
  "('pk, 'f, 'e) gm_tls_scheme \<Rightarrow> buf \<Rightarrow> bool \<Rightarrow> (bytes \<times> bytes) option" where
  "tls_raw_certificate_from_der G input outs =
     (if \<not> outs then None
      else case input of
          Null n \<Rightarrow> None
        | Buf b \<Rightarrow> if b = [] \<or> hd b \<noteq> ASN1_TAG_SEQUENCE G then None else asn1_any_from_der G b)"

text \<open>
  The loop over the list, with \<open>n\<close> certificates still to pass over before the one asked for: the
  return code, and the certificate when that is 1. After a failure the output is not read.
\<close>

primrec raw_index_loop :: "('pk, 'f, 'e) gm_tls_scheme \<Rightarrow> nat \<Rightarrow> bytes \<Rightarrow> int \<times> bytes option" where
  "raw_index_loop G 0 certs =
     (if certs = [] then (0, None)
      else case tls_raw_certificate_from_der G (Buf certs) True of
          None \<Rightarrow> (-1, None)
        | Some (cert, rest) \<Rightarrow> (1, Some cert))"
| "raw_index_loop G (Suc n) certs =
     (if certs = [] then (0, None)
      else case tls_raw_certificate_from_der G (Buf certs) True of
          None \<Rightarrow> (-1, None)
        | Some (cert, rest) \<Rightarrow> raw_index_loop G n rest)"

definition tls_cert_chain_get_cert_by_index_raw ::
  "('pk, 'f, 'e) gm_tls_scheme \<Rightarrow> buf \<Rightarrow> int \<Rightarrow> bool \<Rightarrow> int \<times> bytes option" where
  "tls_cert_chain_get_cert_by_index_raw G certs index outs =
     (if buf_null certs \<or> buf_len certs = 0 \<or> index < 0 \<or> \<not> outs then (-1, None)
      else raw_index_loop G (nat index) (buf_bytes certs))"

text \<open>\<open>maxlen -= certlen\<close> on \<open>size_t\<close>.\<close>

definition size_minus :: "nat \<Rightarrow> nat \<Rightarrow> nat" where
  "size_minus a b = (if b \<le> a then a - b else a + SIZE_MAX + 1 - b)"

text \<open>The loop of the PEM reader, with what it has written; None when it does not end.\<close>

partial_function (option) pem_loop ::
  "('pk, 'f, 'e) gm_tls_scheme \<Rightarrow> bytes \<Rightarrow> nat \<Rightarrow> 'f \<Rightarrow> (int \<times> bytes \<times> 'f) option" where
  "pem_loop G certs maxlen fp =
     (case pem_read G fp maxlen of (ret, der, fp') \<Rightarrow>
        if ret < 0 then Some (-1, certs, fp')
        else if ret = 0 then Some (if certs \<noteq> [] then 1 else 0, certs, fp')
        else if der = [] \<or> hd der \<noteq> ASN1_TAG_SEQUENCE G \<or>
          (case asn1_any_from_der G der of None \<Rightarrow> True | Some (certificate, remaining) \<Rightarrow> remaining \<noteq> [])
        then Some (-1, certs, fp')
        else pem_loop G (certs @ der) (size_minus maxlen (length der)) fp')"

definition tlcp_hybrid_certs_from_pem ::
  "('pk, 'f, 'e) gm_tls_scheme \<Rightarrow> nat \<Rightarrow> 'f \<Rightarrow> (int \<times> bytes \<times> 'f) option" where
  "tlcp_hybrid_certs_from_pem G maxlen fp = pem_loop G [] maxlen fp"

section \<open>Configuration\<close>

definition tls_ctx_set_tlcp_hybrid_cert_verify ::
  "('pk, 'f, 'e) gm_tls_scheme \<Rightarrow> ('w, 'a) hybrid_ctx option \<Rightarrow> int \<Rightarrow> ('w, 'a) cert_verify_cb option \<Rightarrow> 'a \<Rightarrow>
   int \<times> ('w, 'a) hybrid_ctx option" where
  "tls_ctx_set_tlcp_hybrid_cert_verify G ctx expected_hybrid_cert verify_cb verify_arg =
     (case ctx of
        None \<Rightarrow> (-1, ctx)
      | Some c \<Rightarrow>
          if hctx_protocol c \<noteq> TLS_protocol_tlcp G \<or> verify_cb = None then (-1, ctx)
          else (1, Some (c\<lparr>tlcp_hybrid_cert_expected := expected_hybrid_cert \<noteq> 0,
                           tlcp_hybrid_cert_verify_cb := verify_cb,
                           tlcp_hybrid_cert_verify_arg := verify_arg\<rparr>)))"

text \<open>
  The part of \<open>tlcp_ctx_add_certificate_and_keys\<close> that takes the public key of the signing
  certificate, to be compared with the private key; \<open>hybrid_sm2_public_key\<close> is the uninitialised
  local array. None is \<open>goto end\<close>.
\<close>

definition sign_certificate_key ::
  "('pk, 'f, 'e) gm_tls_scheme \<Rightarrow> ('w, 'a) hybrid_ctx \<Rightarrow> bytes \<Rightarrow> bool \<Rightarrow> int \<Rightarrow> int \<Rightarrow> bytes \<Rightarrow> ('w, 'pk option) prog" where
  "sign_certificate_key G ctx certs hybrid_sign_cert algor algor_param hybrid_sm2_public_key =
     (case (if hybrid_sign_cert then snd (tls_cert_chain_get_cert_by_index_raw G (Buf certs) 0 True)
            else x509_certs_get_cert_by_index G certs 0) of
        None \<Rightarrow> fail
      | Some cert \<Rightarrow>
          if hybrid_sign_cert then
            (case tlcp_hybrid_cert_verify_cb ctx of
               None \<Rightarrow> fail
             | Some cb \<Rightarrow> do {
                 (ret, key, _) \<leftarrow> cb (Buf certs) hybrid_sm2_public_key (tlcp_hybrid_cert_verify_arg ctx) (hctx_verbose ctx);
                 if ret \<noteq> GMSSL_TLCP_HYBRID_CERT_VALID then fail
                 else give (case x509_public_key_from_bytes G algor algor_param key of
                     None \<Rightarrow> None
                   | Some (public_key, rest) \<Rightarrow> if rest \<noteq> [] then None else Some public_key) })
          else give (x509_cert_get_subject_public_key G cert))"

text \<open>\<open>add\<close> stands for the rest of \<open>tlcp_ctx_add_certificate_and_keys\<close>, called with a 1.\<close>

definition tls_ctx_set_tlcp_hybrid_server_certificate_and_keys ::
  "(('w, 'a) hybrid_ctx \<Rightarrow> ('w, int \<times> ('w, 'a) hybrid_ctx) prog) \<Rightarrow> ('w, 'a) hybrid_ctx option \<Rightarrow>
   ('w, int \<times> ('w, 'a) hybrid_ctx option) prog" where
  "tls_ctx_set_tlcp_hybrid_server_certificate_and_keys add ctx =
     (case ctx of
        None \<Rightarrow> give (-1, ctx)
      | Some c \<Rightarrow>
          if hctx_is_client c \<or> cert_chains_len c \<noteq> 0 \<or> x509_keys_cnt c \<noteq> 0 \<or> tlcp_hybrid_cert_verify_cb c = None
          then give (-1, ctx)
          else do {
            (ret, c') \<leftarrow> add c;
            give (if ret \<noteq> 1 then -1 else 1, Some c') })"

section \<open>The handshake\<close>

text \<open>What \<open>tlcp_recv_server_certificate\<close> goes on with.\<close>

record certificate_checks =
  local_verify_result :: int
  local_sig_alg :: int
  classical_needed :: bool \<comment> \<open>\<open>tls_cert_chain_verify\<close> is called\<close>

text \<open>
  The new part of \<open>tlcp_recv_server_certificate\<close>: the connection, and how it goes on, None when it
  returns \<open>-1\<close> after the alert \<open>bad_certificate\<close>.
\<close>

definition recv_server_certificate ::
  "('pk, 'f, 'e) gm_tls_scheme \<Rightarrow> ('w, 'a) hybrid_conn \<Rightarrow>
   ('w, ('w, 'a) hybrid_conn \<times> certificate_checks option) prog" where
  "recv_server_certificate G conn = (
     let conn = conn\<lparr>tlcp_hybrid_sign_cert := False,
                     tlcp_hybrid_sm2_public_key := replicate TLCP_HYBRID_CERT_SM2_PUBLIC_KEY_SIZE 0\<rparr>;
         ctx = hconn_ctx conn;
         checks = \<lparr>local_verify_result = X509_verify_ok G, local_sig_alg = 0, classical_needed = True\<rparr>
     in case tlcp_hybrid_cert_verify_cb ctx of
          None \<Rightarrow> give (conn, Some checks)
        | Some cb \<Rightarrow>
            if fst (tls_cert_chain_get_cert_by_index_raw G (Buf (peer_cert_chain conn)) 0 True) \<noteq> 1
            then give (conn, None)
            else do {
              (hybrid_ret, key, arg) \<leftarrow> cb (Buf (peer_cert_chain conn)) (tlcp_hybrid_sm2_public_key conn)
                (tlcp_hybrid_cert_verify_arg ctx) (hconn_verbose conn);
              let conn = conn\<lparr>tlcp_hybrid_sm2_public_key := key,
                              hconn_ctx := ctx\<lparr>tlcp_hybrid_cert_verify_arg := arg\<rparr>\<rparr>;
              if hybrid_ret = GMSSL_TLCP_HYBRID_CERT_INVALID \<or>
                 (hybrid_ret = GMSSL_TLCP_HYBRID_CERT_NOT_APPLICABLE \<and> tlcp_hybrid_cert_expected ctx)
              then give (conn\<lparr>hconn_verify_result := X509_verify_err_certificate G\<rparr>, None)
              else if hybrid_ret = GMSSL_TLCP_HYBRID_CERT_VALID
              then give (conn\<lparr>tlcp_hybrid_sign_cert := True\<rparr>,
                     Some (checks\<lparr>local_verify_result := X509_verify_ok G, local_sig_alg := TLS_sig_sm2sig_sm3 G,
                                  classical_needed := False\<rparr>))
              else give (conn, Some (checks\<lparr>classical_needed :=
                     hybrid_ret = GMSSL_TLCP_HYBRID_CERT_NOT_APPLICABLE\<rparr>)) })"

datatype tlcp_failure = Return_error | Alert_bad_certificate

text \<open>The key under which \<open>tlcp_recv_server_key_exchange\<close> verifies the server's signature.\<close>

definition server_key_exchange_key ::
  "('pk, 'f, 'e) gm_tls_scheme \<Rightarrow> ('w, 'a) hybrid_conn \<Rightarrow> tlcp_failure + 'pk" where
  "server_key_exchange_key G conn =
     (case tls_cert_chain_get_cert_by_index_raw G (Buf (peer_cert_chain conn)) 0 True of (ret, sign_cert) \<Rightarrow>
        if ret \<noteq> 1 then Inl Return_error
        else if tlcp_hybrid_sign_cert conn then
          (case x509_public_key_from_bytes G (OID_ec_public_key G) (OID_sm2 G) (tlcp_hybrid_sm2_public_key conn) of
             None \<Rightarrow> Inl Alert_bad_certificate
           | Some (sign_key, rest) \<Rightarrow> if rest \<noteq> [] then Inl Alert_bad_certificate else Inr sign_key)
        else (case x509_cert_get_subject_public_key G (the sign_cert) of
             None \<Rightarrow> Inl Return_error
           | Some sign_key \<Rightarrow> Inr sign_key))"

text \<open>The key to which \<open>tlcp_send_client_key_exchange\<close> encrypts; None is its error.\<close>

definition client_key_exchange_key ::
  "('pk, 'f, 'e) gm_tls_scheme \<Rightarrow> ('w, 'a) hybrid_conn \<Rightarrow> 'pk option" where
  "client_key_exchange_key G conn =
     (case tls_cert_chain_get_cert_by_index_raw G (Buf (peer_cert_chain conn)) 1 True of (ret, enc_cert) \<Rightarrow>
        if ret \<noteq> 1 then None else x509_cert_get_subject_public_key G (the enc_cert))"

text \<open>The adapter's callback, as a value of that type.\<close>

definition adapter_callback ::
  "('w, 'k, 'x, 'n, 'o, 'p, 'e) x509_lib_scheme \<Rightarrow> ('w, tlcp_hybrid_cert_adapter_config option) cert_verify_cb" where
  "adapter_callback L cert_chain key_array arg verbose = do {
     (result, key, arg, printed) \<leftarrow>
       tlcp_hybrid_cert_gmssl_verify_callback L cert_chain (Some key_array) arg verbose;
     give (tlcp_result_code result, the key, arg) }"

end
