(* ===== verification/Gmssl_Hybrid_Theorems.thy ===== *)
theory Gmssl_Hybrid_Theorems
  imports Gmssl_Hybrid Adapter_Theorems
begin

text \<open>
  The properties of the certificate step of the TLCP handshake, with the adapter as its callback: the
  keys the handshake uses are those of verified certificates, what every result of a callback leads
  to, and the list read from a PEM file.
\<close>

section \<open>Elements of a certificate list\<close>

text \<open>
  Documented behaviour of GmSSL's ASN.1 reader: it splits one element off the front, which is
  self-delimiting; OpenSSL's decoder consumes that element; \<open>pem_read\<close> keeps to its limit.
\<close>

definition element_law :: "('pk, 'f, 'e) gm_tls_scheme \<Rightarrow> bool" where
  "element_law G \<longleftrightarrow>
     (\<forall>b c r. asn1_any_from_der G b = Some (c, r) \<longrightarrow>
        b = c @ r \<and> c \<noteq> [] \<and> (\<forall>x. asn1_any_from_der G (c @ x) = Some (c, x)))"

definition same_extent ::
  "('pk, 'f, 'd) gm_tls_scheme \<Rightarrow> ('w, 'k, 'x, 'n, 'o, 'p, 'e) x509_lib_scheme \<Rightarrow> bool" where
  "same_extent G L \<longleftrightarrow>
     (\<forall>b x n c r. outcome (d2i_X509 L b) (Some (x, n)) \<longrightarrow> asn1_any_from_der G b = Some (c, r) \<longrightarrow> n = length c)"

definition pem_law :: "('pk, 'f, 'e) gm_tls_scheme \<Rightarrow> bool" where
  "pem_law G \<longleftrightarrow> (\<forall>fp n. case pem_read G fp n of (ret, der, fp') \<Rightarrow> 0 < ret \<longrightarrow> length der \<le> n)"

text \<open>One certificate as the raw functions see it.\<close>

definition raw_element :: "('pk, 'f, 'e) gm_tls_scheme \<Rightarrow> bytes \<Rightarrow> bool" where
  "raw_element G c \<longleftrightarrow> c \<noteq> [] \<and> hd c = ASN1_TAG_SEQUENCE G \<and> (\<forall>x. asn1_any_from_der G (c @ x) = Some (c, x))"

lemma raw_certificate_element:
  "raw_element G c \<Longrightarrow> tls_raw_certificate_from_der G (Buf (c @ x)) True = Some (c, x)"
  by (simp add: raw_element_def tls_raw_certificate_from_der_def)

lemma raw_certificate_split:
  assumes "element_law G" and "tls_raw_certificate_from_der G (Buf b) True = Some (c, r)"
  shows "b = c @ r" and "raw_element G c" and "asn1_any_from_der G b = Some (c, r)"
proof -
  from assms(2) have b: "b \<noteq> []" "hd b = ASN1_TAG_SEQUENCE G" "asn1_any_from_der G b = Some (c, r)"
    by (auto simp: tls_raw_certificate_from_der_def split: if_splits)
  with assms(1) have "b = c @ r" "c \<noteq> []" "\<forall>x. asn1_any_from_der G (c @ x) = Some (c, x)"
    unfolding element_law_def by blast+
  with b show "b = c @ r" "raw_element G c" "asn1_any_from_der G b = Some (c, r)"
    by (auto simp: raw_element_def)
qed

lemma raw_index_concat:
  "\<forall>c\<in>set cs. raw_element G c \<Longrightarrow> raw_index_loop G i (concat cs) = (if i < length cs then (1, Some (cs ! i)) else (0, None))"
proof (induction cs arbitrary: i)
  case Nil
  then show ?case by (cases i) simp_all
next
  case (Cons c cs)
  then have c: "c \<noteq> []" "tls_raw_certificate_from_der G (Buf (c @ concat cs)) True = Some (c, concat cs)"
    by (simp_all add: raw_element_def raw_certificate_element)
  with Cons show ?case by (cases i) simp_all
qed

lemma get_cert_by_index_concat:
  assumes "\<forall>c\<in>set cs. raw_element G c" and "cs \<noteq> []"
  shows "tls_cert_chain_get_cert_by_index_raw G (Buf (concat cs)) (int i) True =
    (if i < length cs then (1, Some (cs ! i)) else (0, None))"
proof -
  have "concat cs \<noteq> []" using assms by (cases cs) (simp_all add: raw_element_def)
  then show ?thesis using assms(1) by (simp add: tls_cert_chain_get_cert_by_index_raw_def raw_index_concat)
qed

text \<open>The first two certificates of a list.\<close>

lemma get_cert_first:
  "tls_cert_chain_get_cert_by_index_raw G (Buf b) 0 True = (1, s) \<Longrightarrow>
   \<exists>c r. s = Some c \<and> tls_raw_certificate_from_der G (Buf b) True = Some (c, r)"
  by (auto simp: tls_cert_chain_get_cert_by_index_raw_def split: if_splits option.splits)

lemma get_cert_second:
  "tls_cert_chain_get_cert_by_index_raw G (Buf b) 1 True = (1, s) \<Longrightarrow>
   \<exists>c r d q. tls_raw_certificate_from_der G (Buf b) True = Some (c, r) \<and>
     tls_raw_certificate_from_der G (Buf r) True = Some (d, q) \<and> s = Some d"
  by (auto simp: tls_cert_chain_get_cert_by_index_raw_def split: if_splits option.splits)

section \<open>Reading a PEM file\<close>

text \<open>What \<open>pem_loop\<close> promises of its result, when it started with room for \<open>n\<close> bytes in all.\<close>

definition pem_result :: "('pk, 'f, 'e) gm_tls_scheme \<Rightarrow> nat \<Rightarrow> (int \<times> bytes \<times> 'f) option \<Rightarrow> bool" where
  "pem_result G n r \<longleftrightarrow>
     (\<exists>ret certs fp'. r = Some (ret, certs, fp') \<and> length certs \<le> n \<and>
        (ret = 1 \<longrightarrow> (\<exists>ds. ds \<noteq> [] \<and> certs = concat ds \<and> (\<forall>c\<in>set ds. raw_element G c))))"

lemma pem_block_element:
  assumes "element_law G" and "der \<noteq> []" and "hd der = ASN1_TAG_SEQUENCE G"
    and "\<not> (case asn1_any_from_der G der of None \<Rightarrow> True | Some (c, remaining) \<Rightarrow> remaining \<noteq> [])"
  shows "raw_element G der"
proof -
  from assms(4) obtain c where "asn1_any_from_der G der = Some (c, [])" by (auto split: option.splits)
  with assms(2,3) have "tls_raw_certificate_from_der G (Buf der) True = Some (c, [])"
    by (simp add: tls_raw_certificate_from_der_def)
  from raw_certificate_split(1,2)[OF assms(1) this] show ?thesis by simp
qed

lemma pem_loop_result:
  assumes "element_law G" and "pem_law G"
  shows "\<forall>c\<in>set cs. raw_element G c \<Longrightarrow> pem_result G (length (concat cs) + maxlen) (pem_loop G (concat cs) maxlen fp)"
proof (induction maxlen arbitrary: cs fp rule: less_induct)
  case (less maxlen)
  obtain ret der fp' where read: "pem_read G fp maxlen = (ret, der, fp')" by (cases "pem_read G fp maxlen")
  define bad where "bad \<longleftrightarrow> der = [] \<or> hd der \<noteq> ASN1_TAG_SEQUENCE G \<or>
    (case asn1_any_from_der G der of None \<Rightarrow> True | Some (c, remaining) \<Rightarrow> remaining \<noteq> [])"
  have step: "pem_loop G (concat cs) maxlen fp =
      (if ret < 0 then Some (-1, concat cs, fp')
       else if ret = 0 then Some (if concat cs \<noteq> [] then 1 else 0, concat cs, fp')
       else if bad then Some (-1, concat cs, fp')
       else pem_loop G (concat (cs @ [der])) (size_minus maxlen (length der)) fp')"
    unfolding bad_def by (subst pem_loop.simps) (simp add: read)
  consider "ret < 0" | "ret = 0" | "0 < ret" "bad" | "0 < ret" "\<not> bad" by linarith
  then show ?case
  proof cases
    case 2
    have "concat cs \<noteq> [] \<Longrightarrow> cs \<noteq> []" by auto
    with 2 less.prems show ?thesis unfolding step pem_result_def by auto
  next
    case 4
    then have der: "raw_element G der" "der \<noteq> []"
      by (auto simp: bad_def intro: pem_block_element[OF assms(1)])
    from spec[OF spec[OF assms(2)[unfolded pem_law_def], of fp], of maxlen] read 4(1) have len: "length der \<le> maxlen" by simp
    then have rest: "size_minus maxlen (length der) = maxlen - length der" "maxlen - length der < maxlen"
      using der(2) by (cases der; simp add: size_minus_def)+
    have "\<forall>c\<in>set (cs @ [der]). raw_element G c" using less.prems der(1) by auto
    from less.IH[OF rest(2) this, of fp'] show ?thesis
      using 4 len unfolding step rest(1) by simp
  qed (simp_all add: step pem_result_def)
qed

section \<open>The step\<close>

lemma run_bind: "run (m \<bind> f) w = (case run_state m w of (a, w') \<Rightarrow> run (f a) w')"
  by (simp add: run_def split: prod.splits)

lemma outcome_recv_hybrid:
  assumes "outcome (recv_server_certificate G conn) (conn', Some checks)"
    and "tlcp_hybrid_cert_verify_cb (hconn_ctx conn) = Some (adapter_callback L)"
    and "tlcp_hybrid_cert_expected (hconn_ctx conn)"
  obtains key arg printed where
    "outcome (tlcp_hybrid_cert_gmssl_verify_callback L (Buf (peer_cert_chain conn)) (Some (replicate 65 0))
       (tlcp_hybrid_cert_verify_arg (hconn_ctx conn)) (hconn_verbose conn)) (TLCP_HYBRID_CERT_VALID, key, arg, printed)"
    and "tlcp_hybrid_sign_cert conn'" and "tlcp_hybrid_sm2_public_key conn' = the key"
    and "peer_cert_chain conn' = peer_cert_chain conn" and "\<not> classical_needed checks"
proof -
  from assms obtain ret key arg where
      cb: "outcome (adapter_callback L (Buf (peer_cert_chain conn)) (replicate 65 0)
         (tlcp_hybrid_cert_verify_arg (hconn_ctx conn)) (hconn_verbose conn)) (ret, key, arg)"
      and ret: "ret \<noteq> -1" "ret \<noteq> 0"
      and conn': "ret = 1 \<Longrightarrow> tlcp_hybrid_sign_cert conn'" "tlcp_hybrid_sm2_public_key conn' = key"
        "peer_cert_chain conn' = peer_cert_chain conn" "\<not> classical_needed checks"
    unfolding recv_server_certificate_def Let_def
    by (auto elim!: outcome_bind simp: gmssl_hybrid_constants split: if_splits)
  from cb obtain result key' printed where
      out: "outcome (tlcp_hybrid_cert_gmssl_verify_callback L (Buf (peer_cert_chain conn)) (Some (replicate 65 0))
       (tlcp_hybrid_cert_verify_arg (hconn_ctx conn)) (hconn_verbose conn)) (result, key', arg, printed)"
      and r: "ret = tlcp_result_code result" "key = the key'"
    unfolding adapter_callback_def by (auto elim!: outcome_bind)
  from ret r have "result = TLCP_HYBRID_CERT_VALID" by (cases result) simp_all
  with out r conn' show thesis by (intro that) simp_all
qed

section \<open>Properties\<close>

text \<open>
  C26: In a handshake that expects the hybrid policy and has the adapter as its callback, the keys
  are those of verified certificates: if the certificate step goes on, the classical verification
  is not consulted; the list starts with a signing certificate that the trust anchor's chain
  accepts for the configured host and an encryption certificate accepted beside it; the server's
  signature is verified under the SM2 half of the first one's composite key, and the client
  encrypts to the key of exactly the second one.
\<close>

theorem handshake_uses_verified_certificates:
  assumes "run (recv_server_certificate G conn) w = (conn', Some checks)"
    and "tlcp_hybrid_cert_verify_cb (hconn_ctx conn) = Some (adapter_callback L)"
    and "tlcp_hybrid_cert_expected (hconn_ctx conn)"
    and "server_key_exchange_key G conn' = Inr sign_key" and "client_key_exchange_key G conn' = Some enc_key"
    and "element_law G" and "same_extent G L"
  shows "\<not> classical_needed checks \<and>
    (\<exists>cfg s_der e_der rest s e p. tlcp_hybrid_cert_verify_arg (hconn_ctx conn) = Some cfg \<and>
       peer_cert_chain conn = s_der @ e_der @ rest \<and>
       outcome (d2i_X509 L (s_der @ e_der @ rest)) (Some (s, length s_der)) \<and>
       outcome (d2i_X509 L (e_der @ rest)) (Some (e, length e_der)) \<and>
       signing_accepted L (Buf s_der) (trust_anchor cfg) (expected_hostname cfg) p \<and>
       dual_accepted L s e (trust_anchor cfg) \<and>
       x509_public_key_from_bytes G (OID_ec_public_key G) (OID_sm2 G) p = Some (sign_key, []) \<and>
       x509_cert_get_subject_public_key G e_der = Some enc_key)"
proof -
  from outcome_recv_hybrid[OF run_outcome[OF assms(1)] assms(2,3)] obtain key arg printed where
      cb: "outcome (tlcp_hybrid_cert_gmssl_verify_callback L (Buf (peer_cert_chain conn)) (Some (replicate 65 0))
       (tlcp_hybrid_cert_verify_arg (hconn_ctx conn)) (hconn_verbose conn)) (TLCP_HYBRID_CERT_VALID, key, arg, printed)"
      and conn': "tlcp_hybrid_sign_cert conn'" "tlcp_hybrid_sm2_public_key conn' = the key"
        "peer_cert_chain conn' = peer_cert_chain conn" and classical: "\<not> classical_needed checks"
    by blast
  have "length (replicate 65 (0 :: byte)) = SM2_UNCOMPRESSED_PUBLIC_KEY_BYTES" by (simp add: sizes)
  from cb this obtain cfg s e n m p where cfg: "tlcp_hybrid_cert_verify_arg (hconn_ctx conn) = Some cfg"
      and s: "outcome (d2i_X509 L (peer_cert_chain conn)) (Some (s, n))"
      and e: "outcome (d2i_X509 L (drop n (peer_cert_chain conn))) (Some (e, m))"
      and key: "key = Some p"
      and ok: "signing_accepted L (Buf (take n (peer_cert_chain conn))) (trust_anchor cfg) (expected_hostname cfg) p"
        "dual_accepted L s e (trust_anchor cfg)"
    by (elim outcome_callback_valid) auto
  from assms(5) conn'(3) obtain e_der where "tls_cert_chain_get_cert_by_index_raw G (Buf (peer_cert_chain conn)) 1 True
        = (1, Some e_der)" and enc: "x509_cert_get_subject_public_key G e_der = Some enc_key"
    by (auto simp: client_key_exchange_key_def split: prod.splits if_splits dest!: get_cert_second)
  then obtain s_der r rest where raw: "tls_raw_certificate_from_der G (Buf (peer_cert_chain conn)) True = Some (s_der, r)"
      "tls_raw_certificate_from_der G (Buf r) True = Some (e_der, rest)"
    by (auto dest: get_cert_second)
  note s_split = raw_certificate_split[OF assms(6) raw(1)] and e_split = raw_certificate_split[OF assms(6) raw(2)]
  from assms(7) s s_split(3) have n: "n = length s_der" unfolding same_extent_def by blast
  with s_split(1) have drop: "drop n (peer_cert_chain conn) = r" "take n (peer_cert_chain conn) = s_der" by simp_all
  from assms(7) e e_split(3) drop(1) have m: "m = length e_der" unfolding same_extent_def by blast
  from assms(4) conn'(1,2) key have sign: "x509_public_key_from_bytes G (OID_ec_public_key G) (OID_sm2 G) p = Some (sign_key, [])"
    by (auto simp: server_key_exchange_key_def split: prod.splits if_splits option.splits)
  show ?thesis
    using classical cfg s e ok sign enc s_split(1) e_split(1) drop n m
    by (intro conjI exI[of _ cfg] exI[of _ s_der] exI[of _ e_der] exI[of _ rest] exI[of _ s] exI[of _ e] exI[of _ p]) simp_all
qed

text \<open>
  The server's side: with the hybrid flag, the key that is compared with the private key is the SM2
  half of a signing certificate that the adapter verified, never the certificate's own key field.
\<close>

theorem server_key_verified:
  assumes "run (sign_certificate_key G ctx certs True algor algor_param key_array) w = Some key"
    and "tlcp_hybrid_cert_verify_cb ctx = Some (adapter_callback L)"
    and "length key_array = SM2_UNCOMPRESSED_PUBLIC_KEY_BYTES"
  shows "\<exists>cfg n p. tlcp_hybrid_cert_verify_arg ctx = Some cfg \<and>
    signing_accepted L (Buf (take n certs)) (trust_anchor cfg) (expected_hostname cfg) p \<and>
    x509_public_key_from_bytes G algor algor_param p = Some (key, [])"
proof -
  from run_outcome[OF assms(1)] assms(2) obtain octets arg where
      cb: "outcome (adapter_callback L (Buf certs) key_array (tlcp_hybrid_cert_verify_arg ctx) (hctx_verbose ctx)) (1, octets, arg)"
      and key: "x509_public_key_from_bytes G algor algor_param octets = Some (key, [])"
    unfolding sign_certificate_key_def
    by (auto elim!: outcome_bind simp: gmssl_hybrid_constants split: option.splits if_splits)
  from cb obtain result key' printed where
      out: "outcome (tlcp_hybrid_cert_gmssl_verify_callback L (Buf certs) (Some key_array)
         (tlcp_hybrid_cert_verify_arg ctx) (hctx_verbose ctx)) (result, key', arg, printed)"
      and r: "1 = tlcp_result_code result" "octets = the key'"
    unfolding adapter_callback_def by (auto elim!: outcome_bind)
  from r(1) have "result = TLCP_HYBRID_CERT_VALID" by (cases result) simp_all
  from out[unfolded this] obtain cfg n p where "tlcp_hybrid_cert_verify_arg ctx = Some cfg" "key' = Some p"
      "signing_accepted L (Buf (take n certs)) (trust_anchor cfg) (expected_hostname cfg) p"
    by (rule outcome_callback_valid[OF _ assms(3)]) auto
  with key r(2) show ?thesis by auto
qed

text \<open>
  C27: What every result of a callback leads to: \<open>INVALID\<close>, and \<open>NOT_APPLICABLE\<close> where the policy is
  expected, end the handshake; \<open>VALID\<close> alone marks the certificate as hybrid, and only
  \<open>NOT_APPLICABLE\<close> has the chain verified classically. A callback that returns any other number lets
  the handshake go on with neither.
\<close>

theorem certificate_step_exact:
  assumes "tlcp_hybrid_cert_verify_cb (hconn_ctx conn) = Some f"
    and "fst (tls_cert_chain_get_cert_by_index_raw G (Buf (peer_cert_chain conn)) 0 True) = 1"
    and "run (f (Buf (peer_cert_chain conn)) (replicate 65 0) (tlcp_hybrid_cert_verify_arg (hconn_ctx conn))
           (hconn_verbose conn)) w = (v, key, arg)"
  shows "case run (recv_server_certificate G conn) w of
      (c, None) \<Rightarrow> v = GMSSL_TLCP_HYBRID_CERT_INVALID \<or>
        v = GMSSL_TLCP_HYBRID_CERT_NOT_APPLICABLE \<and> tlcp_hybrid_cert_expected (hconn_ctx conn)
    | (c, Some checks) \<Rightarrow> v \<noteq> GMSSL_TLCP_HYBRID_CERT_INVALID \<and>
        \<not> (v = GMSSL_TLCP_HYBRID_CERT_NOT_APPLICABLE \<and> tlcp_hybrid_cert_expected (hconn_ctx conn)) \<and>
        (tlcp_hybrid_sign_cert c \<longleftrightarrow> v = GMSSL_TLCP_HYBRID_CERT_VALID) \<and>
        (classical_needed checks \<longleftrightarrow> v = GMSSL_TLCP_HYBRID_CERT_NOT_APPLICABLE) \<and>
        tlcp_hybrid_sm2_public_key c = key"
proof -
  obtain w' where "run_state (f (Buf (peer_cert_chain conn)) (replicate 65 0)
      (tlcp_hybrid_cert_verify_arg (hconn_ctx conn)) (hconn_verbose conn)) w = ((v, key, arg), w')"
    using assms(3) by (metis run_def prod.collapse)
  with assms(1,2) show ?thesis
    unfolding recv_server_certificate_def Let_def by (simp add: run_bind gmssl_hybrid_constants)
qed

text \<open>
  C28: Reading a PEM file ends, keeps to the room given, and what it accepts is a list that the
  handshake's index function reads back: the certificates in their order, and nothing behind them.
\<close>

theorem pem_list_roundtrip:
  assumes "element_law G" and "pem_law G"
  shows "\<exists>ret certs fp'. tlcp_hybrid_certs_from_pem G maxlen fp = Some (ret, certs, fp') \<and> length certs \<le> maxlen \<and>
    (ret = 1 \<longrightarrow> (\<exists>cs. cs \<noteq> [] \<and> certs = concat cs \<and>
       (\<forall>i. tls_cert_chain_get_cert_by_index_raw G (Buf certs) (int i) True =
          (if i < length cs then (1, Some (cs ! i)) else (0, None)))))"
proof -
  from pem_loop_result[OF assms, of "[]" maxlen fp] obtain ret certs fp' where
      "pem_loop G [] maxlen fp = Some (ret, certs, fp')" "length certs \<le> maxlen"
      and ds: "ret = 1 \<longrightarrow> (\<exists>ds. ds \<noteq> [] \<and> certs = concat ds \<and> (\<forall>c\<in>set ds. raw_element G c))"
    by (auto simp: pem_result_def)
  moreover from ds have "ret = 1 \<longrightarrow> (\<exists>cs. cs \<noteq> [] \<and> certs = concat cs \<and>
       (\<forall>i. tls_cert_chain_get_cert_by_index_raw G (Buf certs) (int i) True =
          (if i < length cs then (1, Some (cs ! i)) else (0, None))))"
    by (auto simp: get_cert_by_index_concat)
  ultimately show ?thesis unfolding tlcp_hybrid_certs_from_pem_def by auto
qed

section \<open>A concrete handshake\<close>

text \<open>
  Every element is a tag and one more byte; a key is its encoding; a PEM stream is the list of its
  blocks.
\<close>

definition toy_tls :: "(bytes, bytes list) gm_tls" where
  "toy_tls = \<lparr>TLS_protocol_tlcp = 257, tls_uint16_to_bytes = \<lambda>v. [], tls_uint16_from_bytes = \<lambda>b. None,
     tls_uint16array_from_bytes = \<lambda>b. None, tls_ext_to_bytes = \<lambda>t d. (1, d), tls_ext_from_bytes = \<lambda>b. None,
     ASN1_TAG_SEQUENCE = 48,
     asn1_any_from_der = \<lambda>b. (case b of x # y # r \<Rightarrow> if x = 48 then Some ([x, y], r) else None | _ \<Rightarrow> None),
     OID_ec_public_key = 18, OID_sm2 = 5,
     x509_public_key_from_bytes = \<lambda>a p k. Some (k, []),
     x509_cert_get_subject_public_key = \<lambda>c. Some c,
     x509_certs_get_cert_by_index = \<lambda>c i. Some c,
     pem_read = \<lambda>fp n. (case fp of [] \<Rightarrow> (0, [], []) | b # bs \<Rightarrow> if length b \<le> n then (1, b, bs) else (-1, [], bs)),
     X509_verify_ok = 0, X509_verify_err_certificate = -1, TLS_sig_sm2sig_sm3 = 1800\<rparr>"

lemma toy_element_law: "element_law toy_tls"
  by (auto simp: element_law_def toy_tls_def split: list.splits if_splits)

lemma toy_pem_law: "pem_law toy_tls"
  by (auto simp: pem_law_def toy_tls_def split: list.splits)

lemma toy_same_extent: "same_extent toy_tls toy_x509"
  by (auto simp: same_extent_def toy_tls_def toy_x509_eval toy_certificate_d2i_def toy_lookup_def
      split: list.splits if_splits)

definition toy_conn :: "(unit, tlcp_hybrid_cert_adapter_config option) hybrid_conn" where
  "toy_conn = \<lparr>hconn_ctx = \<lparr>hctx_protocol = 257, hctx_is_client = True, hctx_verbose = False, cert_chains_len = 0,
       x509_keys_cnt = 0, tlcp_hybrid_cert_expected = True,
       tlcp_hybrid_cert_verify_cb = Some (adapter_callback toy_x509), tlcp_hybrid_cert_verify_arg = Some toy_config\<rparr>,
     hconn_verbose = False, hconn_verify_result = 0, peer_cert_chain = [48, 2, 48, 3],
     tlcp_hybrid_sign_cert = False, tlcp_hybrid_sm2_public_key = []\<rparr>"

lemma toy_get_cert:
  "tls_cert_chain_get_cert_by_index_raw toy_tls (Buf [48, 2, 48, 3]) 0 True = (1, Some [48, 2])"
  "tls_cert_chain_get_cert_by_index_raw toy_tls (Buf [48, 2, 48, 3]) 1 True = (1, Some [48, 3])"
  by (simp_all add: tls_cert_chain_get_cert_by_index_raw_def tls_raw_certificate_from_der_def toy_tls_def)

lemma toy_recv:
  obtains conn' checks where "run (recv_server_certificate toy_tls toy_conn) () = (conn', Some checks)"
    and "server_key_exchange_key toy_tls conn' = Inr toy_point"
    and "client_key_exchange_key toy_tls conn' = Some [48, 3]"
proof -
  obtain cfg' printed where cb: "tlcp_hybrid_cert_gmssl_verify_callback toy_x509 (Buf ([48, 2] @ [48, 3]))
      (Some (replicate 65 0)) (Some toy_config) False = give (TLCP_HYBRID_CERT_VALID, Some toy_point, cfg', printed)"
    by (rule toy_callback[of "[48, 2]" "[48, 3]"]) (simp_all add: toy_encodes_def)
  then have "adapter_callback toy_x509 (Buf [48, 2, 48, 3]) (replicate 65 0) (Some toy_config) False
      = give (1, toy_point, cfg')" by (simp add: adapter_callback_def)
  moreover have "x509_public_key_from_bytes toy_tls a b k = Some (k, [])" "x509_cert_get_subject_public_key toy_tls k = Some k"
    for a b k by (simp_all add: toy_tls_def)
  ultimately show thesis
    by (intro that, simp add: recv_server_certificate_def toy_conn_def toy_get_cert Let_def gmssl_hybrid_constants)
      (simp_all add: toy_get_cert server_key_exchange_key_def client_key_exchange_key_def)
qed

theorem handshake_uses_verified_certificates_witness:
  "\<exists>p. signing_accepted toy_x509 (Buf [48, 2]) (Buf [1]) (Some ''server.local'') p"
proof -
  obtain conn' checks where run: "run (recv_server_certificate toy_tls toy_conn) () = (conn', Some checks)"
      "server_key_exchange_key toy_tls conn' = Inr toy_point" "client_key_exchange_key toy_tls conn' = Some [48, 3]"
    by (rule toy_recv)
  have conn: "tlcp_hybrid_cert_verify_cb (hconn_ctx toy_conn) = Some (adapter_callback toy_x509)"
      "tlcp_hybrid_cert_expected (hconn_ctx toy_conn)" by (simp_all add: toy_conn_def)
  from handshake_uses_verified_certificates[OF run(1) conn run(2,3) toy_element_law toy_same_extent]
  obtain cfg s_der e_der rest s e p where cfg: "tlcp_hybrid_cert_verify_arg (hconn_ctx toy_conn) = Some cfg"
      and chain: "peer_cert_chain toy_conn = s_der @ e_der @ rest"
      and s: "outcome (d2i_X509 toy_x509 (s_der @ e_der @ rest)) (Some (s, length s_der))"
      and ok: "signing_accepted toy_x509 (Buf s_der) (trust_anchor cfg) (expected_hostname cfg) p"
    by blast
  have "length s_der = 2"
    using s chain[symmetric] toy_certificate_d2i(2)[of Toy_Server "[48, 3]"] by (simp add: toy_conn_def toy_x509_eval)
  with chain have "s_der = [48, 2]" by (auto simp: toy_conn_def numeral_2_eq_2 length_Suc_conv Cons_eq_append_conv)
  with ok cfg show ?thesis by (auto simp: toy_conn_def toy_config_def)
qed

text \<open>A callback that returns 2.\<close>

theorem certificate_step_exact_witness:
  "\<exists>conn :: (unit, unit) hybrid_conn. \<exists>c checks. run (recv_server_certificate toy_tls conn) () = (c, Some checks) \<and>
     \<not> tlcp_hybrid_sign_cert c \<and> \<not> classical_needed checks"
proof -
  define f :: "(unit, unit) cert_verify_cb" where "f = (\<lambda>chain key arg verbose. give (2, key, arg))"
  define conn where "conn = \<lparr>hconn_ctx = \<lparr>hctx_protocol = 257, hctx_is_client = True, hctx_verbose = False,
       cert_chains_len = 0, x509_keys_cnt = 0, tlcp_hybrid_cert_expected = True,
       tlcp_hybrid_cert_verify_cb = Some f, tlcp_hybrid_cert_verify_arg = ()\<rparr>,
     hconn_verbose = False, hconn_verify_result = 0, peer_cert_chain = [48, 2, 48, 3],
     tlcp_hybrid_sign_cert = False, tlcp_hybrid_sm2_public_key = []\<rparr>"
  have cb: "tlcp_hybrid_cert_verify_cb (hconn_ctx conn) = Some f"
    and index: "fst (tls_cert_chain_get_cert_by_index_raw toy_tls (Buf (peer_cert_chain conn)) 0 True) = 1"
    by (simp_all add: conn_def toy_get_cert)
  have two: "run (f (Buf (peer_cert_chain conn)) (replicate 65 0) (tlcp_hybrid_cert_verify_arg (hconn_ctx conn))
      (hconn_verbose conn)) () = (2, replicate 65 0, ())" by (simp add: f_def)
  obtain c r where run: "run (recv_server_certificate toy_tls conn) () = (c, r)" by (cases "run (recv_server_certificate toy_tls conn) ()")
  from certificate_step_exact[OF cb index two] obtain checks where "r = Some checks"
      "\<not> tlcp_hybrid_sign_cert c" "\<not> classical_needed checks"
    by (cases r) (auto simp: run gmssl_hybrid_constants)
  with run show ?thesis by blast
qed

theorem pem_list_roundtrip_witness:
  "\<exists>ret certs fp'. tlcp_hybrid_certs_from_pem toy_tls 16384 [[48, 2], [48, 3]] = Some (ret, certs, fp')"
  using pem_list_roundtrip[OF toy_element_law toy_pem_law, of 16384 "[[48, 2], [48, 3]]"] by blast

end
