(* ===== verification/Gmssl_Psk.thy ===== *)
theory Gmssl_Psk
  imports Pqkex
begin

text \<open>
  What patch 0004 under \<open>patches/gmssl\<close> adds to GmSSL's TLS 1.3: the extension 65283, an empty flag by
  which both ends agree to authenticate with certificates and an external pre-shared key together.
  The new functions are modelled whole. Of the handshake functions that the patch edits, whose
  code is not in this repository, each definition holds the lines of the patch; what the code around
  them computes is an argument. Alerts are results; traces are left out.
\<close>

section \<open>Parameters and state\<close>

definition TLS_extension_post_quantum_pre_shared_key :: int where
  "TLS_extension_post_quantum_pre_shared_key = 65283"

type_synonym ke_modes = "32 word"

text \<open>The fields of \<open>TLS_CTX\<close> and \<open>TLS_CONNECT\<close> that the patch reads or writes; pointers as whether they are set.\<close>

record psk_ctx =
  pctx_protocol :: int
  post_quantum_pre_shared_key :: bool
  require_post_quantum_pre_shared_key :: bool
  supported_groups_cnt :: nat

record psk_conn =
  pconn_ctx :: "psk_ctx option"
  pconn_is_client :: bool
  pconn_early_data :: bool
  pconn_pre_shared_key :: bool
  pconn_key_share :: bool
  pconn_cert_chain :: bool
  key_exchange_modes :: ke_modes
  key_exchange_group :: int
  peer_key_exchange_len :: nat
  psk_cipher_suites :: "int list"
  psk_cipher_suites_cnt :: nat
  psk_identity_types :: "byte list"
  psk_identities_len :: nat
  selected_psk_identity :: int
  selected_external_psk :: bool
  post_quantum_psk_offered :: bool
  post_quantum_psk_negotiated :: bool
  hello_retry_request :: bool

record gm_psk = gm_codec +
  TLS_protocol_tls13 :: int
  TLS_KE_PSK :: ke_modes
  TLS_KE_PSK_DHE :: ke_modes
  TLS_KE_CERT_DHE :: ke_modes
  TLS13_PSK_IDENTITY_EXTERNAL :: byte
  tls13_process_client_pre_shared_key_external :: "psk_conn \<Rightarrow> bytes \<Rightarrow> int \<times> psk_conn"
  tls13_psk_identity_from_bytes :: "bytes \<Rightarrow> (bytes \<times> 32 word \<times> bytes) option"
    \<comment> \<open>identity, obfuscated ticket age and the rest\<close>
  tls13_psk_identity_to_bytes :: "bytes \<Rightarrow> 32 word \<Rightarrow> bytes" \<comment> \<open>what is appended\<close>
  tls_uint8array_from_bytes :: "bytes \<Rightarrow> (bytes \<times> bytes) option"
  tls_uint8array_to_bytes :: "bytes \<Rightarrow> bytes" \<comment> \<open>what is appended\<close>

text \<open>The alert sent before a return of \<open>-1\<close>.\<close>

datatype psk_alert = No_alert | Alert_illegal_parameter | Alert_missing_extension | Alert_handshake_failure

section \<open>The functions of \<open>tls_psk.c\<close>\<close>

text \<open>\<open>output\<close> is what \<open>out\<close> and \<open>outlen\<close> hold so far, None when one of them is null.\<close>

definition tls13_post_quantum_pre_shared_key_ext_to_bytes ::
  "'e gm_codec_scheme \<Rightarrow> bytes option \<Rightarrow> int \<times> bytes option" where
  "tls13_post_quantum_pre_shared_key_ext_to_bytes G output =
     (case output of
        None \<Rightarrow> (-1, None)
      | Some out \<Rightarrow> (case tls_ext_to_bytes G TLS_extension_post_quantum_pre_shared_key [] of
            (ret, appended) \<Rightarrow> (ret, Some (out @ appended))))"

definition tls13_post_quantum_pre_shared_key_from_bytes :: "buf \<Rightarrow> int" where
  "tls13_post_quantum_pre_shared_key_from_bytes ext_data =
     (if \<not> buf_null ext_data \<or> buf_len ext_data \<noteq> 0 then -1 else 1)"

definition tls13_ctx_enable_post_quantum_pre_shared_key ::
  "'e gm_psk_scheme \<Rightarrow> psk_ctx option \<Rightarrow> int \<Rightarrow> int \<times> psk_ctx option" where
  "tls13_ctx_enable_post_quantum_pre_shared_key G ctx enable =
     (case ctx of
        None \<Rightarrow> (-1, ctx)
      | Some c \<Rightarrow>
          if pctx_protocol c \<noteq> TLS_protocol_tls13 G then (-1, ctx)
          else
            let c = c\<lparr>post_quantum_pre_shared_key := enable \<noteq> 0\<rparr>
            in (1, Some (if enable = 0 then c\<lparr>require_post_quantum_pre_shared_key := False\<rparr> else c)))"

definition tls13_ctx_require_post_quantum_pre_shared_key ::
  "'e gm_psk_scheme \<Rightarrow> psk_ctx option \<Rightarrow> int \<Rightarrow> int \<times> psk_ctx option" where
  "tls13_ctx_require_post_quantum_pre_shared_key G ctx require =
     (case ctx of
        None \<Rightarrow> (-1, ctx)
      | Some c \<Rightarrow>
          if pctx_protocol c \<noteq> TLS_protocol_tls13 G then (-1, ctx)
          else
            let c = c\<lparr>require_post_quantum_pre_shared_key := require \<noteq> 0\<rparr>
            in (1, Some (if require \<noteq> 0 then c\<lparr>post_quantum_pre_shared_key := True\<rparr> else c)))"

section \<open>The client's hello\<close>

definition tls13_post_quantum_psk_client_config_check :: "'e gm_psk_scheme \<Rightarrow> psk_conn option \<Rightarrow> int" where
  "tls13_post_quantum_psk_client_config_check G conn =
     (case conn of
        None \<Rightarrow> -1
      | Some c \<Rightarrow> (case pconn_ctx c of
            None \<Rightarrow> -1
          | Some ctx \<Rightarrow>
              if \<not> post_quantum_pre_shared_key ctx then 1
              else if \<not> pconn_is_client c \<or> pconn_early_data c \<or> \<not> pconn_pre_shared_key c \<or>
                supported_groups_cnt ctx = 0 \<or> \<not> pconn_key_share c \<or>
                (key_exchange_modes c AND TLS_KE_PSK_DHE G) = 0 \<or> psk_cipher_suites_cnt c = 0
              then -1
              else if list_ex (\<lambda>t. t \<noteq> TLS13_PSK_IDENTITY_EXTERNAL G)
                        (take (psk_cipher_suites_cnt c) (psk_identity_types c))
              then -1
              else 1))"

text \<open>
  The new parts of \<open>tls13_send_client_hello\<close> and, after a HelloRetryRequest, of
  \<open>tls13_send_client_hello_again\<close>: the extensions so far, and then with the flag; None is a return
  of \<open>-1\<close>.
\<close>

definition send_client_hello_flag ::
  "'e gm_psk_scheme \<Rightarrow> psk_conn \<Rightarrow> psk_ctx \<Rightarrow> bytes \<Rightarrow> (bytes \<times> psk_conn) option" where
  "send_client_hello_flag G conn ctx exts =
     (if tls13_post_quantum_psk_client_config_check G (Some conn) \<noteq> 1 then None
      else if post_quantum_pre_shared_key ctx then
        (case tls13_post_quantum_pre_shared_key_ext_to_bytes G (Some exts) of (ret, exts') \<Rightarrow>
           if ret \<noteq> 1 then None else Some (the exts', conn\<lparr>post_quantum_psk_offered := True\<rparr>))
      else Some (exts, conn))"

definition send_client_hello_again_flag ::
  "'e gm_psk_scheme \<Rightarrow> psk_conn \<Rightarrow> psk_ctx \<Rightarrow> bytes \<Rightarrow> (bytes \<times> psk_conn) option" where
  "send_client_hello_again_flag G conn ctx exts =
     (if tls13_post_quantum_psk_client_config_check G (Some conn) \<noteq> 1 \<or>
         (post_quantum_pre_shared_key ctx \<and> \<not> post_quantum_psk_offered conn) then None
      else
        let disable = (\<lambda>c. c\<lparr>key_exchange_modes := key_exchange_modes c AND NOT (TLS_KE_PSK G)\<rparr>)
        in if post_quantum_psk_offered conn then
             (case tls13_post_quantum_pre_shared_key_ext_to_bytes G (Some exts) of (ret, exts') \<Rightarrow>
                if ret \<noteq> 1 then None else Some (the exts', disable conn))
           else Some (exts, disable conn))"

text \<open>
  The loop of \<open>tls13_client_hello_again_psk_update\<close>, which keeps the pre-shared keys of the cipher
  suite the server chose: over the suites and identity types, with the rest of the two lists, and
  the temporary buffers so far. None is a return of \<open>-1\<close>.
\<close>

fun psk_update_loop ::
  "'e gm_psk_scheme \<Rightarrow> int \<Rightarrow> (int \<times> byte) list \<Rightarrow> bytes \<Rightarrow> bytes \<Rightarrow> bytes \<times> bytes \<times> byte list \<Rightarrow>
   (bytes \<times> bytes \<times> byte list) option" where
  "psk_update_loop G suite [] psk_identities psk_keys tmp =
     (if psk_identities \<noteq> [] \<or> psk_keys \<noteq> [] then None else Some tmp)"
| "psk_update_loop G suite ((s, t) # psks) psk_identities psk_keys (tmp_identities, tmp_keys, tmp_types) =
     (case tls13_psk_identity_from_bytes G psk_identities of
        None \<Rightarrow> None
      | Some (identity, obfuscated_ticket_age, psk_identities) \<Rightarrow>
          (case tls_uint8array_from_bytes G psk_keys of
             None \<Rightarrow> None
           | Some (key, psk_keys) \<Rightarrow>
               psk_update_loop G suite psks psk_identities psk_keys
                 (if s = suite
                  then (tmp_identities @ tls13_psk_identity_to_bytes G identity obfuscated_ticket_age,
                        tmp_keys @ tls_uint8array_to_bytes G key, tmp_types @ [t])
                  else (tmp_identities, tmp_keys, tmp_types))))"

section \<open>The server's hello, at the client\<close>

text \<open>One extension 65283, \<open>seen\<close> being whether there was one before.\<close>

definition server_hello_extension :: "psk_conn \<Rightarrow> buf \<Rightarrow> bool \<Rightarrow> psk_alert + bool" where
  "server_hello_extension conn ext_data seen =
     (if tls13_post_quantum_pre_shared_key_from_bytes ext_data \<noteq> 1 then Inl Alert_illegal_parameter
      else if \<not> post_quantum_psk_offered conn \<or> seen then Inl Alert_illegal_parameter
      else Inr True)"

definition server_hello_presence :: "psk_conn \<Rightarrow> psk_ctx \<Rightarrow> bool \<Rightarrow> bool \<Rightarrow> bool \<Rightarrow> psk_alert option" where
  "server_hello_presence conn ctx flag key_share pre_shared_key =
     (if flag \<and> (\<not> key_share \<or> \<not> pre_shared_key) then Some Alert_missing_extension
      else if post_quantum_psk_offered conn \<and> pre_shared_key \<and> \<not> flag then Some Alert_illegal_parameter
      else if require_post_quantum_pre_shared_key ctx \<and> \<not> flag then Some Alert_handshake_failure
      else None)"

definition server_hello_identity :: "'e gm_psk_scheme \<Rightarrow> psk_conn \<Rightarrow> bool \<Rightarrow> nat \<Rightarrow> psk_alert + psk_conn" where
  "server_hello_identity G conn flag selected_identity =
     (if flag then
        if selected_identity \<ge> psk_cipher_suites_cnt conn \<or>
           psk_identity_types conn ! selected_identity \<noteq> TLS13_PSK_IDENTITY_EXTERNAL G
        then Inl Alert_illegal_parameter
        else Inr (conn\<lparr>selected_external_psk := True, selected_psk_identity := int selected_identity + 1\<rparr>)
      else Inr conn)"

definition server_hello_mode :: "'e gm_psk_scheme \<Rightarrow> psk_conn \<Rightarrow> bool \<Rightarrow> ke_modes \<Rightarrow> psk_alert + psk_conn" where
  "server_hello_mode G conn flag server_key_exchange_mode =
     (if flag then
        if server_key_exchange_mode \<noteq> TLS_KE_PSK_DHE G \<or> \<not> selected_external_psk conn
        then Inl Alert_illegal_parameter
        else Inr (conn\<lparr>post_quantum_psk_negotiated := True\<rparr>)
      else Inr conn)"

text \<open>
  The three in their order. The identity is looked at only when the server answered with a
  \<open>pre_shared_key\<close> extension, whose selected identity the argument holds.
\<close>

definition recv_server_hello_flag ::
  "'e gm_psk_scheme \<Rightarrow> psk_conn \<Rightarrow> psk_ctx \<Rightarrow> bool \<Rightarrow> bool \<Rightarrow> nat option \<Rightarrow> ke_modes \<Rightarrow> psk_alert + psk_conn" where
  "recv_server_hello_flag G conn ctx flag key_share selected server_key_exchange_mode =
     (case server_hello_presence conn ctx flag key_share (selected \<noteq> None) of
        Some alert \<Rightarrow> Inl alert
      | None \<Rightarrow>
          (case (case selected of None \<Rightarrow> Inr conn | Some i \<Rightarrow> server_hello_identity G conn flag i) of
             Inl alert \<Rightarrow> Inl alert
           | Inr conn \<Rightarrow> server_hello_mode G conn flag server_key_exchange_mode))"

section \<open>The client's hello, at the server\<close>

definition client_hello_extension :: "buf \<Rightarrow> bool \<Rightarrow> psk_alert + bool" where
  "client_hello_extension ext_data seen =
     (if tls13_post_quantum_pre_shared_key_from_bytes ext_data \<noteq> 1 then Inl Alert_illegal_parameter
      else if seen then Inl Alert_illegal_parameter
      else Inr True)"

text \<open>Which extensions the hello had.\<close>

record client_hello_exts =
  has_flag :: bool
  has_supported_groups :: bool
  has_key_share :: bool
  has_psk_key_exchange_modes :: bool
  has_signature_algorithms :: bool
  has_early_data :: bool
  pre_shared_key_data :: "bytes option"
  pre_shared_key_is_last :: bool

definition client_hello_presence :: "psk_conn \<Rightarrow> psk_ctx \<Rightarrow> client_hello_exts \<Rightarrow> psk_alert + psk_conn" where
  "client_hello_presence conn ctx h =
     (if require_post_quantum_pre_shared_key ctx \<and> \<not> has_flag h then Inl Alert_handshake_failure
      else if has_flag h then
        let conn = conn\<lparr>post_quantum_psk_offered := True\<rparr>
        in if \<not> has_supported_groups h \<or> \<not> has_key_share h \<or> \<not> has_psk_key_exchange_modes h \<or>
              pre_shared_key_data h = None \<or> \<not> has_signature_algorithms h
           then Inl Alert_missing_extension
           else if \<not> pre_shared_key_is_last h \<or> has_early_data h then Inl Alert_illegal_parameter
           else Inr conn
      else Inr conn)"

text \<open>Whether the flag can be honoured, from the common modes.\<close>

definition client_hello_eligible ::
  "'e gm_psk_scheme \<Rightarrow> psk_ctx \<Rightarrow> client_hello_exts \<Rightarrow> ke_modes \<Rightarrow> psk_alert + bool" where
  "client_hello_eligible G ctx h modes =
     (if has_flag h then
        if (modes AND TLS_KE_PSK_DHE G) = 0
        then (if require_post_quantum_pre_shared_key ctx then Inl Alert_handshake_failure else Inr False)
        else Inr (post_quantum_pre_shared_key ctx)
      else Inr False)"

text \<open>
  The choice of a pre-shared key. \<open>other\<close> stands for the branches of the code around it, for a hello
  without the flag.
\<close>

definition client_hello_psk ::
  "'e gm_psk_scheme \<Rightarrow> psk_conn \<Rightarrow> client_hello_exts \<Rightarrow> bool \<Rightarrow> ke_modes \<Rightarrow>
   (psk_conn \<Rightarrow> ke_modes \<Rightarrow> psk_alert + psk_conn \<times> ke_modes) \<Rightarrow> psk_alert + psk_conn \<times> ke_modes" where
  "client_hello_psk G conn h eligible modes other =
     (let psk_modes = TLS_KE_PSK_DHE G OR TLS_KE_PSK G;
          without = modes AND NOT psk_modes
      in case pre_shared_key_data h of
           None \<Rightarrow> Inr (conn, modes)
         | Some data \<Rightarrow>
             if (modes AND psk_modes) \<noteq> 0 then
               if has_flag h \<and> \<not> eligible then Inr (conn, without)
               else if has_flag h \<and> psk_identities_len conn \<noteq> 0 then
                 (case tls13_process_client_pre_shared_key_external G conn data of (ret, conn) \<Rightarrow>
                    if ret < 0 then Inl Alert_illegal_parameter
                    else if ret = 0 then Inr (conn, without)
                    else Inr (conn\<lparr>selected_external_psk := True\<rparr>, modes))
               else if has_flag h then Inr (conn, without)
               else other conn modes
             else Inr (conn, modes))"

definition client_hello_required :: "psk_conn \<Rightarrow> psk_ctx \<Rightarrow> client_hello_exts \<Rightarrow> psk_alert option" where
  "client_hello_required conn ctx h =
     (if has_flag h \<and> require_post_quantum_pre_shared_key ctx \<and> \<not> selected_external_psk conn
      then Some Alert_handshake_failure else None)"

text \<open>The final mode; \<open>other\<close> stands for the branches that follow in the code.\<close>

definition client_hello_mode ::
  "'e gm_psk_scheme \<Rightarrow> psk_conn \<Rightarrow> bool \<Rightarrow> ke_modes \<Rightarrow> (psk_conn \<Rightarrow> ke_modes \<Rightarrow> psk_alert + psk_conn) \<Rightarrow>
   psk_alert + psk_conn" where
  "client_hello_mode G conn eligible modes other =
     (if eligible \<and> selected_external_psk conn \<and> (modes AND TLS_KE_PSK_DHE G) \<noteq> 0 then
        if \<not> pconn_cert_chain conn \<or> (modes AND TLS_KE_CERT_DHE G) = 0 \<or> key_exchange_group conn = 0
        then Inl Alert_handshake_failure
        else
          let conn = conn\<lparr>key_exchange_modes := TLS_KE_PSK_DHE G, post_quantum_psk_negotiated := True\<rparr>
          in Inr (if peer_key_exchange_len conn = 0 then conn\<lparr>hello_retry_request := True\<rparr> else conn)
      else other conn modes)"

text \<open>
  All of them in their order. \<open>between\<close> is what the code between the eligibility and the choice of
  the key does to the connection and the common modes.
\<close>

definition recv_client_hello_flag ::
  "'e gm_psk_scheme \<Rightarrow> psk_conn \<Rightarrow> psk_ctx \<Rightarrow> client_hello_exts \<Rightarrow> ke_modes \<Rightarrow>
   (psk_conn \<Rightarrow> ke_modes \<Rightarrow> psk_conn \<times> ke_modes) \<Rightarrow>
   (psk_conn \<Rightarrow> ke_modes \<Rightarrow> psk_alert + psk_conn \<times> ke_modes) \<Rightarrow>
   (psk_conn \<Rightarrow> ke_modes \<Rightarrow> psk_alert + psk_conn) \<Rightarrow> psk_alert + psk_conn" where
  "recv_client_hello_flag G conn ctx h modes between other_psk other_mode =
     (case client_hello_presence conn ctx h of
        Inl alert \<Rightarrow> Inl alert
      | Inr conn \<Rightarrow>
     (case client_hello_eligible G ctx h modes of
        Inl alert \<Rightarrow> Inl alert
      | Inr eligible \<Rightarrow>
     (case between conn modes of (conn, modes) \<Rightarrow>
     (case client_hello_psk G conn h eligible modes other_psk of
        Inl alert \<Rightarrow> Inl alert
      | Inr (conn, modes) \<Rightarrow>
     (case client_hello_required conn ctx h of
        Some alert \<Rightarrow> Inl alert
      | None \<Rightarrow> client_hello_mode G conn eligible modes other_mode)))))"

section \<open>The rest of the handshake\<close>

text \<open>In the second client hello, with how much of the extensions follows its \<open>pre_shared_key\<close>.\<close>

definition client_hello_again_last :: "psk_conn \<Rightarrow> nat \<Rightarrow> psk_alert option" where
  "client_hello_again_last conn extslen =
     (if post_quantum_psk_offered conn \<and> extslen \<noteq> 0 then Some Alert_illegal_parameter else None)"

text \<open>The server's hello carries the flag back.\<close>

definition send_server_hello_flag :: "'e gm_codec_scheme \<Rightarrow> psk_conn \<Rightarrow> bytes \<Rightarrow> bytes option" where
  "send_server_hello_flag G conn exts =
     (if post_quantum_psk_negotiated conn then
        (case tls13_post_quantum_pre_shared_key_ext_to_bytes G (Some exts) of (ret, exts') \<Rightarrow>
           if ret \<noteq> 1 then None else exts')
      else Some exts)"

datatype tls13_state = TLS_state_certificate_request | TLS_state_server_certificate | TLS_state_server_finished

text \<open>
  Where the handshake goes after the certificate request, at either end, and at the server after the
  encrypted extensions.
\<close>

definition after_certificate_request :: "'e gm_psk_scheme \<Rightarrow> psk_conn \<Rightarrow> tls13_state" where
  "after_certificate_request G conn =
     (if key_exchange_modes conn = TLS_KE_CERT_DHE G \<or> post_quantum_psk_negotiated conn
      then TLS_state_server_certificate else TLS_state_server_finished)"

definition after_encrypted_extensions :: "'e gm_psk_scheme \<Rightarrow> psk_conn \<Rightarrow> bool \<Rightarrow> tls13_state" where
  "after_encrypted_extensions G conn certificate_request =
     (if certificate_request then TLS_state_certificate_request
      else if key_exchange_modes conn = TLS_KE_CERT_DHE G \<or> post_quantum_psk_negotiated conn
      then TLS_state_server_certificate else TLS_state_server_finished)"

end
