(* ===== verification/Gmssl_Psk_Theorems.thy ===== *)
theory Gmssl_Psk_Theorems
  imports Gmssl_Psk
begin

text \<open>
  What the flag of patch 0004 guarantees: a context never requires what it has not enabled; a client
  that sent the flag is not talked out of it; a server that requires the flag insists on one of its
  external keys and never takes the key for a ticket; the pre-shared keys kept after a HelloRetryRequest are those of
  the chosen cipher suite; and the certificate messages are never skipped once the flag is negotiated.
\<close>

section \<open>The configuration of a context\<close>

text \<open>The contexts that calls of the two setters reach from a zeroed one.\<close>

inductive psk_config :: "'e gm_psk_scheme \<Rightarrow> psk_ctx \<Rightarrow> bool" for G where
  zeroed: "\<lbrakk>\<not> post_quantum_pre_shared_key c; \<not> require_post_quantum_pre_shared_key c\<rbrakk> \<Longrightarrow> psk_config G c"
| enable: "\<lbrakk>psk_config G c; tls13_ctx_enable_post_quantum_pre_shared_key G (Some c) v = (ret, Some c')\<rbrakk> \<Longrightarrow>
    psk_config G c'"
| require: "\<lbrakk>psk_config G c; tls13_ctx_require_post_quantum_pre_shared_key G (Some c) v = (ret, Some c')\<rbrakk> \<Longrightarrow>
    psk_config G c'"

lemma psk_config_require_enabled:
  "psk_config G c \<Longrightarrow> require_post_quantum_pre_shared_key c \<Longrightarrow> post_quantum_pre_shared_key c"
proof (induction rule: psk_config.induct)
  case (enable c v ret c')
  then show ?case
    by (auto simp: tls13_ctx_enable_post_quantum_pre_shared_key_def Let_def split: if_splits)
next
  case (require c v ret c')
  then show ?case
    by (auto simp: tls13_ctx_require_post_quantum_pre_shared_key_def Let_def split: if_splits)
qed simp

section \<open>The client\<close>

text \<open>After a hello, the flag was offered exactly when the context has it enabled.\<close>

lemma send_client_hello_flag_offered:
  assumes "send_client_hello_flag G conn ctx exts = Some (exts', conn')" "\<not> post_quantum_psk_offered conn"
  shows "post_quantum_psk_offered conn' \<longleftrightarrow> post_quantum_pre_shared_key ctx"
  using assms by (auto simp: send_client_hello_flag_def split: if_splits prod.splits)

lemma recv_server_hello_flag_InrD:
  assumes "recv_server_hello_flag G conn ctx flag key_share selected mode = Inr conn'"
  shows "server_hello_presence conn ctx flag key_share (selected \<noteq> None) = None"
    and "\<exists>c. (case selected of None \<Rightarrow> Inr conn | Some i \<Rightarrow> server_hello_identity G conn flag i) = Inr c \<and>
           server_hello_mode G c flag mode = Inr conn'"
  using assms by (auto simp: recv_server_hello_flag_def split: option.splits sum.splits)

lemma server_hello_presence_None:
  "server_hello_presence conn ctx flag key_share psk = None \<longleftrightarrow>
     (flag \<longrightarrow> key_share \<and> psk) \<and> (post_quantum_psk_offered conn \<and> psk \<longrightarrow> flag) \<and>
     (require_post_quantum_pre_shared_key ctx \<longrightarrow> flag)"
  by (auto simp: server_hello_presence_def)

lemma server_hello_identity_InrD:
  assumes "server_hello_identity G conn True i = Inr c"
  shows "i < psk_cipher_suites_cnt conn" "psk_identity_types conn ! i = TLS13_PSK_IDENTITY_EXTERNAL G"
    "c = conn\<lparr>selected_external_psk := True, selected_psk_identity := int i + 1\<rparr>"
  using assms by (auto simp: server_hello_identity_def split: if_splits)

lemma server_hello_mode_flag_InrD:
  assumes "server_hello_mode G c True mode = Inr conn'"
  shows "mode = TLS_KE_PSK_DHE G" "conn' = c\<lparr>post_quantum_psk_negotiated := True\<rparr>"
  using assms by (auto simp: server_hello_mode_def split: if_splits)

lemma recv_server_hello_without_flag:
  assumes "recv_server_hello_flag G conn ctx False key_share selected mode = Inr conn'"
  shows "conn' = conn"
  using recv_server_hello_flag_InrD (2) [OF assms]
  by (auto simp: server_hello_identity_def server_hello_mode_def split: option.splits)

lemma recv_server_hello_with_flag:
  assumes "recv_server_hello_flag G conn ctx True key_share selected mode = Inr conn'"
  obtains i where "selected = Some i" "key_share" "i < psk_cipher_suites_cnt conn"
    "psk_identity_types conn ! i = TLS13_PSK_IDENTITY_EXTERNAL G" "mode = TLS_KE_PSK_DHE G"
    "conn' = conn\<lparr>selected_external_psk := True, selected_psk_identity := int i + 1,
                  post_quantum_psk_negotiated := True\<rparr>"
proof -
  have "key_share" "selected \<noteq> None"
    using recv_server_hello_flag_InrD (1) [OF assms] by (simp_all add: server_hello_presence_None)
  then obtain i where i: "selected = Some i" by blast
  obtain c where c: "server_hello_identity G conn True i = Inr c" "server_hello_mode G c True mode = Inr conn'"
    using recv_server_hello_flag_InrD (2) [OF assms] i by auto
  show thesis
    using that i \<open>key_share\<close> server_hello_identity_InrD [OF c(1)] server_hello_mode_flag_InrD [OF c(2)] by simp
qed

text \<open>
  C35: a client is not talked out of the flag. Take a connection that has sent its hello and then accepts
  the server's. Then the flag is negotiated exactly when the server's hello had it; in that case the
  hello had a key share, the identity the server selected is one of the external keys the client
  offered, the mode is PSK with (EC)DHE, and nothing but the three fields of the choice changed. A
  context that requires the flag only goes on with it negotiated, and a context that enabled it only
  takes a pre-shared key together with the flag.
\<close>

theorem psk_client_no_downgrade:
  assumes "send_client_hello_flag G conn0 ctx exts = Some (exts', conn)"
    and "\<not> post_quantum_psk_offered conn0" "\<not> post_quantum_psk_negotiated conn0"
    and "recv_server_hello_flag G conn ctx flag key_share selected mode = Inr conn'"
  shows "(post_quantum_psk_negotiated conn' \<longleftrightarrow> flag) \<and>
    (flag \<longrightarrow> key_share \<and> mode = TLS_KE_PSK_DHE G \<and>
       (\<exists>i < psk_cipher_suites_cnt conn. selected = Some i \<and>
          psk_identity_types conn ! i = TLS13_PSK_IDENTITY_EXTERNAL G \<and>
          conn' = conn\<lparr>selected_external_psk := True, selected_psk_identity := int i + 1,
                       post_quantum_psk_negotiated := True\<rparr>)) \<and>
    (require_post_quantum_pre_shared_key ctx \<longrightarrow> post_quantum_psk_negotiated conn') \<and>
    (post_quantum_pre_shared_key ctx \<and> selected \<noteq> None \<longrightarrow> post_quantum_psk_negotiated conn')"
proof -
  have negotiated: "\<not> post_quantum_psk_negotiated conn"
    using assms(1,3) by (auto simp: send_client_hello_flag_def split: if_splits prod.splits)
  note offered = send_client_hello_flag_offered [OF assms(1,2)]
  note presence = recv_server_hello_flag_InrD (1) [OF assms(4), unfolded server_hello_presence_None]
  show ?thesis
  proof (cases flag)
    case True
    with assms(4) have "recv_server_hello_flag G conn ctx True key_share selected mode = Inr conn'" by simp
    then obtain i where i: "selected = Some i" "key_share" "i < psk_cipher_suites_cnt conn"
      "psk_identity_types conn ! i = TLS13_PSK_IDENTITY_EXTERNAL G" "mode = TLS_KE_PSK_DHE G"
      and conn': "conn' = conn\<lparr>selected_external_psk := True, selected_psk_identity := int i + 1,
        post_quantum_psk_negotiated := True\<rparr>"
      by (rule recv_server_hello_with_flag)
    then have "post_quantum_psk_negotiated conn'" by simp
    with True i conn' show ?thesis by blast
  next
    case False
    with assms(4) have "recv_server_hello_flag G conn ctx False key_share selected mode = Inr conn'" by simp
    then have "conn' = conn" by (rule recv_server_hello_without_flag)
    then show ?thesis using False negotiated offered presence by simp
  qed
qed

section \<open>The server\<close>

lemma client_hello_presence_InrD:
  assumes "client_hello_presence conn ctx h = Inr conn'"
  shows "require_post_quantum_pre_shared_key ctx \<Longrightarrow> has_flag h"
    and "selected_external_psk conn' = selected_external_psk conn"
    and "post_quantum_psk_negotiated conn' = post_quantum_psk_negotiated conn"
    and "has_flag h \<Longrightarrow> has_supported_groups h \<and> has_key_share h \<and> has_psk_key_exchange_modes h \<and>
           pre_shared_key_data h \<noteq> None \<and> has_signature_algorithms h \<and> pre_shared_key_is_last h \<and>
           \<not> has_early_data h"
  using assms by (auto simp: client_hello_presence_def Let_def split: if_splits)

text \<open>With the flag, the branches for other hellos do not matter.\<close>

lemma client_hello_psk_flag_other:
  "has_flag h \<Longrightarrow> client_hello_psk G conn h eligible modes other = client_hello_psk G conn h eligible modes other'"
  by (simp add: client_hello_psk_def Let_def split: option.splits)

lemma client_hello_psk_selected:
  assumes "client_hello_psk G conn h eligible modes other = Inr (conn', modes')" "has_flag h"
    and "selected_external_psk conn'" "\<not> selected_external_psk conn"
    and external: "\<And>c d. selected_external_psk (snd (tls13_process_client_pre_shared_key_external G c d)) =
                     selected_external_psk c"
  shows "eligible \<and> modes' = modes \<and> psk_identities_len conn \<noteq> 0 \<and>
    (\<exists>data. pre_shared_key_data h = Some data \<and>
       0 < fst (tls13_process_client_pre_shared_key_external G conn data) \<and>
       conn' = (snd (tls13_process_client_pre_shared_key_external G conn data))\<lparr>selected_external_psk := True\<rparr>)"
proof (cases "pre_shared_key_data h")
  case (Some data)
  obtain ret c where rc: "tls13_process_client_pre_shared_key_external G conn data = (ret, c)" by fastforce
  have "selected_external_psk c = selected_external_psk conn" using external [of conn data] rc by simp
  then show ?thesis
    using assms(1-4) Some rc by (auto simp: client_hello_psk_def Let_def split: if_splits)
qed (use assms in \<open>simp add: client_hello_psk_def\<close>)

lemma client_hello_eligible_InrD:
  assumes "client_hello_eligible G ctx h modes = Inr eligible" "eligible"
  shows "(modes AND TLS_KE_PSK_DHE G) \<noteq> 0" "post_quantum_pre_shared_key ctx" "has_flag h"
  using assms by (auto simp: client_hello_eligible_def split: if_splits)

lemma client_hello_mode_flag:
  assumes "client_hello_mode G conn True modes other = Inr conn'"
    and "selected_external_psk conn" "(modes AND TLS_KE_PSK_DHE G) \<noteq> 0"
  shows "key_exchange_modes conn' = TLS_KE_PSK_DHE G" "post_quantum_psk_negotiated conn'"
    "selected_external_psk conn'" "pconn_cert_chain conn'" "key_exchange_group conn' \<noteq> 0"
    "client_hello_mode G conn True modes other' = Inr conn'"
  using assms by (auto simp: client_hello_mode_def Let_def split: if_splits)

text \<open>
  C36: A server that requires the flag insists on an external key. If it accepts a hello, then the
  hello had the flag, with every extension the flag needs, without early data and with the
  pre-shared key last; PSK with (EC)DHE was a common mode; and the external processing matched one of
  the server's own keys. The branches that read the key as a ticket took no part: the result is the
  same whatever they do. If the mode is still common when the code in between is done, then the flag
  is negotiated in that mode, over a group and with a certificate chain to send, whatever the
  branches for the other modes do. Should the code in between have withdrawn the mode, the patch has
  no further test: the branches for the other modes decide, with the external key selected. The
  hypotheses say that the code in between and the processing of external keys leave the field
  \<open>selected_external_psk\<close> alone: the patch adds the field and writes it in two places only, both in the
  model.
\<close>

theorem psk_server_requires_match:
  assumes "recv_client_hello_flag G conn ctx h modes between other_psk other_mode = Inr conn'"
    and "require_post_quantum_pre_shared_key ctx" "\<not> selected_external_psk conn"
    and "\<And>c m. selected_external_psk (fst (between c m)) = selected_external_psk c"
    and "\<And>c d. selected_external_psk (snd (tls13_process_client_pre_shared_key_external G c d)) =
           selected_external_psk c"
  shows "has_flag h \<and> has_supported_groups h \<and> has_key_share h \<and> has_psk_key_exchange_modes h \<and>
    has_signature_algorithms h \<and> pre_shared_key_is_last h \<and> \<not> has_early_data h \<and>
    post_quantum_pre_shared_key ctx \<and> (modes AND TLS_KE_PSK_DHE G) \<noteq> 0 \<and>
    (\<forall>other_psk'. recv_client_hello_flag G conn ctx h modes between other_psk' other_mode = Inr conn') \<and>
    (\<exists>c modes' data matched.
       between (conn\<lparr>post_quantum_psk_offered := True\<rparr>) modes = (c, modes') \<and>
       pre_shared_key_data h = Some data \<and> psk_identities_len c \<noteq> 0 \<and>
       0 < fst (tls13_process_client_pre_shared_key_external G c data) \<and>
       matched = (snd (tls13_process_client_pre_shared_key_external G c data))\<lparr>selected_external_psk := True\<rparr> \<and>
       (if (modes' AND TLS_KE_PSK_DHE G) \<noteq> 0
        then post_quantum_psk_negotiated conn' \<and> selected_external_psk conn' \<and>
          key_exchange_modes conn' = TLS_KE_PSK_DHE G \<and> pconn_cert_chain conn' \<and> key_exchange_group conn' \<noteq> 0 \<and>
          (\<forall>other_mode'. recv_client_hello_flag G conn ctx h modes between other_psk other_mode' = Inr conn')
        else other_mode matched modes' = Inr conn'))"
proof -
  obtain c1 eligible c2 modes2 c3 modes3 where steps:
    "client_hello_presence conn ctx h = Inr c1" "client_hello_eligible G ctx h modes = Inr eligible"
    "between c1 modes = (c2, modes2)" "client_hello_psk G c2 h eligible modes2 other_psk = Inr (c3, modes3)"
    "client_hello_required c3 ctx h = None" "client_hello_mode G c3 eligible modes3 other_mode = Inr conn'"
    using assms(1) by (auto simp: recv_client_hello_flag_def split: sum.splits option.splits prod.splits)
  note presence = client_hello_presence_InrD [OF steps(1)]
  have flag: "has_flag h" using presence(1) assms(2) by simp
  have c1: "c1 = conn\<lparr>post_quantum_psk_offered := True\<rparr>"
    using steps(1) flag by (auto simp: client_hello_presence_def Let_def split: if_splits)
  have selected: "selected_external_psk c3"
    using steps(5) flag assms(2) by (auto simp: client_hello_required_def split: if_splits)
  have fresh: "\<not> selected_external_psk c2"
    using assms(3) assms(4) [of c1 modes] presence(2) steps(3) by simp
  from client_hello_psk_selected [OF steps(4) flag selected fresh assms(5)] obtain data where psk:
    "eligible" "modes3 = modes2" "psk_identities_len c2 \<noteq> 0" "pre_shared_key_data h = Some data"
    "0 < fst (tls13_process_client_pre_shared_key_external G c2 data)"
    "c3 = (snd (tls13_process_client_pre_shared_key_external G c2 data))\<lparr>selected_external_psk := True\<rparr>"
    by blast
  note common = client_hello_eligible_InrD [OF steps(2) psk(1)]
  have mode_step: "client_hello_mode G c3 True modes2 other_mode = Inr conn'"
    using steps(6) psk(1,2) by simp
  have any: "recv_client_hello_flag G conn ctx h modes between op om = Inr conn'"
    if "client_hello_mode G c3 True modes2 om = Inr conn'" for op om
    using steps(1-3,5) client_hello_psk_flag_other [OF flag, of G c2 eligible modes2 other_psk op] steps(4)
      that psk(1,2) by (simp add: recv_client_hello_flag_def)
  have outcome: "if (modes2 AND TLS_KE_PSK_DHE G) \<noteq> 0
      then post_quantum_psk_negotiated conn' \<and> selected_external_psk conn' \<and>
        key_exchange_modes conn' = TLS_KE_PSK_DHE G \<and> pconn_cert_chain conn' \<and> key_exchange_group conn' \<noteq> 0 \<and>
        (\<forall>other_mode'. recv_client_hello_flag G conn ctx h modes between other_psk other_mode' = Inr conn')
      else other_mode c3 modes2 = Inr conn'"
  proof (cases "(modes2 AND TLS_KE_PSK_DHE G) = 0")
    case True
    then show ?thesis using mode_step by (simp add: client_hello_mode_def)
  next
    case False
    note mode = client_hello_mode_flag [OF mode_step selected False]
    show ?thesis using False mode any by simp
  qed
  have "\<exists>c modes' data matched.
      between (conn\<lparr>post_quantum_psk_offered := True\<rparr>) modes = (c, modes') \<and>
      pre_shared_key_data h = Some data \<and> psk_identities_len c \<noteq> 0 \<and>
      0 < fst (tls13_process_client_pre_shared_key_external G c data) \<and>
      matched = (snd (tls13_process_client_pre_shared_key_external G c data))\<lparr>selected_external_psk := True\<rparr> \<and>
      (if (modes' AND TLS_KE_PSK_DHE G) \<noteq> 0
       then post_quantum_psk_negotiated conn' \<and> selected_external_psk conn' \<and>
         key_exchange_modes conn' = TLS_KE_PSK_DHE G \<and> pconn_cert_chain conn' \<and> key_exchange_group conn' \<noteq> 0 \<and>
         (\<forall>other_mode'. recv_client_hello_flag G conn ctx h modes between other_psk other_mode' = Inr conn')
       else other_mode matched modes' = Inr conn')"
    using steps(3) psk outcome c1 by blast
  then show ?thesis using presence(4) flag common any [OF mode_step] by blast
qed

section \<open>Both ends\<close>

text \<open>
  When the server's hello carries the flag exactly when the server negotiated it, the two ends agree on
  whether it is negotiated, and if it is, both go on to the certificate messages although the mode is
  that of a pre-shared key.
\<close>

theorem psk_ends_agree:
  assumes "send_client_hello_flag G conn0 ctx exts = Some (exts', conn)"
    and "\<not> post_quantum_psk_offered conn0" "\<not> post_quantum_psk_negotiated conn0"
    and "recv_server_hello_flag G conn ctx (post_quantum_psk_negotiated server) key_share selected mode = Inr conn'"
  shows "post_quantum_psk_negotiated conn' = post_quantum_psk_negotiated server \<and>
    (post_quantum_psk_negotiated server \<longrightarrow>
       after_certificate_request G conn' = TLS_state_server_certificate \<and>
       after_certificate_request G server = TLS_state_server_certificate \<and>
       (\<forall>request. after_encrypted_extensions G server request =
          (if request then TLS_state_certificate_request else TLS_state_server_certificate)))"
proof -
  have "post_quantum_psk_negotiated conn' = post_quantum_psk_negotiated server"
  proof (cases "post_quantum_psk_negotiated server")
    case True
    with assms(4) have "recv_server_hello_flag G conn ctx True key_share selected mode = Inr conn'" by simp
    then show ?thesis by (rule recv_server_hello_with_flag) (use True in simp)
  next
    case False
    with assms(4) have "recv_server_hello_flag G conn ctx False key_share selected mode = Inr conn'" by simp
    then have "conn' = conn" by (rule recv_server_hello_without_flag)
    moreover have "\<not> post_quantum_psk_negotiated conn"
      using assms(1,3) by (auto simp: send_client_hello_flag_def split: if_splits prod.splits)
    ultimately show ?thesis using False by simp
  qed
  then show ?thesis by (simp add: after_certificate_request_def after_encrypted_extensions_def)
qed

section \<open>The keys after a HelloRetryRequest\<close>

text \<open>A pre-shared key as the client stores it, and how a list of them lies in the connection's buffers.\<close>

record psk_entry =
  entry_suite :: int
  entry_type :: byte
  entry_identity :: bytes
  entry_age :: "32 word"
  entry_key :: bytes

definition entries_identities :: "'e gm_psk_scheme \<Rightarrow> psk_entry list \<Rightarrow> bytes" where
  "entries_identities G es = concat (map (\<lambda>e. tls13_psk_identity_to_bytes G (entry_identity e) (entry_age e)) es)"

definition entries_keys :: "'e gm_psk_scheme \<Rightarrow> psk_entry list \<Rightarrow> bytes" where
  "entries_keys G es = concat (map (\<lambda>e. tls_uint8array_to_bytes G (entry_key e)) es)"

definition entries_tags :: "psk_entry list \<Rightarrow> (int \<times> byte) list" where
  "entries_tags es = map (\<lambda>e. (entry_suite e, entry_type e)) es"

text \<open>What GmSSL's coders promise of an entry: reading what was written gives it back, and the rest.\<close>

definition entry_coded :: "'e gm_psk_scheme \<Rightarrow> psk_entry \<Rightarrow> bool" where
  "entry_coded G e \<longleftrightarrow>
     (\<forall>rest. tls13_psk_identity_from_bytes G
               (tls13_psk_identity_to_bytes G (entry_identity e) (entry_age e) @ rest) =
             Some (entry_identity e, entry_age e, rest)) \<and>
     (\<forall>rest. tls_uint8array_from_bytes G (tls_uint8array_to_bytes G (entry_key e) @ rest) =
             Some (entry_key e, rest))"

lemma entries_simps [simp]:
  "entries_identities G [] = []" "entries_keys G [] = []" "entries_tags [] = []"
  "entries_identities G (e # es) =
     tls13_psk_identity_to_bytes G (entry_identity e) (entry_age e) @ entries_identities G es"
  "entries_keys G (e # es) = tls_uint8array_to_bytes G (entry_key e) @ entries_keys G es"
  "entries_tags (e # es) = (entry_suite e, entry_type e) # entries_tags es"
  by (simp_all add: entries_identities_def entries_keys_def entries_tags_def)

lemma psk_update_loop_acc:
  assumes "list_all (entry_coded G) es"
  shows "psk_update_loop G suite (entries_tags es) (entries_identities G es @ rest) (entries_keys G es @ rest')
       (ids, keys, types) =
     (if rest \<noteq> [] \<or> rest' \<noteq> [] then None
      else let kept = filter (\<lambda>e. entry_suite e = suite) es in
        Some (ids @ entries_identities G kept, keys @ entries_keys G kept, types @ map entry_type kept))"
  using assms
proof (induction es arbitrary: ids keys types)
  case (Cons e es)
  from Cons.prems have coded:
    "tls13_psk_identity_from_bytes G
       (tls13_psk_identity_to_bytes G (entry_identity e) (entry_age e) @ r) = Some (entry_identity e, entry_age e, r)"
    "tls_uint8array_from_bytes G (tls_uint8array_to_bytes G (entry_key e) @ r) = Some (entry_key e, r)" for r
    by (simp_all add: entry_coded_def)
  from Cons.prems have "list_all (entry_coded G) es" by simp
  note IH = Cons.IH [OF this]
  show ?case
    using IH [of ids keys types]
      IH [of "ids @ tls13_psk_identity_to_bytes G (entry_identity e) (entry_age e)"
        "keys @ tls_uint8array_to_bytes G (entry_key e)" "types @ [entry_type e]"]
    by (cases "rest = [] \<and> rest' = []") (auto simp: coded Let_def)
qed simp

text \<open>
  C37: the update of the pre-shared keys after a HelloRetryRequest is a filter. On buffers that hold a
  list of keys, with anything after them, the loop of \<open>tls13_client_hello_again_psk_update\<close> fails when
  something is left over in either buffer, and otherwise returns the encodings, keys and identity types
  of exactly the keys of the server's cipher suite, in their order; the three stay in step.
\<close>

theorem psk_update_exact:
  assumes "list_all (entry_coded G) es"
  shows "psk_update_loop G suite (entries_tags es) (entries_identities G es @ rest) (entries_keys G es @ rest')
       ([], [], []) =
     (if rest \<noteq> [] \<or> rest' \<noteq> [] then None
      else let kept = filter (\<lambda>e. entry_suite e = suite) es in
        Some (entries_identities G kept, entries_keys G kept, map entry_type kept))"
  using psk_update_loop_acc [OF assms, of suite rest rest' "[]" "[]" "[]"] by simp

text \<open>
  A client whose keys are all external has only such keys after the update, so that the check of its
  configuration before the second hello cannot fail for their types.
\<close>

corollary psk_update_keeps_external:
  assumes "list_all (entry_coded G) es" "list_all (\<lambda>e. entry_type e = TLS13_PSK_IDENTITY_EXTERNAL G) es"
    and "psk_update_loop G suite (entries_tags es) (entries_identities G es) (entries_keys G es) ([], [], []) =
      Some (ids, keys, types)"
  shows "list_all (\<lambda>t. t = TLS13_PSK_IDENTITY_EXTERNAL G) types"
  using assms(2,3) psk_update_loop_acc [OF assms(1), of suite "[]" "[]" "[]" "[]" "[]"]
  by (auto simp: Let_def list_all_iff)

section \<open>Concrete runs\<close>

definition psk_toy :: gm_psk where
  "psk_toy = \<lparr>TLS_protocol_tlcp = 257, tls_uint16_to_bytes = (\<lambda>_. []), tls_uint16_from_bytes = (\<lambda>_. None),
     tls_uint16array_from_bytes = (\<lambda>_. None), tls_ext_to_bytes = (\<lambda>t d. (1, [255, 3, 0, 0])),
     tls_ext_from_bytes = (\<lambda>_. None), TLS_protocol_tls13 = 772, TLS_KE_PSK = 1, TLS_KE_PSK_DHE = 2,
     TLS_KE_CERT_DHE = 4, TLS13_PSK_IDENTITY_EXTERNAL = 1,
     tls13_process_client_pre_shared_key_external = (\<lambda>c d. (if d = [7] then 1 else 0, c)),
     tls13_psk_identity_from_bytes = (\<lambda>d. case d of
         n # r \<Rightarrow> Some (take (unat n) r, 0, drop (unat n) r) | [] \<Rightarrow> None),
     tls13_psk_identity_to_bytes = (\<lambda>i age. word_of_nat (length i) # i),
     tls_uint8array_from_bytes = (\<lambda>d. case d of
         n # r \<Rightarrow> Some (take (unat n) r, drop (unat n) r) | [] \<Rightarrow> None),
     tls_uint8array_to_bytes = (\<lambda>k. word_of_nat (length k) # k)\<rparr>"

definition toy_psk_ctx :: psk_ctx where
  "toy_psk_ctx = \<lparr>pctx_protocol = 772, post_quantum_pre_shared_key = True,
     require_post_quantum_pre_shared_key = True, supported_groups_cnt = 1\<rparr>"

definition toy_psk_conn :: "bool \<Rightarrow> psk_conn" where
  "toy_psk_conn client = \<lparr>pconn_ctx = Some toy_psk_ctx, pconn_is_client = client, pconn_early_data = False,
     pconn_pre_shared_key = True, pconn_key_share = True, pconn_cert_chain = True, key_exchange_modes = 2,
     key_exchange_group = 41, peer_key_exchange_len = 65, psk_cipher_suites = [198],
     psk_cipher_suites_cnt = 1, psk_identity_types = [1], psk_identities_len = 4, selected_psk_identity = 0,
     selected_external_psk = False, post_quantum_psk_offered = False, post_quantum_psk_negotiated = False,
     hello_retry_request = False\<rparr>"

definition toy_hello_exts :: client_hello_exts where
  "toy_hello_exts = \<lparr>has_flag = True, has_supported_groups = True, has_key_share = True,
     has_psk_key_exchange_modes = True, has_signature_algorithms = True, has_early_data = False,
     pre_shared_key_data = Some [7], pre_shared_key_is_last = True\<rparr>"

definition toy_psk_entries :: "psk_entry list" where
  "toy_psk_entries =
     [\<lparr>entry_suite = 198, entry_type = 1, entry_identity = [9, 8], entry_age = 0, entry_key = [5]\<rparr>,
      \<lparr>entry_suite = 199, entry_type = 0, entry_identity = [3], entry_age = 0, entry_key = [6, 6]\<rparr>]"

lemma toy_entries_coded: "list_all (entry_coded psk_toy) toy_psk_entries"
  by (simp add: toy_psk_entries_def entry_coded_def psk_toy_def)

lemma toy_client_hello:
  "send_client_hello_flag psk_toy (toy_psk_conn True) toy_psk_ctx [] =
     Some ([255, 3, 0, 0], (toy_psk_conn True)\<lparr>post_quantum_psk_offered := True\<rparr>)"
  by (simp add: send_client_hello_flag_def tls13_post_quantum_psk_client_config_check_def
      tls13_post_quantum_pre_shared_key_ext_to_bytes_def psk_toy_def toy_psk_ctx_def toy_psk_conn_def)

lemma toy_server_hello:
  "recv_server_hello_flag psk_toy ((toy_psk_conn True)\<lparr>post_quantum_psk_offered := True\<rparr>) toy_psk_ctx True True
     (Some 0) 2 =
   Inr ((toy_psk_conn True)\<lparr>post_quantum_psk_offered := True, selected_external_psk := True,
     selected_psk_identity := 1, post_quantum_psk_negotiated := True\<rparr>)"
  by (simp add: recv_server_hello_flag_def server_hello_presence_def server_hello_identity_def
      server_hello_mode_def psk_toy_def toy_psk_ctx_def toy_psk_conn_def)

lemma psk_client_no_downgrade_witness:
  "require_post_quantum_pre_shared_key toy_psk_ctx \<and>
   post_quantum_psk_negotiated
     ((toy_psk_conn True)\<lparr>post_quantum_psk_offered := True, selected_external_psk := True,
       selected_psk_identity := 1, post_quantum_psk_negotiated := True\<rparr>)"
  using psk_client_no_downgrade [OF toy_client_hello _ _ toy_server_hello]
  by (simp add: toy_psk_ctx_def toy_psk_conn_def)

lemma psk_ends_agree_witness:
  "after_certificate_request psk_toy ((toy_psk_conn False)\<lparr>post_quantum_psk_negotiated := True\<rparr>) =
     TLS_state_server_certificate"
  using psk_ends_agree [OF toy_client_hello, of "(toy_psk_conn False)\<lparr>post_quantum_psk_negotiated := True\<rparr>"
      True "Some 0" 2, simplified, OF _ _ toy_server_hello]
  by (simp add: toy_psk_conn_def)

definition toy_between :: "psk_conn \<Rightarrow> ke_modes \<Rightarrow> psk_conn \<times> ke_modes" where
  "toy_between c m = (c, m OR 4)"

lemma toy_client_hello_received:
  "recv_client_hello_flag psk_toy (toy_psk_conn False) toy_psk_ctx toy_hello_exts 2 toy_between
     (\<lambda>_ _. Inl Alert_handshake_failure) (\<lambda>_ _. Inl Alert_handshake_failure) =
   Inr ((toy_psk_conn False)\<lparr>post_quantum_psk_offered := True, selected_external_psk := True,
     key_exchange_modes := 2, post_quantum_psk_negotiated := True\<rparr>)"
  by (simp add: recv_client_hello_flag_def client_hello_presence_def client_hello_eligible_def
      client_hello_psk_def client_hello_required_def client_hello_mode_def toy_between_def psk_toy_def
      toy_psk_ctx_def toy_psk_conn_def toy_hello_exts_def Let_def)

lemma psk_server_requires_match_witness:
  "\<forall>other_psk.
     recv_client_hello_flag psk_toy (toy_psk_conn False) toy_psk_ctx toy_hello_exts 2 toy_between
       other_psk (\<lambda>_ _. Inl Alert_handshake_failure) =
     Inr ((toy_psk_conn False)\<lparr>post_quantum_psk_offered := True, selected_external_psk := True,
       key_exchange_modes := 2, post_quantum_psk_negotiated := True\<rparr>)"
proof -
  have "selected_external_psk (fst (toy_between c m)) = selected_external_psk c" for c m
    by (simp add: toy_between_def)
  moreover have "selected_external_psk (snd (tls13_process_client_pre_shared_key_external psk_toy c d)) =
      selected_external_psk c" for c d
    by (simp add: psk_toy_def)
  ultimately show ?thesis
    using psk_server_requires_match [OF toy_client_hello_received]
    by (simp add: toy_psk_ctx_def toy_psk_conn_def)
qed

lemma psk_update_exact_witness:
  "psk_update_loop psk_toy 198 (entries_tags toy_psk_entries) [2, 9, 8, 1, 3] [1, 5, 2, 6, 6] ([], [], []) =
     Some ([2, 9, 8], [1, 5], [1])"
  using psk_update_exact [OF toy_entries_coded, of 198 "[]" "[]"]
  by (simp add: toy_psk_entries_def entries_identities_def entries_keys_def psk_toy_def)

end
