(* ===== verification/Key_Life.thy ===== *)
theory Key_Life
  imports Key_Store_Theorems
begin

text \<open>
  The life of the two key structs of \<open>include/composite_key.h\<close> as a state machine: every operation
  that writes them, in any order and any number of times, whether it succeeds or fails. The type
  invariant covers the array sizes of the struct declarations and the rule of the init and cleanup
  functions that a struct without an SM2 key object holds no key bytes.
\<close>

section \<open>The steps\<close>

type_synonym 'k key_structs = "'k hybrid_private_key \<times> 'k hybrid_public_key"

text \<open>
  The structs of a caller, from their initialisation on. A rule that names both structs after a call
  names the contents behind the pointers the caller passed.
\<close>

inductive key_life ::
  "('w, 'k, 'e) store_lib_scheme \<Rightarrow> ('w, 'o) os_lib_scheme \<Rightarrow> 'k key_structs \<Rightarrow> bool" for L OS where
  initialised: "key_life L OS (hybrid_private_key_init priv, hybrid_public_key_init pub)"
| private_cleanup: "key_life L OS (priv, pub) \<Longrightarrow> key_life L OS (hybrid_private_key_cleanup priv, pub)"
| public_cleanup: "key_life L OS (priv, pub) \<Longrightarrow> key_life L OS (priv, hybrid_public_key_cleanup pub)"
| generate: "key_life L OS (priv, pub) \<Longrightarrow>
    outcome (composite_key_generate L (Some priv) (Some pub)) (ok, Some priv', Some pub') \<Longrightarrow>
    key_life L OS (priv', pub')"
| parse: "key_life L OS (priv, pub) \<Longrightarrow>
    outcome (composite_parse_public_key L serialized (Some pub)) (ok, Some pub') \<Longrightarrow>
    key_life L OS (priv, pub')"
| load: "key_life L OS (priv, pub) \<Longrightarrow>
    ends (hybrid_key_store_load L OS dir pass (Some priv) (Some pub)) s (ok, Some priv', Some pub') s' \<Longrightarrow>
    key_life L OS (priv', pub')"

section \<open>The type\<close>

definition typed_private_key :: "'k hybrid_private_key \<Rightarrow> bool" where
  "typed_private_key key \<longleftrightarrow> wf_private_key key \<and>
     (sm2_private_key key = None \<longrightarrow> dilithium_secret_key key = replicate DILITHIUM_SECRET_KEY_BYTES 0)"

definition typed_public_key :: "'k hybrid_public_key \<Rightarrow> bool" where
  "typed_public_key key \<longleftrightarrow> wf_public_key key \<and>
     (sm2_public_key key = None \<longrightarrow> dilithium_public_key key = replicate DILITHIUM_PUBLIC_KEY_BYTES 0)"

lemma typed_init [simp]:
  "typed_private_key (hybrid_private_key_init priv)" "typed_public_key (hybrid_public_key_init pub)"
  by (simp_all add: typed_private_key_def typed_public_key_def)
    (simp_all add: hybrid_private_key_init_def hybrid_public_key_init_def)

lemma typed_cleanup [simp]:
  "typed_private_key (hybrid_private_key_cleanup priv)" "typed_public_key (hybrid_public_key_cleanup pub)"
  by (simp_all add: hybrid_private_key_cleanup_def hybrid_public_key_cleanup_def)

text \<open>The generator of the reference implementation fills both arrays.\<close>

definition keypair_sizes :: "('w, 'e) dil_lib_scheme \<Rightarrow> bool" where
  "keypair_sizes L \<longleftrightarrow> (\<forall>pk sk. outcome (ref_keypair L) (0, pk, sk) \<longrightarrow>
     length pk = DILITHIUM_PUBLIC_KEY_BYTES \<and> length sk = DILITHIUM_SECRET_KEY_BYTES)"

lemma typed_full:
  "length sk = DILITHIUM_SECRET_KEY_BYTES \<Longrightarrow>
     typed_private_key \<lparr>sm2_private_key = Some k, dilithium_secret_key = sk\<rparr>"
  "length pk = DILITHIUM_PUBLIC_KEY_BYTES \<Longrightarrow>
     typed_public_key \<lparr>sm2_public_key = Some k, dilithium_public_key = pk\<rparr>"
  by (simp_all add: typed_private_key_def typed_public_key_def wf_private_key_def wf_public_key_def)

lemma typed_generate:
  assumes "outcome (composite_key_generate L (Some priv) (Some pub)) (ok, Some priv', Some pub')"
    and "keypair_sizes L" and "typed_private_key priv" and "typed_public_key pub"
  shows "typed_private_key priv' \<and> typed_public_key pub'"
proof (cases ok)
  case True
  with assms(1) have "outcome (composite_key_generate L (Some priv) (Some pub)) (True, Some priv', Some pub')" by simp
  then show ?thesis
    by (rule outcome_composite_key_generate) (use assms(2) in \<open>auto simp: keypair_sizes_def intro: typed_full\<close>)
next
  case False
  with assms have "priv' = priv" "pub' = pub"
    unfolding composite_key_generate_def by (auto elim!: outcome_bind split: option.splits)
  with assms(3,4) show ?thesis by simp
qed

lemma typed_parse:
  assumes "outcome (composite_parse_public_key L serialized (Some pub)) (ok, Some pub')" and "typed_public_key pub"
  shows "typed_public_key pub'"
proof (cases ok)
  case True
  with assms(1) have "outcome (composite_parse_public_key L serialized (Some pub)) (True, Some pub')" by simp
  then show ?thesis
    by (rule outcome_composite_parse_public_key) (auto simp: sizes intro!: typed_full(2))
next
  case False
  with assms have "pub' = pub"
    unfolding composite_parse_public_key_def by (auto elim!: outcome_bind split: option.splits if_splits)
  with assms(2) show ?thesis by simp
qed

lemma typed_load:
  assumes run: "ends (hybrid_key_store_load L OS dir pass (Some priv) (Some pub)) s (ok, Some priv', Some pub') s'"
    and "typed_private_key priv" and "typed_public_key pub"
  shows "typed_private_key priv' \<and> typed_public_key pub'"
proof (cases "ok \<and> passphrase_valid pass")
  case True
  with run ends_load_sound[of L OS dir pass priv pub s "Some priv'" "Some pub'" s'] obtain d
    where "loaded_from L (files s') d pass priv' pub'" by auto
  then show ?thesis by (auto simp: loaded_from_def typed_private_key_def typed_public_key_def)
next
  case False
  then have "priv' = priv \<and> pub' = pub"
  proof (cases "passphrase_valid pass")
    case True
    with False run show ?thesis by (auto elim!: ends_store_load split: option.splits)
  qed (use run in \<open>simp add: hybrid_key_store_load_def\<close>)
  with assms(2,3) show ?thesis by simp
qed

text \<open>
  C8: Key structs stay well typed: after any sequence of initialisation, generation, parsing,
  loading and cleanup, successful or not, both arrays have the declared sizes, and a struct without
  an SM2 key object is zero throughout, so that no Dilithium2 secret outlives the key object it
  came with.
\<close>

theorem keys_stay_well_typed:
  assumes "key_life L OS (priv, pub)" and "keypair_sizes L"
  shows "typed_private_key priv \<and> typed_public_key pub"
  using assms(1)
proof (induction "(priv, pub)" arbitrary: priv pub rule: key_life.induct)
  case (generate priv pub ok priv' pub')
  with typed_generate[OF generate(3) assms(2)] show ?case by simp
next
  case (parse priv pub serialized ok pub')
  with typed_parse[OF parse(3)] show ?case by simp
next
  case (load priv pub dir pass s ok priv' pub' s')
  with typed_load[OF load(3)] show ?case by simp
qed simp_all

text \<open>A generated pair whose private half is then cleaned up.\<close>

theorem keys_stay_well_typed_witness:
  "typed_private_key (hybrid_private_key_cleanup toy_private) \<and> typed_public_key toy_public"
proof -
  have "always (composite_key_generate toy_store (Some p) (Some q)) (True, Some toy_private, Some toy_public)" for p q
    by (simp add: composite_key_generate_def hybrid_sm2_generate_keypair_def dilithium_generate_keypair_def
        toy_store_def toy_with_def ensure_def Prelude.positive_def attempt_def sizes toy_private_def toy_public_def
        toy_point_def)
  from key_life.generate[OF key_life.initialised outcome_of_always[OF this], where OS = toy_os]
  have life: "key_life toy_store toy_os (hybrid_private_key_cleanup toy_private, toy_public)"
    by (rule key_life.private_cleanup)
  have "keypair_sizes toy_store" by (simp add: keypair_sizes_def toy_store_def toy_with_def sizes)
  with life show ?thesis by (rule keys_stay_well_typed)
qed

end
