(* ===== verification/Spec2Isabelle.thy ===== *)
theory Spec2Isabelle
  imports Composite_Theorems Mlkem_Theorems Key_Store_Theorems Chain_Theorems Adapter_Theorems
    Pqkex_Theorems Demo_Theorems Benchmark_Theorems
    Gmssl_Hybrid_Theorems Gmssl_Psk_Theorems Key_Life
begin

text \<open>
  A verification library for an experimental certificate system in which every signature is a pair:
  a CRYSTALS-Dilithium2 signature and an SM2 signature over the same message representative, both
  of which must verify. On top of the pair (\<open>src/composite_key.c\<close>, \<open>src/composite_sig.c\<close>) the
  program issues and verifies X.509 certificates (\<open>src/hybrid_x509.c\<close>, \<open>src/hybrid_chain.c\<close>),
  stores the keys on disk (\<open>src/hybrid_key_store.c\<close>), gives a TLCP handshake a certificate callback
  (\<open>src/tlcp_hybrid_cert_adapter.c\<close>) and wraps ML-KEM-768 (\<open>src/mlkem.c\<close>).

  Parts, in the order of the imports:

  \<^item> \<open>Prelude\<close>: bytes, pointers with lengths (\<open>Buf\<close>, or \<open>Null\<close> with the claimed length), and programs.
    A program is a state monad over the environment type \<open>'w\<close>, which stands for everything outside
    the code that a library call may depend on (time, random numbers, memory). \<open>run m w\<close> is the
    result in one environment, \<open>outcome m a\<close> says that some environment gives \<open>a\<close>, and \<open>always m a\<close>
    that every one does. A C function that can fail returns an option or a pair of its return code
    and the caller's objects after the call, so every early return is a branch of the model.
  \<^item> \<open>Crypto_Lib\<close>: the functions of OpenSSL and of the Dilithium reference implementation that the
    code calls, as fields of a record; they are parameters, and what the properties assume of them
    is a named law (\<open>sm2_import_law\<close>, \<open>der_law\<close>, \<open>dilithium_pair\<close> and so on).
  \<^item> \<open>Dilithium_Wrapper\<close>, \<open>Sm2_Wrapper\<close>: \<open>src/dilithium_wrapper.c\<close> and \<open>src/sm2_wrapper.c\<close>.
  \<^item> \<open>Framing\<close>: the length-separated formats that the keys and the signatures share, as a locale,
    interpreted on the code's key and signature formats.
  \<^item> \<open>Composite_Key\<close>, \<open>Composite_Sig\<close>, \<open>Hybrid_Sign\<close>: \<open>src/composite_key.c\<close>, \<open>src/composite_sig.c\<close> and
    \<open>src/hybrid_sign.c\<close>, one definition per function; \<open>Composite_Theorems\<close> holds their properties:
    soundness of verification, strictness of the report, signing followed by verification, round
    trips and exactness of the parsers, all-or-nothing key generation.
  \<^item> \<open>Reference_Lib\<close>, \<open>Reference_Facts\<close>: concrete library functions that satisfy the laws, for the
    witnesses.
  \<^item> \<open>Mlkem\<close>, \<open>Mlkem_Theorems\<close>: \<open>src/mlkem.c\<close> over a parameter for liboqs: agreement of the two ends,
    wiping of secrets on failure, key generation into empty structs only.
  \<^item> \<open>Posix_FS\<close>: the file-system calls of the C library that the key store uses, on an explicit file
    system; every call may fail, and every transfer may be short, as the environment decides.
  \<^item> \<open>Key_Store\<close>: \<open>src/hybrid_key_store.c\<close>; \<open>Key_Store_Facts\<close>, \<open>Key_Store_Save\<close> and \<open>Key_Store_Load\<close>
    hold the facts of its operations and \<open>Key_Store_Theorems\<close> the properties: what a successful save
    leaves on disk, what a failed one leaves, confinement to the store's paths, soundness of
    loading, and saving followed by loading. \<open>Key_Life\<close>: the life of a pair of key structs as a
    state machine over initialisation, cleanup, generation, parsing and loading; every state it
    reaches is well typed.
  \<^item> \<open>X509_Lib\<close>, \<open>Hybrid_X509\<close>: OpenSSL's X.509 functions as a parameter that extends \<open>Crypto_Lib\<close>, and
    \<open>src/hybrid_x509.c\<close>. \<open>Hybrid_Chain\<close> is \<open>src/hybrid_chain.c\<close>.
  \<^item> \<open>Chain_Facts\<close>: the abstract specification of an accepted root, server and encryption certificate,
    the locale of certificate verifiers with its three interpretations, and the proof that the code
    implements the specification. \<open>X509_Facts\<close>: the profiles of created certificates.
    \<open>Chain_Complete\<close>: the laws of the X.509 library, which speak of certificates encoded by the
    templates of RFC 5280 (the code's are proved to be those), and the proof that what the issuing
    functions make the verifying functions accept. \<open>Chain_Steady\<close>: the verifiers are functions of
    their arguments and the clock when the library is. \<open>Toy_X509\<close>: a concrete library that satisfies
    the laws.
    \<open>Chain_Theorems\<close> holds the properties.
  \<^item> \<open>Tlcp_Adapter\<close>, \<open>Adapter_Facts\<close>, \<open>Adapter_Theorems\<close>: \<open>src/tlcp_hybrid_cert_adapter.c\<close>: the search
    for the object identifier, the verification of one certificate, the handshake callback.
  \<^item> \<open>Gmssl_Hybrid\<close>, \<open>Gmssl_Hybrid_Theorems\<close>: what patches 0002 and 0003 under \<open>patches/gmssl\<close> add to
    GmSSL's TLCP handshake, over a parameter for GmSSL's own functions: the functions on certificate
    lists, the configuration, the step that calls the certificate callback, and the choice of the
    keys used afterwards. With the adapter as callback the handshake's keys are those of verified
    certificates; what every result of a callback leads to; the reading of PEM lists.
  \<^item> \<open>C_Streams\<close>, \<open>Cert_Files\<close>, \<open>Cert_Files_Theorems\<close>: the writing and reading of certificate files at the end of
    \<open>src/hybrid_x509.c\<close>, on the file system of \<open>Posix_FS\<close> with streams that write when they like: the
    files after a success, reading back, and what a failing close does.
  \<^item> \<open>Demo_Tools\<close>, \<open>Demo_Chain\<close>: \<open>tools/verify_chain.c\<close>, \<open>tools/inspect_hybrid_cert.c\<close>,
    \<open>tools/mlkem_demo.c\<close> and \<open>tools/generate_demo_chain.c\<close>, every \<open>main\<close> with its exit code and the
    lines it prints. \<open>Demo_Keys\<close> says what it means that a key store holds a pair and shows it of the
    keys the generator uses, \<open>Demo_Facts\<close> follows a successful run through all the parts above,
    \<open>Demo_Toy\<close> computes one on the concrete libraries, and \<open>Demo_Theorems\<close> holds the properties: what
    was issued for which stored keys, what the files hold, and that the verification tool accepts it.
  \<^item> \<open>C_Float\<close>, \<open>Benchmark_Stats\<close>, \<open>Benchmark\<close>, \<open>Benchmark_Report\<close>:
    \<open>tools/benchmark_composite_verify.c\<close>. Samples are 64-bit words; \<open>double\<close> and \<open>long double\<close> are
    rationals rounded by a parameter after every operation; \<open>qsort\<close> is a sort by a comparison
    function, with what it asks of that function as a locale, interpreted on \<open>compare_u64\<close>.
    \<open>Benchmark_Facts\<close> and \<open>Benchmark_Theorems\<close>: the reported statistics are the exact order
    statistics of the differences of the clock readings, what is timed verifies, counts on the command line, names of the report files.
  \<^item> \<open>Pqkex\<close>, \<open>Pqkex_Facts\<close>: the functions that patch 0001 under \<open>patches/gmssl\<close> adds to GmSSL for
    its PQKEX capability extension, over a parameter for GmSSL's wire functions, and their exact
    behaviour under the documented wire format. \<open>C_Stdlib\<close>: \<open>strtoul\<close>. \<open>Pqkex_Capture\<close>:
    \<open>tools/pqkex_capture_demo.c\<close>, whose loop over the extensions is a \<open>partial_function\<close>.
    \<open>Pqkex_Theorems\<close>: exact negotiation, at most one extension in every history of a connection,
    termination and exactness of the loop, agreement of client and server.
  \<^item> \<open>Gmssl_Psk\<close>, \<open>Gmssl_Psk_Theorems\<close>: what patch 0004 adds to GmSSL's TLS 1.3, an empty flag by which
    both ends agree on certificates together with an external pre-shared key. A client that requires
    the flag cannot be led around it; a server that does insists on a matched external key, and
    negotiates the flag if PSK with (EC)DHE is still a common mode when GmSSL's own code has run; the
    two ends agree, the certificate messages follow, and the keys kept after a HelloRetryRequest are
    those of the server's cipher suite.

  Bounds. Loops are functions with termination proofs: the retry loops of \<open>write_all\<close> and \<open>read_all\<close>
  stop at a transfer of zero bytes and otherwise shrink the rest, the byte search moves one
  position a step; the loops over a PEM file and over the extensions of a hello are partial functions,
  proved to end. Following symbolic links takes a fuel of 40, the limit of Linux. Sizes are
  natural numbers; the casts the code makes (\<open>size_t\<close> to \<open>int\<close> or \<open>long\<close>) are guarded in the code by
  comparisons with \<open>INT_MAX\<close> and \<open>LONG_MAX\<close>, which the model keeps, and 32-bit fields are words, as are
  the 64-bit clock readings of the benchmark, whose medians and ranks are shown not to wrap around.

  Not modelled. Memory is released everywhere but has no model (freeing changes no result), except
  that objects handed back to the caller and arrays that must be wiped are explicit. The benchmark's
  volatile \<open>verify_sink\<close>, which nothing reads, is left out, and floating-point overflow is not
  modelled. Of patches 0002 and 0003 under \<open>patches/gmssl\<close> the lines that adapt the handshake's record
  functions are left out. Of patch 0004 the model has the new functions and the lines that handle the
  flag; the code around those lines is an argument, since it is not in this repository, and the guards
  of \<open>memcmp\<close> calls, the record functions, the binders, the tests and the tool options are left out.
  Tests and scripts are not part of the program.
\<close>

end
